(* ===== verification/Kwiry_Prelude.thy ===== *)
theory Kwiry_Prelude
  imports
    Main
    "HOL-Library.Multiset"
    "HOL-Library.List_Lexorder"
    "HOL-Library.Product_Lexorder"
    "HOL-Library.Code_Target_Nat"
begin

text \<open>
  Shared vocabulary of the development: Rust's \<open>Result\<close> as a sum, the narrowing casts
  \<open>as u16\<close> and \<open>as u8\<close>, \<open>slice::windows(2)\<close> checks, the three-way
  \<open>std::cmp::Ordering\<close> with its \<open>then_with\<close> combinator, and the stable
  \<open>slice::sort_by\<close>.  The locale \<open>comparator\<close> states what \<open>sort_by\<close> needs of a
  comparison closure (a total preorder) and proves once what every sorted result of the
  program enjoys: it is a permutation, it is sorted, it is stable, and when ties are identical
  elements it does not depend on the order of the input.
\<close>

section \<open>Named collections\<close>

named_theorems rust_std \<open>unfolding rules for the modelled parts of the Rust standard library\<close>
named_theorems cmp_intro \<open>comparison closures built by then_with are total preorders\<close>

section \<open>Results\<close>

abbreviation Ok :: "'a \<Rightarrow> 'e + 'a" where "Ok \<equiv> Inr"
abbreviation Err :: "'e \<Rightarrow> 'e + 'a" where "Err \<equiv> Inl"

definition and_then :: "'e + 'a \<Rightarrow> ('a \<Rightarrow> 'e + 'b) \<Rightarrow> 'e + 'b" where
  "and_then r f = (case r of Inl e \<Rightarrow> Inl e | Inr x \<Rightarrow> f x)"

lemma and_then_simps [simp]:
  "and_then (Ok x) f = f x"
  "and_then (Err e) f = Err e"
  by (simp_all add: and_then_def)

lemma and_then_eq_Ok: "and_then r f = Ok y \<longleftrightarrow> (\<exists>x. r = Ok x \<and> f x = Ok y)"
  by (cases r) simp_all

lemma and_then_unit: "and_then r f = Ok y \<longleftrightarrow> r = Ok () \<and> f () = Ok y" for r :: "'e + unit"
  by (cases r) simp_all

definition is_ok :: "'e + 'a \<Rightarrow> bool" where
  "is_ok r = (case r of Inl _ \<Rightarrow> False | Inr _ \<Rightarrow> True)"

lemma is_ok_simps [simp]: "is_ok (Ok x)" "\<not> is_ok (Err e)"
  by (simp_all add: is_ok_def)

lemma is_ok_unit: "is_ok (r :: 'e + unit) \<longleftrightarrow> r = Ok ()"
  by (cases r) simp_all

lemma is_ok_if_Err: "(if b then Err e else r) = Ok x \<longleftrightarrow> \<not> b \<and> r = Ok x"
  by simp

section \<open>Machine integers and slices\<close>

definition as_u16 :: "nat \<Rightarrow> nat" where "as_u16 n = n mod 65536"
definition as_u8 :: "nat \<Rightarrow> nat" where "as_u8 n = n mod 256"

lemma as_u16_small [simp]: "n < 65536 \<Longrightarrow> as_u16 n = n"
  by (simp add: as_u16_def)

lemma as_u8_small [simp]: "n < 256 \<Longrightarrow> as_u8 n = n"
  by (simp add: as_u8_def)

text \<open>\<open>xs.windows(2).any(|pair| bad(pair[0], pair[1]))\<close>, negated: every adjacent pair is good.\<close>

fun windows2_all :: "('a \<Rightarrow> 'a \<Rightarrow> bool) \<Rightarrow> 'a list \<Rightarrow> bool" where
  "windows2_all P [] = True"
| "windows2_all P [x] = True"
| "windows2_all P (x # y # zs) = (P x y \<and> windows2_all P (y # zs))"

lemma windows2_all_sorted_wrt: "transp P \<Longrightarrow> windows2_all P xs \<longleftrightarrow> sorted_wrt P xs"
proof (induction P xs rule: windows2_all.induct)
  case (3 P x y zs)
  then show ?case by (auto dest: transpD)
qed simp_all

lemma windows2_all_less:
  "windows2_all (\<lambda>a b. \<not> a \<ge> b) (xs :: 'a :: linorder list) \<longleftrightarrow> sorted_wrt (<) xs"
proof -
  have "transp (\<lambda>a b :: 'a. \<not> a \<ge> b)" by (auto intro: transpI)
  then show ?thesis
    by (simp add: windows2_all_sorted_wrt not_le)
qed

lemma windows2_all_le:
  "windows2_all (\<lambda>a b. \<not> f a > f b) (xs :: 'a list) \<longleftrightarrow> sorted (map f xs)" for f :: "'a \<Rightarrow> 'b :: linorder"
proof -
  have "transp (\<lambda>a b. \<not> f a > f b)" by (auto intro: transpI)
  then show ?thesis
    by (simp add: windows2_all_sorted_wrt not_less sorted_wrt_map)
qed

section \<open>Lists\<close>

lemma strict_sorted_filter [intro]: "sorted_wrt (<) xs \<Longrightarrow> sorted_wrt (<) (filter P xs)"
  for xs :: "'a :: linorder list"
  by (rule sorted_wrt_filter)

lemma strict_sorted_filter_map:
  "sorted_wrt (<) (map f xs) \<Longrightarrow> sorted_wrt (<) (map f (filter P xs))"
  for f :: "'a \<Rightarrow> 'b :: linorder"
  by (induction xs) auto

lemma strict_sorted_take_map:
  "sorted_wrt (<) (map f xs) \<Longrightarrow> sorted_wrt (<) (map f (take n xs))"
  for f :: "'a \<Rightarrow> 'b :: linorder"
  by (metis append_take_drop_id map_append sorted_wrt_append)

section \<open>Ordering and sort_by\<close>

datatype ordering = Less | Equal | Greater

definition then_with :: "ordering \<Rightarrow> ordering \<Rightarrow> ordering" where
  "then_with a b = (if a = Equal then b else a)"

fun ordering_reverse :: "ordering \<Rightarrow> ordering" where
  "ordering_reverse Less = Greater"
| "ordering_reverse Equal = Equal"
| "ordering_reverse Greater = Less"

definition cmp_ord :: "'a :: linorder \<Rightarrow> 'a \<Rightarrow> ordering" where
  "cmp_ord x y = (if x < y then Less else if x = y then Equal else Greater)"

lemma then_with_simps [simp]:
  "then_with Equal b = b" "then_with Less b = Less" "then_with Greater b = Greater"
  by (simp_all add: then_with_def)

lemma then_with_eq_Equal [simp]: "then_with a b = Equal \<longleftrightarrow> a = Equal \<and> b = Equal"
  by (cases a) simp_all

lemma then_with_not_Greater: "then_with a b \<noteq> Greater \<longleftrightarrow> a = Less \<or> a = Equal \<and> b \<noteq> Greater"
  by (cases a) simp_all

lemma cmp_ord_eq [simp]:
  "cmp_ord x y = Equal \<longleftrightarrow> x = y"
  "cmp_ord x y = Less \<longleftrightarrow> x < y"
  "cmp_ord x y = Greater \<longleftrightarrow> y < x"
  by (auto simp: cmp_ord_def)

text \<open>
  \<open>slice::sort_by\<close> is a stable sort; the insertion below puts an element before the first one
  it is not greater than, which is the stable result for any total preorder.
\<close>

fun insert_by :: "('a \<Rightarrow> 'a \<Rightarrow> ordering) \<Rightarrow> 'a \<Rightarrow> 'a list \<Rightarrow> 'a list" where
  "insert_by cmp x [] = [x]"
| "insert_by cmp x (y # ys) = (if cmp x y = Greater then y # insert_by cmp x ys else x # y # ys)"

definition sort_by :: "('a \<Rightarrow> 'a \<Rightarrow> ordering) \<Rightarrow> 'a list \<Rightarrow> 'a list" where
  "sort_by cmp xs = foldr (insert_by cmp) xs []"

lemma sort_by_simps [simp]:
  "sort_by cmp [] = []"
  "sort_by cmp (x # xs) = insert_by cmp x (sort_by cmp xs)"
  by (simp_all add: sort_by_def)

lemma mset_insert_by [simp]: "mset (insert_by cmp x ys) = add_mset x (mset ys)"
  by (induction ys) auto

lemma set_insert_by [simp]: "set (insert_by cmp x ys) = insert x (set ys)"
  by (induction ys) auto

lemma mset_sort_by [simp]: "mset (sort_by cmp xs) = mset xs"
  by (induction xs) simp_all

lemma set_sort_by [simp]: "set (sort_by cmp xs) = set xs"
  by (metis mset_sort_by set_mset_mset)

lemma length_sort_by [simp]: "length (sort_by cmp xs) = length xs"
  by (metis mset_sort_by size_mset)

lemma sort_by_eq_Nil [simp]: "sort_by cmp xs = [] \<longleftrightarrow> xs = []"
  by (metis length_0_conv length_sort_by)

text \<open>
  The contract of a comparison closure handed to \<open>sort_by\<close>: it is a total preorder.
\<close>

locale comparator =
  fixes cmp :: "'a \<Rightarrow> 'a \<Rightarrow> ordering"
  assumes cmp_reverse: "cmp y x = ordering_reverse (cmp x y)"
    and cmp_trans: "cmp x y \<noteq> Greater \<Longrightarrow> cmp y z \<noteq> Greater \<Longrightarrow> cmp x z \<noteq> Greater"
begin

lemma cmp_self: "cmp x x = Equal"
  using cmp_reverse [of x x] by (cases "cmp x x") simp_all

lemma cmp_total: "cmp x y \<noteq> Greater \<or> cmp y x \<noteq> Greater"
  using cmp_reverse [of x y] by (cases "cmp y x") simp_all

lemma cmp_flip:
  "cmp x y = Greater \<longleftrightarrow> cmp y x = Less"
  "cmp x y = Equal \<longleftrightarrow> cmp y x = Equal"
  using cmp_reverse [of x y] by (cases "cmp y x"; simp; fail)+

lemma sorted_insert_by:
  assumes "sorted_wrt (\<lambda>a b. cmp a b \<noteq> Greater) ys"
  shows "sorted_wrt (\<lambda>a b. cmp a b \<noteq> Greater) (insert_by cmp x ys)"
  using assms
proof (induction ys)
  case (Cons y ys)
  show ?case
  proof (cases "cmp x y = Greater")
    case True
    then have "cmp y x \<noteq> Greater" using cmp_total by blast
    with True Cons show ?thesis by auto
  next
    case False
    with Cons.prems show ?thesis by (auto dest: cmp_trans [OF False])
  qed
qed simp

lemma sorted_sort_by: "sorted_wrt (\<lambda>a b. cmp a b \<noteq> Greater) (sort_by cmp xs)"
  by (induction xs) (auto intro: sorted_insert_by)

lemma hd_sort_by_least:
  assumes "xs \<noteq> []" "y \<in> set xs"
  shows "cmp (hd (sort_by cmp xs)) y \<noteq> Greater"
proof -
  obtain z zs where s: "sort_by cmp xs = z # zs"
    using assms(1) by (metis neq_Nil_conv sort_by_eq_Nil)
  have "y \<in> set (z # zs)" using assms(2) s by (metis set_sort_by)
  moreover have "sorted_wrt (\<lambda>a b. cmp a b \<noteq> Greater) (z # zs)"
    using sorted_sort_by [of xs] s by simp
  ultimately show ?thesis using s cmp_self by auto
qed

lemma sorted_unique:
  assumes "mset xs = mset ys"
    and "sorted_wrt (\<lambda>a b. cmp a b \<noteq> Greater) xs"
    and "sorted_wrt (\<lambda>a b. cmp a b \<noteq> Greater) ys"
    and "\<And>a b. a \<in> set xs \<Longrightarrow> b \<in> set xs \<Longrightarrow> cmp a b = Equal \<Longrightarrow> a = b"
  shows "xs = ys"
  using assms
proof (induction xs arbitrary: ys)
  case (Cons x xs)
  obtain y ys' where ys: "ys = y # ys'"
    using Cons.prems(1) by (cases ys) auto
  have sets: "set (x # xs) = set (y # ys')"
    using Cons.prems(1) ys by (metis set_mset_mset)
  have "x = y"
  proof (rule ccontr)
    assume neq: "x \<noteq> y"
    then have "y \<in> set xs" "x \<in> set ys'" using sets by auto
    then have "cmp x y \<noteq> Greater" "cmp y x \<noteq> Greater"
      using Cons.prems(2,3) ys by auto
    then have "cmp x y = Equal" using cmp_flip by (cases "cmp x y") auto
    then show False using neq Cons.prems(4) \<open>y \<in> set xs\<close> by auto
  qed
  moreover have "xs = ys'"
    using Cons.prems ys \<open>x = y\<close> by (intro Cons.IH) auto
  ultimately show ?case using ys by simp
qed simp

lemma sort_by_perm_invariant:
  assumes "mset xs = mset ys"
    and "\<And>a b. a \<in> set xs \<Longrightarrow> b \<in> set xs \<Longrightarrow> cmp a b = Equal \<Longrightarrow> a = b"
  shows "sort_by cmp xs = sort_by cmp ys"
  using assms by (intro sorted_unique) (auto simp: sorted_sort_by)

lemma filter_insert_by:
  assumes "sorted_wrt (\<lambda>a b. cmp a b \<noteq> Greater) ys"
  shows "filter (\<lambda>y. cmp y z = Equal) (insert_by cmp x ys)
    = (if cmp x z = Equal then x # filter (\<lambda>y. cmp y z = Equal) ys
       else filter (\<lambda>y. cmp y z = Equal) ys)"
  using assms
proof (induction ys)
  case (Cons y ys)
  show ?case
  proof (cases "cmp x y = Greater \<and> cmp x z = Equal \<and> cmp y z = Equal")
    case True
    then have "cmp x z \<noteq> Greater" "cmp z y \<noteq> Greater"
      using cmp_flip(2) [of y z] by simp_all
    then have "cmp x y \<noteq> Greater" by (rule cmp_trans)
    with True show ?thesis by simp
  next
    case False
    with Cons show ?thesis by auto
  qed
qed simp

lemma sort_by_stable:
  "filter (\<lambda>y. cmp y z = Equal) (sort_by cmp xs) = filter (\<lambda>y. cmp y z = Equal) xs"
  by (induction xs) (simp_all add: filter_insert_by sorted_sort_by)

end

lemma comparator_key [cmp_intro]: "comparator (\<lambda>x y. cmp_ord (f x) (f y))"
  by unfold_locales (auto simp: cmp_ord_def split: if_splits)

lemma comparator_key_rev [cmp_intro]: "comparator (\<lambda>x y. cmp_ord (f y) (f x))"
  by unfold_locales (auto simp: cmp_ord_def split: if_splits)

lemma comparator_then_with [cmp_intro]:
  assumes "comparator c" "comparator d"
  shows "comparator (\<lambda>x y. then_with (c x y) (d x y))"
proof
  fix x y
  show "then_with (c y x) (d y x) = ordering_reverse (then_with (c x y) (d x y))"
    using comparator.cmp_reverse [OF assms(1), of y x] comparator.cmp_reverse [OF assms(2), of y x]
    by (cases "c x y") simp_all
next
  fix x y z
  assume xy: "then_with (c x y) (d x y) \<noteq> Greater" and yz: "then_with (c y z) (d y z) \<noteq> Greater"
  then have "c x y \<noteq> Greater" "c y z \<noteq> Greater" by (cases "c x y"; cases "c y z"; simp)+
  then have xz: "c x z \<noteq> Greater" by (rule comparator.cmp_trans [OF assms(1)])
  show "then_with (c x z) (d x z) \<noteq> Greater"
  proof (cases "c x z = Equal")
    case True
    then have "c z x \<noteq> Greater" using comparator.cmp_flip(2) [OF assms(1), of x z] by simp
    then have "c z y \<noteq> Greater" "c y x \<noteq> Greater"
      using comparator.cmp_trans [OF assms(1)] \<open>c x y \<noteq> Greater\<close> \<open>c y z \<noteq> Greater\<close>
      by metis+
    then have "c x y = Equal" "c y z = Equal"
      using \<open>c x y \<noteq> Greater\<close> \<open>c y z \<noteq> Greater\<close> comparator.cmp_flip [OF assms(1)]
      by (metis ordering.exhaust)+
    then have "d x z \<noteq> Greater"
      using xy yz comparator.cmp_trans [OF assms(2), of x y z] by simp
    then show ?thesis using True by simp
  next
    case False
    then show ?thesis using xz by (cases "c x z") simp_all
  qed
qed

interpretation ord_cmp: comparator "cmp_ord :: 'a :: linorder \<Rightarrow> 'a \<Rightarrow> ordering"
  using comparator_key [of "\<lambda>x. x"] by simp

end
