(* ===== verification/Rust_Text.thy ===== *)
theory Rust_Text
  imports Kwiry_Prelude
begin

text \<open>
  Rust text.  A \<open>str\<close> is the list of its Unicode scalar values; \<open>str::len\<close> is the length
  of its UTF-8 encoding; the derived order on strings is the lexicographic order of the scalar
  values, which is the byte order of the encoding.  Byte offsets that the code only ever takes
  at scalar boundaries are offsets into the list.

  The record \<open>text_env\<close> holds the code this development does not own: the Unicode tables
  behind \<open>char::is_alphabetic\<close>, \<open>is_numeric\<close>, \<open>is_uppercase\<close>, \<open>is_lowercase\<close> and
  \<open>to_lowercase\<close>, the \<open>unicode_normalization\<close> crate (\<open>nfd\<close>, \<open>is_combining_mark\<close>) and
  the \<open>regex\<close> engine running the technical-identifier pattern.  Every definition that uses
  them takes the record as an argument.
\<close>

section \<open>Strings\<close>

type_synonym rstring = "nat list"

definition str :: "string \<Rightarrow> rstring" where
  "str s = map of_char s"

lemma str_simps [simp]:
  "str [] = []" "str (c # cs) = of_char c # str cs"
  by (simp_all add: str_def)

fun utf8_len :: "nat \<Rightarrow> nat" where
  "utf8_len c = (if c < 128 then 1 else if c < 2048 then 2 else if c < 65536 then 3 else 4)"

definition str_len :: "rstring \<Rightarrow> nat" where
  "str_len s = sum_list (map utf8_len s)"

lemma str_len_simps [simp]:
  "str_len [] = 0" "str_len (c # cs) = utf8_len c + str_len cs"
  "str_len (s @ t) = str_len s + str_len t"
  by (simp_all add: str_len_def)

declare utf8_len.simps [simp del]

lemma utf8_len_pos [simp]: "0 < utf8_len c" "utf8_len c \<noteq> 0"
  by (simp_all add: utf8_len.simps)

lemma utf8_len_ascii [simp]: "c < 128 \<Longrightarrow> utf8_len c = 1"
  by (simp add: utf8_len.simps)

lemma length_le_str_len: "length s \<le> str_len s"
proof (induction s)
  case (Cons c s)
  have "1 \<le> utf8_len c" using utf8_len_pos(1) [of c] by linarith
  with Cons show ?case by simp
qed simp

lemma str_len_ascii: "\<forall>c \<in> set s. c < 128 \<Longrightarrow> str_len s = length s"
  by (induction s) simp_all

lemma str_len_dropWhile_le: "str_len (dropWhile P s) \<le> str_len s"
  by (induction s) simp_all

lemma str_len_eq_0 [simp]: "str_len s = 0 \<longleftrightarrow> s = []"
  by (cases s) simp_all

section \<open>Character classes fixed by the language\<close>

definition is_whitespace :: "nat \<Rightarrow> bool" where
  "is_whitespace c \<longleftrightarrow> (9 \<le> c \<and> c \<le> 13) \<or> c = 32 \<or> c = 133 \<or> c = 160 \<or> c = 5760
     \<or> (8192 \<le> c \<and> c \<le> 8202) \<or> c = 8232 \<or> c = 8233 \<or> c = 8239 \<or> c = 8287 \<or> c = 12288"

definition is_ascii_digit :: "nat \<Rightarrow> bool" where
  "is_ascii_digit c \<longleftrightarrow> 48 \<le> c \<and> c \<le> 57"

definition is_ascii_lowercase :: "nat \<Rightarrow> bool" where
  "is_ascii_lowercase c \<longleftrightarrow> 97 \<le> c \<and> c \<le> 122"

definition is_ascii_uppercase :: "nat \<Rightarrow> bool" where
  "is_ascii_uppercase c \<longleftrightarrow> 65 \<le> c \<and> c \<le> 90"

definition is_ascii_alphabetic :: "nat \<Rightarrow> bool" where
  "is_ascii_alphabetic c \<longleftrightarrow> is_ascii_lowercase c \<or> is_ascii_uppercase c"

definition to_ascii_lowercase :: "nat \<Rightarrow> nat" where
  "to_ascii_lowercase c = (if is_ascii_uppercase c then c + 32 else c)"

lemmas ascii_class_defs [rust_std] =
  is_whitespace_def is_ascii_digit_def is_ascii_lowercase_def is_ascii_uppercase_def
  is_ascii_alphabetic_def to_ascii_lowercase_def

lemma not_whitespace_digit: "is_ascii_digit c \<Longrightarrow> \<not> is_whitespace c"
  by (auto simp: ascii_class_defs)

section \<open>str methods\<close>

definition trim_start :: "rstring \<Rightarrow> rstring" where
  "trim_start s = dropWhile is_whitespace s"

definition trim_end :: "rstring \<Rightarrow> rstring" where
  "trim_end s = rev (dropWhile is_whitespace (rev s))"

definition trim :: "rstring \<Rightarrow> rstring" where
  "trim s = trim_end (trim_start s)"

definition trim_matches :: "(nat \<Rightarrow> bool) \<Rightarrow> rstring \<Rightarrow> rstring" where
  "trim_matches p s = rev (dropWhile p (rev (dropWhile p s)))"

fun split_on :: "(nat \<Rightarrow> bool) \<Rightarrow> rstring \<Rightarrow> rstring list" where
  "split_on p [] = [[]]"
| "split_on p (c # cs) =
     (if p c then [] # split_on p cs
      else (case split_on p cs of [] \<Rightarrow> [[c]] | t # ts \<Rightarrow> (c # t) # ts))"

definition split_whitespace :: "rstring \<Rightarrow> rstring list" where
  "split_whitespace s = filter (\<lambda>t. t \<noteq> []) (split_on is_whitespace s)"

definition strip_prefix :: "rstring \<Rightarrow> rstring \<Rightarrow> rstring option" where
  "strip_prefix p s = (if take (length p) s = p then Some (drop (length p) s) else None)"

definition starts_with :: "rstring \<Rightarrow> rstring \<Rightarrow> bool" where
  "starts_with p s \<longleftrightarrow> take (length p) s = p"

fun join :: "rstring \<Rightarrow> rstring list \<Rightarrow> rstring" where
  "join sep [] = []"
| "join sep [t] = t"
| "join sep (t # u # ts) = t @ sep @ join sep (u # ts)"

definition slice :: "nat \<Rightarrow> nat \<Rightarrow> rstring \<Rightarrow> rstring" where
  "slice a b s = drop a (take b s)"

lemma split_on_not_Nil [simp]: "split_on p s \<noteq> []"
  by (cases s) (auto split: list.splits)

lemma split_on_all_not: "\<forall>c \<in> set s. \<not> p c \<Longrightarrow> split_on p s = [s]"
  by (induction s) auto

lemma split_on_elems:
  "t \<in> set (split_on p s) \<Longrightarrow> c \<in> set t \<Longrightarrow> c \<in> set s \<and> \<not> p c"
proof (induction s arbitrary: t)
  case (Cons d s)
  obtain u us where u: "split_on p s = u # us" by (meson list.exhaust split_on_not_Nil)
  show ?case
  proof (cases "p d")
    case True
    with Cons show ?thesis by auto
  next
    case False
    with Cons.prems u consider "t = d # u" | "t \<in> set us" by auto
    then show ?thesis using Cons.IH u Cons.prems False by cases auto
  qed
qed simp

lemma str_len_split_on_le: "t \<in> set (split_on p s) \<Longrightarrow> str_len t \<le> str_len s"
proof (induction s arbitrary: t)
  case (Cons d s)
  obtain u us where u: "split_on p s = u # us" by (meson list.exhaust split_on_not_Nil)
  show ?case
  proof (cases "p d")
    case True
    with Cons show ?thesis by (auto simp: trans_le_add2)
  next
    case False
    with Cons.prems u consider "t = d # u" | "t \<in> set us" by auto
    then show ?thesis using Cons.IH u by cases (auto simp: trans_le_add2)
  qed
qed simp

lemma split_whitespace_token:
  "t \<in> set (split_whitespace s) \<Longrightarrow> t \<noteq> [] \<and> (\<forall>c \<in> set t. c \<in> set s \<and> \<not> is_whitespace c)"
  using split_on_elems by (fastforce simp: split_whitespace_def)

lemma str_len_token_le: "t \<in> set (split_whitespace s) \<Longrightarrow> str_len t \<le> str_len s"
  by (auto simp: split_whitespace_def dest: str_len_split_on_le)

lemma split_whitespace_single:
  "t \<noteq> [] \<Longrightarrow> \<forall>c \<in> set t. \<not> is_whitespace c \<Longrightarrow> split_whitespace t = [t]"
  by (simp add: split_whitespace_def split_on_all_not)

lemma dropWhile_none: "\<forall>c \<in> set s. \<not> p c \<Longrightarrow> dropWhile p s = s"
  by (cases s) auto

lemma trim_matches_none:
  "\<forall>c \<in> set s. \<not> p c \<Longrightarrow> trim_matches p s = s"
  by (simp add: trim_matches_def dropWhile_none)

lemma dropWhile_eq_Nil_rev: "dropWhile P (rev s) = [] \<longleftrightarrow> dropWhile P s = []"
  by (auto simp: dropWhile_eq_Nil_conv)

lemma trim_eq_Nil: "trim s = [] \<longleftrightarrow> (\<forall>c \<in> set s. is_whitespace c)"
proof -
  have "trim s = [] \<longleftrightarrow> (\<forall>c \<in> set (dropWhile is_whitespace s). is_whitespace c)"
    by (simp add: trim_def trim_end_def trim_start_def dropWhile_eq_Nil_conv)
  also have "\<dots> \<longleftrightarrow> (\<forall>c \<in> set s. is_whitespace c)"
    by (metis (no_types, lifting) dropWhile_eq_Nil_conv hd_dropWhile list.set_sel(1) set_dropWhileD)
  finally show ?thesis .
qed

lemma trim_start_not_blank:
  "trim_start s \<noteq> [] \<Longrightarrow> trim (trim_start s) \<noteq> []"
  by (metis hd_dropWhile list.set_sel(1) trim_eq_Nil trim_start_def)

section \<open>Unicode tables and third-party text engines\<close>

record text_env =
  is_alphabetic :: "nat \<Rightarrow> bool"
  is_numeric :: "nat \<Rightarrow> bool"
  is_uppercase :: "nat \<Rightarrow> bool"
  is_lowercase :: "nat \<Rightarrow> bool"
  to_lowercase :: "nat \<Rightarrow> rstring"
  nfd :: "rstring \<Rightarrow> rstring"
  is_combining_mark :: "nat \<Rightarrow> bool"
  find_identifiers :: "rstring \<Rightarrow> (nat \<times> nat) list"

definition is_alphanumeric :: "text_env \<Rightarrow> nat \<Rightarrow> bool" where
  "is_alphanumeric env c \<longleftrightarrow> is_alphabetic env c \<or> is_numeric env c"

text \<open>
  Documented behaviour of those tables on ASCII: the letters and digits are classified as such,
  lowercasing is the ASCII one, and canonical decomposition leaves ASCII text alone.
\<close>

definition ascii_tables :: "text_env \<Rightarrow> bool" where
  "ascii_tables env \<longleftrightarrow>
     (\<forall>c < 128. is_alphabetic env c = is_ascii_alphabetic c \<and> is_numeric env c = is_ascii_digit c
        \<and> is_uppercase env c = is_ascii_uppercase c \<and> is_lowercase env c = is_ascii_lowercase c
        \<and> to_lowercase env c = [to_ascii_lowercase c] \<and> \<not> is_combining_mark env c)
     \<and> (\<forall>s. (\<forall>c \<in> set s. c < 128) \<longrightarrow> nfd env s = s)"

text \<open>An instance that knows ASCII only and whose pattern engine reports the given matches.\<close>

definition ascii_env :: "(rstring \<Rightarrow> (nat \<times> nat) list) \<Rightarrow> text_env" where
  "ascii_env f = \<lparr>is_alphabetic = is_ascii_alphabetic, is_numeric = is_ascii_digit,
     is_uppercase = is_ascii_uppercase, is_lowercase = is_ascii_lowercase,
     to_lowercase = (\<lambda>c. [to_ascii_lowercase c]), nfd = (\<lambda>s. s),
     is_combining_mark = (\<lambda>_. False), find_identifiers = f\<rparr>"

lemma ascii_env_tables: "ascii_tables (ascii_env f)"
  by (simp add: ascii_tables_def ascii_env_def)

end
