(* ===== verification/Lexical.thy ===== *)
theory Lexical
  imports Rust_Text
begin

text \<open>
  \<open>daemon/crates/kwiry-core/src/lexical.rs\<close>: lexical folding, whitespace-collapsing
  normalisation with its byte bound, and the technical identifiers of a text.
\<close>

definition MAX_NORMALIZED_EXACT_BYTES :: nat where
  "MAX_NORMALIZED_EXACT_BYTES = 4096"

definition fold_lexical :: "text_env \<Rightarrow> rstring \<Rightarrow> rstring" where
  "fold_lexical env value =
     filter (\<lambda>c. \<not> is_combining_mark env c) (nfd env (concat (map (to_lowercase env) value)))"

definition normalize_raw :: "text_env \<Rightarrow> rstring \<Rightarrow> rstring option" where
  "normalize_raw env value =
     (let collapsed = join (str '' '') (split_whitespace value);
          normalized = fold_lexical env collapsed
      in if normalized = [] \<or> str_len normalized > MAX_NORMALIZED_EXACT_BYTES then None
         else Some normalized)"

definition normalize_lexical_value :: "text_env \<Rightarrow> rstring \<Rightarrow> rstring option" where
  "normalize_lexical_value env value = normalize_raw env value"

definition is_separator :: "nat \<Rightarrow> bool" where
  "is_separator c \<longleftrightarrow> c \<in> set (str ''-_./:+ '')"

definition identifier_of_match :: "text_env \<Rightarrow> rstring \<Rightarrow> nat \<times> nat \<Rightarrow> ((nat \<times> nat) \<times> rstring) option" where
  "identifier_of_match env source found =
     (let candidate = slice (fst found) (snd found) source;
          has_alpha = (\<exists>c \<in> set candidate. is_alphabetic env c);
          has_digit = (\<exists>c \<in> set candidate. is_ascii_digit c);
          has_separator = (\<exists>c \<in> set candidate. is_separator c)
      in if \<not> has_digit \<or> (\<not> has_alpha \<and> \<not> has_separator) then None
         else map_option (\<lambda>identifier. (found, identifier)) (normalize_raw env candidate))"

definition technical_identifier_spans :: "text_env \<Rightarrow> rstring \<Rightarrow> ((nat \<times> nat) \<times> rstring) list" where
  "technical_identifier_spans env source =
     List.map_filter (identifier_of_match env source) (find_identifiers env source)"

fun dedup_seen :: "'a set \<Rightarrow> 'a list \<Rightarrow> 'a list" where
  "dedup_seen seen [] = []"
| "dedup_seen seen (x # xs) =
     (if x \<in> seen then dedup_seen seen xs else x # dedup_seen (insert x seen) xs)"

definition technical_identifiers :: "text_env \<Rightarrow> rstring \<Rightarrow> rstring list" where
  "technical_identifiers env source =
     dedup_seen {} (map snd (technical_identifier_spans env source))"

section \<open>Facts\<close>

lemma set_dedup_seen: "set (dedup_seen seen xs) = set xs - seen"
  by (induction xs arbitrary: seen) auto

lemma distinct_dedup_seen: "distinct (dedup_seen seen xs)"
  by (induction xs arbitrary: seen) (auto simp: set_dedup_seen)

lemma set_technical_identifiers:
  "set (technical_identifiers env source) = snd ` set (technical_identifier_spans env source)"
  by (simp add: technical_identifiers_def set_dedup_seen)

lemma technical_identifiers_eq_Nil:
  "technical_identifiers env source = [] \<longleftrightarrow> technical_identifier_spans env source = []"
  by (metis image_is_empty set_empty set_technical_identifiers)

lemma normalize_raw_bound:
  "normalize_raw env s = Some t \<Longrightarrow> t \<noteq> [] \<and> str_len t \<le> MAX_NORMALIZED_EXACT_BYTES"
  by (auto simp: normalize_raw_def Let_def split: if_splits)

lemma fold_lexical_ascii:
  assumes "ascii_tables env" "\<forall>c \<in> set s. c < 128"
  shows "fold_lexical env s = map to_ascii_lowercase s"
proof -
  have lower: "concat (map (to_lowercase env) s) = map to_ascii_lowercase s"
    using assms by (induction s) (auto simp: ascii_tables_def)
  have small: "\<forall>c \<in> set (map to_ascii_lowercase s). c < 128"
    using assms(2) by (auto simp: to_ascii_lowercase_def is_ascii_uppercase_def)
  then have "nfd env (map to_ascii_lowercase s) = map to_ascii_lowercase s"
    using assms(1) by (simp add: ascii_tables_def)
  moreover have "filter (\<lambda>c. \<not> is_combining_mark env c) (map to_ascii_lowercase s)
      = map to_ascii_lowercase s"
    using small assms(1) by (intro filter_True) (auto simp: ascii_tables_def)
  ultimately show ?thesis by (simp add: fold_lexical_def lower)
qed

lemma normalize_raw_ascii_word:
  assumes "ascii_tables env" "s \<noteq> []" "\<forall>c \<in> set s. c < 128 \<and> \<not> is_whitespace c"
    and "length s \<le> MAX_NORMALIZED_EXACT_BYTES"
  shows "normalize_raw env s = Some (map to_ascii_lowercase s)"
proof -
  have "\<forall>c \<in> set (map to_ascii_lowercase s). c < 128"
    using assms(3) by (auto simp: to_ascii_lowercase_def is_ascii_uppercase_def)
  then have "str_len (map to_ascii_lowercase s) = length s"
    using str_len_ascii [of "map to_ascii_lowercase s"] by simp
  then show ?thesis
    using assms by (simp add: normalize_raw_def split_whitespace_single fold_lexical_ascii)
qed

lemma normalize_raw_digits:
  assumes "ascii_tables env" "s \<noteq> []" "\<forall>c \<in> set s. is_ascii_digit c"
    and "length s \<le> MAX_NORMALIZED_EXACT_BYTES"
  shows "normalize_raw env s = Some s"
proof -
  have "map to_ascii_lowercase s = s"
    using assms(3)
    by (intro map_idI) (auto simp: to_ascii_lowercase_def is_ascii_uppercase_def is_ascii_digit_def)
  moreover have "\<forall>c \<in> set s. c < 128 \<and> \<not> is_whitespace c"
    using assms(3) not_whitespace_digit by (auto simp: is_ascii_digit_def)
  ultimately show ?thesis using normalize_raw_ascii_word [of env s] assms by simp
qed

end
