(* ===== verification/Query_Model.thy ===== *)
theory Query_Model
  imports Lexical
begin

text \<open>
  The vocabulary of \<open>daemon/crates/kwiry-core/src/query.rs\<close>: the enumerations and structs of
  the lexical query plan, the bounds, the field groups selected by a field scope, and the
  parser of the leading field controls (\<open>in:field\<close> and \<open>>field\<close>).
  Constructors and record fields carry a prefix where Rust's namespaces keep equal names apart.
\<close>

section \<open>Constants\<close>

definition LEXICAL_QUERY_PLAN_SCHEMA_VERSION :: nat where "LEXICAL_QUERY_PLAN_SCHEMA_VERSION = 12"
definition LEXICAL_V1_PROFILE_ID :: string where "LEXICAL_V1_PROFILE_ID = ''lexical-v1''"
definition LEXICAL_V2_PROFILE_ID :: string where "LEXICAL_V2_PROFILE_ID = ''lexical-v2''"
definition FIELD_CONTROLS_SCHEMA_VERSION :: nat where "FIELD_CONTROLS_SCHEMA_VERSION = 1"
definition MAX_QUERY_BYTES :: nat where "MAX_QUERY_BYTES = 4096"
definition MAX_QUERY_TERMS :: nat where "MAX_QUERY_TERMS = 128"
definition MAX_TERM_SUPPORT_PROBES :: nat where "MAX_TERM_SUPPORT_PROBES = 128"
definition MAX_EVIDENCE_STAGES :: nat where "MAX_EVIDENCE_STAGES = 6"
definition MAX_PARTIAL_COVERAGE_TERMS :: nat where "MAX_PARTIAL_COVERAGE_TERMS = 128"
definition MIN_FALLBACK_OPTIONAL_TERMS :: nat where "MIN_FALLBACK_OPTIONAL_TERMS = 2"
definition MIN_PREFIX_CHARS :: nat where "MIN_PREFIX_CHARS = 3"
definition MAX_PREFIX_TERMS :: nat where "MAX_PREFIX_TERMS = 8"
definition MAX_PREFIX_EXPANSIONS_PER_TERM :: nat where "MAX_PREFIX_EXPANSIONS_PER_TERM = 16"
definition MAX_PREFIX_EXPANSION_SCAN :: nat where "MAX_PREFIX_EXPANSION_SCAN = 256"
definition MAX_CANDIDATES_PER_STAGE :: nat where "MAX_CANDIDATES_PER_STAGE = 256"
definition MAX_TOTAL_CANDIDATES :: nat where "MAX_TOTAL_CANDIDATES = 512"
definition MIN_STANDARD_SOURCES :: nat where "MIN_STANDARD_SOURCES = 20"

lemmas query_constants =
  LEXICAL_QUERY_PLAN_SCHEMA_VERSION_def FIELD_CONTROLS_SCHEMA_VERSION_def MAX_QUERY_BYTES_def
  MAX_QUERY_TERMS_def MAX_TERM_SUPPORT_PROBES_def MAX_EVIDENCE_STAGES_def
  MAX_PARTIAL_COVERAGE_TERMS_def MIN_FALLBACK_OPTIONAL_TERMS_def MIN_PREFIX_CHARS_def
  MAX_PREFIX_TERMS_def MAX_PREFIX_EXPANSIONS_PER_TERM_def MAX_PREFIX_EXPANSION_SCAN_def
  MAX_CANDIDATES_PER_STAGE_def MAX_TOTAL_CANDIDATES_def MIN_STANDARD_SOURCES_def

section \<open>Enumerations\<close>

datatype QueryPlanKind = Kind_Explicit | Kind_Ordinary | Kind_Identifier

datatype QueryMatchOperator = Op_Explicit | Op_Any | Op_All

datatype QueryAssistanceEligibility = ExplicitSyntaxBypass | Eligible

datatype QueryExecutionDisposition = ExplicitBypass | AwaitingEvidence | Ready | EmptyNoEvidence

datatype QueryTermRole = RequiredIdentifierAnchor | OptionalContext

datatype QueryTermProjection = AnalyzedText | ExactIdentifier

datatype QueryTermSupport = Support_Unknown | Useful | Unsupported

datatype QueryField =
  F_Filename | F_Stem | F_Aliases | F_Title | F_Heading | F_Tags | F_Content | F_ContentIdentifiers

datatype QueryPublicField = P_Name | P_Filename | P_Title | P_Alias | P_Heading | P_Tag | P_Body

datatype QueryFieldGroup =
  G_SearchableText | G_Metadata | G_Exact | G_Phrase | G_Prefix | G_PrefixMetadata

datatype QueryTypoStage = Typo_Disabled

datatype QueryEvidenceStageKind =
  ExactMetadata | ExactPhrase | PrefixMetadata | AllTerms | Prefix | PartialCoverage

datatype QueryEvidenceStageCondition = Always | IfFewerThanMinimumStandardSources

datatype QueryMetadataField = M_Filename | M_Stem | M_Aliases | M_Title | M_Heading | M_Tags

text \<open>\<open>#[derive(PartialOrd, Ord)]\<close> on the evidence ladder: declaration order.\<close>

fun stage_kind_rank :: "QueryEvidenceStageKind \<Rightarrow> nat" where
  "stage_kind_rank ExactMetadata = 0"
| "stage_kind_rank ExactPhrase = 1"
| "stage_kind_rank PrefixMetadata = 2"
| "stage_kind_rank AllTerms = 3"
| "stage_kind_rank Prefix = 4"
| "stage_kind_rank PartialCoverage = 5"

lemma stage_kind_rank_inject [simp]: "stage_kind_rank a = stage_kind_rank b \<longleftrightarrow> a = b"
  by (cases a; cases b) simp_all

instantiation QueryEvidenceStageKind :: linorder
begin

definition less_eq_QueryEvidenceStageKind :: "QueryEvidenceStageKind \<Rightarrow> QueryEvidenceStageKind \<Rightarrow> bool" where
  "less_eq_QueryEvidenceStageKind a b \<longleftrightarrow> stage_kind_rank a \<le> stage_kind_rank b"

definition less_QueryEvidenceStageKind :: "QueryEvidenceStageKind \<Rightarrow> QueryEvidenceStageKind \<Rightarrow> bool" where
  "less_QueryEvidenceStageKind a b \<longleftrightarrow> stage_kind_rank a < stage_kind_rank b"

instance
  by standard (auto simp: less_eq_QueryEvidenceStageKind_def less_QueryEvidenceStageKind_def)

end

lemmas stage_kind_order = less_eq_QueryEvidenceStageKind_def less_QueryEvidenceStageKind_def

section \<open>Public fields\<close>

fun field_as_str :: "QueryPublicField \<Rightarrow> rstring" where
  "field_as_str P_Name = str ''name''"
| "field_as_str P_Filename = str ''filename''"
| "field_as_str P_Title = str ''title''"
| "field_as_str P_Alias = str ''alias''"
| "field_as_str P_Heading = str ''heading''"
| "field_as_str P_Tag = str ''tag''"
| "field_as_str P_Body = str ''body''"

definition field_parse :: "rstring \<Rightarrow> QueryPublicField option" where
  "field_parse value =
     (if value = str ''name'' then Some P_Name
      else if value = str ''filename'' then Some P_Filename
      else if value = str ''title'' then Some P_Title
      else if value = str ''alias'' then Some P_Alias
      else if value = str ''heading'' then Some P_Heading
      else if value = str ''tag'' then Some P_Tag
      else if value = str ''body'' then Some P_Body
      else None)"

fun public_fields :: "QueryPublicField \<Rightarrow> QueryField list" where
  "public_fields P_Name = [F_Filename, F_Stem, F_Aliases, F_Title]"
| "public_fields P_Filename = [F_Filename, F_Stem]"
| "public_fields P_Title = [F_Title]"
| "public_fields P_Alias = [F_Aliases]"
| "public_fields P_Heading = [F_Heading]"
| "public_fields P_Tag = [F_Tags]"
| "public_fields P_Body = [F_Content]"

definition field_contains :: "QueryPublicField \<Rightarrow> QueryPublicField \<Rightarrow> bool" where
  "field_contains self field \<longleftrightarrow>
     (\<forall>candidate \<in> set (public_fields field). candidate \<in> set (public_fields self))"

section \<open>Field groups and bounds\<close>

record QueryFieldGroups =
  searchable_text :: "QueryField list"
  metadata :: "QueryField list"
  exact :: "QueryField list"
  phrase :: "QueryField list"
  prefix_fields :: "QueryField list"
  prefix_metadata :: "QueryField list"

definition field_groups_v1 :: QueryFieldGroups where
  "field_groups_v1 =
     (let searchable = [F_Filename, F_Stem, F_Aliases, F_Title, F_Heading, F_Tags, F_Content]
      in \<lparr>searchable_text = searchable, metadata = take 6 searchable,
          exact = [F_Filename, F_Stem, F_Aliases, F_Title, F_Heading, F_ContentIdentifiers],
          phrase = searchable, prefix_fields = searchable, prefix_metadata = take 4 searchable\<rparr>)"

definition field_groups_v2 :: "QueryPublicField option \<Rightarrow> QueryFieldGroups" where
  "field_groups_v2 scope =
     (let searchable = (case scope of None \<Rightarrow> searchable_text field_groups_v1
                                    | Some field \<Rightarrow> public_fields field);
          meta = filter (\<lambda>field. field \<noteq> F_Content) searchable;
          prefix_meta = filter (\<lambda>field. field \<in> {F_Filename, F_Stem, F_Aliases, F_Title}) searchable;
          exact_fields = (case scope of
              None \<Rightarrow> exact field_groups_v1
            | Some P_Name \<Rightarrow> [F_Filename, F_Stem, F_Aliases, F_Title]
            | Some P_Filename \<Rightarrow> [F_Filename, F_Stem]
            | Some P_Title \<Rightarrow> [F_Title]
            | Some P_Alias \<Rightarrow> [F_Aliases]
            | Some P_Heading \<Rightarrow> [F_Heading]
            | Some P_Tag \<Rightarrow> [F_Tags]
            | Some P_Body \<Rightarrow> [F_ContentIdentifiers])
      in \<lparr>searchable_text = searchable, metadata = meta, exact = exact_fields,
          phrase = searchable, prefix_fields = searchable, prefix_metadata = prefix_meta\<rparr>)"

record QueryBounds =
  max_query_bytes :: nat
  max_query_terms :: nat
  max_term_support_probes :: nat
  max_evidence_stages :: nat
  max_partial_coverage_terms :: nat
  min_prefix_chars :: nat
  max_prefix_terms :: nat
  max_prefix_expansions_per_term :: nat
  max_prefix_expansion_scan :: nat
  max_candidates_per_stage :: nat
  max_total_candidates :: nat
  min_standard_sources :: nat

definition bounds_v1 :: QueryBounds where
  "bounds_v1 =
     \<lparr>max_query_bytes = MAX_QUERY_BYTES, max_query_terms = MAX_QUERY_TERMS,
      max_term_support_probes = MAX_TERM_SUPPORT_PROBES, max_evidence_stages = MAX_EVIDENCE_STAGES,
      max_partial_coverage_terms = MAX_PARTIAL_COVERAGE_TERMS, min_prefix_chars = MIN_PREFIX_CHARS,
      max_prefix_terms = MAX_PREFIX_TERMS,
      max_prefix_expansions_per_term = MAX_PREFIX_EXPANSIONS_PER_TERM,
      max_prefix_expansion_scan = MAX_PREFIX_EXPANSION_SCAN,
      max_candidates_per_stage = MAX_CANDIDATES_PER_STAGE,
      max_total_candidates = MAX_TOTAL_CANDIDATES, min_standard_sources = MIN_STANDARD_SOURCES\<rparr>"

section \<open>Plan structs\<close>

record QueryTermIntent =
  ti_index :: nat
  ti_text :: rstring
  ti_role :: QueryTermRole
  ti_projection :: QueryTermProjection
  ti_support :: QueryTermSupport

record QueryExactIntent =
  ei_normalized :: rstring
  ei_field_group :: QueryFieldGroup

record QueryPhraseIntent =
  ph_terms :: "rstring list"
  ph_field_group :: QueryFieldGroup

record QueryTermSupportProbe =
  pr_probe_id :: nat
  pr_term_index :: nat
  pr_term :: rstring
  pr_field_group :: QueryFieldGroup

record QueryTermSupportObservation =
  ob_probe_id :: nat
  ob_term_index :: nat
  ob_document_frequency :: nat
  ob_prefix_expansions :: nat

record QueryEvidenceReport =
  er_schema_version :: nat
  er_identifier_probe_matched :: "bool option"
  er_term_support :: "QueryTermSupportObservation list"

record QueryEvidenceStage =
  st_ordinal :: nat
  st_kind :: QueryEvidenceStageKind
  st_condition :: QueryEvidenceStageCondition
  st_field_group :: QueryFieldGroup
  st_required :: "nat list"
  st_prefix :: "nat list"
  st_max_candidates :: nat
  st_minimum_optional :: nat

record QueryMetadataProbe =
  mp_query :: rstring
  mp_fields :: "QueryMetadataField list"
  mp_conjunction :: bool

record LexicalQueryPlan =
  schema_version :: nat
  profile_id :: string
  field_controls_schema_version :: nat
  query :: rstring
  query_text :: rstring
  scope :: "QueryPublicField option"
  emphasis :: "QueryPublicField option"
  kind :: QueryPlanKind
  match_operator :: QueryMatchOperator
  assistance :: QueryAssistanceEligibility
  execution :: QueryExecutionDisposition
  terms :: "rstring list"
  term_intents :: "QueryTermIntent list"
  normalized_exact :: "rstring option"
  exact_intent :: "QueryExactIntent option"
  phrase_boost :: bool
  phrase_intent :: "QueryPhraseIntent option"
  field_groups :: QueryFieldGroups
  bounds :: QueryBounds
  typo_stage :: QueryTypoStage
  support_probes :: "QueryTermSupportProbe list"
  evidence_stages :: "QueryEvidenceStage list"
  metadata_probe :: "QueryMetadataProbe option"

record QueryPlanError =
  err_code :: string
  err_message :: string

definition invalid_query :: "string \<Rightarrow> QueryPlanError" where
  "invalid_query message = \<lparr>err_code = ''invalid_query'', err_message = message\<rparr>"

definition invalid_control :: "string \<Rightarrow> QueryPlanError" where
  "invalid_control message = \<lparr>err_code = ''invalid_field_control'', err_message = message\<rparr>"

definition invalid_plan :: "string \<Rightarrow> QueryPlanError" where
  "invalid_plan message = \<lparr>err_code = ''invalid_query_plan'', err_message = message\<rparr>"

lemma err_code_simps [simp]:
  "err_code (invalid_query m) = ''invalid_query''"
  "err_code (invalid_control m) = ''invalid_field_control''"
  "err_code (invalid_plan m) = ''invalid_query_plan''"
  by (simp_all add: invalid_query_def invalid_control_def invalid_plan_def)

section \<open>Explicit syntax and field controls\<close>

definition has_explicit_syntax :: "rstring \<Rightarrow> bool" where
  "has_explicit_syntax q \<longleftrightarrow>
     (let boolean_syntax = (\<exists>token \<in> set (split_whitespace q).
            token \<in> {str ''AND'', str ''OR'', str ''NOT''});
          special = (\<exists>c \<in> set q. c \<in> set (str [CHR 0x22] @ str ''[]{}^~*''));
          colon = (58 \<in> set q);
          signed = (\<exists>token \<in> set (split_whitespace q).
            starts_with (str ''+'') token \<or> starts_with (str ''-'') token);
          trimmed = trim_end q;
          body = butlast trimmed;
          natural_terminal_question =
            (trimmed \<noteq> [] \<and> last trimmed = 63 \<and> (\<exists>c \<in> set body. is_whitespace c) \<and> 63 \<notin> set body)
      in boolean_syntax \<or> special \<or> colon \<or> signed \<or> (63 \<in> set q \<and> \<not> natural_terminal_question))"

record ParsedFieldControls =
  pc_query_text :: rstring
  pc_scope :: "QueryPublicField option"
  pc_emphasis :: "QueryPublicField option"

definition unknown_scope_message :: string where
  "unknown_scope_message = ''unknown field scope; expected name, filename, title, alias, heading, tag, or body''"

definition unknown_emphasis_message :: string where
  "unknown_emphasis_message = ''unknown emphasized field; expected name, filename, title, alias, heading, tag, or body''"

text \<open>
  The loop of \<open>parse_field_controls\<close> over the leading control tokens: \<open>rest\<close> is the
  unparsed text, and the result carries the text at the \<open>break\<close>, the controls and
  \<open>parsed_any\<close>.
\<close>

definition next_token :: "rstring \<Rightarrow> rstring" where
  "next_token rest = takeWhile (\<lambda>c. \<not> is_whitespace c) rest"

definition after_token :: "rstring \<Rightarrow> rstring" where
  "after_token rest = trim_start (dropWhile (\<lambda>c. \<not> is_whitespace c) rest)"

lemma length_after_token:
  assumes "next_token rest \<noteq> []"
  shows "length (after_token rest) < length rest"
proof -
  have "length (next_token rest) + length (dropWhile (\<lambda>c. \<not> is_whitespace c) rest) = length rest"
    by (metis length_append next_token_def takeWhile_dropWhile_id)
  moreover have "length (after_token rest) \<le> length (dropWhile (\<lambda>c. \<not> is_whitespace c) rest)"
    by (simp add: after_token_def trim_start_def length_dropWhile_le)
  ultimately show ?thesis using assms by (cases "next_token rest") simp_all
qed

lemma strip_prefix_token_not_Nil:
  "strip_prefix p t = Some v \<Longrightarrow> p \<noteq> [] \<Longrightarrow> t \<noteq> []"
  by (auto simp: strip_prefix_def)

function control_loop ::
  "rstring \<Rightarrow> QueryPublicField option \<Rightarrow> QueryPublicField option \<Rightarrow> bool \<Rightarrow>
   QueryPlanError + rstring \<times> QueryPublicField option \<times> QueryPublicField option \<times> bool" where
  "control_loop rest sc em parsed_any =
     (case strip_prefix (str ''in:'') (next_token rest) of
        Some value \<Rightarrow>
          (case field_parse value of
             None \<Rightarrow> Err (invalid_control unknown_scope_message)
           | Some field \<Rightarrow>
               if sc \<noteq> None then Err (invalid_control ''field scope may be declared only once'')
               else control_loop (after_token rest) (Some field) em True)
      | None \<Rightarrow>
          (case strip_prefix (str ''>'') (next_token rest) of
             Some value \<Rightarrow>
               if value = [] then Ok (rest, sc, em, parsed_any)
               else
                 (case field_parse value of
                    None \<Rightarrow> Err (invalid_control unknown_emphasis_message)
                  | Some field \<Rightarrow>
                      if em \<noteq> None then Err (invalid_control ''field emphasis may be declared only once'')
                      else control_loop (after_token rest) sc (Some field) True)
           | None \<Rightarrow> Ok (rest, sc, em, parsed_any)))"
  by pat_completeness auto
termination
  by (relation "measure (\<lambda>(rest, _). length rest)")
    (auto intro!: length_after_token dest: strip_prefix_token_not_Nil)

declare control_loop.simps [simp del]

definition parse_field_controls :: "rstring \<Rightarrow> QueryPlanError + ParsedFieldControls" where
  "parse_field_controls q =
     and_then (control_loop (trim_start q) None None False) (\<lambda>(rest, sc, em, parsed_any).
       if \<not> parsed_any then Ok \<lparr>pc_query_text = q, pc_scope = None, pc_emphasis = None\<rparr>
       else if rest = [] then Err (invalid_control ''field controls require query text'')
       else if has_explicit_syntax rest then
         Err (invalid_control ''field controls cannot be combined with explicit query syntax'')
       else if (case (sc, em) of (Some s, Some e) \<Rightarrow> \<not> field_contains s e | _ \<Rightarrow> False) then
         Err (invalid_control ''emphasized field must belong to the selected field scope'')
       else Ok \<lparr>pc_query_text = rest, pc_scope = sc, pc_emphasis = em\<rparr>)"

end
