(* ===== verification/Query_Plan.thy ===== *)
theory Query_Plan
  imports Query_Model
begin

text \<open>
  The operations of \<open>daemon/crates/kwiry-core/src/query.rs\<close>: classification of a query,
  its term intents, \<open>prepare_lexical_query\<close>, the plan validator \<open>validate_plan\<close> with its
  stage validator, and \<open>finalize_evidence\<close>, which turns observed term support into the
  evidence ladder.  Facts about them are in the theories \<open>Query_Prepare\<close> and
  \<open>Query_Evidence\<close>.
\<close>

section \<open>Token shapes\<close>

definition all_digits :: "rstring \<Rightarrow> bool" where
  "all_digits token \<longleftrightarrow> (\<forall>c \<in> set token. is_ascii_digit c)"

definition is_mixed_token :: "text_env \<Rightarrow> rstring \<Rightarrow> bool" where
  "is_mixed_token env token \<longleftrightarrow>
     (\<exists>c \<in> set token. is_alphabetic env c) \<and> (\<exists>c \<in> set token. is_ascii_digit c)"

definition normalize_token :: "text_env \<Rightarrow> rstring \<Rightarrow> rstring option" where
  "normalize_token env term =
     normalize_raw env (trim_matches (\<lambda>c. \<not> is_alphanumeric env c) term)"

section \<open>Classification\<close>

definition ORDINARY_NUMBER_PREFIXES :: "rstring list" where
  "ORDINARY_NUMBER_PREFIXES = map str [''best'', ''chapter'', ''episode'', ''first'', ''last'',
     ''level'', ''page'', ''part'', ''section'', ''step'', ''top'', ''volume'']"

fun position :: "('a \<Rightarrow> bool) \<Rightarrow> 'a list \<Rightarrow> nat option" where
  "position P [] = None"
| "position P (x # xs) = (if P x then Some 0 else map_option Suc (position P xs))"

definition lowercase_identifier_components :: "text_env \<Rightarrow> rstring \<Rightarrow> (rstring list \<times> nat) option" where
  "lowercase_identifier_components env q =
     (let tokens = split_whitespace q
      in if tokens = [] \<or> length tokens > 6 then None
         else (case position all_digits tokens of
             None \<Rightarrow> None
           | Some number_index \<Rightarrow>
               if \<exists>token \<in> set (take number_index tokens).
                    2 \<le> length token \<and> length token \<le> 4
                    \<and> (\<forall>c \<in> set token. is_alphabetic env c)
                    \<and> map to_ascii_lowercase token \<notin> set ORDINARY_NUMBER_PREFIXES
               then Some (tokens, number_index) else None))"

definition is_lowercase_identifier_candidate :: "text_env \<Rightarrow> rstring \<Rightarrow> bool" where
  "is_lowercase_identifier_candidate env q \<longleftrightarrow> lowercase_identifier_components env q \<noteq> None"

definition is_standalone_technical_identifier :: "text_env \<Rightarrow> rstring \<Rightarrow> bool" where
  "is_standalone_technical_identifier env q =
     (let trimmed = trim q
      in (case normalize_raw env trimmed of
            None \<Rightarrow> False
          | Some normalized \<Rightarrow> normalized \<in> set (technical_identifiers env trimmed)))"

definition is_identifier_like :: "text_env \<Rightarrow> rstring \<Rightarrow> bool" where
  "is_identifier_like env q =
     (let tokens = split_whitespace q
      in if tokens = [] \<or> length tokens > 6 then False
         else if technical_identifiers env q \<noteq> [] then True
         else
           (let has_number = (\<exists>token \<in> set tokens. all_digits token);
                has_acronym = (\<exists>token \<in> set tokens.
                  2 \<le> length token \<and> length token \<le> 8
                  \<and> (\<forall>c \<in> set token. is_alphabetic env c)
                  \<and> (\<exists>c \<in> set token. is_uppercase env c)
                  \<and> (\<forall>c \<in> set token. \<not> is_lowercase env c));
                has_mixed_alphanumeric = (\<exists>token \<in> set tokens. is_mixed_token env token)
            in has_mixed_alphanumeric \<or> (has_number \<and> has_acronym)))"

definition classify_query :: "text_env \<Rightarrow> rstring \<Rightarrow> QueryPlanKind" where
  "classify_query env q =
     (if has_explicit_syntax q then Kind_Explicit
      else if is_standalone_technical_identifier env q \<or> is_identifier_like env q
      then Kind_Identifier else Kind_Ordinary)"

section \<open>Term intents\<close>

type_synonym planned_terms = "(QueryTermProjection \<times> rstring) set \<times> (rstring \<times> QueryTermProjection) list"

definition push_term :: "QueryTermProjection \<Rightarrow> rstring \<Rightarrow> planned_terms \<Rightarrow> planned_terms" where
  "push_term projection text st =
     (if (projection, text) \<in> fst st then st
      else (insert (projection, text) (fst st), snd st @ [(text, projection)]))"

definition push_component :: "text_env \<Rightarrow> rstring \<Rightarrow> planned_terms \<Rightarrow> planned_terms" where
  "push_component env component st =
     (case normalize_token env component of
        None \<Rightarrow> st
      | Some normalized \<Rightarrow> push_term AnalyzedText normalized st)"

definition push_authored :: "text_env \<Rightarrow> rstring \<Rightarrow> planned_terms \<Rightarrow> planned_terms" where
  "push_authored env authored st =
     (case normalize_raw env (trim_matches (\<lambda>c. \<not> is_alphanumeric env c) authored) of
        None \<Rightarrow> st
      | Some folded \<Rightarrow>
          fold (push_component env) (split_on (\<lambda>c. \<not> is_alphanumeric env c \<and> c \<noteq> 95) folded) st)"

definition push_analyzed_terms :: "text_env \<Rightarrow> rstring \<Rightarrow> planned_terms \<Rightarrow> planned_terms" where
  "push_analyzed_terms env source st = fold (push_authored env) (split_whitespace source) st"

text \<open>
  The spans come from \<open>find_iter\<close> of the crate regex: ascending, disjoint and within the text.  On
  such spans the slices \<open>query[cursor..start]\<close> and \<open>query[cursor..]\<close> of the source are in range and
  \<open>slice\<close> and \<open>drop\<close> return them; on overlapping spans the source would panic.
\<close>

fun push_spans ::
  "text_env \<Rightarrow> rstring \<Rightarrow> ((nat \<times> nat) \<times> rstring) list \<Rightarrow> nat \<Rightarrow> planned_terms \<Rightarrow> nat \<times> planned_terms" where
  "push_spans env q [] cursor st = (cursor, st)"
| "push_spans env q (((start, stop), identifier) # spans) cursor st =
     push_spans env q spans stop
       (push_term ExactIdentifier identifier (push_analyzed_terms env (slice cursor start q) st))"

definition planned_query_terms :: "text_env \<Rightarrow> rstring \<Rightarrow> (rstring \<times> QueryTermProjection) list" where
  "planned_query_terms env q =
     (let (cursor, st) = push_spans env q (technical_identifier_spans env q) 0 ({}, [])
      in snd (push_analyzed_terms env (drop cursor q) st))"

definition fallback_anchor_token :: "text_env \<Rightarrow> rstring \<Rightarrow> bool" where
  "fallback_anchor_token env token \<longleftrightarrow>
     is_mixed_token env token
     \<or> (2 \<le> length token \<and> length token \<le> 8
        \<and> (\<forall>c \<in> set token. is_alphabetic env c) \<and> (\<forall>c \<in> set token. \<not> is_lowercase env c))
     \<or> all_digits token"

definition fallback_anchors :: "text_env \<Rightarrow> rstring \<Rightarrow> QueryPlanKind \<Rightarrow> rstring list" where
  "fallback_anchors env q k =
     (if k = Kind_Identifier
      then List.map_filter (normalize_token env) (filter (fallback_anchor_token env) (split_whitespace q))
      else [])"

definition query_term_intents :: "text_env \<Rightarrow> rstring \<Rightarrow> QueryPlanKind \<Rightarrow> QueryTermIntent list" where
  "query_term_intents env q k =
     (let planned = planned_query_terms env q; anchors = fallback_anchors env q k
      in map (\<lambda>(index, text, projection).
               \<lparr>ti_index = as_u16 index, ti_text = text,
                ti_role = (if projection = ExactIdentifier \<or> text \<in> set anchors
                           then RequiredIdentifierAnchor else OptionalContext),
                ti_projection = projection, ti_support = Support_Unknown\<rparr>)
             (enumerate 0 planned))"

definition lowercase_identifier_anchor_indexes :: "text_env \<Rightarrow> rstring \<Rightarrow> rstring list \<Rightarrow> nat list" where
  "lowercase_identifier_anchor_indexes env q ts =
     (case lowercase_identifier_components env q of
        None \<Rightarrow> []
      | Some (tokens, number_index) \<Rightarrow>
          (let anchors = List.map_filter (normalize_token env)
                 (filter (\<lambda>token. 2 \<le> length token \<and> length token \<le> 4
                            \<and> (\<forall>c \<in> set token. is_alphabetic env c)) (take number_index tokens)
                  @ [tokens ! number_index])
           in map (\<lambda>(index, _). as_u16 index)
                (filter (\<lambda>(_, term). term \<in> set anchors) (enumerate 0 ts))))"

section \<open>Partial coverage\<close>

definition is_anchor :: "QueryTermIntent \<Rightarrow> bool" where
  "is_anchor intent \<longleftrightarrow> ti_role intent = RequiredIdentifierAnchor"

definition relaxed_term_indexes :: "QueryTermIntent list \<Rightarrow> QueryBounds \<Rightarrow> nat list" where
  "relaxed_term_indexes intents bnds =
     map ti_index (take (max_partial_coverage_terms bnds)
       (filter (\<lambda>intent. is_anchor intent \<or> ti_support intent = Useful) intents))"

record PartialCoverageStage =
  pcs_condition :: QueryEvidenceStageCondition
  pcs_required :: "nat list"
  pcs_prefix :: "nat list"
  pcs_minimum_optional :: nat

definition partial_coverage_stage ::
  "QueryTermIntent list \<Rightarrow> QueryBounds \<Rightarrow> nat list \<Rightarrow> PartialCoverageStage option" where
  "partial_coverage_stage intents bnds prefix_indexes =
     (let all_indexes = map ti_index intents;
          relaxed_indexes = relaxed_term_indexes intents bnds;
          has_unsupported_context = (\<exists>intent \<in> set intents.
            ti_role intent = OptionalContext \<and> ti_support intent = Unsupported)
      in if has_unsupported_context then
           (if relaxed_indexes \<noteq> [] \<and> relaxed_indexes \<noteq> all_indexes
            then Some \<lparr>pcs_condition = Always, pcs_required = relaxed_indexes, pcs_prefix = [],
                       pcs_minimum_optional = 0\<rparr>
            else None)
         else
           (let anchors = map ti_index (filter is_anchor intents);
                optional = map ti_index (filter (\<lambda>intent.
                  ti_role intent = OptionalContext \<and> ti_support intent = Useful) intents)
            in if length optional < MIN_FALLBACK_OPTIONAL_TERMS
                  \<or> length anchors \<ge> max_partial_coverage_terms bnds then None
               else
                 (let optional_capacity = max_partial_coverage_terms bnds - length anchors;
                      included_optional = set (take optional_capacity optional)
                  in if included_optional = {} then None
                     else
                       (let included_prefix = sorted_list_of_set
                              (set (filter (\<lambda>i. i \<in> included_optional) prefix_indexes));
                            required = map ti_index (filter (\<lambda>intent. is_anchor intent
                              \<or> (ti_index intent \<in> included_optional
                                 \<and> ti_index intent \<notin> set included_prefix)) intents)
                        in if required = [] \<and> included_prefix = [] then None
                           else Some \<lparr>pcs_condition = IfFewerThanMinimumStandardSources,
                                      pcs_required = required, pcs_prefix = included_prefix,
                                      pcs_minimum_optional = 1\<rparr>))))"

definition prefix_stage_required_indexes :: "nat list \<Rightarrow> nat list \<Rightarrow> nat list" where
  "prefix_stage_required_indexes relaxed pfx = filter (\<lambda>i. i \<notin> set pfx) relaxed"

definition push_stage_with_condition ::
  "QueryEvidenceStageKind \<Rightarrow> QueryEvidenceStageCondition \<Rightarrow> QueryFieldGroup \<Rightarrow> nat list \<Rightarrow> nat list \<Rightarrow>
   nat \<Rightarrow> nat \<Rightarrow> QueryEvidenceStage list \<Rightarrow> QueryEvidenceStage list" where
  "push_stage_with_condition k cond fgroup required pfx maxc minimum stages =
     stages @ [\<lparr>st_ordinal = as_u8 (length stages), st_kind = k, st_condition = cond,
                st_field_group = fgroup, st_required = required, st_prefix = pfx,
                st_max_candidates = maxc, st_minimum_optional = minimum\<rparr>]"

definition push_stage ::
  "QueryEvidenceStageKind \<Rightarrow> QueryFieldGroup \<Rightarrow> nat list \<Rightarrow> nat list \<Rightarrow> nat \<Rightarrow>
   QueryEvidenceStage list \<Rightarrow> QueryEvidenceStage list" where
  "push_stage k fgroup required pfx maxc stages =
     push_stage_with_condition k Always fgroup required pfx maxc 0 stages"

section \<open>Stage validation\<close>

definition canonical_prefix_indexes :: "LexicalQueryPlan \<Rightarrow> nat list" where
  "canonical_prefix_indexes plan =
     (case find (\<lambda>stage. st_kind stage = Prefix) (evidence_stages plan) of
        None \<Rightarrow> [] | Some stage \<Rightarrow> st_prefix stage)"

definition anchor_indexes :: "LexicalQueryPlan \<Rightarrow> nat list" where
  "anchor_indexes plan = map ti_index (filter is_anchor (term_intents plan))"

definition expected_stage_kinds :: "LexicalQueryPlan \<Rightarrow> QueryEvidenceStageKind list" where
  "expected_stage_kinds plan =
     (if exact_intent plan \<noteq> None then [ExactMetadata] else [])
     @ (if phrase_intent plan \<noteq> None then [ExactPhrase] else [])
     @ (if \<exists>stage \<in> set (evidence_stages plan). st_kind stage = PrefixMetadata
        then [PrefixMetadata] else [])
     @ [AllTerms]
     @ (if canonical_prefix_indexes plan \<noteq> [] then [Prefix] else [])
     @ (if partial_coverage_stage (term_intents plan) (bounds plan) (canonical_prefix_indexes plan) \<noteq> None
        then [PartialCoverage] else [])"

definition validate_stage_shape ::
  "LexicalQueryPlan \<Rightarrow> PartialCoverageStage option \<Rightarrow> QueryEvidenceStage \<Rightarrow> QueryPlanError + unit" where
  "validate_stage_shape plan partial stage =
     (case st_kind stage of
        ExactMetadata \<Rightarrow>
          if exact_intent plan = None \<or> st_field_group stage \<noteq> G_Exact
             \<or> st_required stage \<noteq> [] \<or> st_prefix stage \<noteq> []
          then Err (invalid_plan ''exact metadata stage is inconsistent'') else Ok ()
      | ExactPhrase \<Rightarrow>
          if phrase_intent plan = None \<or> st_field_group stage \<noteq> G_Phrase
             \<or> st_required stage \<noteq> [] \<or> st_prefix stage \<noteq> []
          then Err (invalid_plan ''exact phrase stage is inconsistent'') else Ok ()
      | AllTerms \<Rightarrow>
          if st_field_group stage \<noteq> G_SearchableText
             \<or> st_required stage \<noteq> map ti_index (term_intents plan) \<or> st_prefix stage \<noteq> []
          then Err (invalid_plan ''all-terms stage is inconsistent'') else Ok ()
      | PartialCoverage \<Rightarrow>
          if st_field_group stage \<noteq> G_SearchableText
             \<or> (case partial of None \<Rightarrow> True | Some p \<Rightarrow>
                  st_required stage \<noteq> pcs_required p \<or> st_prefix stage \<noteq> pcs_prefix p
                  \<or> st_minimum_optional stage \<noteq> pcs_minimum_optional p)
             \<or> (st_required stage = [] \<and> st_prefix stage = [])
             \<or> (st_minimum_optional stage = 0 \<and> st_required stage = map ti_index (term_intents plan))
             \<or> length (st_required stage) + length (st_prefix stage) > max_partial_coverage_terms (bounds plan)
             \<or> \<not> (\<forall>anchor \<in> set (anchor_indexes plan). anchor \<in> set (st_required stage))
          then Err (invalid_plan ''partial-coverage stage is inconsistent'') else Ok ()
      | _ \<Rightarrow>
          (let expected_group = (if st_kind stage = PrefixMetadata then G_PrefixMetadata else G_Prefix);
               expected_required = prefix_stage_required_indexes
                 (relaxed_term_indexes (term_intents plan) (bounds plan)) (st_prefix stage)
           in if st_field_group stage \<noteq> expected_group
                 \<or> st_required stage \<noteq> expected_required
                 \<or> st_prefix stage \<noteq> canonical_prefix_indexes plan
                 \<or> st_prefix stage = []
                 \<or> length (st_prefix stage) > max_prefix_terms (bounds plan)
                 \<or> \<not> (\<forall>anchor \<in> set (anchor_indexes plan). anchor \<in> set (st_required stage))
                 \<or> (\<exists>i \<in> set (st_prefix stage). \<not> (i < length (term_intents plan)
                       \<and> ti_role (term_intents plan ! i) = OptionalContext))
              then Err (invalid_plan ''prefix stage is inconsistent'') else Ok ()))"

definition validate_stage ::
  "LexicalQueryPlan \<Rightarrow> PartialCoverageStage option \<Rightarrow> nat \<Rightarrow> QueryEvidenceStageKind option \<Rightarrow>
   QueryEvidenceStage \<Rightarrow> QueryPlanError + unit" where
  "validate_stage plan partial ordinal previous_kind stage =
     (if st_ordinal stage \<noteq> as_u8 ordinal \<or> st_max_candidates stage = 0
         \<or> st_max_candidates stage > max_candidates_per_stage (bounds plan)
         \<or> (case previous_kind of None \<Rightarrow> False | Some k \<Rightarrow> k \<ge> st_kind stage)
      then Err (invalid_plan ''query evidence stage order or bound is invalid'')
      else if st_condition stage \<noteq>
          (if st_kind stage = PartialCoverage
           then (case partial of None \<Rightarrow> Always | Some p \<Rightarrow> pcs_condition p) else Always)
      then Err (invalid_plan ''query evidence stage execution condition is not canonical'')
      else if st_kind stage \<noteq> PartialCoverage \<and> st_minimum_optional stage \<noteq> 0
      then Err (invalid_plan ''query evidence stage optional-match threshold is not canonical'')
      else if \<exists>i \<in> set (st_required stage @ st_prefix stage). i \<notin> set (map ti_index (term_intents plan))
      then Err (invalid_plan ''query evidence stage references an unknown term'')
      else if \<not> windows2_all (\<lambda>a b. \<not> a \<ge> b) (st_required stage)
         \<or> \<not> windows2_all (\<lambda>a b. \<not> a \<ge> b) (st_prefix stage)
         \<or> (\<exists>i \<in> set (st_prefix stage). i \<in> set (st_required stage))
      then Err (invalid_plan ''query evidence stage term indexes are not canonical'')
      else validate_stage_shape plan partial stage)"

fun validate_stage_list ::
  "LexicalQueryPlan \<Rightarrow> PartialCoverageStage option \<Rightarrow> nat \<Rightarrow> QueryEvidenceStageKind option \<Rightarrow>
   QueryEvidenceStage list \<Rightarrow> QueryPlanError + unit" where
  "validate_stage_list plan partial ordinal previous_kind [] = Ok ()"
| "validate_stage_list plan partial ordinal previous_kind (stage # stages) =
     and_then (validate_stage plan partial ordinal previous_kind stage)
       (\<lambda>_. validate_stage_list plan partial (Suc ordinal) (Some (st_kind stage)) stages)"

definition validate_stages :: "LexicalQueryPlan \<Rightarrow> QueryPlanError + unit" where
  "validate_stages plan =
     (if length (evidence_stages plan) > max_evidence_stages (bounds plan)
      then Err (invalid_plan ''query plan has too many evidence stages'')
      else
        (let prefix_indexes = canonical_prefix_indexes plan;
             partial = partial_coverage_stage (term_intents plan) (bounds plan) prefix_indexes;
             has_prefix = (prefix_indexes \<noteq> []);
             has_prefix_metadata = (\<exists>stage \<in> set (evidence_stages plan). st_kind stage = PrefixMetadata);
             expects_prefix_metadata = (has_prefix \<and> prefix_metadata (field_groups plan) \<noteq> [])
         in if has_prefix_metadata \<noteq> expects_prefix_metadata
            then Err (invalid_plan ''prefix metadata stage is not canonical for the selected scope'')
            else if map st_kind (evidence_stages plan) \<noteq> expected_stage_kinds plan
            then Err (invalid_plan ''query evidence stages do not preserve the required evidence ladder'')
            else validate_stage_list plan partial 0 None (evidence_stages plan)))"

section \<open>Plan validation\<close>

definition invalid_query_shape :: "rstring \<Rightarrow> bool" where
  "invalid_query_shape q \<longleftrightarrow> trim q = [] \<or> str_len q > MAX_QUERY_BYTES"

definition expected_operator :: "QueryPlanKind \<Rightarrow> QueryMatchOperator" where
  "expected_operator k =
     (case k of Kind_Explicit \<Rightarrow> Op_Explicit | Kind_Ordinary \<Rightarrow> Op_Any | Kind_Identifier \<Rightarrow> Op_All)"

definition profile_for :: "QueryPlanKind \<Rightarrow> string" where
  "profile_for k = (if k = Kind_Explicit then LEXICAL_V1_PROFILE_ID else LEXICAL_V2_PROFILE_ID)"

definition field_groups_for :: "QueryPlanKind \<Rightarrow> QueryPublicField option \<Rightarrow> QueryFieldGroups" where
  "field_groups_for k sc = (if k = Kind_Explicit then field_groups_v1 else field_groups_v2 sc)"

definition validate_identity :: "LexicalQueryPlan \<Rightarrow> QueryPlanError + unit" where
  "validate_identity plan =
     (if schema_version plan \<noteq> LEXICAL_QUERY_PLAN_SCHEMA_VERSION
      then Err (invalid_plan ''query plan schema version is unsupported'')
      else if field_controls_schema_version plan \<noteq> FIELD_CONTROLS_SCHEMA_VERSION
      then Err (invalid_plan ''field control schema version is unsupported'')
      else if invalid_query_shape (query plan) \<or> invalid_query_shape (query_text plan)
         \<or> length (take (MAX_QUERY_TERMS + 1) (split_whitespace (query plan))) > MAX_QUERY_TERMS
      then Err (invalid_plan ''query plan contains an invalid query'')
      else if profile_id plan \<noteq> profile_for (kind plan)
      then Err (invalid_plan ''query plan relevance profile is unsupported'')
      else Ok ())"

definition validate_controls :: "LexicalQueryPlan \<Rightarrow> QueryPlanError + unit" where
  "validate_controls plan =
     (if kind plan = Kind_Explicit \<and> (scope plan \<noteq> None \<or> emphasis plan \<noteq> None)
      then Err (invalid_plan ''explicit query plan cannot carry field controls'')
      else if (case (scope plan, emphasis plan) of
          (Some s, Some e) \<Rightarrow> \<not> field_contains s e | _ \<Rightarrow> False)
      then Err (invalid_plan ''query plan field controls are contradictory'')
      else (case parse_field_controls (query plan) of
          Inl _ \<Rightarrow> Err (invalid_plan ''query plan field controls are not canonical'')
        | Inr parsed \<Rightarrow>
            if pc_query_text parsed \<noteq> query_text plan \<or> pc_scope parsed \<noteq> scope plan
               \<or> pc_emphasis parsed \<noteq> emphasis plan
            then Err (invalid_plan ''query plan field controls are not canonical'')
            else Ok ()))"

definition validate_tables :: "LexicalQueryPlan \<Rightarrow> QueryPlanError + unit" where
  "validate_tables plan =
     (if field_groups plan \<noteq> field_groups_for (kind plan) (scope plan)
      then Err (invalid_plan ''query plan field groups are not recognized'')
      else if bounds plan \<noteq> bounds_v1
      then Err (invalid_plan ''query plan bounds are not recognized'')
      else if typo_stage plan \<noteq> Typo_Disabled
      then Err (invalid_plan ''query plan typo stage must remain disabled'')
      else if match_operator plan \<noteq> expected_operator (kind plan)
      then Err (invalid_plan ''query plan kind and match operator do not agree'')
      else Ok ())"

definition validate_explicit :: "LexicalQueryPlan \<Rightarrow> QueryPlanError + unit" where
  "validate_explicit plan =
     (if assistance plan \<noteq> ExplicitSyntaxBypass \<or> execution plan \<noteq> ExplicitBypass
         \<or> terms plan \<noteq> [] \<or> term_intents plan \<noteq> [] \<or> normalized_exact plan \<noteq> None
         \<or> exact_intent plan \<noteq> None \<or> phrase_boost plan \<or> phrase_intent plan \<noteq> None
         \<or> support_probes plan \<noteq> [] \<or> evidence_stages plan \<noteq> [] \<or> metadata_probe plan \<noteq> None
      then Err (invalid_plan ''explicit query plan must bypass every assistance stage'')
      else Ok ())"

definition unrecognized_identifier :: "text_env \<Rightarrow> QueryTermIntent \<Rightarrow> bool" where
  "unrecognized_identifier env intent \<longleftrightarrow>
     ti_projection intent = ExactIdentifier
     \<and> (ti_role intent \<noteq> RequiredIdentifierAnchor
        \<or> ti_text intent \<notin> set (technical_identifiers env (ti_text intent)))"

fun validate_term_intents ::
  "text_env \<Rightarrow> nat \<Rightarrow> rstring list \<Rightarrow> QueryTermIntent list \<Rightarrow> QueryPlanError + unit" where
  "validate_term_intents env index (term # ts) (intent # intents) =
     (if ti_index intent \<noteq> as_u16 index \<or> ti_text intent \<noteq> term
      then Err (invalid_plan ''query term intent is not canonical'')
      else if unrecognized_identifier env intent
      then Err (invalid_plan ''exact identifier term intent is not a complete recognized identity'')
      else validate_term_intents env (Suc index) ts intents)"
| "validate_term_intents env index _ _ = Ok ()"

definition validate_intents :: "text_env \<Rightarrow> LexicalQueryPlan \<Rightarrow> QueryPlanError + unit" where
  "validate_intents env plan =
     (if assistance plan \<noteq> Eligible
      then Err (invalid_plan ''assisted query is not marked eligible'')
      else if length (terms plan) \<noteq> length (term_intents plan)
         \<or> length (term_intents plan) > max_term_support_probes (bounds plan)
      then Err (invalid_plan ''query terms and term intents do not agree'')
      else and_then (validate_term_intents env 0 (terms plan) (term_intents plan)) (\<lambda>_.
        if kind plan = Kind_Identifier \<and> \<not> (\<exists>intent \<in> set (term_intents plan). is_anchor intent)
        then Err (invalid_plan ''identifier query must declare at least one required anchor'')
        else if normalized_exact plan \<noteq> map_option ei_normalized (exact_intent plan)
           \<or> (case exact_intent plan of None \<Rightarrow> False | Some intent \<Rightarrow> ei_field_group intent \<noteq> G_Exact)
        then Err (invalid_plan ''exact query intent is inconsistent'')
        else if phrase_boost plan \<noteq> (phrase_intent plan \<noteq> None)
           \<or> (case phrase_intent plan of None \<Rightarrow> False | Some intent \<Rightarrow>
                ph_terms intent \<noteq> terms plan \<or> length (ph_terms intent) < 2
                \<or> ph_field_group intent \<noteq> G_Phrase)
        then Err (invalid_plan ''phrase query intent is inconsistent'')
        else Ok ()))"

fun probes_canonical :: "nat \<Rightarrow> rstring list \<Rightarrow> QueryTermSupportProbe list \<Rightarrow> bool" where
  "probes_canonical index ts [] = True"
| "probes_canonical index ts (probe # probes) =
     (pr_probe_id probe = as_u16 index \<and> pr_term_index probe = as_u16 index
      \<and> (case ts of [] \<Rightarrow> False | t # _ \<Rightarrow> pr_term probe = t)
      \<and> pr_field_group probe = G_SearchableText
      \<and> probes_canonical (Suc index) (tl ts) probes)"

definition validate_execution :: "LexicalQueryPlan \<Rightarrow> QueryPlanError + unit" where
  "validate_execution plan =
     (case execution plan of
        ExplicitBypass \<Rightarrow> Err (invalid_plan ''assisted query cannot use explicit execution disposition'')
      | AwaitingEvidence \<Rightarrow>
          if terms plan = [] \<or> evidence_stages plan \<noteq> []
             \<or> length (support_probes plan) \<noteq> length (term_intents plan)
             \<or> (\<exists>intent \<in> set (term_intents plan). ti_support intent \<noteq> Support_Unknown)
          then Err (invalid_plan ''awaiting-evidence query plan is inconsistent'')
          else if \<not> probes_canonical 0 (terms plan) (support_probes plan)
          then Err (invalid_plan ''term support probe is not canonical'')
          else Ok ()
      | Ready \<Rightarrow>
          if evidence_stages plan = [] \<or> support_probes plan \<noteq> []
             \<or> (\<exists>intent \<in> set (term_intents plan). ti_support intent = Support_Unknown)
          then Err (invalid_plan ''ready query plan is inconsistent'')
          else validate_stages plan
      | EmptyNoEvidence \<Rightarrow>
          if evidence_stages plan \<noteq> [] \<or> support_probes plan \<noteq> []
          then Err (invalid_plan ''empty query plan must not be executable'')
          else if terms plan \<noteq> []
             \<and> (\<exists>intent \<in> set (term_intents plan). ti_support intent = Support_Unknown)
          then Err (invalid_plan ''empty query plan has unresolved evidence'')
          else Ok ())"

definition validate_plan :: "text_env \<Rightarrow> LexicalQueryPlan \<Rightarrow> QueryPlanError + unit" where
  "validate_plan env plan =
     and_then (validate_identity plan) (\<lambda>_.
     and_then (validate_controls plan) (\<lambda>_.
     and_then (validate_tables plan) (\<lambda>_.
       if kind plan = Kind_Explicit then validate_explicit plan
       else and_then (validate_intents env plan) (\<lambda>_. validate_execution plan))))"

section \<open>Preparation\<close>

fun metadata_field_of :: "QueryField \<Rightarrow> QueryMetadataField option" where
  "metadata_field_of F_Filename = Some M_Filename"
| "metadata_field_of F_Stem = Some M_Stem"
| "metadata_field_of F_Aliases = Some M_Aliases"
| "metadata_field_of F_Title = Some M_Title"
| "metadata_field_of F_Heading = Some M_Heading"
| "metadata_field_of F_Tags = Some M_Tags"
| "metadata_field_of F_Content = None"
| "metadata_field_of F_ContentIdentifiers = None"

definition metadata_fields_for_scope :: "QueryPublicField option \<Rightarrow> QueryMetadataField list" where
  "metadata_fields_for_scope sc =
     List.map_filter metadata_field_of
       (case sc of None \<Rightarrow> metadata field_groups_v1 | Some field \<Rightarrow> public_fields field)"

definition prepared_plan :: "text_env \<Rightarrow> rstring \<Rightarrow> ParsedFieldControls \<Rightarrow> LexicalQueryPlan" where
  "prepared_plan env q controls =
     (let text = pc_query_text controls;
          k = classify_query env text;
          assist = (if k = Kind_Explicit then ExplicitSyntaxBypass else Eligible);
          metadata_fields = metadata_fields_for_scope (pc_scope controls);
          probe = (if k = Kind_Ordinary \<and> metadata_fields \<noteq> []
                      \<and> is_lowercase_identifier_candidate env text
                   then Some \<lparr>mp_query = text, mp_fields = metadata_fields, mp_conjunction = True\<rparr>
                   else None);
          intents = (if k = Kind_Explicit then [] else query_term_intents env text k);
          ts = map ti_text intents;
          probes = map (\<lambda>intent. \<lparr>pr_probe_id = ti_index intent, pr_term_index = ti_index intent,
                       pr_term = ti_text intent, pr_field_group = G_SearchableText\<rparr>) intents;
          normalized = (if assist = Eligible then normalize_raw env text else None);
          boost = (assist = Eligible \<and> length ts > 1)
      in \<lparr>schema_version = LEXICAL_QUERY_PLAN_SCHEMA_VERSION,
          profile_id = profile_for k,
          field_controls_schema_version = FIELD_CONTROLS_SCHEMA_VERSION,
          query = q, query_text = text, scope = pc_scope controls, emphasis = pc_emphasis controls,
          kind = k, match_operator = expected_operator k, assistance = assist,
          execution = (if assist = ExplicitSyntaxBypass then ExplicitBypass
                       else if ts = [] then EmptyNoEvidence else AwaitingEvidence),
          terms = ts, term_intents = intents, normalized_exact = normalized,
          exact_intent = map_option (\<lambda>n. \<lparr>ei_normalized = n, ei_field_group = G_Exact\<rparr>) normalized,
          phrase_boost = boost,
          phrase_intent = (if boost then Some \<lparr>ph_terms = ts, ph_field_group = G_Phrase\<rparr> else None),
          field_groups = field_groups_for k (pc_scope controls),
          bounds = bounds_v1, typo_stage = Typo_Disabled, support_probes = probes,
          evidence_stages = [], metadata_probe = probe\<rparr>)"

definition prepare_lexical_query :: "text_env \<Rightarrow> rstring \<Rightarrow> QueryPlanError + LexicalQueryPlan" where
  "prepare_lexical_query env q =
     (if trim q = [] then Err (invalid_query ''query must not be empty'')
      else if str_len q > MAX_QUERY_BYTES
      then Err (invalid_query ''query must not exceed 4096 UTF-8 bytes'')
      else if length (take (MAX_QUERY_TERMS + 1) (split_whitespace q)) > MAX_QUERY_TERMS
      then Err (invalid_query ''query must not exceed 128 terms'')
      else and_then (parse_field_controls q) (\<lambda>controls.
        (let plan = prepared_plan env q controls
         in if length (support_probes plan) > MAX_TERM_SUPPORT_PROBES
            then Err (invalid_query ''query must not exceed 128 evidence terms'')
            else and_then (validate_plan env plan) (\<lambda>_. Ok plan))))"

section \<open>Evidence\<close>

definition promote_identifier_candidate :: "text_env \<Rightarrow> LexicalQueryPlan \<Rightarrow> LexicalQueryPlan" where
  "promote_identifier_candidate env plan =
     plan\<lparr>kind := Kind_Identifier, match_operator := Op_All,
       term_intents := fold (\<lambda>i intents. intents[i := (intents ! i)\<lparr>ti_role := RequiredIdentifierAnchor\<rparr>])
         (lowercase_identifier_anchor_indexes env (query plan) (terms plan)) (term_intents plan)\<rparr>"

text \<open>
  The assignment \<open>plan.term_intents[index].role\<close> panics on an index past the intents.
  \<open>finalize_evidence\<close> promotes validated plans only, where every anchor index is the position of an
  intent (lemma \<open>validated_promotion_in_range\<close> of theory \<open>Query_Finalize\<close>);
  \<open>finalize_metadata_probe\<close> does not validate, and its panic is \<open>None\<close>.
\<close>

definition promotion_in_range :: "text_env \<Rightarrow> LexicalQueryPlan \<Rightarrow> bool" where
  "promotion_in_range env plan \<longleftrightarrow>
     (\<forall>i \<in> set (lowercase_identifier_anchor_indexes env (query plan) (terms plan)). i < length (term_intents plan))"

definition finalize_metadata_probe :: "text_env \<Rightarrow> LexicalQueryPlan \<Rightarrow> bool \<Rightarrow> LexicalQueryPlan option" where
  "finalize_metadata_probe env plan matched =
     (let taken = plan\<lparr>metadata_probe := None\<rparr>
      in if metadata_probe plan \<noteq> None \<and> matched
         then (if promotion_in_range env taken then Some (promote_identifier_candidate env taken) else None)
         else Some taken)"

definition apply_metadata_probe ::
  "text_env \<Rightarrow> LexicalQueryPlan \<Rightarrow> bool option \<Rightarrow> QueryPlanError + LexicalQueryPlan" where
  "apply_metadata_probe env plan observation =
     (case metadata_probe plan of
        Some _ \<Rightarrow>
          (case observation of
             None \<Rightarrow> Err (invalid_plan ''identifier metadata probe observation is required'')
           | Some matched \<Rightarrow>
               if matched then Ok (promote_identifier_candidate env (plan\<lparr>metadata_probe := None\<rparr>))
               else Ok (plan\<lparr>metadata_probe := None\<rparr>))
      | None \<Rightarrow>
          (if observation \<noteq> None
           then Err (invalid_plan ''unexpected identifier metadata probe observation'')
           else Ok (plan\<lparr>metadata_probe := None\<rparr>)))"

text \<open>
  The support loop runs over the zip of probes, observations and intents; intents past the
  shortest of the three keep their support.
\<close>

fun apply_support ::
  "QueryBounds \<Rightarrow> QueryTermSupportProbe list \<Rightarrow> QueryTermSupportObservation list \<Rightarrow>
   QueryTermIntent list \<Rightarrow> QueryPlanError + QueryTermIntent list" where
  "apply_support bnds (probe # probes) (observation # observations) (intent # intents) =
     (if ob_probe_id observation \<noteq> pr_probe_id probe
         \<or> ob_term_index observation \<noteq> pr_term_index probe
         \<or> ti_index intent \<noteq> pr_term_index probe \<or> ti_text intent \<noteq> pr_term probe
      then Err (invalid_plan ''term support observation does not match its requested probe'')
      else if ob_prefix_expansions observation > max_prefix_expansions_per_term bnds
      then Err (invalid_plan ''prefix expansion observation exceeds its bound'')
      else and_then (apply_support bnds probes observations intents) (\<lambda>rest.
        Ok (intent\<lparr>ti_support := (if ob_document_frequency observation > 0 then Useful
                                    else Unsupported)\<rparr> # rest)))"
| "apply_support bnds _ _ intents = Ok intents"

definition evidence_prefix_indexes ::
  "QueryBounds \<Rightarrow> QueryTermIntent list \<Rightarrow> QueryTermSupportObservation list \<Rightarrow> nat list" where
  "evidence_prefix_indexes bnds intents observations =
     map (\<lambda>(intent, _). ti_index intent) (take (max_prefix_terms bnds)
       (filter (\<lambda>(intent, observation). ti_role intent = OptionalContext
            \<and> length (ti_text intent) \<ge> min_prefix_chars bnds
            \<and> ob_prefix_expansions observation > 0) (zip intents observations)))"

definition build_stages :: "LexicalQueryPlan \<Rightarrow> nat list \<Rightarrow> QueryEvidenceStage list" where
  "build_stages plan prefix_indexes =
     (let maxc = max_candidates_per_stage (bounds plan);
          all_indexes = map ti_index (term_intents plan);
          partial = partial_coverage_stage (term_intents plan) (bounds plan) prefix_indexes;
          prefix_required = prefix_stage_required_indexes
            (relaxed_term_indexes (term_intents plan) (bounds plan)) prefix_indexes;
          s0 = [];
          s1 = (if exact_intent plan \<noteq> None then push_stage ExactMetadata G_Exact [] [] maxc s0 else s0);
          s2 = (if phrase_intent plan \<noteq> None then push_stage ExactPhrase G_Phrase [] [] maxc s1 else s1);
          s3 = (if prefix_indexes \<noteq> [] \<and> prefix_metadata (field_groups plan) \<noteq> []
                then push_stage PrefixMetadata G_PrefixMetadata prefix_required prefix_indexes maxc s2
                else s2);
          s4 = push_stage AllTerms G_SearchableText all_indexes [] maxc s3;
          s5 = (if prefix_indexes \<noteq> []
                then push_stage Prefix G_Prefix prefix_required prefix_indexes maxc s4 else s4)
      in (case partial of None \<Rightarrow> s5
          | Some p \<Rightarrow> push_stage_with_condition PartialCoverage (pcs_condition p) G_SearchableText
                        (pcs_required p) (pcs_prefix p) maxc (pcs_minimum_optional p) s5))"

definition finalize_evidence ::
  "text_env \<Rightarrow> LexicalQueryPlan \<Rightarrow> QueryEvidenceReport \<Rightarrow> QueryPlanError + LexicalQueryPlan" where
  "finalize_evidence env plan report =
     and_then (validate_plan env plan) (\<lambda>_.
     if er_schema_version report \<noteq> LEXICAL_QUERY_PLAN_SCHEMA_VERSION
     then Err (invalid_plan ''evidence report schema version is unsupported'')
     else if assistance plan = ExplicitSyntaxBypass then
       (if er_identifier_probe_matched report \<noteq> None \<or> er_term_support report \<noteq> []
        then Err (invalid_plan ''explicit query evidence report must be empty'') else Ok plan)
     else and_then (apply_metadata_probe env plan (er_identifier_probe_matched report)) (\<lambda>plan1.
     if length (er_term_support report) \<noteq> length (support_probes plan1)
     then Err (invalid_plan ''term support observations must exactly match requested probes'')
     else and_then (apply_support (bounds plan1) (support_probes plan1) (er_term_support report)
                      (term_intents plan1)) (\<lambda>intents.
       (let plan2 = plan1\<lparr>term_intents := intents, support_probes := [], evidence_stages := []\<rparr>
        in if \<exists>intent \<in> set intents. is_anchor intent \<and> ti_support intent \<noteq> Useful
           then (let plan3 = plan2\<lparr>execution := EmptyNoEvidence\<rparr>
                 in and_then (validate_plan env plan3) (\<lambda>_. Ok plan3))
           else
             (let useful = filter (\<lambda>intent. ti_support intent = Useful) intents;
                  prefix_indexes = evidence_prefix_indexes (bounds plan2) intents (er_term_support report)
              in if useful = [] \<and> prefix_indexes = []
                 then (let plan3 = plan2\<lparr>execution := EmptyNoEvidence\<rparr>
                       in and_then (validate_plan env plan3) (\<lambda>_. Ok plan3))
                 else
                   (let plan3 = plan2\<lparr>evidence_stages := build_stages plan2 prefix_indexes,
                                      execution := Ready\<rparr>
                    in and_then (validate_plan env plan3) (\<lambda>_. Ok plan3)))))))"

end
