(* ===== verification/Query_Prepare.thy ===== *)
theory Query_Prepare
  imports Query_Plan
begin

text \<open>
  What \<open>prepare_lexical_query\<close> guarantees: which field controls it accepts, that the plan it
  builds passes its own final validation except for the two conditions validation adds, and the
  shape of the term intents.
\<close>

section \<open>Field controls\<close>

lemma field_parse_as_str: "field_parse (field_as_str f) = Some f"
  by (cases f) (simp_all add: field_parse_def)

lemma field_parse_eq_Some: "field_parse v = Some f \<Longrightarrow> v = field_as_str f"
  by (auto simp: field_parse_def split: if_splits)

lemma hd_trim_start: "trim_start s \<noteq> [] \<Longrightarrow> \<not> is_whitespace (hd (trim_start s))"
  by (simp add: trim_start_def hd_dropWhile)

lemma str_len_after_token: "str_len (after_token rest) \<le> str_len rest"
  by (metis after_token_def le_trans str_len_dropWhile_le trim_start_def)

lemma control_loop_step:
  assumes "control_loop rest sc em parsed_any = Ok res"
  shows "res = (rest, sc, em, parsed_any)
    \<or> next_token rest \<noteq> [] \<and> (\<exists>sc' em'. control_loop (after_token rest) sc' em' True = Ok res)"
  using assms
  by (subst (asm) control_loop.simps)
    (auto split: option.splits if_splits dest: strip_prefix_token_not_Nil)

lemma control_loop_rest:
  assumes "control_loop rest sc em parsed_any = Ok (rest', sc', em', any')"
    and "rest = [] \<or> \<not> is_whitespace (hd rest)"
  shows "(rest' = [] \<or> \<not> is_whitespace (hd rest')) \<and> str_len rest' \<le> str_len rest
    \<and> (parsed_any \<longrightarrow> any') \<and> (\<not> any' \<longrightarrow> rest' = rest)"
  using assms
proof (induction "length rest" arbitrary: rest sc em parsed_any rule: less_induct)
  case less
  from control_loop_step [OF less.prems(1)] show ?case
  proof (elim disjE conjE exE)
    assume "(rest', sc', em', any') = (rest, sc, em, parsed_any)"
    then show ?thesis using less.prems(2) by simp
  next
    fix s e
    assume "next_token rest \<noteq> []" and rec: "control_loop (after_token rest) s e True = Ok (rest', sc', em', any')"
    moreover have "after_token rest = [] \<or> \<not> is_whitespace (hd (after_token rest))"
      using hd_trim_start by (auto simp: after_token_def)
    ultimately have "(rest' = [] \<or> \<not> is_whitespace (hd rest'))
        \<and> str_len rest' \<le> str_len (after_token rest) \<and> any'"
      using less.hyps [OF length_after_token rec] by blast
    then show ?thesis using str_len_after_token [of rest] by auto
  qed
qed

lemma parse_field_controls_cases:
  assumes "parse_field_controls q = Ok c"
  obtains (plain) "c = \<lparr>pc_query_text = q, pc_scope = None, pc_emphasis = None\<rparr>"
  | (controlled) "pc_query_text c \<noteq> []" "\<not> is_whitespace (hd (pc_query_text c))"
      "str_len (pc_query_text c) \<le> str_len q" "\<not> has_explicit_syntax (pc_query_text c)"
      "\<And>s e. pc_scope c = Some s \<Longrightarrow> pc_emphasis c = Some e \<Longrightarrow> field_contains s e"
proof -
  from assms obtain rest sc em any where
    loop: "control_loop (trim_start q) None None False = Ok (rest, sc, em, any)"
    by (auto simp: parse_field_controls_def and_then_eq_Ok)
  have "trim_start q = [] \<or> \<not> is_whitespace (hd (trim_start q))"
    using hd_trim_start by auto
  note facts = control_loop_rest [OF loop this]
  moreover have "str_len (trim_start q) \<le> str_len q"
    by (simp add: trim_start_def str_len_dropWhile_le)
  ultimately have
    "c = \<lparr>pc_query_text = q, pc_scope = None, pc_emphasis = None\<rparr>
     \<or> pc_query_text c \<noteq> [] \<and> \<not> is_whitespace (hd (pc_query_text c))
       \<and> str_len (pc_query_text c) \<le> str_len q \<and> \<not> has_explicit_syntax (pc_query_text c)
       \<and> (\<forall>s e. pc_scope c = Some s \<longrightarrow> pc_emphasis c = Some e \<longrightarrow> field_contains s e)"
    using assms
    by (auto simp: parse_field_controls_def loop split: if_splits option.splits)
  then show thesis using plain controlled by blast
qed

section \<open>Term intents\<close>

lemma query_term_intents_length:
  "length (query_term_intents env q k) = length (planned_query_terms env q)"
  by (simp add: query_term_intents_def Let_def)

lemma query_term_intents_nth:
  assumes "i < length (planned_query_terms env q)"
  shows "query_term_intents env q k ! i =
    \<lparr>ti_index = as_u16 i, ti_text = fst (planned_query_terms env q ! i),
     ti_role = (if snd (planned_query_terms env q ! i) = ExactIdentifier
                   \<or> fst (planned_query_terms env q ! i) \<in> set (fallback_anchors env q k)
                then RequiredIdentifierAnchor else OptionalContext),
     ti_projection = snd (planned_query_terms env q ! i), ti_support = Support_Unknown\<rparr>"
  using assms by (simp add: query_term_intents_def Let_def nth_enumerate_eq split: prod.split)

lemma query_term_intents_index:
  "map ti_index (query_term_intents env q k) = map as_u16 [0..<length (planned_query_terms env q)]"
  by (rule nth_equalityI) (simp_all add: query_term_intents_length query_term_intents_nth)

lemma query_term_intents_support:
  "intent \<in> set (query_term_intents env q k) \<Longrightarrow> ti_support intent = Support_Unknown"
  by (auto simp: in_set_conv_nth query_term_intents_length query_term_intents_nth)

lemma validate_term_intents_canonical:
  assumes "map ti_index intents = map as_u16 [n..<n + length intents]"
  shows "validate_term_intents env n (map ti_text intents) intents = Ok ()
    \<longleftrightarrow> (\<forall>intent \<in> set intents. \<not> unrecognized_identifier env intent)"
  using assms
proof (induction intents arbitrary: n)
  case (Cons intent intents)
  have "map as_u16 [n..<n + length (intent # intents)]
      = as_u16 n # map as_u16 [Suc n..<Suc n + length intents]"
    by (simp add: upt_rec)
  with Cons.prems have "ti_index intent = as_u16 n"
    "map ti_index intents = map as_u16 [Suc n..<Suc n + length intents]"
    by simp_all
  with Cons.IH [of "Suc n"] show ?case by simp
qed simp

lemma probes_canonical_of_intents:
  assumes "map ti_index intents = map as_u16 [n..<n + length intents]"
  shows "probes_canonical n (map ti_text intents)
    (map (\<lambda>intent. \<lparr>pr_probe_id = ti_index intent, pr_term_index = ti_index intent,
       pr_term = ti_text intent, pr_field_group = G_SearchableText\<rparr>) intents)"
  using assms
proof (induction intents arbitrary: n)
  case (Cons intent intents)
  have "map as_u16 [n..<n + length (intent # intents)]
      = as_u16 n # map as_u16 [Suc n..<Suc n + length intents]"
    by (simp add: upt_rec)
  with Cons.prems have "ti_index intent = as_u16 n"
    "map ti_index intents = map as_u16 [Suc n..<Suc n + length intents]"
    by simp_all
  with Cons.IH [of "Suc n"] show ?case by simp
qed simp

section \<open>Validation of the prepared plan\<close>

definition query_admissible :: "rstring \<Rightarrow> bool" where
  "query_admissible q \<longleftrightarrow> trim q \<noteq> [] \<and> str_len q \<le> MAX_QUERY_BYTES
     \<and> length (split_whitespace q) \<le> MAX_QUERY_TERMS"

lemma query_admissible_take:
  "query_admissible q \<Longrightarrow>
   \<not> length (take (MAX_QUERY_TERMS + 1) (split_whitespace q)) > MAX_QUERY_TERMS"
  by (simp add: query_admissible_def)

lemma prepared_text_admissible:
  assumes "query_admissible q" "parse_field_controls q = Ok c"
  shows "\<not> invalid_query_shape (pc_query_text c)"
  using assms(2)
proof (cases rule: parse_field_controls_cases)
  case plain
  with assms(1) show ?thesis by (simp add: query_admissible_def invalid_query_shape_def)
next
  case controlled
  then have "trim (pc_query_text c) \<noteq> []" by (metis list.set_sel(1) trim_eq_Nil)
  with controlled assms(1) show ?thesis
    by (simp add: query_admissible_def invalid_query_shape_def)
qed

lemma prepared_plan_identity:
  assumes "query_admissible q" "parse_field_controls q = Ok c"
  shows "validate_identity (prepared_plan env q c) = Ok ()"
  using assms prepared_text_admissible [OF assms] query_admissible_take [OF assms(1)]
  by (simp add: validate_identity_def prepared_plan_def Let_def query_admissible_def
      invalid_query_shape_def)

lemma prepared_plan_controls:
  assumes "parse_field_controls q = Ok c"
  shows "validate_controls (prepared_plan env q c) = Ok ()"
  using assms
proof (cases rule: parse_field_controls_cases)
  case plain
  with assms show ?thesis by (simp add: validate_controls_def prepared_plan_def Let_def)
next
  case controlled
  then have "kind (prepared_plan env q c) \<noteq> Kind_Explicit"
    by (simp add: prepared_plan_def Let_def classify_query_def)
  with controlled assms show ?thesis
    by (auto simp: validate_controls_def prepared_plan_def Let_def split: option.splits)
qed

lemma prepared_plan_tables: "validate_tables (prepared_plan env q c) = Ok ()"
  by (simp add: validate_tables_def prepared_plan_def Let_def)

lemma prepared_plan_explicit:
  "kind (prepared_plan env q c) = Kind_Explicit \<Longrightarrow> validate_explicit (prepared_plan env q c) = Ok ()"
  by (simp add: validate_explicit_def prepared_plan_def Let_def)

lemma prepared_plan_intents_eq:
  "kind (prepared_plan env q c) \<noteq> Kind_Explicit \<Longrightarrow>
   term_intents (prepared_plan env q c)
     = query_term_intents env (pc_query_text c) (kind (prepared_plan env q c))"
  by (simp add: prepared_plan_def Let_def)

lemma prepared_plan_execution:
  assumes "kind (prepared_plan env q c) \<noteq> Kind_Explicit"
  shows "validate_execution (prepared_plan env q c) = Ok ()"
proof -
  let ?k = "classify_query env (pc_query_text c)"
  let ?intents = "query_term_intents env (pc_query_text c) ?k"
  have "map ti_index ?intents = map as_u16 [0..<0 + length ?intents]"
    by (simp add: query_term_intents_index query_term_intents_length)
  then have "probes_canonical 0 (map ti_text ?intents)
    (map (\<lambda>intent. \<lparr>pr_probe_id = ti_index intent, pr_term_index = ti_index intent,
       pr_term = ti_text intent, pr_field_group = G_SearchableText\<rparr>) ?intents)"
    by (rule probes_canonical_of_intents)
  moreover have "\<forall>intent \<in> set ?intents. ti_support intent = Support_Unknown"
    using query_term_intents_support by blast
  ultimately show ?thesis
    using assms by (auto simp: validate_execution_def prepared_plan_def Let_def)
qed

lemma prepared_plan_intents:
  assumes "kind (prepared_plan env q c) \<noteq> Kind_Explicit"
    and "length (term_intents (prepared_plan env q c)) \<le> MAX_TERM_SUPPORT_PROBES"
  shows "validate_intents env (prepared_plan env q c) = Ok () \<longleftrightarrow>
    (\<forall>intent \<in> set (term_intents (prepared_plan env q c)). \<not> unrecognized_identifier env intent)
    \<and> (kind (prepared_plan env q c) = Kind_Identifier \<longrightarrow>
       (\<exists>intent \<in> set (term_intents (prepared_plan env q c)). is_anchor intent))"
proof -
  let ?k = "classify_query env (pc_query_text c)"
  let ?intents = "query_term_intents env (pc_query_text c) ?k"
  have k: "?k \<noteq> Kind_Explicit" using assms(1) by (simp add: prepared_plan_def Let_def)
  have "map ti_index ?intents = map as_u16 [0..<0 + length ?intents]"
    by (simp add: query_term_intents_index query_term_intents_length)
  note canon = validate_term_intents_canonical [OF this, of env]
  show ?thesis
  proof (cases "validate_term_intents env 0 (map ti_text ?intents) ?intents")
    case (Inl e)
    with canon have "\<not> (\<forall>intent \<in> set ?intents. \<not> unrecognized_identifier env intent)" by simp
    with Inl k assms(2) show ?thesis
      by (auto simp: validate_intents_def prepared_plan_def Let_def bounds_v1_def)
  next
    case (Inr u)
    with canon have "\<forall>intent \<in> set ?intents. \<not> unrecognized_identifier env intent" by simp
    with Inr k assms(2) show ?thesis
      by (auto simp: validate_intents_def prepared_plan_def Let_def bounds_v1_def
          option.map_comp comp_def map_option.identity split: option.splits)
  qed
qed

lemma prepared_plan_probes_length:
  "length (support_probes (prepared_plan env q c)) = length (term_intents (prepared_plan env q c))"
  by (simp add: prepared_plan_def Let_def)

lemma validate_prepared_plan:
  assumes "query_admissible q" "parse_field_controls q = Ok c"
    and "length (term_intents (prepared_plan env q c)) \<le> MAX_TERM_SUPPORT_PROBES"
  shows "validate_plan env (prepared_plan env q c) = Ok () \<longleftrightarrow>
    (\<forall>intent \<in> set (term_intents (prepared_plan env q c)). \<not> unrecognized_identifier env intent)
    \<and> (kind (prepared_plan env q c) = Kind_Identifier \<longrightarrow>
       (\<exists>intent \<in> set (term_intents (prepared_plan env q c)). is_anchor intent))"
proof (cases "kind (prepared_plan env q c) = Kind_Explicit")
  case True
  then have "term_intents (prepared_plan env q c) = []" by (simp add: prepared_plan_def Let_def)
  with True show ?thesis
    by (simp add: validate_plan_def prepared_plan_identity [OF assms(1,2)]
        prepared_plan_controls [OF assms(2)] prepared_plan_tables prepared_plan_explicit)
next
  case False
  then show ?thesis
    by (simp add: validate_plan_def prepared_plan_identity [OF assms(1,2)]
        prepared_plan_controls [OF assms(2)] prepared_plan_tables and_then_eq_Ok
        prepared_plan_execution prepared_plan_intents [OF False assms(3)])
qed

section \<open>Planned terms and anchors\<close>

definition planned_inv :: "planned_terms \<Rightarrow> bool" where
  "planned_inv st \<longleftrightarrow> fst st = (\<lambda>(t, p). (p, t)) ` set (snd st) \<and> distinct (snd st)
     \<and> (\<forall>(t, p) \<in> set (snd st). t \<noteq> [] \<and> str_len t \<le> MAX_NORMALIZED_EXACT_BYTES)"

definition grows :: "(planned_terms \<Rightarrow> planned_terms) \<Rightarrow> bool" where
  "grows f \<longleftrightarrow> (\<forall>st. planned_inv st \<longrightarrow> planned_inv (f st) \<and> set (snd st) \<subseteq> set (snd (f st)))"

lemma growsI:
  assumes "\<And>st. planned_inv st \<Longrightarrow> planned_inv (f st)"
    and "\<And>st. planned_inv st \<Longrightarrow> set (snd st) \<subseteq> set (snd (f st))"
  shows "grows f"
  using assms unfolding grows_def by blast

lemma growsD:
  assumes "grows f" "planned_inv st"
  shows "planned_inv (f st)" "set (snd st) \<subseteq> set (snd (f st))"
  using assms unfolding grows_def by blast+

lemma grows_id: "grows (\<lambda>st. st)"
  by (simp add: growsI)

lemma grows_comp: "grows f \<Longrightarrow> grows g \<Longrightarrow> grows (g \<circ> f)"
  unfolding grows_def comp_def by (meson subset_trans)

lemma grows_fold: "\<forall>x \<in> set xs. grows (f x) \<Longrightarrow> grows (fold f xs)"
  by (induction xs) (simp_all add: grows_comp grows_id id_def)

lemma fold_member:
  assumes "\<forall>x \<in> set xs. grows (f x)" "x \<in> set xs" "planned_inv st"
    and "\<And>st. planned_inv st \<Longrightarrow> y \<in> set (snd (f x st))"
  shows "y \<in> set (snd (fold f xs st))"
  using assms(1-3)
proof (induction xs arbitrary: st)
  case (Cons a xs)
  have inv: "planned_inv (f a st)" using Cons.prems by (simp add: growsD)
  show ?case
  proof (cases "x \<in> set xs")
    case True
    with Cons.IH Cons.prems inv show ?thesis by simp
  next
    case False
    with Cons.prems assms(4) have "y \<in> set (snd (f a st))" by auto
    moreover have "grows (fold f xs)" using Cons.prems(1) by (intro grows_fold) simp
    ultimately show ?thesis using inv growsD(2) by fastforce
  qed
qed simp

lemma set_push_term:
  "planned_inv st \<Longrightarrow> set (snd (push_term p t st)) = insert (t, p) (set (snd st))"
  by (auto simp: push_term_def planned_inv_def)

lemma grows_push_term:
  "t \<noteq> [] \<Longrightarrow> str_len t \<le> MAX_NORMALIZED_EXACT_BYTES \<Longrightarrow> grows (push_term p t)"
  by (rule growsI) (force simp: planned_inv_def push_term_def)+

lemma grows_push_component: "grows (push_component env t)"
  by (cases "normalize_token env t")
    (auto simp: push_component_def [abs_def] normalize_token_def grows_id
      dest: normalize_raw_bound intro!: grows_push_term)

lemma grows_push_authored: "grows (push_authored env t)"
  by (cases "normalize_raw env (trim_matches (\<lambda>c. \<not> is_alphanumeric env c) t)")
    (auto simp: push_authored_def [abs_def] grows_id intro!: grows_fold grows_push_component)

lemma grows_push_analyzed_terms: "grows (push_analyzed_terms env s)"
  by (auto simp: push_analyzed_terms_def [abs_def] intro!: grows_fold grows_push_authored)

lemma technical_span_bound:
  "(r, t) \<in> set (technical_identifier_spans env q) \<Longrightarrow>
   t \<noteq> [] \<and> str_len t \<le> MAX_NORMALIZED_EXACT_BYTES"
  by (auto simp: technical_identifier_spans_def List.map_filter_def identifier_of_match_def Let_def
      dest: normalize_raw_bound split: if_splits)

lemma push_spans_planned:
  assumes "\<forall>(r, t) \<in> set spans. t \<noteq> [] \<and> str_len t \<le> MAX_NORMALIZED_EXACT_BYTES" "planned_inv st"
  shows "planned_inv (snd (push_spans env q spans cursor st))
    \<and> set (snd st) \<union> (\<lambda>span. (snd span, ExactIdentifier)) ` set spans
        \<subseteq> set (snd (snd (push_spans env q spans cursor st)))"
  using assms
proof (induction env q spans cursor st rule: push_spans.induct)
  case (2 env q start stop ident spans cursor st)
  let ?s1 = "push_analyzed_terms env (slice cursor start q) st"
  let ?s2 = "push_term ExactIdentifier ident ?s1"
  have s1: "planned_inv ?s1" "set (snd st) \<subseteq> set (snd ?s1)"
    using growsD [OF grows_push_analyzed_terms "2.prems"(2)] by auto
  have "grows (push_term ExactIdentifier ident)" using "2.prems" by (intro grows_push_term) auto
  with s1 have s2: "planned_inv ?s2" by (simp add: growsD)
  have "set (snd ?s2) = insert (ident, ExactIdentifier) (set (snd ?s1))"
    using s1 by (simp add: set_push_term)
  with "2.IH" [OF _ s2] "2.prems"(1) s1 show ?case by auto
qed simp

lemma planned_query_terms_inv:
  "distinct (planned_query_terms env q)"
  "(t, p) \<in> set (planned_query_terms env q) \<Longrightarrow> t \<noteq> [] \<and> str_len t \<le> MAX_NORMALIZED_EXACT_BYTES"
  "identifier \<in> snd ` set (technical_identifier_spans env q) \<Longrightarrow>
   (identifier, ExactIdentifier) \<in> set (planned_query_terms env q)"
proof -
  let ?r = "push_spans env q (technical_identifier_spans env q) 0 ({}, [])"
  have "planned_inv ({}, [])" by (simp add: planned_inv_def)
  then have sp: "planned_inv (snd ?r)"
    "(\<lambda>span. (snd span, ExactIdentifier)) ` set (technical_identifier_spans env q) \<subseteq> set (snd (snd ?r))"
    using push_spans_planned [of "technical_identifier_spans env q" "({}, [])" env q 0]
      technical_span_bound [of _ _ env q] by blast+
  have "planned_inv (push_analyzed_terms env (drop (fst ?r) q) (snd ?r))"
    and sub: "set (snd (snd ?r)) \<subseteq> set (snd (push_analyzed_terms env (drop (fst ?r) q) (snd ?r)))"
    using growsD [OF grows_push_analyzed_terms sp(1)] by auto
  moreover have eq: "planned_query_terms env q = snd (push_analyzed_terms env (drop (fst ?r) q) (snd ?r))"
    by (simp add: planned_query_terms_def Let_def split: prod.split)
  ultimately show "distinct (planned_query_terms env q)"
    "(t, p) \<in> set (planned_query_terms env q) \<Longrightarrow> t \<noteq> [] \<and> str_len t \<le> MAX_NORMALIZED_EXACT_BYTES"
    by (auto simp: planned_inv_def)
  show "identifier \<in> snd ` set (technical_identifier_spans env q) \<Longrightarrow>
    (identifier, ExactIdentifier) \<in> set (planned_query_terms env q)"
    using sp(2) sub eq by auto
qed

lemma digits_not_trimmed:
  "ascii_tables env \<Longrightarrow> all_digits t \<Longrightarrow> trim_matches (\<lambda>c. \<not> is_alphanumeric env c) t = t"
  by (intro trim_matches_none)
    (auto simp: all_digits_def is_alphanumeric_def ascii_tables_def is_ascii_digit_def)

lemma normalize_token_digits:
  assumes "ascii_tables env" "all_digits t" "t \<noteq> []" "str_len t \<le> MAX_NORMALIZED_EXACT_BYTES"
  shows "normalize_token env t = Some t"
proof -
  have "length t \<le> MAX_NORMALIZED_EXACT_BYTES" using assms(4) length_le_str_len [of t] by linarith
  then show ?thesis
    using assms by (simp add: normalize_token_def digits_not_trimmed normalize_raw_digits all_digits_def)
qed

lemma push_authored_digits:
  assumes "ascii_tables env" "all_digits t" "t \<noteq> []" "str_len t \<le> MAX_NORMALIZED_EXACT_BYTES"
    and "planned_inv st"
  shows "(t, AnalyzedText) \<in> set (snd (push_authored env t st))"
proof -
  have raw: "normalize_raw env (trim_matches (\<lambda>c. \<not> is_alphanumeric env c) t) = Some t"
    using normalize_token_digits [OF assms(1-4)] by (simp add: normalize_token_def)
  have "\<forall>c \<in> set t. \<not> (\<not> is_alphanumeric env c \<and> c \<noteq> 95)"
    using assms(1,2)
    by (auto simp: all_digits_def is_alphanumeric_def ascii_tables_def is_ascii_digit_def)
  then have "split_on (\<lambda>c. \<not> is_alphanumeric env c \<and> c \<noteq> 95) t = [t]" by (rule split_on_all_not)
  then show ?thesis
    using raw normalize_token_digits [OF assms(1-4)] assms(5)
    by (simp add: push_authored_def push_component_def set_push_term)
qed

lemma planned_digits:
  assumes "ascii_tables env" "t \<in> set (split_whitespace q)" "all_digits t"
    and "technical_identifier_spans env q = []" "str_len q \<le> MAX_NORMALIZED_EXACT_BYTES"
  shows "(t, AnalyzedText) \<in> set (planned_query_terms env q)"
proof -
  have t: "t \<noteq> []" "str_len t \<le> MAX_NORMALIZED_EXACT_BYTES"
    using split_whitespace_token [OF assms(2)] str_len_token_le [OF assms(2)] assms(5) by auto
  have "(t, AnalyzedText) \<in> set (snd (fold (push_authored env) (split_whitespace q) ({}, [])))"
    using assms t
    by (intro fold_member) (auto simp: grows_push_authored planned_inv_def intro: push_authored_digits)
  then show ?thesis by (simp add: planned_query_terms_def assms(4) push_analyzed_terms_def)
qed

lemma push_authored_analyzed:
  assumes "\<forall>planned \<in> set (snd st). snd planned = AnalyzedText"
  shows "\<forall>planned \<in> set (snd (push_authored env t st)). snd planned = AnalyzedText"
proof (cases "normalize_raw env (trim_matches (\<lambda>c. \<not> is_alphanumeric env c) t)")
  case (Some folded)
  have "\<forall>planned \<in> set (snd (fold (push_component env) ts st)). snd planned = AnalyzedText" for ts
    by (rule fold_invariant [where Q = "\<lambda>_. True"])
      (use assms in \<open>auto simp: push_component_def push_term_def split: option.splits\<close>)
  then show ?thesis by (simp add: push_authored_def Some)
qed (simp add: push_authored_def assms)

lemma planned_analyzed:
  assumes "technical_identifier_spans env q = []"
  shows "\<forall>planned \<in> set (planned_query_terms env q). snd planned = AnalyzedText"
proof -
  have "\<forall>planned \<in> set (snd (fold (push_authored env) ts ({}, []))). snd planned = AnalyzedText" for ts
    by (rule fold_invariant [where Q = "\<lambda>_. True"]) (simp_all add: push_authored_analyzed)
  then show ?thesis by (simp add: planned_query_terms_def assms push_analyzed_terms_def)
qed

lemma ordinary_intents:
  assumes "technical_identifier_spans env q = []" "intent \<in> set (query_term_intents env q Kind_Ordinary)"
  shows "ti_projection intent = AnalyzedText" "\<not> is_anchor intent" "\<not> unrecognized_identifier env intent"
proof -
  have analyzed: "p = AnalyzedText" if "(i, t, p) \<in> set (enumerate 0 (planned_query_terms env q))" for i t p
  proof -
    have "(t, p) \<in> set (planned_query_terms env q)" using that by (simp add: enumerate_eq_zip set_zip_rightD)
    then show ?thesis using planned_analyzed [OF assms(1)] by fastforce
  qed
  have "ti_projection intent = AnalyzedText" "ti_role intent = OptionalContext"
    using assms(2) by (auto simp: query_term_intents_def fallback_anchors_def dest: analyzed)
  then show "ti_projection intent = AnalyzedText" "\<not> is_anchor intent" "\<not> unrecognized_identifier env intent"
    by (simp_all add: is_anchor_def unrecognized_identifier_def)
qed

lemma anchor_from_identifier:
  assumes "technical_identifier_spans env q \<noteq> []"
  shows "\<exists>intent \<in> set (query_term_intents env q k). is_anchor intent"
proof -
  obtain r t where "(r, t) \<in> set (technical_identifier_spans env q)"
    using assms by (metis list.set_intros(1) neq_Nil_conv prod.exhaust)
  then have "(t, ExactIdentifier) \<in> set (planned_query_terms env q)"
    by (intro planned_query_terms_inv(3)) force
  then obtain i where "i < length (planned_query_terms env q)"
    "planned_query_terms env q ! i = (t, ExactIdentifier)"
    by (metis in_set_conv_nth)
  then have "query_term_intents env q k ! i \<in> set (query_term_intents env q k)"
    "is_anchor (query_term_intents env q k ! i)"
    using nth_mem [of i "query_term_intents env q k"]
    by (simp_all only: query_term_intents_length query_term_intents_nth is_anchor_def) simp_all
  then show ?thesis by blast
qed

lemma anchor_from_number:
  assumes "ascii_tables env" "t \<in> set (split_whitespace q)" "all_digits t"
    and "technical_identifier_spans env q = []" "str_len q \<le> MAX_NORMALIZED_EXACT_BYTES"
  shows "\<exists>intent \<in> set (query_term_intents env q Kind_Identifier). is_anchor intent"
proof -
  have t: "t \<noteq> []" "str_len t \<le> MAX_NORMALIZED_EXACT_BYTES"
    using split_whitespace_token [OF assms(2)] str_len_token_le [OF assms(2)] assms(5) by auto
  have "t \<in> set (fallback_anchors env q Kind_Identifier)"
    using assms normalize_token_digits [OF assms(1,3) t]
    by (force simp: fallback_anchors_def List.map_filter_def fallback_anchor_token_def image_iff)
  moreover obtain i where "i < length (planned_query_terms env q)"
    "planned_query_terms env q ! i = (t, AnalyzedText)"
    by (metis planned_digits [OF assms] in_set_conv_nth)
  ultimately have "query_term_intents env q Kind_Identifier ! i \<in> set (query_term_intents env q Kind_Identifier)"
    "is_anchor (query_term_intents env q Kind_Identifier ! i)"
    using nth_mem [of i "query_term_intents env q Kind_Identifier"]
    by (simp_all only: query_term_intents_length query_term_intents_nth is_anchor_def) simp_all
  then show ?thesis by blast
qed

section \<open>Rendered controls\<close>

lemma next_token_append:
  assumes "\<forall>c \<in> set t. \<not> is_whitespace c"
  shows "next_token (t @ 32 # rest) = t" "after_token (t @ 32 # rest) = trim_start rest"
proof -
  have "is_whitespace 32" by (simp add: is_whitespace_def)
  then show "next_token (t @ 32 # rest) = t" "after_token (t @ 32 # rest) = trim_start rest"
    using assms by (simp_all add: next_token_def after_token_def trim_start_def takeWhile_append2 dropWhile_append2)
qed

lemma strip_prefix_append [simp]: "strip_prefix p (p @ v) = Some v"
  by (simp add: strip_prefix_def)

lemma field_as_str_props:
  "\<forall>c \<in> set (field_as_str f). \<not> is_whitespace c" "field_as_str f \<noteq> []"
  by (cases f; simp add: is_whitespace_def)+

lemma control_loop_scope:
  "control_loop (str ''in:'' @ field_as_str f @ 32 # rest) None em any
     = control_loop (trim_start rest) (Some f) em True"
proof -
  have "next_token ((str ''in:'' @ field_as_str f) @ 32 # rest) = str ''in:'' @ field_as_str f"
    "after_token ((str ''in:'' @ field_as_str f) @ 32 # rest) = trim_start rest"
    using field_as_str_props(1) [of f]
    by (intro next_token_append; auto simp: is_whitespace_def)+
  then show ?thesis
    by (subst control_loop.simps) (simp add: field_parse_as_str del: str_simps)
qed

lemma control_loop_emphasis:
  "control_loop (str ''>'' @ field_as_str e @ 32 # rest) sc None any
     = control_loop (trim_start rest) sc (Some e) True"
proof -
  have "next_token ((str ''>'' @ field_as_str e) @ 32 # rest) = str ''>'' @ field_as_str e"
    "after_token ((str ''>'' @ field_as_str e) @ 32 # rest) = trim_start rest"
    using field_as_str_props(1) [of e]
    by (intro next_token_append; auto simp: is_whitespace_def)+
  moreover have "strip_prefix (str ''in:'') (str ''>'' @ field_as_str e) = None"
    by (simp add: strip_prefix_def)
  ultimately show ?thesis
    by (subst control_loop.simps)
      (simp add: field_parse_as_str field_as_str_props(2) del: str_simps)
qed

lemma trim_start_id: "s \<noteq> [] \<Longrightarrow> \<not> is_whitespace (hd s) \<Longrightarrow> trim_start s = s"
  by (cases s) (simp_all add: trim_start_def)

lemma hd_next_token: "t \<noteq> [] \<Longrightarrow> \<not> is_whitespace (hd t) \<Longrightarrow> \<exists>u. next_token t = hd t # u"
  by (cases t) (simp_all add: next_token_def)

lemma control_loop_text:
  assumes "t \<noteq> []" "\<not> is_whitespace (hd t)" "\<not> has_explicit_syntax t" "hd t \<noteq> 62"
  shows "control_loop t sc em any = Ok (t, sc, em, any)"
proof -
  have "58 \<notin> set t" using assms(3) by (auto simp: has_explicit_syntax_def Let_def)
  then have "58 \<notin> set (next_token t)" by (auto simp: next_token_def dest: set_takeWhileD)
  then have "strip_prefix (str ''in:'') (next_token t) = None"
    using set_take_subset [of "length (str ''in:'')" "next_token t"]
    by (auto simp: strip_prefix_def simp del: str_simps) (simp add: str_def)
  moreover have "strip_prefix (str ''>'') (next_token t) = None"
    using hd_next_token [OF assms(1,2)] assms(4) by (auto simp: strip_prefix_def)
  ultimately show ?thesis by (subst control_loop.simps) simp
qed

section \<open>The shape of a prepared plan\<close>

lemma prepared_plan_canonical:
  assumes "prepare_lexical_query env q = Ok plan"
  shows "validate_plan env plan = Ok ()"
    and "length (term_intents plan) \<le> MAX_TERM_SUPPORT_PROBES"
    and "map ti_index (term_intents plan) = [0..<length (term_intents plan)]"
    and "map ti_text (term_intents plan) = terms plan"
    and "distinct (map (\<lambda>intent. (ti_text intent, ti_projection intent)) (term_intents plan))"
    and "\<forall>t \<in> set (terms plan). t \<noteq> [] \<and> str_len t \<le> MAX_NORMALIZED_EXACT_BYTES"
    and "\<forall>intent \<in> set (term_intents plan). ti_support intent = Support_Unknown"
    and "map pr_term (support_probes plan) = terms plan"
proof -
  obtain c where c: "parse_field_controls q = Ok c" "plan = prepared_plan env q c"
    "length (term_intents plan) \<le> MAX_TERM_SUPPORT_PROBES" "validate_plan env plan = Ok ()"
    using assms
    by (auto simp: prepare_lexical_query_def Let_def and_then_eq_Ok prepared_plan_probes_length
        split: if_splits)
  then show "validate_plan env plan = Ok ()" "length (term_intents plan) \<le> MAX_TERM_SUPPORT_PROBES"
    by simp_all
  let ?k = "classify_query env (pc_query_text c)"
  have intents: "term_intents plan = (if ?k = Kind_Explicit then []
      else query_term_intents env (pc_query_text c) ?k)"
    by (simp add: c(2) prepared_plan_def Let_def)
  show "map ti_text (term_intents plan) = terms plan" "map pr_term (support_probes plan) = terms plan"
    by (simp_all add: c(2) prepared_plan_def Let_def)
  then have ts: "terms plan = map ti_text (term_intents plan)" by simp
  show "\<forall>intent \<in> set (term_intents plan). ti_support intent = Support_Unknown"
    using intents query_term_intents_support by auto
  show "map ti_index (term_intents plan) = [0..<length (term_intents plan)]"
    using c(3) by (auto simp: intents query_term_intents_index query_term_intents_length
        MAX_TERM_SUPPORT_PROBES_def intro!: nth_equalityI split: if_splits)
  have planned: "?k \<noteq> Kind_Explicit \<Longrightarrow>
      map (\<lambda>intent. (ti_text intent, ti_projection intent)) (term_intents plan)
        = planned_query_terms env (pc_query_text c)"
    by (rule nth_equalityI) (simp_all add: intents query_term_intents_length query_term_intents_nth)
  show "distinct (map (\<lambda>intent. (ti_text intent, ti_projection intent)) (term_intents plan))"
  proof (cases "?k = Kind_Explicit")
    case True
    then show ?thesis by (simp add: intents)
  next
    case False
    then show ?thesis using planned [OF False] planned_query_terms_inv(1) by metis
  qed
  have "set (terms plan) \<subseteq> fst ` set (planned_query_terms env (pc_query_text c))"
    by (cases "?k = Kind_Explicit")
      (simp add: ts intents, simp add: ts planned [symmetric] image_image)
  then show "\<forall>t \<in> set (terms plan). t \<noteq> [] \<and> str_len t \<le> MAX_NORMALIZED_EXACT_BYTES"
    using planned_query_terms_inv(2) by fastforce
qed

text \<open>An ordinary query without technical identifiers is accepted; concrete prepared plans, for the witnesses.\<close>

lemma prepare_ordinary:
  assumes adm: "query_admissible q" and parse: "parse_field_controls q = Ok c"
    and k: "classify_query env (pc_query_text c) = Kind_Ordinary"
    and spans: "technical_identifier_spans env (pc_query_text c) = []"
    and len: "length (planned_query_terms env (pc_query_text c)) \<le> MAX_TERM_SUPPORT_PROBES"
  shows "prepare_lexical_query env q = Ok (prepared_plan env q c)"
proof -
  have intents: "term_intents (prepared_plan env q c) = query_term_intents env (pc_query_text c) Kind_Ordinary"
    and kind: "kind (prepared_plan env q c) = Kind_Ordinary"
    using k by (simp_all add: prepared_plan_def Let_def)
  have few: "length (term_intents (prepared_plan env q c)) \<le> MAX_TERM_SUPPORT_PROBES"
    using len by (simp add: intents query_term_intents_length)
  have "validate_plan env (prepared_plan env q c) = Ok ()"
    unfolding validate_prepared_plan [OF adm parse few] intents kind
    using ordinary_intents(3) [OF spans] by simp
  then show ?thesis
    using adm few query_admissible_take [OF adm]
    by (simp add: prepare_lexical_query_def query_admissible_def parse Let_def prepared_plan_probes_length)
qed

lemma sample_prepared:
  "prepare_lexical_query (ascii_env (\<lambda>_. [])) (str ''rust query'') =
     Ok (prepared_plan (ascii_env (\<lambda>_. [])) (str ''rust query'')
       \<lparr>pc_query_text = str ''rust query'', pc_scope = None, pc_emphasis = None\<rparr>)"
  by (rule prepare_ordinary) code_simp+

section \<open>Properties\<close>

text \<open>
  C6. A query that passes the three entry guards and whose field controls parse is accepted,
  with exactly the plan the code builds, if and only if every exact-identifier term is recognised
  as a complete identifier again and an identifier query has at least one required anchor: no
  other check of the final \<open>plan.validate()\<close> can fail on a freshly prepared plan.
\<close>

theorem prepare_lexical_query_accepts:
  assumes "query_admissible q" "parse_field_controls q = Ok c"
    and "length (term_intents (prepared_plan env q c)) \<le> MAX_TERM_SUPPORT_PROBES"
  shows "prepare_lexical_query env q = Ok (prepared_plan env q c) \<longleftrightarrow>
    (\<forall>intent \<in> set (term_intents (prepared_plan env q c)). \<not> unrecognized_identifier env intent)
    \<and> (kind (prepared_plan env q c) = Kind_Identifier \<longrightarrow>
       (\<exists>intent \<in> set (term_intents (prepared_plan env q c)). is_anchor intent))"
proof -
  have "prepare_lexical_query env q = Ok (prepared_plan env q c)
      \<longleftrightarrow> validate_plan env (prepared_plan env q c) = Ok ()"
    using assms query_admissible_take [OF assms(1)]
    by (auto simp: prepare_lexical_query_def query_admissible_def Let_def and_then_eq_Ok
        prepared_plan_probes_length)
  then show ?thesis using validate_prepared_plan [OF assms] by simp
qed

theorem prepare_lexical_query_accepts_witness:
  "prepare_lexical_query (ascii_env (\<lambda>_. [])) (str ''rust query'') =
     Ok (prepared_plan (ascii_env (\<lambda>_. [])) (str ''rust query'')
       \<lparr>pc_query_text = str ''rust query'', pc_scope = None, pc_emphasis = None\<rparr>)"
proof -
  let ?e = "ascii_env (\<lambda>_. [])" and ?q = "str ''rust query''"
  let ?c = "\<lparr>pc_query_text = str ''rust query'', pc_scope = None, pc_emphasis = None\<rparr>"
  have "query_admissible ?q" by code_simp
  moreover have "parse_field_controls ?q = Ok ?c" by code_simp
  moreover have "length (term_intents (prepared_plan ?e ?q ?c)) \<le> MAX_TERM_SUPPORT_PROBES" by code_simp
  moreover have "\<forall>intent \<in> set (term_intents (prepared_plan ?e ?q ?c)). \<not> unrecognized_identifier ?e intent"
    by code_simp
  moreover have "kind (prepared_plan ?e ?q ?c) \<noteq> Kind_Identifier" by code_simp
  ultimately show ?thesis using prepare_lexical_query_accepts [of ?q ?c ?e] by blast
qed

text \<open>
  C5. Every plan that preparation returns is bounded and canonical: it passes validation, has at
  most 128 terms, no term repeats within its projection, the i-th intent carries index i, the
  i-th text and no support yet, every term is non-empty and at most 4096 bytes long, and there
  is one support probe per term.
\<close>

theorem prepare_lexical_query_plan:
  assumes "prepare_lexical_query env q = Ok plan"
  shows "validate_plan env plan = Ok ()
    \<and> length (term_intents plan) \<le> MAX_TERM_SUPPORT_PROBES
    \<and> map ti_index (term_intents plan) = [0..<length (term_intents plan)]
    \<and> map ti_text (term_intents plan) = terms plan
    \<and> distinct (map (\<lambda>intent. (ti_text intent, ti_projection intent)) (term_intents plan))
    \<and> (\<forall>t \<in> set (terms plan). t \<noteq> [] \<and> str_len t \<le> MAX_NORMALIZED_EXACT_BYTES)
    \<and> (\<forall>intent \<in> set (term_intents plan). ti_support intent = Support_Unknown)
    \<and> map pr_term (support_probes plan) = terms plan"
  by (intro conjI prepared_plan_canonical [OF assms])

theorem prepare_lexical_query_plan_witness:
  "let plan = prepared_plan (ascii_env (\<lambda>_. [])) (str ''rust query'')
       \<lparr>pc_query_text = str ''rust query'', pc_scope = None, pc_emphasis = None\<rparr>
   in terms plan = [str ''rust'', str ''query''] \<and> map ti_index (term_intents plan) = [0, 1]
      \<and> validate_plan (ascii_env (\<lambda>_. [])) plan = Ok ()"
proof -
  have "length (term_intents (prepared_plan (ascii_env (\<lambda>_. [])) (str ''rust query'')
      \<lparr>pc_query_text = str ''rust query'', pc_scope = None, pc_emphasis = None\<rparr>)) = 2"
    "[0..<2] = [0, 1 :: nat]" by code_simp+
  moreover have "terms (prepared_plan (ascii_env (\<lambda>_. [])) (str ''rust query'')
      \<lparr>pc_query_text = str ''rust query'', pc_scope = None, pc_emphasis = None\<rparr>)
    = [str ''rust'', str ''query'']" by code_simp
  ultimately show ?thesis
    unfolding Let_def using prepare_lexical_query_plan [OF sample_prepared] by metis
qed

text \<open>
  C7. An identifier query with a technical identifier or a number token and at most 128 planned terms
  is accepted exactly when each of its exact-identifier terms is recognised as a complete identifier
  again: its required anchor always exists, so the refusal for a missing anchor cannot occur.
\<close>

theorem prepare_identifier_accepts:
  assumes "ascii_tables env" "query_admissible q" "parse_field_controls q = Ok c"
    and "length (term_intents (prepared_plan env q c)) \<le> MAX_TERM_SUPPORT_PROBES"
    and "kind (prepared_plan env q c) = Kind_Identifier"
    and "technical_identifier_spans env (pc_query_text c) \<noteq> []
         \<or> (\<exists>token \<in> set (split_whitespace (pc_query_text c)). all_digits token)"
  shows "prepare_lexical_query env q = Ok (prepared_plan env q c) \<longleftrightarrow>
    (\<forall>intent \<in> set (term_intents (prepared_plan env q c)). \<not> unrecognized_identifier env intent)"
proof -
  have intents: "term_intents (prepared_plan env q c)
      = query_term_intents env (pc_query_text c) Kind_Identifier"
    using prepared_plan_intents_eq [of env q c] assms(5) by simp
  have "str_len (pc_query_text c) \<le> MAX_NORMALIZED_EXACT_BYTES"
    using prepared_text_admissible [OF assms(2,3)]
    by (simp add: invalid_query_shape_def MAX_QUERY_BYTES_def MAX_NORMALIZED_EXACT_BYTES_def)
  then have "\<exists>intent \<in> set (term_intents (prepared_plan env q c)). is_anchor intent"
    using assms(1,6) anchor_from_identifier [of env "pc_query_text c" Kind_Identifier]
      anchor_from_number [of env _ "pc_query_text c"]
    unfolding intents by blast
  then show ?thesis
    using prepared_plan_probes_length validate_prepared_plan [OF assms(2-4)] assms
      query_admissible_take [OF assms(2)]
    by (auto simp: prepare_lexical_query_def query_admissible_def Let_def and_then_eq_Ok)
qed

theorem prepare_identifier_accepts_witness:
  "is_ok (prepare_lexical_query (ascii_env (\<lambda>_. [])) (str ''IIA 2''))"
proof -
  let ?e = "ascii_env (\<lambda>_. [])" and ?q = "str ''IIA 2''"
  let ?c = "\<lparr>pc_query_text = str ''IIA 2'', pc_scope = None, pc_emphasis = None\<rparr>"
  have "query_admissible ?q" by code_simp
  moreover have "parse_field_controls ?q = Ok ?c" by code_simp
  moreover have "length (term_intents (prepared_plan ?e ?q ?c)) \<le> MAX_TERM_SUPPORT_PROBES" by code_simp
  moreover have "kind (prepared_plan ?e ?q ?c) = Kind_Identifier" by code_simp
  moreover have "\<forall>intent \<in> set (term_intents (prepared_plan ?e ?q ?c)). \<not> unrecognized_identifier ?e intent"
    by code_simp
  moreover have "\<exists>token \<in> set (split_whitespace (pc_query_text ?c)). all_digits token" by code_simp
  ultimately have "prepare_lexical_query ?e ?q = Ok (prepared_plan ?e ?q ?c)"
    using prepare_identifier_accepts [OF ascii_env_tables, of ?q ?c "\<lambda>_. []"] by blast
  then show ?thesis by simp
qed

text \<open>
  C26. The query \<open>n=5\<close> is refused as an invalid plan although it passes every documented query
  rule: the token mixes letters and digits, so the query counts as an identifier, but its anchor
  text \<open>n=5\<close> is none of the planned terms \<open>n\<close> and \<open>5\<close>.
\<close>

theorem prepare_rejects_mixed_token:
  assumes "ascii_tables env" "find_identifiers env (str ''n=5'') = []"
  shows "prepare_lexical_query env (str ''n=5'')
    = Err (invalid_plan ''identifier query must declare at least one required anchor'')"
proof -
  let ?q = "str ''n=5''"
  let ?c = "\<lparr>pc_query_text = ?q, pc_scope = None, pc_emphasis = None\<rparr>"
  have adm: "query_admissible ?q" by code_simp
  have parse: "parse_field_controls ?q = Ok ?c" by code_simp
  have alpha: "is_alphabetic env 110" "\<not> is_alphabetic env 61" "\<not> is_alphabetic env 53"
    "\<not> is_numeric env 110" "\<not> is_numeric env 61" "is_numeric env 53"
    using assms(1) by (simp_all add: ascii_tables_def ascii_class_defs)
  have spans: "technical_identifier_spans env ?q = []"
    using assms(2) by (simp add: technical_identifier_spans_def List.map_filter_def)
  have raw: "normalize_raw env s = Some s" if "s \<in> {[110, 61, 53], [110], [53]}" for s
    using normalize_raw_ascii_word [OF assms(1), of s] that
    by (auto simp: ascii_class_defs MAX_NORMALIZED_EXACT_BYTES_def)
  have planned: "planned_query_terms env ?q = [([110], AnalyzedText), ([53], AnalyzedText)]"
    by (simp add: planned_query_terms_def spans [simplified] push_analyzed_terms_def split_whitespace_single
        is_whitespace_def push_authored_def push_component_def push_term_def normalize_token_def
        trim_matches_def is_alphanumeric_def alpha raw)
  have k: "classify_query env ?q = Kind_Identifier"
    by (simp add: classify_query_def has_explicit_syntax_def Let_def split_whitespace_single
        is_whitespace_def starts_with_def trim_end_def is_identifier_like_def is_mixed_token_def
        technical_identifiers_eq_Nil spans [simplified] alpha is_ascii_digit_def)
  have anchors: "fallback_anchors env ?q Kind_Identifier = [[110, 61, 53]]"
    by (simp add: fallback_anchors_def split_whitespace_single is_whitespace_def List.map_filter_def
        fallback_anchor_token_def is_mixed_token_def alpha is_ascii_digit_def normalize_token_def
        trim_matches_def is_alphanumeric_def raw)
  have intents: "query_term_intents env ?q Kind_Identifier =
      [\<lparr>ti_index = 0, ti_text = [110], ti_role = OptionalContext, ti_projection = AnalyzedText,
        ti_support = Support_Unknown\<rparr>,
       \<lparr>ti_index = 1, ti_text = [53], ti_role = OptionalContext, ti_projection = AnalyzedText,
        ti_support = Support_Unknown\<rparr>]"
    by (simp add: query_term_intents_def planned [simplified] anchors [simplified])
  have "validate_intents env (prepared_plan env ?q ?c)
    = Err (invalid_plan ''identifier query must declare at least one required anchor'')"
    using k intents
    by (simp add: validate_intents_def prepared_plan_def Let_def bounds_v1_def query_constants
        unrecognized_identifier_def is_anchor_def)
  moreover have "kind (prepared_plan env ?q ?c) = Kind_Identifier"
    "length (support_probes (prepared_plan env ?q ?c)) = 2"
    using k intents by (simp_all add: prepared_plan_def Let_def)
  ultimately show ?thesis
    using adm query_admissible_take [OF adm]
    by (simp add: prepare_lexical_query_def query_admissible_def parse Let_def validate_plan_def
        prepared_plan_identity [OF adm parse] prepared_plan_controls [OF parse] prepared_plan_tables
        MAX_TERM_SUPPORT_PROBES_def del: str_simps)
qed

theorem prepare_rejects_mixed_token_witness:
  "prepare_lexical_query (ascii_env (\<lambda>_. [])) (str ''n=5'')
    = Err (invalid_plan ''identifier query must declare at least one required anchor'')"
  by (rule prepare_rejects_mixed_token [OF ascii_env_tables]) (simp add: ascii_env_def)

text \<open>
  C8. Field controls round trip: a rendered scope and emphasis in front of plain text parse back
  to exactly that scope, emphasis and text, and are refused exactly when the emphasised field
  lies outside the scope.
\<close>

theorem parse_field_controls_roundtrip:
  assumes "t \<noteq> []" "\<not> is_whitespace (hd t)" "\<not> has_explicit_syntax t" "hd t \<noteq> 62"
  shows "parse_field_controls (str ''in:'' @ field_as_str f @ 32 # str ''>'' @ field_as_str e @ 32 # t)
    = (if field_contains f e
       then Ok \<lparr>pc_query_text = t, pc_scope = Some f, pc_emphasis = Some e\<rparr>
       else Err (invalid_control ''emphasized field must belong to the selected field scope''))"
proof -
  let ?em = "str ''>'' @ field_as_str e @ 32 # t"
  have "trim_start (str ''in:'' @ field_as_str f @ 32 # ?em) = str ''in:'' @ field_as_str f @ 32 # ?em"
    "trim_start ?em = ?em"
    by (intro trim_start_id; simp add: is_whitespace_def)+
  then show ?thesis
    unfolding parse_field_controls_def
    using assms
    by (simp add: control_loop_scope control_loop_emphasis trim_start_id control_loop_text
        del: str_simps)
qed

theorem parse_field_controls_roundtrip_witness:
  "parse_field_controls (str ''in:name >title design notes'')
    = Ok \<lparr>pc_query_text = str ''design notes'', pc_scope = Some P_Name, pc_emphasis = Some P_Title\<rparr>"
proof -
  have "\<not> has_explicit_syntax (str ''design notes'')" by code_simp
  then have "parse_field_controls (str ''in:'' @ field_as_str P_Name @ 32 # str ''>''
        @ field_as_str P_Title @ 32 # str ''design notes'')
      = Ok \<lparr>pc_query_text = str ''design notes'', pc_scope = Some P_Name, pc_emphasis = Some P_Title\<rparr>"
    using parse_field_controls_roundtrip [of "str ''design notes''" P_Name P_Title]
    by (simp add: is_whitespace_def field_contains_def)
  then show ?thesis by simp
qed

end
