(* ===== verification/Query_Evidence.thy ===== *)
theory Query_Evidence
  imports Query_Prepare
begin

text \<open>
  What \<open>finalize_evidence\<close> guarantees.  The stages it builds are exactly the ones the stage
  validator accepts, so the \<open>self.validate()?\<close> at its end never fails: construction and
  validation of the evidence ladder cannot disagree.
\<close>

section \<open>Canonical intents\<close>

definition canonical_intents :: "QueryTermIntent list \<Rightarrow> bool" where
  "canonical_intents intents \<longleftrightarrow> map ti_index intents = [0..<length intents] \<and> length intents \<le> 128"

lemma canonical_nth: "canonical_intents intents \<Longrightarrow> i < length intents \<Longrightarrow> ti_index (intents ! i) = i"
  by (metis add_0 canonical_intents_def nth_map nth_upt)

lemma canonical_index_set: "canonical_intents intents \<Longrightarrow> ti_index ` set intents = {0..<length intents}"
  by (metis canonical_intents_def set_map set_upt)

lemma canonical_index_nth:
  assumes "canonical_intents intents" "intent \<in> set intents"
  shows "ti_index intent < length intents \<and> intents ! ti_index intent = intent"
  using assms by (auto simp: in_set_conv_nth canonical_nth)

lemma canonical_index_eq:
  "canonical_intents intents \<Longrightarrow> a \<in> set intents \<Longrightarrow> b \<in> set intents \<Longrightarrow> ti_index a = ti_index b \<Longrightarrow> a = b"
  using canonical_index_nth by metis

lemma canonical_sorted: "canonical_intents intents \<Longrightarrow> sorted_wrt (<) (map ti_index intents)"
  by (simp add: canonical_intents_def del: upt_Suc)

lemma canonical_filter_sorted:
  "canonical_intents intents \<Longrightarrow> sorted_wrt (<) (map ti_index (filter P intents))"
  by (intro strict_sorted_filter_map canonical_sorted)

lemma canonical_length_filter:
  "canonical_intents intents \<Longrightarrow> length (filter P intents) \<le> 128"
  by (metis canonical_intents_def length_filter_le order_trans)

lemma bounds_v1_simps [simp]:
  "max_partial_coverage_terms bounds_v1 = 128" "max_evidence_stages bounds_v1 = 6"
  "max_candidates_per_stage bounds_v1 = 256" "max_prefix_terms bounds_v1 = 8"
  "max_term_support_probes bounds_v1 = 128" "min_prefix_chars bounds_v1 = 3"
  "max_prefix_expansions_per_term bounds_v1 = 16"
  by (simp_all add: bounds_v1_def query_constants)

lemma relaxed_term_indexes_canonical:
  "canonical_intents intents \<Longrightarrow> relaxed_term_indexes intents bounds_v1
     = map ti_index (filter (\<lambda>intent. is_anchor intent \<or> ti_support intent = Useful) intents)"
  using canonical_length_filter by (simp add: relaxed_term_indexes_def)

section \<open>Partial coverage\<close>

lemma if_None_eq_Some: "(if c then None else r) = Some x \<longleftrightarrow> \<not> c \<and> r = Some x"
  by simp

lemma sorted_disjoint_lengths:
  assumes "sorted_wrt (<) xs" "sorted_wrt (<) ys" "set xs \<inter> set ys = {}" "set xs \<union> set ys \<subseteq> {0..<n :: nat}"
  shows "length xs + length ys \<le> n"
proof -
  have "distinct xs" "distinct ys" using assms(1,2) by (simp_all add: strict_sorted_iff)
  then have "length xs + length ys = card (set xs \<union> set ys)"
    using assms(3) by (simp add: card_Un_disjoint distinct_card)
  also have "\<dots> \<le> card {0..<n}" using assms(4) by (intro card_mono) simp_all
  finally show ?thesis by simp
qed

definition partial_stage_sound :: "QueryTermIntent list \<Rightarrow> PartialCoverageStage \<Rightarrow> bool" where
  "partial_stage_sound intents p \<longleftrightarrow>
     sorted_wrt (<) (pcs_required p) \<and> sorted_wrt (<) (pcs_prefix p)
     \<and> set (pcs_required p) \<inter> set (pcs_prefix p) = {}
     \<and> set (pcs_required p) \<union> set (pcs_prefix p) \<subseteq> ti_index ` set intents
     \<and> (pcs_required p \<noteq> [] \<or> pcs_prefix p \<noteq> [])
     \<and> (pcs_minimum_optional p = 0 \<longrightarrow> pcs_required p \<noteq> map ti_index intents)
     \<and> length (pcs_required p) + length (pcs_prefix p) \<le> 128
     \<and> ti_index ` {intent \<in> set intents. is_anchor intent} \<subseteq> set (pcs_required p)
     \<and> (\<forall>intent \<in> set intents. ti_index intent \<in> set (pcs_required p) \<union> set (pcs_prefix p) \<longrightarrow>
          is_anchor intent \<or> ti_support intent = Useful)"

lemma partial_coverage_supplemental:
  assumes canon: "canonical_intents intents"
    and uns: "\<exists>intent \<in> set intents. ti_role intent = OptionalContext \<and> ti_support intent = Unsupported"
    and some: "partial_coverage_stage intents bounds_v1 pfx = Some p"
  shows "partial_stage_sound intents p"
proof -
  let ?relaxed = "map ti_index (filter (\<lambda>intent. is_anchor intent \<or> ti_support intent = Useful) intents)"
  have p: "p = \<lparr>pcs_condition = Always, pcs_required = ?relaxed, pcs_prefix = [], pcs_minimum_optional = 0\<rparr>"
    and ne: "?relaxed \<noteq> []" "?relaxed \<noteq> map ti_index intents"
    using some unfolding partial_coverage_stage_def Let_def if_P [OF uns]
    by (simp_all add: relaxed_term_indexes_canonical [OF canon] split: if_splits)
  show ?thesis
    using ne canonical_filter_sorted [OF canon] canonical_length_filter [OF canon]
      canonical_index_eq [OF canon]
    by (auto simp: partial_stage_sound_def p)
qed

lemma exploratory_soundI:
  assumes "sorted_wrt (<) req" "sorted_wrt (<) q" "set req \<inter> set q = {}"
    and "set req \<union> set q \<subseteq> ti_index ` set intents" "req \<noteq> [] \<or> q \<noteq> []"
    and "length req + length q \<le> 128"
    and "ti_index ` {intent \<in> set intents. is_anchor intent} \<subseteq> set req"
    and "\<forall>intent \<in> set intents. ti_index intent \<in> set req \<union> set q \<longrightarrow>
          is_anchor intent \<or> ti_support intent = Useful"
  shows "partial_stage_sound intents \<lparr>pcs_condition = IfFewerThanMinimumStandardSources,
    pcs_required = req, pcs_prefix = q, pcs_minimum_optional = 1\<rparr>"
  using assms by (simp add: partial_stage_sound_def)

lemma partial_coverage_exploratory:
  assumes canon: "canonical_intents intents"
    and uns: "\<not> (\<exists>intent \<in> set intents. ti_role intent = OptionalContext \<and> ti_support intent = Unsupported)"
    and some: "partial_coverage_stage intents bounds_v1 pfx = Some p"
  shows "partial_stage_sound intents p"
proof -
  let ?opt = "map ti_index (filter (\<lambda>intent. ti_role intent = OptionalContext \<and> ti_support intent = Useful) intents)"
  let ?inc = "set (take (128 - length (filter is_anchor intents)) ?opt)"
  let ?pfx = "sorted_list_of_set (set (filter (\<lambda>i. i \<in> ?inc) pfx))"
  let ?req = "map ti_index (filter (\<lambda>intent. is_anchor intent
                  \<or> (ti_index intent \<in> ?inc \<and> ti_index intent \<notin> set ?pfx)) intents)"
  have p: "p = \<lparr>pcs_condition = IfFewerThanMinimumStandardSources, pcs_required = ?req, pcs_prefix = ?pfx,
                pcs_minimum_optional = 1\<rparr>"
    and ne: "?req \<noteq> [] \<or> ?pfx \<noteq> []"
    using some unfolding partial_coverage_stage_def Let_def if_not_P [OF uns] if_None_eq_Some
    by simp_all
  have inc: "i \<in> ?inc \<Longrightarrow> \<exists>intent \<in> set intents. ti_index intent = i
      \<and> \<not> is_anchor intent \<and> ti_support intent = Useful" for i
    by (force dest!: in_set_takeD simp: is_anchor_def)
  have pset: "set ?pfx \<subseteq> ?inc" by auto
  have "?inc \<subseteq> ti_index ` set intents" using inc by blast
  moreover have "set ?req \<subseteq> ti_index ` set intents" unfolding set_map set_filter by blast
  ultimately have sub: "set ?req \<union> set ?pfx \<subseteq> ti_index ` set intents"
    using pset by (meson Un_least subset_trans)
  have disj: "set ?req \<inter> set ?pfx = {}"
  proof -
    have "ti_index intent \<notin> ?inc" if "intent \<in> set intents" "is_anchor intent" for intent
    proof
      assume "ti_index intent \<in> ?inc"
      then obtain b where "b \<in> set intents" "ti_index b = ti_index intent" "\<not> is_anchor b"
        using inc by blast
      then show False using canonical_index_eq [OF canon that(1)] that(2) by metis
    qed
    then show ?thesis using pset by auto
  qed
  have srt: "sorted_wrt (<) ?req" "sorted_wrt (<) ?pfx"
    using canonical_filter_sorted [OF canon] by simp_all
  have "set ?req \<union> set ?pfx \<subseteq> {0..<length intents}"
    using sub canonical_index_set [OF canon] by metis
  then have "length ?req + length ?pfx \<le> length intents"
    by (rule sorted_disjoint_lengths [OF srt disj])
  also have "\<dots> \<le> 128" using canon by (simp add: canonical_intents_def)
  finally have len: "length ?req + length ?pfx \<le> 128" .
  have useful: "is_anchor intent \<or> ti_support intent = Useful"
    if "intent \<in> set intents" "ti_index intent \<in> set ?req \<union> set ?pfx" for intent
  proof -
    have "\<exists>b \<in> set intents. ti_index b = ti_index intent \<and> (is_anchor b \<or> ti_index b \<in> ?inc)"
    proof (cases "ti_index intent \<in> set ?req")
      case True
      then obtain b where "b \<in> set intents" "is_anchor b \<or> ti_index b \<in> ?inc" "ti_index intent = ti_index b"
        unfolding set_map set_filter by (elim imageE CollectE conjE) blast
      then show ?thesis by auto
    next
      case False
      then have "ti_index intent \<in> ?inc" using that(2) pset by blast
      then show ?thesis using that(1) by blast
    qed
    then obtain b where b: "b \<in> set intents" "ti_index b = ti_index intent"
      "is_anchor b \<or> ti_index b \<in> ?inc" by blast
    have "b = intent" using canonical_index_eq [OF canon b(1) that(1) b(2)] .
    show ?thesis
    proof (cases "is_anchor b")
      case True
      then show ?thesis using \<open>b = intent\<close> by simp
    next
      case False
      then obtain d where d: "d \<in> set intents" "ti_index d = ti_index intent" "ti_support d = Useful"
        using inc b(2,3) by (metis (no_types))
      then show ?thesis using canonical_index_eq [OF canon d(1) that(1) d(2)] by simp
    qed
  qed
  have anchors: "ti_index ` {intent \<in> set intents. is_anchor intent} \<subseteq> set ?req" by auto
  show ?thesis
    unfolding p by (rule exploratory_soundI [OF srt disj sub ne len anchors]) (use useful in blast)
qed

lemma partial_coverage_sound:
  assumes "canonical_intents intents" "partial_coverage_stage intents bounds_v1 pfx = Some p"
  shows "partial_stage_sound intents p"
  using assms partial_coverage_supplemental partial_coverage_exploratory by blast

section \<open>Stage bodies\<close>

text \<open>Everything \<open>validate_stages\<close> checks of one stage beside its place in the ladder.\<close>

definition stage_body_ok :: "LexicalQueryPlan \<Rightarrow> PartialCoverageStage option \<Rightarrow> QueryEvidenceStage \<Rightarrow> bool" where
  "stage_body_ok plan partial stage \<longleftrightarrow>
     0 < st_max_candidates stage \<and> st_max_candidates stage \<le> max_candidates_per_stage (bounds plan)
     \<and> st_condition stage = (if st_kind stage = PartialCoverage
          then (case partial of None \<Rightarrow> Always | Some p \<Rightarrow> pcs_condition p) else Always)
     \<and> (st_kind stage = PartialCoverage \<or> st_minimum_optional stage = 0)
     \<and> set (st_required stage) \<union> set (st_prefix stage) \<subseteq> ti_index ` set (term_intents plan)
     \<and> sorted_wrt (<) (st_required stage) \<and> sorted_wrt (<) (st_prefix stage)
     \<and> set (st_required stage) \<inter> set (st_prefix stage) = {}
     \<and> validate_stage_shape plan partial stage = Ok ()"

lemma validate_stage_iff:
  "validate_stage plan partial ordinal previous stage = Ok () \<longleftrightarrow>
     st_ordinal stage = as_u8 ordinal \<and> (\<forall>k. previous = Some k \<longrightarrow> k < st_kind stage)
     \<and> stage_body_ok plan partial stage"
  unfolding validate_stage_def stage_body_ok_def windows2_all_less
  unfolding is_ok_if_Err by (cases previous) (simp_all only: option.case de_Morgan_disj not_not, auto)

lemma validate_stage_list_append:
  "validate_stage_list plan partial n prev (xs @ [stage]) = Ok () \<longleftrightarrow>
     validate_stage_list plan partial n prev xs = Ok ()
     \<and> validate_stage plan partial (n + length xs)
         (if xs = [] then prev else Some (st_kind (last xs))) stage = Ok ()"
  by (induction xs arbitrary: n prev) (auto simp: and_then_eq_Ok)

definition ladder_ok ::
  "LexicalQueryPlan \<Rightarrow> PartialCoverageStage option \<Rightarrow> QueryEvidenceStageKind \<Rightarrow> QueryEvidenceStage list \<Rightarrow> bool" where
  "ladder_ok plan partial below stages \<longleftrightarrow>
     validate_stage_list plan partial 0 None stages = Ok () \<and> length stages \<le> stage_kind_rank below
     \<and> (\<forall>stage \<in> set stages. st_kind stage < below)"

lemma ladder_ok_Nil: "ladder_ok plan partial below []"
  by (simp add: ladder_ok_def)

lemma ladder_ok_weaken:
  "ladder_ok plan partial a stages \<Longrightarrow> a \<le> b \<Longrightarrow> ladder_ok plan partial b stages"
  by (auto simp: ladder_ok_def stage_kind_order intro: less_le_trans)

lemma stage_kind_rank_bound: "stage_kind_rank k \<le> 5"
  by (cases k) simp_all

lemma ladder_push_valid:
  assumes "ladder_ok plan partial k stages"
    and "stage_body_ok plan partial \<lparr>st_ordinal = as_u8 (length stages), st_kind = k,
      st_condition = cond, st_field_group = grp, st_required = req, st_prefix = pfx,
      st_max_candidates = maxc, st_minimum_optional = minimum\<rparr>"
  shows "validate_stage_list plan partial 0 None
      (push_stage_with_condition k cond grp req pfx maxc minimum stages) = Ok ()"
proof -
  have "stages \<noteq> [] \<Longrightarrow> st_kind (last stages) < k"
    using assms(1) by (simp add: ladder_ok_def)
  then show ?thesis
    using assms
    by (simp add: ladder_ok_def push_stage_with_condition_def validate_stage_list_append validate_stage_iff)
qed

lemma ladder_ok_push:
  assumes "ladder_ok plan partial k stages" "k < nxt"
    and "stage_body_ok plan partial \<lparr>st_ordinal = as_u8 (length stages), st_kind = k,
      st_condition = cond, st_field_group = grp, st_required = req, st_prefix = pfx,
      st_max_candidates = maxc, st_minimum_optional = minimum\<rparr>"
  shows "ladder_ok plan partial nxt (push_stage_with_condition k cond grp req pfx maxc minimum stages)"
  using assms ladder_push_valid [OF assms(1,3)]
  by (auto simp: ladder_ok_def push_stage_with_condition_def stage_kind_order)

section \<open>The built ladder validates\<close>

definition ladder_ready :: "LexicalQueryPlan \<Rightarrow> nat list \<Rightarrow> bool" where
  "ladder_ready plan pfx \<longleftrightarrow> bounds plan = bounds_v1 \<and> canonical_intents (term_intents plan)
     \<and> sorted_wrt (<) pfx \<and> length pfx \<le> 8
     \<and> (\<forall>i \<in> set pfx. i < length (term_intents plan) \<and> ti_role (term_intents plan ! i) = OptionalContext)"

definition with_stages :: "LexicalQueryPlan \<Rightarrow> nat list \<Rightarrow> LexicalQueryPlan" where
  "with_stages plan pfx = plan\<lparr>evidence_stages := build_stages plan pfx, execution := Ready\<rparr>"

lemma with_stages_simps [simp]:
  "bounds (with_stages plan pfx) = bounds plan" "term_intents (with_stages plan pfx) = term_intents plan"
  "exact_intent (with_stages plan pfx) = exact_intent plan"
  "phrase_intent (with_stages plan pfx) = phrase_intent plan"
  "field_groups (with_stages plan pfx) = field_groups plan"
  "evidence_stages (with_stages plan pfx) = build_stages plan pfx"
  by (simp_all add: with_stages_def)

lemmas push_defs = push_stage_def push_stage_with_condition_def

lemma build_stages_kinds:
  "map st_kind (build_stages plan pfx) =
     (if exact_intent plan \<noteq> None then [ExactMetadata] else [])
     @ (if phrase_intent plan \<noteq> None then [ExactPhrase] else [])
     @ (if pfx \<noteq> [] \<and> prefix_metadata (field_groups plan) \<noteq> [] then [PrefixMetadata] else [])
     @ [AllTerms]
     @ (if pfx \<noteq> [] then [Prefix] else [])
     @ (if partial_coverage_stage (term_intents plan) (bounds plan) pfx \<noteq> None then [PartialCoverage] else [])"
  by (simp add: build_stages_def push_defs Let_def split: option.split)

lemma build_stages_prefix: "canonical_prefix_indexes (with_stages plan pfx) = pfx"
  by (simp add: canonical_prefix_indexes_def build_stages_def push_defs Let_def split: option.split)

lemma build_stages_has_prefix_metadata:
  "(\<exists>stage \<in> set (build_stages plan pfx). st_kind stage = PrefixMetadata) \<longleftrightarrow>
     pfx \<noteq> [] \<and> prefix_metadata (field_groups plan) \<noteq> []"
proof -
  have "(\<exists>stage \<in> set (build_stages plan pfx). st_kind stage = PrefixMetadata)
      \<longleftrightarrow> PrefixMetadata \<in> set (map st_kind (build_stages plan pfx))"
    by force
  then show ?thesis by (simp add: build_stages_kinds)
qed

lemma relaxed_sorted:
  "canonical_intents intents \<Longrightarrow> sorted_wrt (<) (relaxed_term_indexes intents bounds_v1)"
  by (simp only: relaxed_term_indexes_canonical canonical_filter_sorted)

lemma prefix_required_facts:
  assumes "ladder_ready plan pfx"
  defines "req \<equiv> prefix_stage_required_indexes (relaxed_term_indexes (term_intents plan) bounds_v1) pfx"
  shows "sorted_wrt (<) req" "set req \<subseteq> ti_index ` set (term_intents plan)" "set req \<inter> set pfx = {}"
    and "\<forall>anchor \<in> set (anchor_indexes plan). anchor \<in> set req"
proof -
  have canon: "canonical_intents (term_intents plan)" using assms(1) by (simp add: ladder_ready_def)
  show "sorted_wrt (<) req"
    by (simp add: req_def prefix_stage_required_indexes_def sorted_wrt_filter relaxed_sorted [OF canon])
  show "set req \<subseteq> ti_index ` set (term_intents plan)" "set req \<inter> set pfx = {}"
    by (auto simp: req_def prefix_stage_required_indexes_def relaxed_term_indexes_canonical [OF canon])
  show "\<forall>anchor \<in> set (anchor_indexes plan). anchor \<in> set req"
  proof
    fix a assume "a \<in> set (anchor_indexes plan)"
    then obtain intent where i: "intent \<in> set (term_intents plan)" "is_anchor intent" "a = ti_index intent"
      by (auto simp: anchor_indexes_def)
    then have "a \<notin> set pfx"
      using canonical_index_nth [OF canon i(1)] assms(1) by (auto simp: ladder_ready_def is_anchor_def)
    then show "a \<in> set req"
      using i by (auto simp: req_def prefix_stage_required_indexes_def relaxed_term_indexes_canonical [OF canon])
  qed
qed

lemma prefix_subset: "ladder_ready plan pfx \<Longrightarrow> set pfx \<subseteq> ti_index ` set (term_intents plan)"
  by (auto simp: ladder_ready_def canonical_index_set)

lemma anchor_indexes_with_stages: "anchor_indexes (with_stages plan pfx) = anchor_indexes plan"
  by (simp add: anchor_indexes_def)

lemma prefix_stage_body:
  assumes "ladder_ready plan pfx" "pfx \<noteq> []" "k = PrefixMetadata \<and> g = G_PrefixMetadata \<or> k = Prefix \<and> g = G_Prefix"
  shows "stage_body_ok (with_stages plan pfx) partial
    \<lparr>st_ordinal = n, st_kind = k, st_condition = Always, st_field_group = g,
     st_required = prefix_stage_required_indexes (relaxed_term_indexes (term_intents plan) bounds_v1) pfx,
     st_prefix = pfx, st_max_candidates = 256, st_minimum_optional = 0\<rparr>"
  using assms(2,3) prefix_required_facts [OF assms(1)] prefix_subset [OF assms(1)] assms(1)
  by (auto simp: stage_body_ok_def validate_stage_shape_def Let_def build_stages_prefix ladder_ready_def
      anchor_indexes_with_stages)

lemma all_terms_stage_body:
  assumes "ladder_ready plan pfx"
  shows "stage_body_ok (with_stages plan pfx) partial
    \<lparr>st_ordinal = n, st_kind = AllTerms, st_condition = Always, st_field_group = G_SearchableText,
     st_required = map ti_index (term_intents plan), st_prefix = [], st_max_candidates = 256,
     st_minimum_optional = 0\<rparr>"
  using assms canonical_sorted
  by (auto simp: stage_body_ok_def validate_stage_shape_def ladder_ready_def)

lemma exact_stage_bodies:
  assumes "ladder_ready plan pfx"
  shows "exact_intent plan \<noteq> None \<Longrightarrow> stage_body_ok (with_stages plan pfx) partial
      \<lparr>st_ordinal = n, st_kind = ExactMetadata, st_condition = Always, st_field_group = G_Exact,
       st_required = [], st_prefix = [], st_max_candidates = 256, st_minimum_optional = 0\<rparr>"
    and "phrase_intent plan \<noteq> None \<Longrightarrow> stage_body_ok (with_stages plan pfx) partial
      \<lparr>st_ordinal = n, st_kind = ExactPhrase, st_condition = Always, st_field_group = G_Phrase,
       st_required = [], st_prefix = [], st_max_candidates = 256, st_minimum_optional = 0\<rparr>"
  using assms by (auto simp: stage_body_ok_def validate_stage_shape_def ladder_ready_def)

lemma partial_stage_body:
  assumes "ladder_ready plan pfx"
    and "partial_coverage_stage (term_intents plan) bounds_v1 pfx = Some p"
  shows "stage_body_ok (with_stages plan pfx) (Some p)
    \<lparr>st_ordinal = n, st_kind = PartialCoverage, st_condition = pcs_condition p,
     st_field_group = G_SearchableText, st_required = pcs_required p, st_prefix = pcs_prefix p,
     st_max_candidates = 256, st_minimum_optional = pcs_minimum_optional p\<rparr>"
proof -
  have "partial_stage_sound (term_intents plan) p"
    using assms partial_coverage_sound by (auto simp: ladder_ready_def)
  then show ?thesis
    using assms(1)
    by (auto simp: stage_body_ok_def validate_stage_shape_def ladder_ready_def partial_stage_sound_def
        anchor_indexes_def)
qed

lemma build_stages_valid:
  assumes ready: "ladder_ready plan pfx"
  defines "partial \<equiv> partial_coverage_stage (term_intents plan) bounds_v1 pfx"
  shows "validate_stage_list (with_stages plan pfx) partial 0 None (build_stages plan pfx) = Ok ()"
proof -
  let ?P = "with_stages plan pfx"
  have maxc: "max_candidates_per_stage (bounds plan) = 256" and bnds: "bounds plan = bounds_v1"
    using ready by (simp_all add: ladder_ready_def)
  let ?req = "prefix_stage_required_indexes (relaxed_term_indexes (term_intents plan) bounds_v1) pfx"
  define s1 where "s1 = (if exact_intent plan \<noteq> None then push_stage ExactMetadata G_Exact [] [] 256 [] else [])"
  define s2 where "s2 = (if phrase_intent plan \<noteq> None then push_stage ExactPhrase G_Phrase [] [] 256 s1 else s1)"
  define s3 where "s3 = (if pfx \<noteq> [] \<and> prefix_metadata (field_groups plan) \<noteq> []
    then push_stage PrefixMetadata G_PrefixMetadata ?req pfx 256 s2 else s2)"
  define s4 where "s4 = push_stage AllTerms G_SearchableText (map ti_index (term_intents plan)) [] 256 s3"
  define s5 where "s5 = (if pfx \<noteq> [] then push_stage Prefix G_Prefix ?req pfx 256 s4 else s4)"
  have build: "build_stages plan pfx = (case partial of None \<Rightarrow> s5
      | Some p \<Rightarrow> push_stage_with_condition PartialCoverage (pcs_condition p) G_SearchableText
                    (pcs_required p) (pcs_prefix p) 256 (pcs_minimum_optional p) s5)"
    unfolding build_stages_def Let_def maxc s1_def s2_def s3_def s4_def s5_def partial_def
    unfolding bnds bounds_v1_simps by simp
  have l1: "ladder_ok ?P partial ExactPhrase s1"
    unfolding s1_def push_stage_def
    using exact_stage_bodies(1) [OF ready] by (auto intro!: ladder_ok_push ladder_ok_Nil simp: stage_kind_order)
  have l2: "ladder_ok ?P partial PrefixMetadata s2"
    unfolding s2_def push_stage_def
    using exact_stage_bodies(2) [OF ready] l1 ladder_ok_weaken [OF l1]
    by (auto intro!: ladder_ok_push simp: stage_kind_order)
  have l3: "ladder_ok ?P partial AllTerms s3"
    unfolding s3_def push_stage_def
    using prefix_stage_body [OF ready] l2 ladder_ok_weaken [OF l2]
    by (auto intro!: ladder_ok_push simp: stage_kind_order)
  have l4: "ladder_ok ?P partial Prefix s4"
    unfolding s4_def push_stage_def
    using all_terms_stage_body [OF ready] l3 by (auto intro!: ladder_ok_push simp: stage_kind_order)
  have l5: "ladder_ok ?P partial PartialCoverage s5"
    unfolding s5_def push_stage_def
    using prefix_stage_body [OF ready] l4 ladder_ok_weaken [OF l4]
    by (auto intro!: ladder_ok_push simp: stage_kind_order)
  show ?thesis
  proof (cases partial)
    case None
    then show ?thesis using l5 by (simp add: build ladder_ok_def)
  next
    case (Some p)
    then show ?thesis
      using ladder_push_valid [OF l5] partial_stage_body [OF ready, of p] by (simp add: build partial_def)
  qed
qed

lemma build_stages_length: "length (build_stages plan pfx) \<le> 6"
proof -
  have "length (build_stages plan pfx) = length (map st_kind (build_stages plan pfx))" by simp
  also have "\<dots> \<le> 6" unfolding build_stages_kinds by simp
  finally show ?thesis .
qed

lemma validate_stages_build:
  assumes "ladder_ready plan pfx"
  shows "validate_stages (with_stages plan pfx) = Ok ()"
proof -
  have b: "bounds plan = bounds_v1" using assms by (simp add: ladder_ready_def)
  have "map st_kind (build_stages plan pfx) = expected_stage_kinds (with_stages plan pfx)"
    unfolding expected_stage_kinds_def build_stages_prefix build_stages_kinds
    by (simp add: build_stages_has_prefix_metadata)
  then show ?thesis
    using build_stages_valid [OF assms] build_stages_length [of plan pfx]
    by (simp add: validate_stages_def Let_def build_stages_prefix build_stages_has_prefix_metadata b)
qed

end
