(* ===== verification/Query_Finalize.thy ===== *)
theory Query_Finalize
  imports Query_Evidence
begin

text \<open>
  The life of a query plan after preparation: what \<open>validate\<close> establishes of an assisted plan,
  how promotion and observed support change the term intents, and the properties of
  \<open>finalize_evidence\<close> (\<open>daemon/crates/kwiry-core/src/query.rs\<close>).
\<close>

section \<open>What validation establishes\<close>

definition plan_core :: "text_env \<Rightarrow> LexicalQueryPlan \<Rightarrow> bool" where
  "plan_core env plan \<longleftrightarrow> validate_identity plan = Ok () \<and> validate_controls plan = Ok ()
     \<and> validate_tables plan = Ok () \<and> validate_intents env plan = Ok ()"

lemma validate_plan_assisted:
  "kind plan \<noteq> Kind_Explicit \<Longrightarrow>
   validate_plan env plan = Ok () \<longleftrightarrow> plan_core env plan \<and> validate_execution plan = Ok ()"
  by (auto simp: validate_plan_def plan_core_def and_then_eq_Ok)

lemma validate_term_intents_iff:
  "length ts = length intents \<Longrightarrow> validate_term_intents env n ts intents = Ok () \<longleftrightarrow>
     map ti_index intents = map as_u16 [n..<n + length intents] \<and> map ti_text intents = ts
     \<and> (\<forall>intent \<in> set intents. \<not> unrecognized_identifier env intent)"
proof (induction ts intents arbitrary: n rule: list_induct2)
  case (Cons t ts intent intents)
  have "[n..<n + length (intent # intents)] = n # [Suc n..<Suc n + length intents]"
    by (simp add: upt_rec)
  then show ?case using Cons by auto
qed simp

definition intents_valid :: "text_env \<Rightarrow> QueryPlanKind \<Rightarrow> rstring list \<Rightarrow> QueryTermIntent list \<Rightarrow> bool" where
  "intents_valid env k ts intents \<longleftrightarrow> canonical_intents intents \<and> map ti_text intents = ts
     \<and> (\<forall>intent \<in> set intents. \<not> unrecognized_identifier env intent)
     \<and> (k = Kind_Identifier \<longrightarrow> (\<exists>intent \<in> set intents. is_anchor intent))"

lemma as_u16_upt: "n \<le> 128 \<Longrightarrow> map as_u16 [0..<n] = [0..<n]"
  by (rule map_idI) (simp add: as_u16_def)

lemma canonical_intents_as_u16:
  "length intents \<le> 128 \<Longrightarrow>
   map ti_index intents = map as_u16 [0..<0 + length intents] \<longleftrightarrow> canonical_intents intents"
  by (simp only: canonical_intents_def add_0 as_u16_upt simp_thms)

lemma case_option_False: "(case x of None \<Rightarrow> False | Some a \<Rightarrow> P a) \<longleftrightarrow> (\<exists>a. x = Some a \<and> P a)"
  by (cases x) simp_all

definition surface_intents_ok :: "LexicalQueryPlan \<Rightarrow> bool" where
  "surface_intents_ok plan \<longleftrightarrow> assistance plan = Eligible
    \<and> normalized_exact plan = map_option ei_normalized (exact_intent plan)
    \<and> \<not> (\<exists>intent. exact_intent plan = Some intent \<and> ei_field_group intent \<noteq> G_Exact)
    \<and> phrase_boost plan = (phrase_intent plan \<noteq> None)
    \<and> \<not> (\<exists>intent. phrase_intent plan = Some intent \<and>
         (ph_terms intent \<noteq> terms plan \<or> length (ph_terms intent) < 2 \<or> ph_field_group intent \<noteq> G_Phrase))"

lemma validate_intents_iff:
  assumes "bounds plan = bounds_v1"
  shows "validate_intents env plan = Ok () \<longleftrightarrow>
    surface_intents_ok plan \<and> intents_valid env (kind plan) (terms plan) (term_intents plan)"
proof (cases "length (terms plan) = length (term_intents plan) \<and> length (term_intents plan) \<le> 128")
  case True
  then have iff: "validate_term_intents env 0 (terms plan) (term_intents plan) = Ok () \<longleftrightarrow>
      canonical_intents (term_intents plan) \<and> map ti_text (term_intents plan) = terms plan
      \<and> (\<forall>intent \<in> set (term_intents plan). \<not> unrecognized_identifier env intent)"
    by (simp only: validate_term_intents_iff canonical_intents_as_u16)
  show ?thesis
    unfolding validate_intents_def and_then_unit is_ok_if_Err case_option_False assms bounds_v1_simps
      intents_valid_def surface_intents_ok_def
    using True iff by (simp only: de_Morgan_disj not_not not_less simp_thms) blast
next
  case False
  then have "\<not> intents_valid env (kind plan) (terms plan) (term_intents plan)"
    unfolding intents_valid_def canonical_intents_def by (metis length_map)
  moreover have "validate_intents env plan \<noteq> Ok ()"
    using False unfolding validate_intents_def is_ok_if_Err assms bounds_v1_simps by linarith
  ultimately show ?thesis by blast
qed

lemma plan_core_bounds: "plan_core env plan \<Longrightarrow> bounds plan = bounds_v1"
  by (simp add: plan_core_def validate_tables_def is_ok_if_Err)

lemma plan_core_iff:
  "plan_core env plan \<longleftrightarrow> validate_identity plan = Ok () \<and> validate_controls plan = Ok ()
     \<and> validate_tables plan = Ok () \<and> surface_intents_ok plan
     \<and> intents_valid env (kind plan) (terms plan) (term_intents plan)"
proof (cases "bounds plan = bounds_v1")
  case True
  then show ?thesis by (simp only: plan_core_def validate_intents_iff)
next
  case False
  then show ?thesis by (simp add: plan_core_def validate_tables_def is_ok_if_Err)
qed

lemma plan_core_intents:
  "plan_core env plan \<Longrightarrow> intents_valid env (kind plan) (terms plan) (term_intents plan)"
  by (simp only: plan_core_iff)

lemma plan_core_canonical: "plan_core env plan \<Longrightarrow> canonical_intents (term_intents plan)"
  using plan_core_intents by (simp add: intents_valid_def)

text \<open>The checks before the intents read none of the fields that evidence changes.\<close>

lemma validate_identity_update:
  "validate_identity (plan\<lparr>term_intents := intents, support_probes := probes,
    evidence_stages := stages, execution := e\<rparr>) = validate_identity plan"
  "validate_identity (plan\<lparr>metadata_probe := m\<rparr>) = validate_identity plan"
  by (simp_all add: validate_identity_def)

lemma validate_controls_update:
  "validate_controls (plan\<lparr>term_intents := intents, support_probes := probes,
    evidence_stages := stages, execution := e\<rparr>) = validate_controls plan"
  "validate_controls (plan\<lparr>metadata_probe := m\<rparr>) = validate_controls plan"
  by (auto simp: validate_controls_def split: sum.split option.split)

lemma validate_tables_update:
  "validate_tables (plan\<lparr>term_intents := intents, support_probes := probes,
    evidence_stages := stages, execution := e\<rparr>) = validate_tables plan"
  "validate_tables (plan\<lparr>metadata_probe := m\<rparr>) = validate_tables plan"
  by (simp_all add: validate_tables_def)

lemma surface_intents_update:
  "surface_intents_ok (plan\<lparr>term_intents := intents, support_probes := probes,
    evidence_stages := stages, execution := e\<rparr>) = surface_intents_ok plan"
  "surface_intents_ok (plan\<lparr>metadata_probe := m\<rparr>) = surface_intents_ok plan"
  by (simp_all add: surface_intents_ok_def)

lemmas plan_update = validate_identity_update validate_controls_update validate_tables_update
  surface_intents_update

lemma plan_core_update:
  assumes "plan_core env plan" "intents_valid env (kind plan) (terms plan) intents"
  shows "plan_core env (plan\<lparr>term_intents := intents, support_probes := probes,
    evidence_stages := stages, execution := e\<rparr>)"
  using assms by (simp add: plan_core_iff plan_update)

lemma plan_core_probe [simp]: "plan_core env (plan\<lparr>metadata_probe := m\<rparr>) = plan_core env plan"
  by (simp add: plan_core_iff plan_update)

section \<open>Promotion\<close>

lemma promote_nth:
  "length (fold (\<lambda>i xs. xs[i := (xs ! i)\<lparr>ti_role := r\<rparr>]) is xs) = length xs
   \<and> (\<forall>j < length xs. fold (\<lambda>i xs. xs[i := (xs ! i)\<lparr>ti_role := r\<rparr>]) is xs ! j
        = (if j \<in> set is then (xs ! j)\<lparr>ti_role := r\<rparr> else xs ! j))"
proof (induction "is" arbitrary: xs)
  case (Cons a "is")
  let ?ys = "xs[a := (xs ! a)\<lparr>ti_role := r\<rparr>]"
  have hd: "?ys ! j = (if j = a then (xs ! j)\<lparr>ti_role := r\<rparr> else xs ! j)" if "j < length xs" for j
    using that by simp
  have "fold (\<lambda>i xs. xs[i := (xs ! i)\<lparr>ti_role := r\<rparr>]) is ?ys ! j
      = (if j \<in> set (a # is) then (xs ! j)\<lparr>ti_role := r\<rparr> else xs ! j)" if "j < length xs" for j
    using Cons.IH [of ?ys] that hd [OF that] by (cases "j = a") simp_all
  then show ?case using Cons.IH [of ?ys] by simp
qed simp

definition promoted_intents :: "nat list \<Rightarrow> QueryTermIntent list \<Rightarrow> QueryTermIntent list" where
  "promoted_intents indexes intents =
     map (\<lambda>j. if j \<in> set indexes then (intents ! j)\<lparr>ti_role := RequiredIdentifierAnchor\<rparr> else intents ! j)
       [0..<length intents]"

lemma promoted_intents_eq:
  "fold (\<lambda>i intents. intents[i := (intents ! i)\<lparr>ti_role := RequiredIdentifierAnchor\<rparr>]) indexes intents
     = promoted_intents indexes intents"
  using promote_nth [of RequiredIdentifierAnchor indexes intents]
  by (intro nth_equalityI) (simp_all add: promoted_intents_def)

lemma promoted_intents_map:
  assumes "\<And>intent r. f (intent\<lparr>ti_role := r\<rparr>) = f intent"
  shows "map f (promoted_intents indexes intents) = map f intents"
  by (rule nth_equalityI) (simp_all add: promoted_intents_def assms)

lemma promoted_intents_anchors:
  "map is_anchor (promoted_intents indexes intents)
     = map (\<lambda>(i, intent). is_anchor intent \<or> i \<in> set indexes) (enumerate 0 intents)"
  by (rule nth_equalityI) (simp_all add: promoted_intents_def is_anchor_def nth_enumerate_eq)

lemma promoted_intents_length [simp]: "length (promoted_intents indexes intents) = length intents"
  by (simp add: promoted_intents_def)

lemma promoted_intents_valid:
  assumes "intents_valid env k ts intents" "\<exists>i \<in> set indexes. i < length intents"
  shows "intents_valid env Kind_Identifier ts (promoted_intents indexes intents)"
proof -
  let ?p = "promoted_intents indexes intents"
  have "\<not> unrecognized_identifier env intent" if "intent \<in> set ?p" for intent
    using that assms(1)
    by (auto simp: promoted_intents_def intents_valid_def unrecognized_identifier_def split: if_splits)
  moreover have "\<exists>intent \<in> set ?p. is_anchor intent"
    using assms(2) by (force simp: promoted_intents_def is_anchor_def)
  moreover have "map ti_index ?p = map ti_index intents" "map ti_text ?p = map ti_text intents"
    by (simp_all add: promoted_intents_map)
  ultimately show ?thesis
    using assms(1) by (simp add: intents_valid_def canonical_intents_def)
qed

lemma lowercase_anchor_index_bound:
  "i \<in> set (lowercase_identifier_anchor_indexes env q ts) \<Longrightarrow> length ts \<le> 128 \<Longrightarrow> i < length ts"
  by (auto simp: lowercase_identifier_anchor_indexes_def in_set_enumerate_eq as_u16_def
      split: option.splits)

lemma promote_fields [simp]:
  "kind (promote_identifier_candidate env plan) = Kind_Identifier"
  "terms (promote_identifier_candidate env plan) = terms plan"
  by (simp_all add: promote_identifier_candidate_def)

lemma promote_checks:
  assumes "kind plan \<noteq> Kind_Explicit"
  shows "validate_identity (promote_identifier_candidate env plan) = validate_identity plan"
    "validate_controls plan = Ok () \<Longrightarrow> validate_controls (promote_identifier_candidate env plan) = Ok ()"
    "validate_tables plan = Ok () \<Longrightarrow> validate_tables (promote_identifier_candidate env plan) = Ok ()"
    "surface_intents_ok (promote_identifier_candidate env plan) = surface_intents_ok plan"
  using assms
  by (simp_all add: promote_identifier_candidate_def validate_identity_def profile_for_def
      validate_controls_def validate_tables_def field_groups_for_def expected_operator_def
      surface_intents_ok_def is_ok_if_Err cong: sum.case_cong option.case_cong)

lemma plan_core_promote:
  assumes "plan_core env plan" "kind plan \<noteq> Kind_Explicit"
    and "lowercase_identifier_anchor_indexes env (query plan) (terms plan) \<noteq> []"
  shows "plan_core env (promote_identifier_candidate env plan)"
proof -
  have valid: "intents_valid env (kind plan) (terms plan) (term_intents plan)"
    by (rule plan_core_intents [OF assms(1)])
  then have "length (terms plan) = length (term_intents plan)" "length (terms plan) \<le> 128"
    unfolding intents_valid_def canonical_intents_def by (metis length_map)+
  then have "\<exists>i \<in> set (lowercase_identifier_anchor_indexes env (query plan) (terms plan)).
      i < length (term_intents plan)"
    using assms(3) lowercase_anchor_index_bound by (metis list.set_intros(1) neq_Nil_conv)
  from promoted_intents_valid [OF valid this]
  have "intents_valid env Kind_Identifier (terms plan) (term_intents (promote_identifier_candidate env plan))"
    by (simp add: promote_identifier_candidate_def promoted_intents_eq)
  then show ?thesis
    using assms(1,2) promote_checks [OF assms(2), of env] by (simp add: plan_core_iff)
qed

lemma validated_promotion_in_range:
  assumes "validate_plan env plan = Ok ()" "kind plan \<noteq> Kind_Explicit"
  shows "promotion_in_range env plan" "\<exists>plan'. finalize_metadata_probe env plan matched = Some plan'"
proof -
  have "intents_valid env (kind plan) (terms plan) (term_intents plan)"
    using assms plan_core_intents by (simp add: validate_plan_assisted)
  then have "length (terms plan) = length (term_intents plan)" "length (terms plan) \<le> 128"
    unfolding intents_valid_def canonical_intents_def by (metis length_map)+
  then show "promotion_in_range env plan"
    unfolding promotion_in_range_def by (metis lowercase_anchor_index_bound)
  then show "\<exists>plan'. finalize_metadata_probe env plan matched = Some plan'"
    by (simp add: finalize_metadata_probe_def promotion_in_range_def Let_def)
qed

section \<open>Observed support\<close>

text \<open>
  What a report says of the terms, read off the reported document frequencies: a term with a
  document is useful, one without is unsupported; the terms past the report keep their support.
\<close>

definition reported_support ::
  "QueryTermSupportObservation list \<Rightarrow> QueryTermIntent list \<Rightarrow> QueryTermIntent list \<Rightarrow> bool" where
  "reported_support observations old new \<longleftrightarrow> length new = length old
     \<and> list_all2 (\<lambda>observation intent. ti_support intent
           = (if 0 < ob_document_frequency observation then Useful else Unsupported))
         observations (take (length observations) new)
     \<and> map ti_support (drop (length observations) new) = map ti_support (drop (length observations) old)"

lemma reported_support_cong:
  "map ti_support old = map ti_support old' \<Longrightarrow> reported_support obs old new = reported_support obs old' new"
  unfolding reported_support_def by (metis drop_map length_map)

definition supported_by :: "QueryTermIntent \<Rightarrow> QueryTermSupportObservation \<Rightarrow> QueryTermIntent" where
  "supported_by intent observation =
     intent\<lparr>ti_support := (if ob_document_frequency observation > 0 then Useful else Unsupported)\<rparr>"

lemma supported_by_fields [simp]:
  "ti_index (supported_by i ob) = ti_index i" "ti_text (supported_by i ob) = ti_text i"
  "ti_role (supported_by i ob) = ti_role i" "ti_projection (supported_by i ob) = ti_projection i"
  "is_anchor (supported_by i ob) = is_anchor i" "ti_support (supported_by i ob) \<noteq> Support_Unknown"
  by (simp_all add: supported_by_def is_anchor_def)

definition observation_matches ::
  "QueryBounds \<Rightarrow> QueryTermSupportProbe \<Rightarrow> QueryTermSupportObservation \<Rightarrow> bool" where
  "observation_matches bnds probe observation \<longleftrightarrow>
     ob_probe_id observation = pr_probe_id probe \<and> ob_term_index observation = pr_term_index probe
     \<and> ob_prefix_expansions observation \<le> max_prefix_expansions_per_term bnds"

lemma apply_support_ok:
  assumes "list_all2 (observation_matches bnds) probes observations"
    and "list_all2 (\<lambda>probe intent. pr_term_index probe = ti_index intent \<and> pr_term probe = ti_text intent)
           probes intents"
  shows "apply_support bnds probes observations intents = Ok (map2 supported_by intents observations)"
  using assms
proof (induction probes observations arbitrary: intents rule: list_all2_induct)
  case Nil
  then show ?case by simp
next
  case (Cons probe probes observation observations)
  then show ?case
    by (cases intents) (auto simp: observation_matches_def supported_by_def)
qed

lemma probes_match_intents:
  assumes "probes_canonical n ts probes" "length probes = length intents"
    and "map ti_index intents = map as_u16 [n..<n + length intents]" "map ti_text intents = ts"
  shows "list_all2 (\<lambda>probe intent. pr_term_index probe = ti_index intent \<and> pr_term probe = ti_text intent)
           probes intents"
  using assms(2,1,3,4)
proof (induction probes intents arbitrary: n ts rule: list_induct2)
  case (Cons probe probes intent intents)
  have "[n..<n + length (intent # intents)] = n # [Suc n..<Suc n + length intents]"
    by (simp add: upt_rec)
  then show ?case using Cons.prems Cons.IH [of "Suc n" "tl ts"] by auto
qed simp

lemma supported_intents_valid:
  assumes "intents_valid env k ts intents" "length observations = length intents"
  shows "intents_valid env k ts (map2 supported_by intents observations)"
proof -
  let ?s = "map2 supported_by intents observations"
  have map: "map f ?s = map f intents" if "\<And>i ob. f (supported_by i ob) = f i" for f :: "_ \<Rightarrow> 'x"
    using assms(2) by (intro nth_equalityI) (simp_all add: that)
  have anchor: "(\<exists>intent \<in> set ?s. is_anchor intent) \<longleftrightarrow> (\<exists>intent \<in> set intents. is_anchor intent)"
    using map [of is_anchor] by (metis (mono_tags, lifting) imageE image_eqI set_map supported_by_fields(5))
  have "(\<forall>intent \<in> set ?s. \<not> unrecognized_identifier env intent)"
    using assms(1) by (auto simp: set_zip intents_valid_def unrecognized_identifier_def)
  then show ?thesis
    using assms map [of ti_index] map [of ti_text] anchor
    by (simp add: intents_valid_def canonical_intents_def)
qed

text \<open>
  Probes agree with the intents in every plan that validates: a plan awaiting evidence has one
  canonical probe per intent, any other has none and its support is settled.
\<close>

definition probes_settled :: "LexicalQueryPlan \<Rightarrow> bool" where
  "probes_settled plan \<longleftrightarrow>
     (length (support_probes plan) = length (term_intents plan)
      \<and> probes_canonical 0 (terms plan) (support_probes plan))
     \<or> (support_probes plan = [] \<and> (\<forall>intent \<in> set (term_intents plan). ti_support intent \<noteq> Support_Unknown))"

lemma validated_probes_settled:
  assumes "plan_core env plan" "validate_execution plan = Ok ()"
  shows "probes_settled plan"
proof -
  have "terms plan = [] \<Longrightarrow> term_intents plan = []"
    using plan_core_intents [OF assms(1)] by (simp add: intents_valid_def)
  then show ?thesis
    using assms(2)
    by (cases "execution plan") (auto simp: probes_settled_def validate_execution_def is_ok_if_Err)
qed

lemma probes_settled_promote:
  assumes "probes_settled plan"
  shows "probes_settled (promote_identifier_candidate env plan)"
proof -
  let ?is = "lowercase_identifier_anchor_indexes env (query plan) (terms plan)"
  have "ti_support ` set (promoted_intents ?is (term_intents plan)) = ti_support ` set (term_intents plan)"
    by (metis QueryTermIntent.select_convs(5) QueryTermIntent.surjective QueryTermIntent.update_convs(3)
        promoted_intents_map set_map)
  then have "(\<forall>intent \<in> set (promoted_intents ?is (term_intents plan)). ti_support intent \<noteq> Support_Unknown)
      \<longleftrightarrow> (\<forall>intent \<in> set (term_intents plan). ti_support intent \<noteq> Support_Unknown)"
    by (metis (no_types, lifting) imageE imageI)
  then show ?thesis
    using assms by (simp add: probes_settled_def promote_identifier_candidate_def promoted_intents_eq)
qed

lemma apply_support_settled:
  assumes core: "plan_core env plan" and settled: "probes_settled plan"
    and obs: "list_all2 (observation_matches bnds) (support_probes plan) observations"
  obtains intents where "apply_support bnds (support_probes plan) observations (term_intents plan) = Ok intents"
    "intents_valid env (kind plan) (terms plan) intents"
    "\<forall>intent \<in> set intents. ti_support intent \<noteq> Support_Unknown"
    "map ti_role intents = map ti_role (term_intents plan)"
    "reported_support observations (term_intents plan) intents"
proof -
  have valid: "intents_valid env (kind plan) (terms plan) (term_intents plan)"
    by (rule plan_core_intents [OF core])
  show ?thesis
    using settled unfolding probes_settled_def
  proof (elim disjE conjE)
    assume len: "length (support_probes plan) = length (term_intents plan)"
      and canon: "probes_canonical 0 (terms plan) (support_probes plan)"
    have len_obs: "length observations = length (term_intents plan)"
      using obs len by (metis list_all2_lengthD)
    let ?s = "map2 supported_by (term_intents plan) observations"
    have "map ti_index (term_intents plan) = map as_u16 [0..<0 + length (term_intents plan)]"
      using valid by (auto simp: intents_valid_def canonical_intents_as_u16 canonical_intents_def as_u16_upt)
    then have "apply_support bnds (support_probes plan) observations (term_intents plan) = Ok ?s"
      using apply_support_ok [OF obs] probes_match_intents [OF canon len] valid
      by (simp add: intents_valid_def)
    moreover have "map ti_role ?s = map ti_role (term_intents plan)"
      using len_obs by (intro nth_equalityI) simp_all
    moreover have "\<forall>intent \<in> set ?s. ti_support intent \<noteq> Support_Unknown"
      by (auto simp: set_zip)
    moreover have "reported_support observations (term_intents plan) ?s"
      using len_obs by (simp add: reported_support_def list_all2_conv_all_nth supported_by_def)
    ultimately show ?thesis using that supported_intents_valid [OF valid len_obs] by blast
  next
    assume "support_probes plan = []" "\<forall>intent \<in> set (term_intents plan). ti_support intent \<noteq> Support_Unknown"
    then show ?thesis using that valid obs by (simp add: reported_support_def)
  qed
qed

section \<open>Prefix terms\<close>

lemma evidence_prefix_indexes_ready:
  assumes "canonical_intents intents" "bounds plan = bounds_v1" "term_intents plan = intents"
  shows "ladder_ready plan (evidence_prefix_indexes bounds_v1 intents observations)"
proof -
  let ?z = "zip intents observations"
  let ?P = "\<lambda>(intent, observation). ti_role intent = OptionalContext \<and> length (ti_text intent) \<ge> 3
      \<and> ob_prefix_expansions observation > 0"
  have pfx: "evidence_prefix_indexes bounds_v1 intents observations
      = map (\<lambda>(intent, _). ti_index intent) (take 8 (filter ?P ?z))"
    by (simp add: evidence_prefix_indexes_def)
  have "map (\<lambda>(intent, _). ti_index intent) ?z = map ti_index (take (length observations) intents)"
    by (rule nth_equalityI) simp_all
  then have "sorted_wrt (<) (map (\<lambda>(intent, _). ti_index intent) ?z)"
    using strict_sorted_take_map [OF canonical_sorted [OF assms(1)]] by simp
  then have "sorted_wrt (<) (map (\<lambda>(intent, _). ti_index intent) (take 8 (filter ?P ?z)))"
    by (intro strict_sorted_take_map strict_sorted_filter_map)
  moreover have "i < length intents \<and> ti_role (intents ! i) = OptionalContext"
    if "i \<in> set (map (\<lambda>(intent, _). ti_index intent) (take 8 (filter ?P ?z)))" for i
    using that canonical_index_nth [OF assms(1)] by (auto dest!: in_set_takeD set_zip_leftD)
  ultimately show ?thesis
    using assms by (simp add: ladder_ready_def pfx)
qed

section \<open>Finalizing a plan\<close>

definition settled_plan ::
  "LexicalQueryPlan \<Rightarrow> QueryTermIntent list \<Rightarrow> QueryEvidenceStage list \<Rightarrow> QueryExecutionDisposition \<Rightarrow> LexicalQueryPlan" where
  "settled_plan plan intents stages e =
     plan\<lparr>term_intents := intents, support_probes := [], evidence_stages := stages, execution := e\<rparr>"

lemma settled_plan_fields [simp]:
  "kind (settled_plan plan intents stages e) = kind plan" "terms (settled_plan plan intents stages e) = terms plan"
  "execution (settled_plan plan intents stages e) = e"
  "support_probes (settled_plan plan intents stages e) = []"
  "evidence_stages (settled_plan plan intents stages e) = stages"
  "term_intents (settled_plan plan intents stages e) = intents"
  "bounds (settled_plan plan intents stages e) = bounds plan"
  by (simp_all add: settled_plan_def)

lemma settled_empty_valid:
  assumes "plan_core env plan" "kind plan \<noteq> Kind_Explicit" "intents_valid env (kind plan) (terms plan) intents"
    and "\<forall>intent \<in> set intents. ti_support intent \<noteq> Support_Unknown"
  shows "validate_plan env (settled_plan plan intents [] EmptyNoEvidence) = Ok ()"
  using assms(2,4) plan_core_update [OF assms(1,3)]
  by (simp add: validate_plan_assisted validate_execution_def) (auto simp: settled_plan_def)

lemma settled_ready_valid:
  assumes "plan_core env plan" "kind plan \<noteq> Kind_Explicit" "intents_valid env (kind plan) (terms plan) intents"
    and "\<forall>intent \<in> set intents. ti_support intent \<noteq> Support_Unknown"
    and "plan2 = settled_plan plan intents [] e"
  shows "validate_plan env (settled_plan plan intents
    (build_stages plan2 (evidence_prefix_indexes bounds_v1 intents observations)) Ready) = Ok ()"
proof -
  let ?pfx = "evidence_prefix_indexes bounds_v1 intents observations"
  let ?r = "settled_plan plan intents (build_stages plan2 ?pfx) Ready"
  have bnds: "bounds plan2 = bounds_v1" using plan_core_bounds [OF assms(1)] assms(5) by simp
  have "canonical_intents intents" using assms(3) by (simp add: intents_valid_def)
  then have "ladder_ready plan2 ?pfx"
    by (rule evidence_prefix_indexes_ready) (simp_all add: assms(5) bnds [unfolded assms(5), simplified])
  then have "validate_stages (with_stages plan2 ?pfx) = Ok ()" by (rule validate_stages_build)
  moreover have "with_stages plan2 ?pfx = ?r" by (simp add: with_stages_def assms(5) settled_plan_def)
  moreover have "build_stages plan2 ?pfx \<noteq> []"
    using build_stages_kinds [of plan2 ?pfx] by auto
  moreover have "plan_core env ?r"
    unfolding settled_plan_def by (rule plan_core_update [OF assms(1,3)])
  ultimately show ?thesis
    using assms(2,4) by (simp add: validate_plan_assisted validate_execution_def)
qed

text \<open>What the answer to the metadata probe changes: the kind of the plan and the anchors.\<close>

definition promotion_outcome ::
  "text_env \<Rightarrow> LexicalQueryPlan \<Rightarrow> bool option \<Rightarrow> LexicalQueryPlan \<Rightarrow> bool" where
  "promotion_outcome env plan observation plan' \<longleftrightarrow>
     kind plan' = (if observation = Some True then Kind_Identifier else kind plan)
     \<and> map ti_support (term_intents plan') = map ti_support (term_intents plan)
     \<and> map is_anchor (term_intents plan') = map (\<lambda>(i, intent). is_anchor intent
        \<or> observation = Some True
          \<and> i \<in> set (lowercase_identifier_anchor_indexes env (query plan) (terms plan)))
        (enumerate 0 (term_intents plan))"

lemma promotion_outcome_promote:
  "promotion_outcome env plan (Some True) (promote_identifier_candidate env (plan\<lparr>metadata_probe := None\<rparr>))"
  by (simp add: promotion_outcome_def promote_identifier_candidate_def promoted_intents_eq
      promoted_intents_map promoted_intents_anchors)

lemma promotion_outcome_keep:
  "observation \<noteq> Some True \<Longrightarrow> promotion_outcome env plan observation (plan\<lparr>metadata_probe := None\<rparr>)"
  by (simp add: promotion_outcome_def) (simp add: list_eq_iff_nth_eq nth_enumerate_eq)

lemma probed_plan:
  assumes core: "plan_core env plan" and kind: "kind plan \<noteq> Kind_Explicit" and settled: "probes_settled plan"
    and probe: "metadata_probe plan = None \<longleftrightarrow> observation = None"
    and anchors: "observation = Some True \<Longrightarrow> lowercase_identifier_anchor_indexes env (query plan) (terms plan) \<noteq> []"
  obtains plan1 where "apply_metadata_probe env plan observation = Ok plan1" "plan_core env plan1"
    "kind plan1 \<noteq> Kind_Explicit" "probes_settled plan1" "terms plan1 = terms plan"
    "support_probes plan1 = support_probes plan" "bounds plan1 = bounds plan"
    "promotion_outcome env plan observation plan1"
proof (cases "observation = Some True")
  case True
  let ?p = "plan\<lparr>metadata_probe := None\<rparr>"
  have "plan_core env (promote_identifier_candidate env ?p)"
    using plan_core_promote [of env ?p] core kind anchors [OF True] by simp
  moreover have "probes_settled (promote_identifier_candidate env ?p)"
    using probes_settled_promote [of ?p env] settled by (simp add: probes_settled_def)
  moreover have "apply_metadata_probe env plan observation = Ok (promote_identifier_candidate env ?p)"
    using probe True by (auto simp: apply_metadata_probe_def)
  ultimately show ?thesis
    using that [of "promote_identifier_candidate env ?p"] promotion_outcome_promote [of env plan] True
    by (simp add: promote_identifier_candidate_def)
next
  case False
  then have "apply_metadata_probe env plan observation = Ok (plan\<lparr>metadata_probe := None\<rparr>)"
    using probe by (cases observation) (auto simp: apply_metadata_probe_def)
  then show ?thesis
    using that [OF _ _ _ _ _ _ _ promotion_outcome_keep [OF False]] core kind settled
    by (simp add: probes_settled_def)
qed

definition evidence_outcome :: "LexicalQueryPlan \<Rightarrow> QueryTermSupportObservation list \<Rightarrow> LexicalQueryPlan \<Rightarrow> bool" where
  "evidence_outcome plan observations plan' \<longleftrightarrow>
     support_probes plan' = [] \<and> terms plan' = terms plan
     \<and> (let runnable = (\<forall>intent \<in> set (term_intents plan'). is_anchor intent \<longrightarrow> ti_support intent = Useful)
              \<and> ((\<exists>intent \<in> set (term_intents plan'). ti_support intent = Useful)
                 \<or> evidence_prefix_indexes (bounds plan') (term_intents plan') observations \<noteq> [])
        in execution plan' = (if runnable then Ready else EmptyNoEvidence)
           \<and> (evidence_stages plan' = [] \<longleftrightarrow> \<not> runnable))"

lemma finalize_settled:
  assumes core: "plan_core env plan1" and kind: "kind plan1 \<noteq> Kind_Explicit"
    and valid: "intents_valid env (kind plan1) (terms plan1) intents"
    and known: "\<forall>intent \<in> set intents. ti_support intent \<noteq> Support_Unknown"
  defines "plan2 \<equiv> plan1\<lparr>term_intents := intents, support_probes := [], evidence_stages := []\<rparr>"
  shows "\<exists>plan'. (if \<exists>intent \<in> set intents. is_anchor intent \<and> ti_support intent \<noteq> Useful
           then (let plan3 = plan2\<lparr>execution := EmptyNoEvidence\<rparr>
                 in and_then (validate_plan env plan3) (\<lambda>_. Ok plan3))
           else
             (let useful = filter (\<lambda>intent. ti_support intent = Useful) intents;
                  prefix_indexes = evidence_prefix_indexes (bounds plan2) intents observations
              in if useful = [] \<and> prefix_indexes = []
                 then (let plan3 = plan2\<lparr>execution := EmptyNoEvidence\<rparr>
                       in and_then (validate_plan env plan3) (\<lambda>_. Ok plan3))
                 else
                   (let plan3 = plan2\<lparr>evidence_stages := build_stages plan2 prefix_indexes,
                                      execution := Ready\<rparr>
                    in and_then (validate_plan env plan3) (\<lambda>_. Ok plan3)))) = Ok plan'
     \<and> validate_plan env plan' = Ok () \<and> evidence_outcome plan1 observations plan'
     \<and> term_intents plan' = intents \<and> kind plan' = kind plan1"
    (is "\<exists>plan'. ?run = Ok plan' \<and> _")
proof -
  let ?pfx = "evidence_prefix_indexes bounds_v1 intents observations"
  let ?stop = "(\<exists>intent \<in> set intents. is_anchor intent \<and> ti_support intent \<noteq> Useful)
      \<or> filter (\<lambda>intent. ti_support intent = Useful) intents = [] \<and> ?pfx = []"
  have bnds: "bounds plan1 = bounds_v1" using plan_core_bounds [OF core] .
  have b2: "bounds plan2 = bounds_v1" using bnds by (simp add: plan2_def)
  let ?e = "settled_plan plan1 intents [] EmptyNoEvidence"
  let ?r = "settled_plan plan1 intents (build_stages plan2 ?pfx) Ready"
  have p3: "plan2\<lparr>execution := EmptyNoEvidence\<rparr> = ?e"
    "plan2\<lparr>evidence_stages := build_stages plan2 ?pfx, execution := Ready\<rparr> = ?r"
    by (simp_all add: plan2_def settled_plan_def)
  have e: "validate_plan env ?e = Ok ()" by (rule settled_empty_valid [OF core kind valid known])
  have r: "validate_plan env ?r = Ok ()"
    by (rule settled_ready_valid [OF core kind valid known, of _ "execution plan1"])
      (simp add: plan2_def settled_plan_def)
  have ne: "build_stages plan2 ?pfx \<noteq> []" using build_stages_kinds [of plan2 ?pfx] by auto
  have run: "?run = (if ?stop then Ok ?e else Ok ?r)"
    unfolding b2 Let_def p3 e r by auto
  show ?thesis
  proof (cases ?stop)
    case True
    then have "evidence_outcome plan1 observations ?e"
      by (auto simp: evidence_outcome_def Let_def bnds filter_empty_conv)
    with True e run show ?thesis by auto
  next
    case False
    then have "evidence_outcome plan1 observations ?r"
      using ne by (auto simp: evidence_outcome_def Let_def bnds filter_empty_conv)
    with False r run show ?thesis by auto
  qed
qed

definition report_matches :: "LexicalQueryPlan \<Rightarrow> QueryEvidenceReport \<Rightarrow> bool" where
  "report_matches plan report \<longleftrightarrow>
     er_schema_version report = LEXICAL_QUERY_PLAN_SCHEMA_VERSION
     \<and> (metadata_probe plan = None) = (er_identifier_probe_matched report = None)
     \<and> list_all2 (observation_matches (bounds plan)) (support_probes plan) (er_term_support report)"

text \<open>The answers of a report as the finalized plan carries them: supports, kind and anchors.\<close>

definition report_applied :: "text_env \<Rightarrow> LexicalQueryPlan \<Rightarrow> QueryEvidenceReport \<Rightarrow> LexicalQueryPlan \<Rightarrow> bool" where
  "report_applied env plan report plan' \<longleftrightarrow>
     length (term_intents plan') = length (term_intents plan)
    \<and> list_all2 (\<lambda>observation intent. ti_support intent
          = (if 0 < ob_document_frequency observation then Useful else Unsupported))
        (er_term_support report) (take (length (er_term_support report)) (term_intents plan'))
    \<and> map ti_support (drop (length (er_term_support report)) (term_intents plan'))
        = map ti_support (drop (length (er_term_support report)) (term_intents plan))
    \<and> kind plan' = (if er_identifier_probe_matched report = Some True then Kind_Identifier else kind plan)
    \<and> map is_anchor (term_intents plan') = map (\<lambda>(i, intent). is_anchor intent
          \<or> er_identifier_probe_matched report = Some True
            \<and> i \<in> set (lowercase_identifier_anchor_indexes env (query plan) (terms plan)))
        (enumerate 0 (term_intents plan))"

lemma report_appliedI:
  assumes "promotion_outcome env plan (er_identifier_probe_matched report) plan1"
    and "reported_support (er_term_support report) (term_intents plan1) (term_intents plan')"
    and "map ti_role (term_intents plan') = map ti_role (term_intents plan1)" "kind plan' = kind plan1"
  shows "report_applied env plan report plan'"
proof -
  have "reported_support (er_term_support report) (term_intents plan) (term_intents plan')"
    using assms(1,2) reported_support_cong by (metis promotion_outcome_def)
  moreover have "map is_anchor xs = map (\<lambda>r. r = RequiredIdentifierAnchor) (map ti_role xs)" for xs
    by (simp add: is_anchor_def)
  then have "map is_anchor (term_intents plan') = map is_anchor (term_intents plan1)"
    by (simp only: assms(3))
  ultimately show ?thesis
    using assms(1,4) by (simp add: report_applied_def reported_support_def promotion_outcome_def)
qed

lemma finalize_evidence_ok:
  assumes valid: "validate_plan env plan = Ok ()" and kind: "kind plan \<noteq> Kind_Explicit"
    and matches: "report_matches plan report"
    and anchors: "er_identifier_probe_matched report = Some True \<Longrightarrow>
      lowercase_identifier_anchor_indexes env (query plan) (terms plan) \<noteq> []"
  shows "\<exists>plan'. finalize_evidence env plan report = Ok plan' \<and> validate_plan env plan' = Ok ()
    \<and> evidence_outcome plan (er_term_support report) plan' \<and> report_applied env plan report plan'"
proof -
  have core: "plan_core env plan" and exec: "validate_execution plan = Ok ()"
    using valid by (simp_all add: validate_plan_assisted [OF kind])
  have eligible: "assistance plan \<noteq> ExplicitSyntaxBypass"
    using core by (simp add: plan_core_iff surface_intents_ok_def)
  obtain plan1 where p1: "apply_metadata_probe env plan (er_identifier_probe_matched report) = Ok plan1"
    "plan_core env plan1" "kind plan1 \<noteq> Kind_Explicit" "probes_settled plan1" "terms plan1 = terms plan"
    "support_probes plan1 = support_probes plan" "bounds plan1 = bounds plan"
    "promotion_outcome env plan (er_identifier_probe_matched report) plan1"
    using probed_plan [OF core kind validated_probes_settled [OF core exec], of "er_identifier_probe_matched report"]
      matches anchors unfolding report_matches_def by metis
  have obs: "list_all2 (observation_matches (bounds plan1)) (support_probes plan1) (er_term_support report)"
    using matches p1(6,7) by (simp add: report_matches_def)
  obtain intents where i: "apply_support (bounds plan1) (support_probes plan1) (er_term_support report)
      (term_intents plan1) = Ok intents" "intents_valid env (kind plan1) (terms plan1) intents"
    "\<forall>intent \<in> set intents. ti_support intent \<noteq> Support_Unknown"
    "map ti_role intents = map ti_role (term_intents plan1)"
    "reported_support (er_term_support report) (term_intents plan1) intents"
    using apply_support_settled [OF p1(2,4) obs] by metis
  have len: "length (er_term_support report) = length (support_probes plan1)"
    using obs by (simp add: list_all2_lengthD)
  have schema: "er_schema_version report = LEXICAL_QUERY_PLAN_SCHEMA_VERSION"
    using matches by (simp add: report_matches_def)
  obtain plan' where "finalize_evidence env plan report = Ok plan'" "validate_plan env plan' = Ok ()"
    "evidence_outcome plan1 (er_term_support report) plan'" "term_intents plan' = intents" "kind plan' = kind plan1"
    using finalize_settled [OF p1(2,3) i(2,3), of "er_term_support report"]
    unfolding finalize_evidence_def valid
    by (simp only: schema eligible len p1(1) i(1) and_then_simps simp_thms if_False Let_def) blast
  moreover from this have "report_applied env plan report plan'"
    using report_appliedI [OF p1(8), of plan'] i(4,5) by simp
  ultimately show ?thesis using p1(5) by (auto simp: evidence_outcome_def)
qed

section \<open>From preparation to evidence\<close>

lemma position_Some: "position P xs = Some i \<Longrightarrow> i < length xs \<and> P (xs ! i)"
  by (induction xs arbitrary: i) (auto split: if_splits)

lemma lowercase_components_number:
  assumes "lowercase_identifier_components env q = Some (tokens, i)"
  shows "tokens = split_whitespace q" "i < length tokens" "all_digits (tokens ! i)"
    "tokens \<noteq> []" "length tokens \<le> 6"
  using assms
  by (auto simp: lowercase_identifier_components_def Let_def split: if_splits option.splits
      dest: position_Some)

lemma candidate_no_spans:
  assumes "classify_query env q = Kind_Ordinary" "is_lowercase_identifier_candidate env q"
  shows "technical_identifier_spans env q = []"
proof -
  obtain tokens i where c: "lowercase_identifier_components env q = Some (tokens, i)"
    using assms(2) by (auto simp: is_lowercase_identifier_candidate_def)
  note n = lowercase_components_number [OF c]
  have "\<not> is_identifier_like env q"
    using assms(1) by (auto simp: classify_query_def split: if_splits)
  then have "technical_identifiers env q = []"
    using n by (auto simp: is_identifier_like_def Let_def split: if_splits)
  then show ?thesis by (simp add: technical_identifiers_eq_Nil)
qed

lemma prepared_anchor_indexes:
  assumes tables: "ascii_tables env" and len: "str_len q \<le> MAX_NORMALIZED_EXACT_BYTES"
    and kind: "classify_query env q = Kind_Ordinary" and cand: "is_lowercase_identifier_candidate env q"
  shows "lowercase_identifier_anchor_indexes env q (map ti_text (query_term_intents env q k)) \<noteq> []"
proof -
  obtain tokens i where c: "lowercase_identifier_components env q = Some (tokens, i)"
    using cand by (auto simp: is_lowercase_identifier_candidate_def)
  note n = lowercase_components_number [OF c]
  note nospan = candidate_no_spans [OF kind cand]
  let ?t = "tokens ! i"
  have tok: "?t \<in> set (split_whitespace q)" using n nth_mem by metis
  have norm: "normalize_token env ?t = Some ?t"
    using normalize_token_digits [OF tables n(3)] split_whitespace_token [OF tok] str_len_token_le [OF tok] len
    by auto
  have "(?t, AnalyzedText) \<in> set (planned_query_terms env q)"
    by (rule planned_digits [OF tables tok n(3) nospan len])
  then obtain j where j: "j < length (planned_query_terms env q)" "fst (planned_query_terms env q ! j) = ?t"
    by (metis fst_conv in_set_conv_nth)
  let ?ts = "map ti_text (query_term_intents env q k)"
  have "j < length ?ts" "?ts ! j = ?t"
    using j by (simp_all add: query_term_intents_length query_term_intents_nth)
  then have "(j, ?t) \<in> set (enumerate 0 ?ts)" by (simp add: in_set_enumerate_eq)
  moreover have "?t \<in> set (List.map_filter (normalize_token env)
      (filter P (take i tokens) @ [?t]))" for P
    using norm by (simp add: List.map_filter_def)
  ultimately show ?thesis
    unfolding lowercase_identifier_anchor_indexes_def c option.case prod.case Let_def map_is_Nil_conv
      filter_empty_conv by blast
qed

lemma prepare_lexical_query_Ok:
  assumes "prepare_lexical_query env q = Ok plan"
  obtains c where "parse_field_controls q = Ok c" "plan = prepared_plan env q c" "query_admissible q"
    "validate_plan env plan = Ok ()"
  using assms
  by (auto simp: prepare_lexical_query_def query_admissible_def and_then_eq_Ok Let_def is_ok_if_Err)

lemma prepared_probe_anchors:
  assumes "ascii_tables env" "prepare_lexical_query env q = Ok plan" "query_text plan = q"
    and "metadata_probe plan \<noteq> None"
  shows "lowercase_identifier_anchor_indexes env (query plan) (terms plan) \<noteq> []"
proof -
  obtain c where c: "parse_field_controls q = Ok c" "plan = prepared_plan env q c" "query_admissible q"
    using prepare_lexical_query_Ok [OF assms(2)] by metis
  have qt: "pc_query_text c = q" using assms(3) c(2) by (simp add: prepared_plan_def Let_def)
  then have k: "classify_query env q = Kind_Ordinary" "is_lowercase_identifier_candidate env q"
    using assms(4) c(2) by (simp_all add: prepared_plan_def Let_def split: if_splits)
  have "str_len q \<le> MAX_NORMALIZED_EXACT_BYTES"
    using c(3) by (simp add: query_admissible_def MAX_QUERY_BYTES_def MAX_NORMALIZED_EXACT_BYTES_def)
  from prepared_anchor_indexes [OF assms(1) this k, of Kind_Ordinary] show ?thesis
    using c(2) qt k(1) by (simp add: prepared_plan_def Let_def)
qed

text \<open>
  C1. Evidence never breaks a plan: for every validated assisted plan and every report that
  answers its probes within the bounds, where a matched metadata probe must find a term to promote
  (a nonempty list of anchor indexes), \<open>finalize_evidence\<close> succeeds and the finalized plan validates
  again and has no probes left.  Each reported term is \<open>Useful\<close> when its document frequency is
  positive and \<open>Unsupported\<close> otherwise, the plan becomes an identifier query with the promoted anchors
  exactly on a matched probe, and it is \<open>Ready\<close> with a nonempty ladder exactly when all anchors are
  useful and some term or prefix has evidence, otherwise \<open>EmptyNoEvidence\<close> with no stages.
\<close>

theorem finalize_evidence_accepts:
  assumes "validate_plan env plan = Ok ()" "kind plan \<noteq> Kind_Explicit" "report_matches plan report"
    and "er_identifier_probe_matched report = Some True \<Longrightarrow>
      lowercase_identifier_anchor_indexes env (query plan) (terms plan) \<noteq> []"
  shows "\<exists>plan'. finalize_evidence env plan report = Ok plan' \<and> validate_plan env plan' = Ok ()
    \<and> evidence_outcome plan (er_term_support report) plan'
    \<and> length (term_intents plan') = length (term_intents plan)
    \<and> list_all2 (\<lambda>observation intent. ti_support intent
          = (if 0 < ob_document_frequency observation then Useful else Unsupported))
        (er_term_support report) (take (length (er_term_support report)) (term_intents plan'))
    \<and> map ti_support (drop (length (er_term_support report)) (term_intents plan'))
        = map ti_support (drop (length (er_term_support report)) (term_intents plan))
    \<and> kind plan' = (if er_identifier_probe_matched report = Some True then Kind_Identifier else kind plan)
    \<and> map is_anchor (term_intents plan') = map (\<lambda>(i, intent). is_anchor intent
          \<or> er_identifier_probe_matched report = Some True
            \<and> i \<in> set (lowercase_identifier_anchor_indexes env (query plan) (terms plan)))
        (enumerate 0 (term_intents plan))"
  using finalize_evidence_ok [OF assms(1-3)] assms(4) unfolding report_applied_def by blast

definition sample_plan :: LexicalQueryPlan where
  "sample_plan = prepared_plan (ascii_env (\<lambda>_. [])) (str ''rust query'')
     \<lparr>pc_query_text = str ''rust query'', pc_scope = None, pc_emphasis = None\<rparr>"

definition sample_report :: QueryEvidenceReport where
  "sample_report = \<lparr>er_schema_version = LEXICAL_QUERY_PLAN_SCHEMA_VERSION, er_identifier_probe_matched = None,
     er_term_support = [\<lparr>ob_probe_id = 0, ob_term_index = 0, ob_document_frequency = 3, ob_prefix_expansions = 2\<rparr>,
       \<lparr>ob_probe_id = 1, ob_term_index = 1, ob_document_frequency = 0, ob_prefix_expansions = 0\<rparr>]\<rparr>"

theorem finalize_evidence_accepts_witness:
  "\<exists>plan'. finalize_evidence (ascii_env (\<lambda>_. [])) sample_plan sample_report = Ok plan'
    \<and> validate_plan (ascii_env (\<lambda>_. [])) plan' = Ok () \<and> kind plan' = Kind_Ordinary
    \<and> map ti_support (term_intents plan') = [Useful, Unsupported]"
proof -
  let ?e = "ascii_env (\<lambda>_. [])"
  have "prepare_lexical_query ?e (str ''rust query'') = Ok sample_plan"
    unfolding sample_plan_def by (rule sample_prepared)
  then have valid: "validate_plan ?e sample_plan = Ok ()" by (metis prepare_lexical_query_Ok)
  have kind: "kind sample_plan = Kind_Ordinary" by code_simp
  have len: "length (term_intents sample_plan) = 2" by code_simp
  have matches: "report_matches sample_plan sample_report" by code_simp
  have supports: "map ti_support xs = [Useful, Unsupported]"
    if "length xs = 2" "list_all2 (\<lambda>observation intent. ti_support intent
          = (if 0 < ob_document_frequency observation then Useful else Unsupported))
        (er_term_support sample_report) (take (length (er_term_support sample_report)) xs)" for xs
    using that by (auto simp: sample_report_def length_Suc_conv numeral_2_eq_2)
  have "er_identifier_probe_matched sample_report = None" by (simp add: sample_report_def)
  then show ?thesis
    using finalize_evidence_accepts [OF valid _ matches] kind len supports by auto
qed

text \<open>
  C2. Without field controls the pipeline of assisted plans is closed: whatever evidence is reported
  for a plan other than an explicit one that \<open>prepare_lexical_query\<close> returned, a matched identifier
  probe included, finalization succeeds, yields a validated plan and carries the reported supports.
\<close>

theorem prepare_finalize_pipeline:
  assumes "ascii_tables env" "prepare_lexical_query env q = Ok plan" "query_text plan = q"
    and "kind plan \<noteq> Kind_Explicit" "report_matches plan report"
  shows "\<exists>plan'. finalize_evidence env plan report = Ok plan' \<and> validate_plan env plan' = Ok ()
    \<and> evidence_outcome plan (er_term_support report) plan' \<and> report_applied env plan report plan'"
proof -
  have "validate_plan env plan = Ok ()" using prepare_lexical_query_Ok [OF assms(2)] by metis
  moreover have "metadata_probe plan \<noteq> None" if "er_identifier_probe_matched report = Some True"
    using assms(5) that by (auto simp: report_matches_def)
  ultimately show ?thesis
    using prepared_probe_anchors [OF assms(1-3)] assms(4,5) by (metis finalize_evidence_ok)
qed

definition identifier_plan :: LexicalQueryPlan where
  "identifier_plan = prepared_plan (ascii_env (\<lambda>_. [])) (str ''iia 2 notes'')
     \<lparr>pc_query_text = str ''iia 2 notes'', pc_scope = None, pc_emphasis = None\<rparr>"

definition identifier_report :: QueryEvidenceReport where
  "identifier_report = \<lparr>er_schema_version = LEXICAL_QUERY_PLAN_SCHEMA_VERSION,
     er_identifier_probe_matched = Some True,
     er_term_support = map (\<lambda>i. \<lparr>ob_probe_id = i, ob_term_index = i, ob_document_frequency = 1,
       ob_prefix_expansions = 1\<rparr>) [0, 1, 2]\<rparr>"

lemma identifier_prepared:
  "prepare_lexical_query (ascii_env (\<lambda>_. [])) (str ''iia 2 notes'') = Ok identifier_plan"
  unfolding identifier_plan_def by (rule prepare_ordinary) code_simp+

theorem prepare_finalize_pipeline_witness:
  "metadata_probe identifier_plan \<noteq> None
   \<and> (\<exists>plan'. finalize_evidence (ascii_env (\<lambda>_. [])) identifier_plan identifier_report = Ok plan'
        \<and> validate_plan (ascii_env (\<lambda>_. [])) plan' = Ok ()
        \<and> evidence_outcome identifier_plan (er_term_support identifier_report) plan'
        \<and> report_applied (ascii_env (\<lambda>_. [])) identifier_plan identifier_report plan')"
proof
  show "metadata_probe identifier_plan \<noteq> None" by code_simp
  show "\<exists>plan'. finalize_evidence (ascii_env (\<lambda>_. [])) identifier_plan identifier_report = Ok plan'
        \<and> validate_plan (ascii_env (\<lambda>_. [])) plan' = Ok ()
        \<and> evidence_outcome identifier_plan (er_term_support identifier_report) plan'
        \<and> report_applied (ascii_env (\<lambda>_. [])) identifier_plan identifier_report plan'"
  proof (rule prepare_finalize_pipeline [OF ascii_env_tables identifier_prepared])
    show "query_text identifier_plan = str ''iia 2 notes''" by (simp add: identifier_plan_def prepared_plan_def Let_def)
    show "kind identifier_plan \<noteq> Kind_Explicit" by code_simp
    show "report_matches identifier_plan identifier_report" by code_simp
  qed
qed

section \<open>Promotion without an anchor\<close>

lemma unanchored_invalid:
  assumes "plan_core env plan" "kind plan \<noteq> Kind_Explicit"
    and "intents_valid env (kind plan) (terms plan) intents" "\<not> (\<exists>intent \<in> set intents. is_anchor intent)"
    and "p = promote_identifier_candidate env plan"
  shows "validate_plan env (settled_plan p intents stages e)
    = Err (invalid_plan ''identifier query must declare at least one required anchor'')"
proof -
  let ?s = "settled_plan p intents stages e"
  have checks: "validate_identity ?s = Ok ()" "validate_controls ?s = Ok ()" "validate_tables ?s = Ok ()"
    "surface_intents_ok ?s"
    using assms(1) promote_checks [OF assms(2), of env]
    unfolding settled_plan_def assms(5) by (simp_all add: plan_update plan_core_iff)
  have "length (terms plan) = length intents" "length intents \<le> 128"
    using assms(3) unfolding intents_valid_def canonical_intents_def by (metis length_map)+
  moreover from this have "validate_term_intents env 0 (terms plan) intents = Ok ()"
    using assms(3) unfolding intents_valid_def
    by (simp only: validate_term_intents_iff canonical_intents_as_u16) blast
  moreover have "bounds p = bounds_v1"
    using plan_core_bounds [OF assms(1)] by (simp add: assms(5) promote_identifier_candidate_def)
  moreover have "assistance ?s = Eligible" using checks(4) by (simp add: surface_intents_ok_def)
  ultimately have "validate_intents env ?s
      = Err (invalid_plan ''identifier query must declare at least one required anchor'')"
    using assms(4) by (simp add: validate_intents_def assms(5) bounds_v1_simps)
  then show ?thesis using checks(1-3) by (simp add: validate_plan_def assms(5))
qed

lemma finalize_unanchored:
  assumes valid: "validate_plan env plan = Ok ()" and kind: "kind plan \<noteq> Kind_Explicit"
    and matches: "report_matches plan report" and matched: "er_identifier_probe_matched report = Some True"
    and none: "lowercase_identifier_anchor_indexes env (query plan) (terms plan) = []"
    and anchors: "\<not> (\<exists>intent \<in> set (term_intents plan). is_anchor intent)"
  shows "finalize_evidence env plan report
    = Err (invalid_plan ''identifier query must declare at least one required anchor'')"
proof -
  let ?err = "Err (invalid_plan ''identifier query must declare at least one required anchor'')"
  let ?p = "plan\<lparr>metadata_probe := None\<rparr>" and ?obs = "er_term_support report"
  let ?p1 = "promote_identifier_candidate env ?p"
  have core: "plan_core env plan" and exec: "validate_execution plan = Ok ()"
    using valid by (simp_all add: validate_plan_assisted [OF kind])
  have eligible: "assistance plan \<noteq> ExplicitSyntaxBypass"
    using core by (simp add: plan_core_iff surface_intents_ok_def)
  have obs: "list_all2 (observation_matches (bounds plan)) (support_probes plan) ?obs"
    and schema: "er_schema_version report = LEXICAL_QUERY_PLAN_SCHEMA_VERSION"
    and probe: "apply_metadata_probe env plan (er_identifier_probe_matched report) = Ok ?p1"
    using matches matched by (auto simp: report_matches_def apply_metadata_probe_def)
  obtain intents where i: "apply_support (bounds plan) (support_probes plan) ?obs (term_intents plan) = Ok intents"
    "intents_valid env (kind plan) (terms plan) intents" "map ti_role intents = map ti_role (term_intents plan)"
    using apply_support_settled [OF core validated_probes_settled [OF core exec] obs] by metis
  have unanchored: "\<not> (\<exists>intent \<in> set intents. is_anchor intent)"
    using anchors i(3) unfolding is_anchor_def by (metis (no_types, lifting) imageE imageI set_map)
  have p1: "bounds ?p1 = bounds plan" "support_probes ?p1 = support_probes plan" "term_intents ?p1 = term_intents plan"
    using none by (simp_all add: promote_identifier_candidate_def)
  have settled: "?p1\<lparr>term_intents := intents, support_probes := [], evidence_stages := [], execution := e\<rparr>
      = settled_plan ?p1 intents [] e"
    "?p1\<lparr>term_intents := intents, support_probes := [], evidence_stages := stages, execution := e\<rparr>
      = settled_plan ?p1 intents stages e" for stages e
    by (simp_all add: settled_plan_def)
  have "validate_plan env (settled_plan ?p1 intents stages e) = ?err" for stages e
    using unanchored_invalid [of env ?p intents ?p1] core kind i(2) unanchored by simp
  then show ?thesis
    using unanchored
    by (simp add: finalize_evidence_def valid schema eligible probe p1 i(1) list_all2_lengthD [OF obs]
        Let_def settled bex_simps)
qed

text \<open>
  C27. Promotion reads the authored query and not the text behind its field controls: whenever a
  query of more than six whitespace tokens, its field controls included, prepares with an identifier
  probe, a matched probe promotes the plan to an identifier query without any anchor, and
  \<open>finalize_evidence\<close> rejects the plan it promoted, whatever the report says of the terms.
\<close>

theorem finalize_rejects_scoped_promotion:
  assumes "prepare_lexical_query env q = Ok plan" "6 < length (split_whitespace q)"
    and "report_matches plan report" "er_identifier_probe_matched report = Some True"
  shows "finalize_evidence env plan report
    = Err (invalid_plan ''identifier query must declare at least one required anchor'')"
proof -
  obtain c where c: "plan = prepared_plan env q c" and valid: "validate_plan env plan = Ok ()"
    using prepare_lexical_query_Ok [OF assms(1)] by metis
  have "metadata_probe plan \<noteq> None" using assms(3,4) by (auto simp: report_matches_def)
  then have k: "classify_query env (pc_query_text c) = Kind_Ordinary"
    and cand: "is_lowercase_identifier_candidate env (pc_query_text c)"
    by (simp_all add: c prepared_plan_def Let_def split: if_splits)
  have kind: "kind plan = Kind_Ordinary" and authored: "query plan = q"
    and intents: "term_intents plan = query_term_intents env (pc_query_text c) Kind_Ordinary"
    using k by (simp_all add: c prepared_plan_def Let_def)
  have none: "lowercase_identifier_anchor_indexes env (query plan) (terms plan) = []"
    using assms(2) by (simp add: lowercase_identifier_anchor_indexes_def lowercase_identifier_components_def authored Let_def)
  have "\<not> (\<exists>intent \<in> set (term_intents plan). is_anchor intent)"
    unfolding intents using ordinary_intents(2) [OF candidate_no_spans [OF k cand]] by blast
  then show ?thesis using finalize_unanchored [OF valid _ assms(3,4) none] kind by simp
qed

definition scoped_plan :: LexicalQueryPlan where
  "scoped_plan = prepared_plan (ascii_env (\<lambda>_. [])) (str ''in:name a b c dd 2 e'')
     \<lparr>pc_query_text = str ''a b c dd 2 e'', pc_scope = Some P_Name, pc_emphasis = None\<rparr>"

definition scoped_report :: QueryEvidenceReport where
  "scoped_report = \<lparr>er_schema_version = LEXICAL_QUERY_PLAN_SCHEMA_VERSION,
     er_identifier_probe_matched = Some True,
     er_term_support = map (\<lambda>i. \<lparr>ob_probe_id = i, ob_term_index = i, ob_document_frequency = 1,
       ob_prefix_expansions = 0\<rparr>) [0, 1, 2, 3, 4, 5]\<rparr>"

lemma scoped_prepared:
  "prepare_lexical_query (ascii_env (\<lambda>_. [])) (str ''in:name a b c dd 2 e'') = Ok scoped_plan"
  unfolding scoped_plan_def by (rule prepare_ordinary) code_simp+

theorem finalize_rejects_scoped_promotion_witness:
  "finalize_evidence (ascii_env (\<lambda>_. [])) scoped_plan scoped_report
     = Err (invalid_plan ''identifier query must declare at least one required anchor'')"
proof (rule finalize_rejects_scoped_promotion [OF scoped_prepared])
  show "6 < length (split_whitespace (str ''in:name a b c dd 2 e''))" by code_simp
  show "report_matches scoped_plan scoped_report" by code_simp
  show "er_identifier_probe_matched scoped_report = Some True" by (simp add: scoped_report_def)
qed

lemma stage_shape_anchors:
  assumes "validate_stage_shape plan partial stage = Ok ()"
    and "st_kind stage \<noteq> ExactMetadata" "st_kind stage \<noteq> ExactPhrase"
  shows "set (anchor_indexes plan) \<subseteq> set (st_required stage)"
  using assms
  by (cases "st_kind stage")
    (auto simp: validate_stage_shape_def is_ok_if_Err Let_def anchor_indexes_def)

lemma stage_list_members:
  assumes "validate_stage_list plan partial n prev stages = Ok ()" "stage \<in> set stages"
  shows "stage_body_ok plan partial stage"
  using assms
  by (induction plan partial n prev stages rule: validate_stage_list.induct)
    (auto simp: and_then_unit validate_stage_iff)

lemma stage_list_strict:
  assumes "validate_stage_list plan partial n prev stages = Ok ()"
  shows "sorted_wrt (<) (map st_kind stages) \<and> (\<forall>k stage. prev = Some k \<longrightarrow> stage \<in> set stages \<longrightarrow> k < st_kind stage)"
  using assms
proof (induction plan partial n prev stages rule: validate_stage_list.induct)
  case (2 plan partial ordinal previous_kind stage stages)
  then show ?case
    by (auto simp: and_then_unit validate_stage_iff intro: less_trans)
qed simp

text \<open>
  C3. A validated ready plan carries a sound evidence ladder: one to six stages of strictly
  increasing strength order with the all-terms stage among them, each bounded to 256 candidates
  and referring to declared terms only, with required and expanded terms disjoint; every stage
  past the exact ones requires every identifier anchor, and no stage is left to expand an anchor.
\<close>

theorem ready_plan_ladder:
  assumes "validate_plan env plan = Ok ()" "execution plan = Ready"
  shows "1 \<le> length (evidence_stages plan) \<and> length (evidence_stages plan) \<le> 6
    \<and> sorted_wrt (<) (map st_kind (evidence_stages plan))
    \<and> AllTerms \<in> st_kind ` set (evidence_stages plan)
    \<and> (\<forall>stage \<in> set (evidence_stages plan).
         0 < st_max_candidates stage \<and> st_max_candidates stage \<le> 256
         \<and> set (st_required stage) \<union> set (st_prefix stage) \<subseteq> {0..<length (terms plan)}
         \<and> set (st_required stage) \<inter> set (st_prefix stage) = {}
         \<and> (st_kind stage \<in> {ExactMetadata, ExactPhrase} \<or> set (anchor_indexes plan) \<subseteq> set (st_required stage))
         \<and> set (anchor_indexes plan) \<inter> set (st_prefix stage) = {})"
proof -
  have kind: "kind plan \<noteq> Kind_Explicit"
    using assms by (auto simp: validate_plan_def validate_explicit_def and_then_unit is_ok_if_Err)
  have core: "plan_core env plan" and exec: "validate_execution plan = Ok ()"
    using assms(1) by (simp_all add: validate_plan_assisted [OF kind])
  note bnds = plan_core_bounds [OF core] and canon = plan_core_canonical [OF core]
  have terms: "length (terms plan) = length (term_intents plan)"
    using plan_core_intents [OF core] unfolding intents_valid_def by (metis length_map)
  have stages: "validate_stages plan = Ok ()" and ne: "evidence_stages plan \<noteq> []"
    using exec assms(2) by (auto simp: validate_execution_def is_ok_if_Err)
  have six: "length (evidence_stages plan) \<le> 6" and kinds: "map st_kind (evidence_stages plan) = expected_stage_kinds plan"
    using stages unfolding validate_stages_def Let_def is_ok_if_Err by (simp_all add: bnds)
  obtain partial where l: "validate_stage_list plan partial 0 None (evidence_stages plan) = Ok ()"
    using stages unfolding validate_stages_def Let_def is_ok_if_Err by blast
  have "AllTerms \<in> set (map st_kind (evidence_stages plan))" unfolding kinds by (simp add: expected_stage_kinds_def)
  moreover have "0 < st_max_candidates stage \<and> st_max_candidates stage \<le> 256
      \<and> set (st_required stage) \<union> set (st_prefix stage) \<subseteq> {0..<length (terms plan)}
      \<and> set (st_required stage) \<inter> set (st_prefix stage) = {}
      \<and> (st_kind stage \<in> {ExactMetadata, ExactPhrase} \<or> set (anchor_indexes plan) \<subseteq> set (st_required stage))
      \<and> set (anchor_indexes plan) \<inter> set (st_prefix stage) = {}"
    if "stage \<in> set (evidence_stages plan)" for stage
  proof -
    have body: "stage_body_ok plan partial stage" by (rule stage_list_members [OF l that])
    then have shape: "validate_stage_shape plan partial stage = Ok ()" by (simp add: stage_body_ok_def)
    have exact: "st_prefix stage = []" if "st_kind stage \<in> {ExactMetadata, ExactPhrase}"
      using that shape by (auto simp: validate_stage_shape_def is_ok_if_Err)
    have required: "set (anchor_indexes plan) \<subseteq> set (st_required stage)"
      if "st_kind stage \<notin> {ExactMetadata, ExactPhrase}"
      using that stage_shape_anchors [OF shape] by simp
    have disjoint: "set (st_required stage) \<inter> set (st_prefix stage) = {}"
      using body by (simp add: stage_body_ok_def)
    then have "set (anchor_indexes plan) \<inter> set (st_prefix stage) = {}"
      using exact required by (cases "st_kind stage \<in> {ExactMetadata, ExactPhrase}") auto
    then show ?thesis
      using body required disjoint canonical_index_set [OF canon] terms bnds
      by (simp add: stage_body_ok_def) blast
  qed
  ultimately show ?thesis
    using ne six stage_list_strict [OF l] by (auto simp: Suc_le_eq)
qed

definition sample_ready :: LexicalQueryPlan where
  "sample_ready = (case finalize_evidence (ascii_env (\<lambda>_. [])) sample_plan sample_report of
     Inr plan \<Rightarrow> plan | Inl _ \<Rightarrow> sample_plan)"

theorem ready_plan_ladder_witness:
  "execution sample_ready = Ready \<and> length (evidence_stages sample_ready) \<le> 6
   \<and> sorted_wrt (<) (map st_kind (evidence_stages sample_ready))
   \<and> AllTerms \<in> st_kind ` set (evidence_stages sample_ready)"
proof -
  have r: "execution sample_ready = Ready" by code_simp
  have "validate_plan (ascii_env (\<lambda>_. [])) sample_ready = Ok ()" by code_simp
  from ready_plan_ladder [OF this r] r show ?thesis by blast
qed

lemma partial_coverage_covers:
  assumes canon: "canonical_intents intents" and some: "partial_coverage_stage intents bounds_v1 pfx = Some p"
  shows "set (pcs_required p) \<union> set (pcs_prefix p)
    = ti_index ` {intent \<in> set intents. is_anchor intent \<or> ti_support intent = Useful}"
proof (cases "\<exists>intent \<in> set intents. ti_role intent = OptionalContext \<and> ti_support intent = Unsupported")
  case True
  show ?thesis
    using some unfolding partial_coverage_stage_def Let_def if_P [OF True]
    by (auto simp: relaxed_term_indexes_canonical [OF canon] split: if_splits)
next
  case False
  let ?opt = "map ti_index (filter (\<lambda>intent. ti_role intent = OptionalContext \<and> ti_support intent = Useful) intents)"
  have "length (filter is_anchor intents)
      + length (filter (\<lambda>intent. ti_role intent = OptionalContext \<and> ti_support intent = Useful) intents)
      \<le> length intents"
    by (induction intents) (auto simp: is_anchor_def)
  then have "length ?opt \<le> 128 - length (filter is_anchor intents)"
    using canon unfolding canonical_intents_def length_map by linarith
  then have all: "take (128 - length (filter is_anchor intents)) ?opt = ?opt" by simp
  have opt: "set ?opt = ti_index ` {intent \<in> set intents. \<not> is_anchor intent \<and> ti_support intent = Useful}"
    using QueryTermRole.exhaust by (auto simp: is_anchor_def)
  obtain inc where inc: "inc = set ?opt" by blast
  have "set (pcs_required p) = ti_index ` {intent \<in> set intents. is_anchor intent
          \<or> (ti_index intent \<in> inc \<and> ti_index intent \<notin> set (pcs_prefix p))}"
    "set (pcs_prefix p) = {i \<in> set pfx. i \<in> inc}"
    using some unfolding partial_coverage_stage_def Let_def if_not_P [OF False] if_None_eq_Some
      bounds_v1_simps length_map all inc [symmetric] by auto
  then show ?thesis using inc opt by auto
qed

text \<open>
  C4. Partial coverage never trades away an identity: whenever the stage exists, its required and
  expanded terms together are exactly the identifier anchors and the useful terms, the two lists are
  strictly increasing and disjoint, every anchor is required, an anchor is never expanded, and the
  unconditional form differs from the all-terms stage.
\<close>

theorem partial_coverage_stage_sound:
  assumes "canonical_intents intents" "partial_coverage_stage intents bounds_v1 pfx = Some p"
  shows "set (pcs_required p) \<union> set (pcs_prefix p)
      = ti_index ` {intent \<in> set intents. is_anchor intent \<or> ti_support intent = Useful}
    \<and> sorted_wrt (<) (pcs_required p) \<and> sorted_wrt (<) (pcs_prefix p)
    \<and> set (pcs_required p) \<inter> set (pcs_prefix p) = {}
    \<and> ti_index ` {intent \<in> set intents. is_anchor intent} \<subseteq> set (pcs_required p)
    \<and> (pcs_minimum_optional p = 0 \<longrightarrow> pcs_required p \<noteq> map ti_index intents)"
  using partial_coverage_covers [OF assms] partial_coverage_sound [OF assms]
  unfolding partial_stage_sound_def by blast

theorem partial_coverage_stage_sound_witness:
  "case partial_coverage_stage (term_intents sample_ready) bounds_v1 [] of
     None \<Rightarrow> False | Some p \<Rightarrow> set (pcs_required p) \<union> set (pcs_prefix p) = {0}"
proof -
  let ?intents = "term_intents sample_ready"
  obtain p where p: "partial_coverage_stage ?intents bounds_v1 [] = Some p"
  proof -
    have "partial_coverage_stage ?intents bounds_v1 [] \<noteq> None" by code_simp
    then show ?thesis using that by blast
  qed
  have "canonical_intents ?intents" by code_simp
  moreover have "ti_index ` {intent \<in> set ?intents. is_anchor intent \<or> ti_support intent = Useful}
      = set (map ti_index (filter (\<lambda>intent. is_anchor intent \<or> ti_support intent = Useful) ?intents))"
    by simp
  moreover have "\<dots> = {0}" by code_simp
  ultimately show ?thesis using partial_coverage_stage_sound [OF _ p] p by simp
qed

end
