(* ===== verification/Typo.thy ===== *)
theory Typo
  imports Query_Plan
begin

text \<open>
  \<open>daemon/crates/kwiry-core/src/typo.rs\<close>: the bounded one-edit typo suggestion.
  \<open>one_edit_apart\<close> is the two-index loop of the source; it is proved equal to the
  declarative notion of one insertion, deletion or substitution, with its work bounded by the
  longer word, so the work limit of \<open>finalize_typo_suggestion\<close> is never hit.  The two
  \<open>expect\<close> calls are the value \<open>None\<close> of an option; they are unreachable.
\<close>

section \<open>Constants and types\<close>

definition TYPO_SUGGESTION_SCHEMA_VERSION :: nat where "TYPO_SUGGESTION_SCHEMA_VERSION = 1"
definition TYPO_PREFIX_CHARS :: nat where "TYPO_PREFIX_CHARS = 4"
definition TYPO_MIN_TERM_CHARS :: nat where "TYPO_MIN_TERM_CHARS = 5"
definition TYPO_MAX_TERM_BYTES :: nat where "TYPO_MAX_TERM_BYTES = 48"
definition TYPO_MAX_VOCABULARY_CANDIDATES :: nat where "TYPO_MAX_VOCABULARY_CANDIDATES = 40"
definition TYPO_MAX_CANDIDATE_BYTES :: nat where "TYPO_MAX_CANDIDATE_BYTES = 96"
definition TYPO_MAX_EDIT_DISTANCE :: nat where "TYPO_MAX_EDIT_DISTANCE = 1"
definition TYPO_MAX_OUTPUT_SUGGESTIONS :: nat where "TYPO_MAX_OUTPUT_SUGGESTIONS = 1"
definition TYPO_MAX_WORK_UNITS :: nat where
  "TYPO_MAX_WORK_UNITS = TYPO_MAX_VOCABULARY_CANDIDATES * TYPO_MAX_CANDIDATE_BYTES"
definition TYPO_PREFIX_LIMITATION :: string where
  "TYPO_PREFIX_LIMITATION = ''Bounded prefix vocabulary only considers terms sharing the first four ASCII characters; it cannot catch early-character errors such as rettrieval.''"

lemmas typo_constants = TYPO_SUGGESTION_SCHEMA_VERSION_def TYPO_PREFIX_CHARS_def
  TYPO_MIN_TERM_CHARS_def TYPO_MAX_TERM_BYTES_def TYPO_MAX_VOCABULARY_CANDIDATES_def
  TYPO_MAX_CANDIDATE_BYTES_def TYPO_MAX_EDIT_DISTANCE_def TYPO_MAX_OUTPUT_SUGGESTIONS_def
  TYPO_MAX_WORK_UNITS_def

datatype TypoSuggestionDisposition =
  Typo_Probe | Typo_ExplicitSyntaxBypass | Typo_Ineligible | Typo_Suggestion | Typo_NoCandidate

record TypoSuggestionBounds =
  tb_prefix_chars :: nat
  tb_max_term_bytes :: nat
  tb_max_vocabulary_candidates :: nat
  tb_max_candidate_bytes :: nat
  tb_max_edit_distance :: nat
  tb_max_output_suggestions :: nat
  tb_max_work_units :: nat

definition typo_bounds_prototype :: TypoSuggestionBounds where
  "typo_bounds_prototype =
     \<lparr>tb_prefix_chars = TYPO_PREFIX_CHARS, tb_max_term_bytes = TYPO_MAX_TERM_BYTES,
      tb_max_vocabulary_candidates = TYPO_MAX_VOCABULARY_CANDIDATES,
      tb_max_candidate_bytes = TYPO_MAX_CANDIDATE_BYTES,
      tb_max_edit_distance = TYPO_MAX_EDIT_DISTANCE,
      tb_max_output_suggestions = TYPO_MAX_OUTPUT_SUGGESTIONS,
      tb_max_work_units = TYPO_MAX_WORK_UNITS\<rparr>"

record TypoSuggestionPlan =
  tp_schema_version :: nat
  tp_disposition :: TypoSuggestionDisposition
  tp_query :: rstring
  tp_term :: "rstring option"
  tp_prefix_pattern :: "rstring option"
  tp_bounds :: TypoSuggestionBounds
  tp_limitation :: string

record TypoVocabularyCandidate =
  tc_term :: rstring
  tc_document_frequency :: nat

record TypoSuggestionResult =
  tr_schema_version :: nat
  tr_disposition :: TypoSuggestionDisposition
  tr_original_query :: rstring
  tr_suggested_query :: "rstring option"
  tr_candidates_examined :: nat
  tr_work_units :: nat
  tr_bounds :: TypoSuggestionBounds
  tr_limitation :: string

section \<open>Preparation\<close>

definition typo_plan ::
  "rstring \<Rightarrow> TypoSuggestionDisposition \<Rightarrow> rstring option \<Rightarrow> rstring option \<Rightarrow> TypoSuggestionPlan" where
  "typo_plan q disposition term prefix_pattern =
     \<lparr>tp_schema_version = TYPO_SUGGESTION_SCHEMA_VERSION, tp_disposition = disposition, tp_query = q,
      tp_term = term, tp_prefix_pattern = prefix_pattern, tp_bounds = typo_bounds_prototype,
      tp_limitation = TYPO_PREFIX_LIMITATION\<rparr>"

definition eq_ignore_ascii_case :: "rstring \<Rightarrow> rstring \<Rightarrow> bool" where
  "eq_ignore_ascii_case s t \<longleftrightarrow> map to_ascii_lowercase s = map to_ascii_lowercase t"

definition prepare_typo_suggestion :: "text_env \<Rightarrow> rstring \<Rightarrow> TypoSuggestionPlan" where
  "prepare_typo_suggestion env q =
     (if q = [] \<or> str_len q > MAX_QUERY_BYTES then typo_plan q Typo_Ineligible None None
      else (case prepare_lexical_query env q of
          Inl _ \<Rightarrow> typo_plan q Typo_Ineligible None None
        | Inr plan \<Rightarrow>
            if assistance plan = ExplicitSyntaxBypass then typo_plan q Typo_ExplicitSyntaxBypass None None
            else if kind plan \<noteq> Kind_Ordinary \<or> length (terms plan) \<noteq> 1
            then typo_plan q Typo_Ineligible None None
            else
              (let term = terms plan ! 0; authored = trim q
               in if str_len term > TYPO_MAX_TERM_BYTES \<or> length term < TYPO_MIN_TERM_CHARS
                     \<or> \<not> (\<forall>c \<in> set term. is_ascii_lowercase c)
                     \<or> \<not> (\<forall>c \<in> set authored. is_ascii_alphabetic c)
                     \<or> \<not> eq_ignore_ascii_case authored term
                  then typo_plan q Typo_Ineligible None None
                  else
                    (let pfx = take TYPO_PREFIX_CHARS term
                     in if length pfx \<noteq> TYPO_PREFIX_CHARS then typo_plan q Typo_Ineligible None None
                        else typo_plan q Typo_Probe (Some term) (Some (pfx @ str ''%''))))))"

section \<open>One edit apart\<close>

text \<open>The words reaching the loop are ASCII, so their bytes are their scalar values.\<close>

function edit_loop :: "nat list \<Rightarrow> nat list \<Rightarrow> nat \<Rightarrow> nat \<Rightarrow> nat \<Rightarrow> nat \<Rightarrow> bool \<times> nat" where
  "edit_loop left right left_index right_index edits work =
     (if left_index < length left \<and> right_index < length right then
        (if left ! left_index = right ! right_index
         then edit_loop left right (left_index + 1) (right_index + 1) edits (work + 1)
         else if edits + 1 > TYPO_MAX_EDIT_DISTANCE then (False, work + 1)
         else (case cmp_ord (length left) (length right) of
             Equal \<Rightarrow> edit_loop left right (left_index + 1) (right_index + 1) (edits + 1) (work + 1)
           | Greater \<Rightarrow> edit_loop left right (left_index + 1) right_index (edits + 1) (work + 1)
           | Less \<Rightarrow> edit_loop left right left_index (right_index + 1) (edits + 1) (work + 1)))
      else if left_index < length left \<or> right_index < length right
      then (edits + 1 = TYPO_MAX_EDIT_DISTANCE, work + 1)
      else (edits = TYPO_MAX_EDIT_DISTANCE, work))"
  by pat_completeness auto
termination
  by (relation "measure (\<lambda>(left, right, i, j, _). (length left - i) + (length right - j))") auto

declare edit_loop.simps [simp del]

definition abs_diff :: "nat \<Rightarrow> nat \<Rightarrow> nat" where
  "abs_diff a b = (if a \<le> b then b - a else a - b)"

definition one_edit_apart :: "nat list \<Rightarrow> nat list \<Rightarrow> bool \<times> nat" where
  "one_edit_apart left right =
     (if left = right \<or> abs_diff (length left) (length right) > TYPO_MAX_EDIT_DISTANCE then (False, 1)
      else edit_loop left right 0 0 0 0)"

section \<open>Finalization\<close>

definition result_from_plan ::
  "TypoSuggestionPlan \<Rightarrow> rstring option \<Rightarrow> nat \<Rightarrow> nat \<Rightarrow> TypoSuggestionResult" where
  "result_from_plan plan suggestion candidates_examined work_units =
     \<lparr>tr_schema_version = TYPO_SUGGESTION_SCHEMA_VERSION,
      tr_disposition = (case tp_disposition plan of
          Typo_Probe \<Rightarrow> if suggestion \<noteq> None then Typo_Suggestion else Typo_NoCandidate
        | other \<Rightarrow> other),
      tr_original_query = tp_query plan, tr_suggested_query = suggestion,
      tr_candidates_examined = candidates_examined, tr_work_units = work_units,
      tr_bounds = tp_bounds plan, tr_limitation = tp_limitation plan\<rparr>"

definition candidate_invalid :: "rstring \<Rightarrow> rstring set \<Rightarrow> TypoVocabularyCandidate \<Rightarrow> bool" where
  "candidate_invalid pfx seen candidate \<longleftrightarrow>
     tc_document_frequency candidate = 0 \<or> tc_term candidate = []
     \<or> str_len (tc_term candidate) > TYPO_MAX_CANDIDATE_BYTES
     \<or> \<not> (\<forall>c \<in> set (tc_term candidate). is_ascii_lowercase c)
     \<or> \<not> starts_with pfx (tc_term candidate) \<or> tc_term candidate \<in> seen"

fun typo_loop ::
  "rstring \<Rightarrow> rstring \<Rightarrow> rstring set \<Rightarrow> (rstring \<times> nat) list \<Rightarrow> nat \<Rightarrow> TypoVocabularyCandidate list \<Rightarrow>
   string + (rstring \<times> nat) list \<times> nat" where
  "typo_loop term pfx seen ranked work_units [] = Ok (ranked, work_units)"
| "typo_loop term pfx seen ranked work_units (candidate # candidates) =
     (if candidate_invalid pfx seen candidate then Err ''typo vocabulary candidate is invalid''
      else
        (let (matches, work) = one_edit_apart term (tc_term candidate)
         in if work_units + work \<ge> 2 ^ 64 then Err ''typo suggestion work counter overflowed''
            else if work_units + work > TYPO_MAX_WORK_UNITS
            then Err ''typo suggestion work exceeds its bound''
            else typo_loop term pfx (insert (tc_term candidate) seen)
              (if matches then ranked @ [(tc_term candidate, tc_document_frequency candidate)] else ranked)
              (work_units + work) candidates))"

definition suggestion_cmp :: "rstring \<times> nat \<Rightarrow> rstring \<times> nat \<Rightarrow> ordering" where
  "suggestion_cmp left right =
     then_with (cmp_ord (snd right) (snd left)) (cmp_ord (fst left) (fst right))"

definition strip_percent :: "rstring \<Rightarrow> rstring option" where
  "strip_percent pattern = (if pattern \<noteq> [] \<and> last pattern = 37 then Some (butlast pattern) else None)"

definition finalize_typo_suggestion ::
  "text_env \<Rightarrow> rstring \<Rightarrow> TypoVocabularyCandidate list \<Rightarrow> (string + TypoSuggestionResult) option" where
  "finalize_typo_suggestion env q candidates =
     (let plan = prepare_typo_suggestion env q
      in if length candidates > TYPO_MAX_VOCABULARY_CANDIDATES
         then Some (Err ''typo vocabulary candidate count exceeds its bound'')
         else if tp_disposition plan \<noteq> Typo_Probe then
           (if candidates \<noteq> [] then Some (Err ''ineligible typo suggestion received vocabulary candidates'')
            else Some (Ok (result_from_plan plan None 0 0)))
         else (case tp_term plan of
             None \<Rightarrow> None
           | Some term \<Rightarrow>
               (case Option.bind (tp_prefix_pattern plan) strip_percent of
                  None \<Rightarrow> None
                | Some pfx \<Rightarrow>
                    Some (and_then (typo_loop term pfx {} [] 0 candidates) (\<lambda>(ranked, work_units).
                      (let sorted = sort_by suggestion_cmp ranked;
                           suggestion = (case sorted of [] \<Rightarrow> None | r # _ \<Rightarrow> Some (fst r))
                       in Ok (result_from_plan plan suggestion (length candidates) work_units)))))))"

section \<open>Correctness of the edit loop\<close>

definition one_deletion :: "'a list \<Rightarrow> 'a list \<Rightarrow> bool" where
  "one_deletion xs ys \<longleftrightarrow> (\<exists>us a vs. xs = us @ a # vs \<and> ys = us @ vs)"

definition one_substitution :: "'a list \<Rightarrow> 'a list \<Rightarrow> bool" where
  "one_substitution xs ys \<longleftrightarrow> (\<exists>us a b vs. a \<noteq> b \<and> xs = us @ a # vs \<and> ys = us @ b # vs)"

definition one_edit :: "'a list \<Rightarrow> 'a list \<Rightarrow> bool" where
  "one_edit xs ys \<longleftrightarrow> one_deletion xs ys \<or> one_deletion ys xs \<or> one_substitution xs ys"

lemma one_deletion_Cons:
  "one_deletion (x # xs) (y # ys) \<longleftrightarrow> xs = y # ys \<or> x = y \<and> one_deletion xs ys"
proof
  assume "one_deletion (x # xs) (y # ys)"
  then obtain us a vs where e: "x # xs = us @ a # vs" "y # ys = us @ vs" by (auto simp: one_deletion_def)
  then show "xs = y # ys \<or> x = y \<and> one_deletion xs ys"
    unfolding one_deletion_def by (cases us) auto
next
  assume "xs = y # ys \<or> x = y \<and> one_deletion xs ys"
  then show "one_deletion (x # xs) (y # ys)"
    unfolding one_deletion_def by (metis append_Cons append_Nil)
qed

lemma one_substitution_Cons:
  "one_substitution (x # xs) (y # ys) \<longleftrightarrow> x \<noteq> y \<and> xs = ys \<or> x = y \<and> one_substitution xs ys"
proof
  assume "one_substitution (x # xs) (y # ys)"
  then obtain us a b vs where e: "a \<noteq> b" "x # xs = us @ a # vs" "y # ys = us @ b # vs"
    by (auto simp: one_substitution_def)
  then show "x \<noteq> y \<and> xs = ys \<or> x = y \<and> one_substitution xs ys"
    unfolding one_substitution_def by (cases us) auto
next
  assume "x \<noteq> y \<and> xs = ys \<or> x = y \<and> one_substitution xs ys"
  then show "one_substitution (x # xs) (y # ys)"
    unfolding one_substitution_def by (metis append_Cons append_Nil)
qed

lemma one_edit_Nil [simp]: "one_edit [] ys \<longleftrightarrow> length ys = 1" "one_edit xs [] \<longleftrightarrow> length xs = 1"
  by (auto simp: one_edit_def one_deletion_def one_substitution_def length_Suc_conv)

lemma one_deletion_Cons_self: "one_deletion (x # xs) xs"
  unfolding one_deletion_def by (metis append_Nil)

lemma one_edit_Cons:
  "one_edit (x # xs) (y # ys) \<longleftrightarrow>
     (if x = y then one_edit xs ys else xs = ys \<or> xs = y # ys \<or> ys = x # xs)"
  using one_deletion_Cons_self [of y ys] one_deletion_Cons_self [of y xs]
  by (auto simp: one_edit_def one_deletion_Cons one_substitution_Cons)

lemma one_edit_irrefl: "\<not> one_edit xs xs"
  by (induction xs) (simp_all add: one_edit_Cons)

lemma one_edit_lengths: "one_edit xs ys \<Longrightarrow> abs_diff (length xs) (length ys) \<le> 1"
  by (auto simp: one_edit_def one_deletion_def one_substitution_def abs_diff_def)

text \<open>After the edit the remaining words have equal length and must agree.\<close>

lemma edit_loop_spent:
  assumes "length left - i = length right - j" "i \<le> length left" "j \<le> length right"
  shows "fst (edit_loop left right i j 1 work) \<longleftrightarrow> drop i left = drop j right"
  using assms
proof (induction "length left - i" arbitrary: i j work)
  case 0
  then show ?case by (subst edit_loop.simps) (simp add: TYPO_MAX_EDIT_DISTANCE_def)
next
  case (Suc n)
  then have "i < length left" "j < length right" by linarith+
  then show ?case
    using Suc.hyps(1) [of "i + 1" "j + 1"] Suc.hyps(2) Suc.prems
    by (subst edit_loop.simps) (simp add: TYPO_MAX_EDIT_DISTANCE_def Cons_nth_drop_Suc [symmetric])
qed

lemma edit_loop_fresh:
  assumes "abs_diff (length left) (length right) \<le> 1" "i \<le> length left" "i \<le> length right"
  shows "fst (edit_loop left right i i 0 work) \<longleftrightarrow> one_edit (drop i left) (drop i right)"
  using assms(2,3)
proof (induction "length left - i" arbitrary: i work)
  case 0
  then show ?case
    using assms(1)
    by (subst edit_loop.simps) (auto simp: TYPO_MAX_EDIT_DISTANCE_def abs_diff_def split: if_splits)
next
  case (Suc n)
  then have il: "i < length left" by linarith
  show ?case
  proof (cases "i < length right")
    case False
    with Suc.prems il assms(1) show ?thesis
      by (subst edit_loop.simps) (auto simp: TYPO_MAX_EDIT_DISTANCE_def abs_diff_def split: if_splits)
  next
    case ir: True
    have drops: "drop i left = left ! i # drop (i + 1) left" "drop i right = right ! i # drop (i + 1) right"
      using il ir by (simp_all add: Cons_nth_drop_Suc)
    show ?thesis
    proof (cases "left ! i = right ! i")
      case True
      with il ir Suc.hyps(1) [of "i + 1"] Suc.hyps(2) show ?thesis
        by (subst edit_loop.simps) (simp add: drops one_edit_Cons)
    next
      case False
      have edit: "one_edit (drop i left) (drop i right) \<longleftrightarrow>
          drop (i + 1) left = drop (i + 1) right \<or> drop (i + 1) left = drop i right
          \<or> drop (i + 1) right = drop i left"
        using False by (simp add: drops one_edit_Cons)
      consider "length left = length right" | "length left = length right + 1" | "length right = length left + 1"
        using assms(1) by (auto simp: abs_diff_def split: if_splits) linarith+
      then show ?thesis
      proof cases
        case 1
        then show ?thesis
          using False il ir edit_loop_spent [of left "i + 1" right "i + 1" "work + 1"]
          by (subst edit_loop.simps) (auto simp: TYPO_MAX_EDIT_DISTANCE_def edit cmp_ord_def dest: arg_cong [of _ _ length])
      next
        case 2
        then show ?thesis
          using False il ir edit_loop_spent [of left "i + 1" right i "work + 1"]
          by (subst edit_loop.simps) (auto simp: TYPO_MAX_EDIT_DISTANCE_def edit cmp_ord_def dest: arg_cong [of _ _ length])
      next
        case 3
        then show ?thesis
          using False il ir edit_loop_spent [of left i right "i + 1" "work + 1"]
          by (subst edit_loop.simps) (auto simp: TYPO_MAX_EDIT_DISTANCE_def edit cmp_ord_def dest: arg_cong [of _ _ length])
      qed
    qed
  qed
qed

lemma edit_loop_work:
  assumes "(length right \<le> length left \<longrightarrow> work \<le> i) \<and> (length left \<le> length right \<longrightarrow> work \<le> j)"
    and "i \<le> length left" "j \<le> length right" "edits \<le> 1"
    and "length right < length left \<longrightarrow> i \<le> j + edits" "length left < length right \<longrightarrow> j \<le> i + edits"
  shows "snd (edit_loop left right i j edits work) \<le> max (length left) (length right)"
  using assms
proof (induction left right i j edits work rule: edit_loop.induct)
  case (1 left right i j edits work)
  show ?case
  proof (cases "i < length left \<and> j < length right")
    case False
    have "Suc work \<le> max (length left) (length right)" if "i < length left \<or> j < length right"
      using that False "1.prems" by (cases "length left" "length right" rule: linorder_cases) auto
    with False "1.prems" show ?thesis by (subst edit_loop.simps) auto
  next
    case True
    then have bound: "Suc work \<le> max (length left) (length right)" using "1.prems" by auto
    show ?thesis
    proof (cases "left ! i = right ! j")
      case eq: True
      from True eq "1.IH"(1) [OF True eq] "1.prems" show ?thesis by (subst edit_loop.simps) auto
    next
      case neq: False
      show ?thesis
      proof (cases "edits + 1 > TYPO_MAX_EDIT_DISTANCE")
        case True
        with \<open>i < length left \<and> j < length right\<close> neq bound show ?thesis by (subst edit_loop.simps) auto
      next
        case False
        note ih = "1.IH"(2-4) [OF True neq False]
        from True neq False ih "1.prems" show ?thesis
          by (subst edit_loop.simps)
            (cases "length left" "length right" rule: linorder_cases;
             auto simp: cmp_ord_def TYPO_MAX_EDIT_DISTANCE_def)
      qed
    qed
  qed
qed

lemma one_edit_apart_fst: "fst (one_edit_apart left right) = one_edit left right"
  using edit_loop_fresh [of left right 0] one_edit_irrefl one_edit_lengths [of left right]
  by (auto simp: one_edit_apart_def TYPO_MAX_EDIT_DISTANCE_def)

lemma one_edit_apart_snd: "snd (one_edit_apart left right) \<le> max 1 (max (length left) (length right))"
  using edit_loop_work [of right left 0 0 0 0] by (auto simp: one_edit_apart_def)

lemma one_edit_apart_work:
  assumes "length left \<le> 48" "length right \<le> 96"
  shows "snd (one_edit_apart left right) \<le> 96"
  using one_edit_apart_snd [of left right] assms by linarith

section \<open>The vocabulary loop\<close>

lemma comparator_suggestion: "comparator suggestion_cmp"
  unfolding suggestion_cmp_def by (intro cmp_intro)

interpretation suggestion: comparator suggestion_cmp
  by (rule comparator_suggestion)

definition valid_vocabulary :: "rstring \<Rightarrow> TypoVocabularyCandidate list \<Rightarrow> bool" where
  "valid_vocabulary pfx candidates \<longleftrightarrow>
     distinct (map tc_term candidates) \<and> (\<forall>candidate \<in> set candidates. \<not> candidate_invalid pfx {} candidate)"

definition near_candidates :: "rstring \<Rightarrow> TypoVocabularyCandidate list \<Rightarrow> (rstring \<times> nat) list" where
  "near_candidates term candidates =
     map (\<lambda>candidate. (tc_term candidate, tc_document_frequency candidate))
       (filter (\<lambda>candidate. one_edit term (tc_term candidate)) candidates)"

lemma candidate_invalid_seen:
  "candidate_invalid pfx seen candidate \<longleftrightarrow> candidate_invalid pfx {} candidate \<or> tc_term candidate \<in> seen"
  by (auto simp: candidate_invalid_def)

lemma valid_candidate_length: "\<not> candidate_invalid pfx seen candidate \<Longrightarrow> length (tc_term candidate) \<le> 96"
  using length_le_str_len [of "tc_term candidate"]
  by (auto simp: candidate_invalid_def TYPO_MAX_CANDIDATE_BYTES_def)

text \<open>
  The loop either stops at an invalid candidate or collects every near one; within the bounds on
  words and candidates neither work check can fail.
\<close>

lemma typo_loop_spec:
  assumes "length t \<le> 48" "work + 96 * length candidates \<le> 3840"
  shows "if valid_vocabulary pfx candidates \<and> tc_term ` set candidates \<inter> seen = {}
    then \<exists>w. typo_loop t pfx seen ranked work candidates = Ok (ranked @ near_candidates t candidates, w)
           \<and> w \<le> work + 96 * length candidates
    else typo_loop t pfx seen ranked work candidates = Err ''typo vocabulary candidate is invalid''"
  using assms
proof (induction t pfx seen ranked work candidates rule: typo_loop.induct)
  case (1 t pfx seen ranked work)
  then show ?case by (simp add: valid_vocabulary_def near_candidates_def)
next
  case (2 t pfx seen ranked work candidate candidates)
  show ?case
  proof (cases "candidate_invalid pfx seen candidate")
    case True
    then show ?thesis by (auto simp: valid_vocabulary_def candidate_invalid_seen [of pfx seen])
  next
    case False
    obtain m w where mw: "one_edit_apart t (tc_term candidate) = (m, w)" by fastforce
    have m: "m = one_edit t (tc_term candidate)" using one_edit_apart_fst [of t "tc_term candidate"] mw by simp
    have w: "w \<le> 96"
      using one_edit_apart_work [OF "2.prems"(1) valid_candidate_length [OF False]] mw by simp
    let ?ranked = "if m then ranked @ [(tc_term candidate, tc_document_frequency candidate)] else ranked"
    have step: "typo_loop t pfx seen ranked work (candidate # candidates)
        = typo_loop t pfx (insert (tc_term candidate) seen) ?ranked (work + w) candidates"
      using False mw w "2.prems"(2) by (simp add: typo_constants)
    have ih: "if valid_vocabulary pfx candidates \<and> tc_term ` set candidates \<inter> insert (tc_term candidate) seen = {}
      then \<exists>w'. typo_loop t pfx (insert (tc_term candidate) seen) ?ranked (work + w) candidates
             = Ok (?ranked @ near_candidates t candidates, w') \<and> w' \<le> (work + w) + 96 * length candidates
      else typo_loop t pfx (insert (tc_term candidate) seen) ?ranked (work + w) candidates
             = Err ''typo vocabulary candidate is invalid''"
      using "2.IH" [OF False mw [symmetric] refl] "2.prems" w by (simp add: typo_constants)
    have valid: "valid_vocabulary pfx (candidate # candidates) \<and> tc_term ` set (candidate # candidates) \<inter> seen = {}
      \<longleftrightarrow> valid_vocabulary pfx candidates \<and> tc_term ` set candidates \<inter> insert (tc_term candidate) seen = {}"
      using False by (auto simp: valid_vocabulary_def candidate_invalid_seen [of pfx seen])
    have near: "ranked @ near_candidates t (candidate # candidates) = ?ranked @ near_candidates t candidates"
      by (simp add: near_candidates_def m)
    show ?thesis
      using ih w unfolding valid step near by (auto split: if_splits)
  qed
qed

lemma prepare_typo_probe_facts:
  assumes "tp_disposition (prepare_typo_suggestion env q) = Typo_Probe"
  obtains t where "prepare_typo_suggestion env q = typo_plan q Typo_Probe (Some t) (Some (take 4 t @ [37]))"
    "5 \<le> length t" "str_len t \<le> 48" "\<forall>c \<in> set t. is_ascii_lowercase c"
    "map to_ascii_lowercase (trim q) = t" "\<forall>c \<in> set (trim q). is_ascii_alphabetic c"
proof -
  have d: "tp_disposition (typo_plan q x a b) = x" for x a b by (simp add: typo_plan_def)
  obtain plan where plan: "prepare_lexical_query env q = Ok plan" "prepare_typo_suggestion env q
      = typo_plan q Typo_Probe (Some (terms plan ! 0)) (Some (take 4 (terms plan ! 0) @ [37]))"
    "5 \<le> length (terms plan ! 0)" "str_len (terms plan ! 0) \<le> 48"
    "\<forall>c \<in> set (terms plan ! 0). is_ascii_lowercase c" "\<forall>c \<in> set (trim q). is_ascii_alphabetic c"
    "eq_ignore_ascii_case (trim q) (terms plan ! 0)"
    using assms
    by (auto simp: prepare_typo_suggestion_def Let_def d typo_constants split: if_splits sum.splits)
  have "map to_ascii_lowercase (terms plan ! 0) = terms plan ! 0"
    using plan(5) by (intro map_idI) (auto simp: ascii_class_defs)
  then show ?thesis using that [OF plan(2-5) _ plan(6)] plan(7) by (simp add: eq_ignore_ascii_case_def)
qed

lemma strip_percent_append [simp]: "strip_percent (s @ [37]) = Some s"
  by (simp add: strip_percent_def)

lemma finalize_typo_probe:
  assumes "tp_disposition (prepare_typo_suggestion env q) = Typo_Probe"
    and "tp_term (prepare_typo_suggestion env q) = Some term" "length candidates \<le> 40"
  shows "if valid_vocabulary (take 4 term) candidates
    then \<exists>w. w \<le> 96 * length candidates \<and> finalize_typo_suggestion env q candidates
      = Some (Ok (result_from_plan (prepare_typo_suggestion env q)
          (case sort_by suggestion_cmp (near_candidates term candidates) of [] \<Rightarrow> None | r # _ \<Rightarrow> Some (fst r))
          (length candidates) w))
    else finalize_typo_suggestion env q candidates = Some (Err ''typo vocabulary candidate is invalid'')"
proof -
  obtain t where t: "prepare_typo_suggestion env q = typo_plan q Typo_Probe (Some t) (Some (take 4 t @ [37]))"
    "str_len t \<le> 48"
    using prepare_typo_probe_facts [OF assms(1)] by metis
  have "t = term" using assms(2) t(1) by (simp add: typo_plan_def)
  have len: "length term \<le> 48" using t(2) length_le_str_len [of t] \<open>t = term\<close> by simp
  have "finalize_typo_suggestion env q candidates
      = Some (and_then (typo_loop term (take 4 term) {} [] 0 candidates) (\<lambda>(ranked, work_units).
          Ok (result_from_plan (prepare_typo_suggestion env q)
            (case sort_by suggestion_cmp ranked of [] \<Rightarrow> None | r # _ \<Rightarrow> Some (fst r)) (length candidates) work_units)))"
    using assms t(1) \<open>t = term\<close>
    by (simp add: finalize_typo_suggestion_def Let_def typo_plan_def typo_constants)
  then show ?thesis
    using typo_loop_spec [OF len, of 0 candidates "take 4 term" "{}" "[]"] assms(3) by (auto split: if_splits)
qed

section \<open>Properties\<close>

text \<open>
  C16. The two-index edit loop decides exactly one edit: it reports a match if and only if one
  word arises from the other by deleting, inserting or substituting a single byte, and its work
  never exceeds the longer word (or one unit).
\<close>

theorem one_edit_apart_correct:
  "(fst (one_edit_apart left right) \<longleftrightarrow>
     (\<exists>us a vs. left = us @ a # vs \<and> right = us @ vs)
     \<or> (\<exists>us a vs. right = us @ a # vs \<and> left = us @ vs)
     \<or> (\<exists>us a b vs. a \<noteq> b \<and> left = us @ a # vs \<and> right = us @ b # vs))
   \<and> snd (one_edit_apart left right) \<le> max 1 (max (length left) (length right))"
  using one_edit_apart_snd [of left right]
  unfolding one_edit_apart_fst one_edit_def one_deletion_def one_substitution_def by blast

text \<open>
  C15. The suggestion is the best one-edit neighbour: for a probe plan and at most forty valid
  vocabulary candidates, finalization succeeds; it suggests nothing exactly when no candidate is one
  edit away, and otherwise a candidate one edit away whose document frequency is maximal and which
  is lexicographically least among those.
\<close>

theorem finalize_typo_suggestion_optimal:
  assumes "tp_disposition (prepare_typo_suggestion env q) = Typo_Probe"
    and "tp_term (prepare_typo_suggestion env q) = Some word" "length candidates \<le> 40"
    and "valid_vocabulary (take 4 word) candidates"
  shows "\<exists>r. finalize_typo_suggestion env q candidates = Some (Ok r)
    \<and> tr_candidates_examined r = length candidates \<and> tr_work_units r \<le> 96 * length candidates
    \<and> (case tr_suggested_query r of
         None \<Rightarrow> tr_disposition r = Typo_NoCandidate \<and> (\<forall>c \<in> set candidates. \<not> one_edit word (tc_term c))
       | Some s \<Rightarrow> tr_disposition r = Typo_Suggestion
           \<and> (\<exists>c \<in> set candidates. tc_term c = s \<and> one_edit word s
             \<and> (\<forall>d \<in> set candidates. one_edit word (tc_term d) \<longrightarrow>
                  tc_document_frequency d < tc_document_frequency c
                  \<or> tc_document_frequency d = tc_document_frequency c \<and> s \<le> tc_term d)))"
proof -
  let ?near = "near_candidates word candidates"
  let ?s = "case sort_by suggestion_cmp ?near of [] \<Rightarrow> None | r # _ \<Rightarrow> Some (fst r)"
  let ?r = "\<lambda>w. result_from_plan (prepare_typo_suggestion env q) ?s (length candidates) w"
  obtain w where w: "w \<le> 96 * length candidates" "finalize_typo_suggestion env q candidates = Some (Ok (?r w))"
    using finalize_typo_probe [OF assms(1-3)] assms(4) by auto
  have near: "(s, f) \<in> set ?near \<longleftrightarrow> (\<exists>c \<in> set candidates. tc_term c = s \<and> tc_document_frequency c = f \<and> one_edit word s)"
    for s f by (auto simp: near_candidates_def)
  show ?thesis
  proof (cases "sort_by suggestion_cmp ?near")
    case Nil
    then have "?near = []" by simp
    then have "\<forall>c \<in> set candidates. \<not> one_edit word (tc_term c)"
      by (simp add: near_candidates_def filter_empty_conv)
    then show ?thesis using w Nil assms(1) by (auto simp: result_from_plan_def)
  next
    case (Cons h hs)
    obtain s f where h: "h = (s, f)" by fastforce
    have "h \<in> set ?near" using Cons by (metis list.set_intros(1) set_sort_by)
    then obtain c where c: "c \<in> set candidates" "tc_term c = s" "tc_document_frequency c = f" "one_edit word s"
      using near h by blast
    have least: "suggestion_cmp (s, f) y \<noteq> Greater" if "y \<in> set ?near" for y
      using suggestion.hd_sort_by_least [OF _ that] that Cons h by (metis list.sel(1) list.distinct(1) set_empty2 empty_iff list.set(1))
    have "tc_document_frequency d < f \<or> tc_document_frequency d = f \<and> s \<le> tc_term d"
      if "d \<in> set candidates" "one_edit word (tc_term d)" for d
    proof -
      have "suggestion_cmp (s, f) (tc_term d, tc_document_frequency d) \<noteq> Greater"
        using least near that by blast
      then show ?thesis by (auto simp: suggestion_cmp_def cmp_ord_def split: if_splits)
    qed
    then show ?thesis using w Cons assms(1) c h by (auto simp: result_from_plan_def)
  qed
qed

definition typo_sample :: "TypoVocabularyCandidate list" where
  "typo_sample = [\<lparr>tc_term = str ''search'', tc_document_frequency = 9\<rparr>,
     \<lparr>tc_term = str ''seared'', tc_document_frequency = 12\<rparr>]"

theorem finalize_typo_suggestion_optimal_witness:
  "\<exists>r. finalize_typo_suggestion (ascii_env (\<lambda>_. [])) (str ''searh'') typo_sample = Some (Ok r)
     \<and> tr_work_units r \<le> 192"
proof -
  let ?plan = "prepare_typo_suggestion (ascii_env (\<lambda>_. [])) (str ''searh'')"
  have d: "tp_disposition ?plan = Typo_Probe" by code_simp
  have t: "tp_term ?plan = Some (str ''searh'')" by code_simp
  have l: "length typo_sample \<le> 40" by code_simp
  have v: "valid_vocabulary (take 4 (str ''searh'')) typo_sample" by code_simp
  have "length typo_sample = 2" by code_simp
  then show ?thesis using finalize_typo_suggestion_optimal [OF d t l v] by auto
qed

text \<open>
  C21. Finalization is total and its defensive limits are never reached: whatever the query and the
  candidates, neither \<open>expect\<close> panics, the work counter neither overflows nor exceeds its bound,
  and the only errors are too many candidates, candidates for an ineligible query, and an invalid
  candidate.
\<close>

theorem finalize_typo_suggestion_total:
  "\<exists>r. finalize_typo_suggestion env q candidates = Some (Ok r)
   \<or> finalize_typo_suggestion env q candidates = Some (Err ''typo vocabulary candidate count exceeds its bound'')
   \<or> finalize_typo_suggestion env q candidates = Some (Err ''ineligible typo suggestion received vocabulary candidates'')
   \<or> finalize_typo_suggestion env q candidates = Some (Err ''typo vocabulary candidate is invalid'')"
proof (cases "length candidates \<le> 40 \<and> tp_disposition (prepare_typo_suggestion env q) = Typo_Probe")
  case True
  then obtain t where "prepare_typo_suggestion env q = typo_plan q Typo_Probe (Some t) (Some (take 4 t @ [37]))"
    using prepare_typo_probe_facts by metis
  then have "tp_term (prepare_typo_suggestion env q) = Some t" by (simp add: typo_plan_def)
  from finalize_typo_probe [OF _ this, of candidates] True show ?thesis by (auto split: if_splits)
next
  case False
  then show ?thesis by (auto simp: finalize_typo_suggestion_def Let_def TYPO_MAX_VOCABULARY_CANDIDATES_def)
qed

text \<open>
  C22. A typo probe is planned only for a single plain word: its term is the trimmed query in lower
  case, of five to forty-eight ASCII letters, and the vocabulary pattern is its first four letters
  followed by a wildcard.
\<close>

theorem prepare_typo_suggestion_probe:
  assumes "tp_disposition (prepare_typo_suggestion env q) = Typo_Probe"
  shows "\<exists>word. tp_term (prepare_typo_suggestion env q) = Some word
    \<and> tp_prefix_pattern (prepare_typo_suggestion env q) = Some (take 4 word @ str ''%'')
    \<and> word = map to_ascii_lowercase (trim q) \<and> 5 \<le> length word \<and> length word \<le> 48
    \<and> (\<forall>c \<in> set word. is_ascii_lowercase c)"
proof -
  obtain t where t: "prepare_typo_suggestion env q = typo_plan q Typo_Probe (Some t) (Some (take 4 t @ [37]))"
    "5 \<le> length t" "str_len t \<le> 48" "\<forall>c \<in> set t. is_ascii_lowercase c" "map to_ascii_lowercase (trim q) = t"
    using prepare_typo_probe_facts [OF assms] by metis
  then show ?thesis using length_le_str_len [of t] by (auto simp: typo_plan_def)
qed

theorem prepare_typo_suggestion_probe_witness:
  "\<exists>word. tp_term (prepare_typo_suggestion (ascii_env (\<lambda>_. [])) (str '' Searh '')) = Some word
    \<and> word = map to_ascii_lowercase (trim (str '' Searh ''))"
proof -
  have "tp_disposition (prepare_typo_suggestion (ascii_env (\<lambda>_. [])) (str '' Searh '')) = Typo_Probe" by code_simp
  from prepare_typo_suggestion_probe [OF this] show ?thesis by blast
qed

end
