(* ===== verification/Float_Bits.thy ===== *)
theory Float_Bits
  imports Kwiry_Prelude "HOL-Library.Word"
begin

text \<open>
  IEEE 754 values by their bits, as Rust's \<open>f32\<close> and \<open>f64\<close> are used here: \<open>is_finite\<close>,
  \<open>total_cmp\<close> (the bit trick of the standard library) and the numeric comparison of numbers.
  \<open>total_cmp\<close> compares integer keys, hence is a total preorder, and is shown to identify
  equal bit patterns only.
\<close>

unbundle bit_operations_syntax

type_synonym f32 = "32 word"
type_synonym f64 = "64 word"

definition f32_is_finite :: "f32 \<Rightarrow> bool" where
  "f32_is_finite x \<longleftrightarrow> x AND 0x7F800000 \<noteq> 0x7F800000"

definition f64_is_finite :: "f64 \<Rightarrow> bool" where
  "f64_is_finite x \<longleftrightarrow> x AND 0x7FF0000000000000 \<noteq> 0x7FF0000000000000"

text \<open>
  \<open>let mut left = self.to_bits() as i32; left ^= (((left >> 31) as u32) >> 1) as i32;\<close> then a
  signed comparison.
\<close>

definition total_key :: "'a :: len word \<Rightarrow> int" where
  "total_key x = sint (x XOR drop_bit 1 (signed_drop_bit (LENGTH('a) - 1) x))"

definition total_cmp :: "'a :: len word \<Rightarrow> 'a word \<Rightarrow> ordering" where
  "total_cmp x y = cmp_ord (total_key x) (total_key y)"

lemma bit_sign_fill:
  "bit (drop_bit 1 (signed_drop_bit (LENGTH('a) - 1) x)) n
     \<longleftrightarrow> n < LENGTH('a) - 1 \<and> bit x (LENGTH('a) - 1)"
  for x :: "'a :: len word"
proof (cases "Suc n < LENGTH('a)")
  case True
  then show ?thesis
    by (auto simp: bit_drop_bit_eq bit_signed_drop_bit_iff)
next
  case False
  then have "\<not> bit (signed_drop_bit (LENGTH('a) - 1) x) (Suc n)"
    by (metis bit_imp_le_length linorder_not_less)
  with False show ?thesis by (auto simp: bit_drop_bit_eq)
qed

lemma total_key_inj: "total_key x = total_key y \<longleftrightarrow> x = y" for x y :: "'a :: len word"
proof
  let ?m = "\<lambda>x :: 'a word. drop_bit 1 (signed_drop_bit (LENGTH('a) - 1) x)"
  assume "total_key x = total_key y"
  then have "word_of_int (sint (x XOR ?m x)) = (word_of_int (sint (y XOR ?m y)) :: 'a word)"
    by (simp only: total_key_def)
  then have "x XOR ?m x = y XOR ?m y" by (simp only: of_int_sint scast_id)
  then have b: "bit (x XOR ?m x) n = bit (y XOR ?m y) n" for n by simp
  have sign: "bit x (LENGTH('a) - 1) = bit y (LENGTH('a) - 1)"
    using b [of "LENGTH('a) - 1"] unfolding bit_xor_iff bit_sign_fill by simp
  show "x = y"
  proof (rule bit_word_eqI)
    fix n assume "n < LENGTH('a)"
    then show "bit x n = bit y n" using b [of n] sign unfolding bit_xor_iff bit_sign_fill by blast
  qed
qed simp

lemma total_cmp_eq [simp]: "total_cmp x y = Equal \<longleftrightarrow> x = y"
  by (simp add: total_cmp_def total_key_inj)

text \<open>
  The numeric order of numbers (no NaN): sign and magnitude, with the two zeros equal.
\<close>

definition f64_magnitude :: "f64 \<Rightarrow> int" where
  "f64_magnitude x = uint (x AND 0x7FFFFFFFFFFFFFFF)"

definition f64_key :: "f64 \<Rightarrow> int" where
  "f64_key x = (if bit x 63 then - f64_magnitude x else f64_magnitude x)"

definition f64_is_nan :: "f64 \<Rightarrow> bool" where
  "f64_is_nan x \<longleftrightarrow> f64_magnitude x > 0x7FF0000000000000"

definition f64_le :: "f64 \<Rightarrow> f64 \<Rightarrow> bool" where
  "f64_le x y \<longleftrightarrow> \<not> f64_is_nan x \<and> \<not> f64_is_nan y \<and> f64_key x \<le> f64_key y"

definition f64_less :: "f64 \<Rightarrow> f64 \<Rightarrow> bool" where
  "f64_less x y \<longleftrightarrow> \<not> f64_is_nan x \<and> \<not> f64_is_nan y \<and> f64_key x < f64_key y"

end
