(* ===== verification/Ranking_Model.thy ===== *)
theory Ranking_Model
  imports Query_Model Float_Bits
begin

text \<open>
  The data of \<open>daemon/crates/kwiry-core/src/ranking.rs\<close>: constants, relevance profiles and
  their rules, ranking scalars, source identities, evidence tiers, and the pure helpers on numbers,
  paths, calendar dates and JSON pointers.
\<close>

section \<open>Constants\<close>

definition RELEVANCE_PROFILE_SCHEMA_VERSION :: nat where "RELEVANCE_PROFILE_SCHEMA_VERSION = 1"
definition RERANK_INPUT_SCHEMA_VERSION :: nat where "RERANK_INPUT_SCHEMA_VERSION = 1"
definition LEXICAL_RELEVANCE_PROFILE_ID :: string where "LEXICAL_RELEVANCE_PROFILE_ID = ''lexical-v1''"
definition D5C_PREVIEW_PROFILE_ID :: string where "D5C_PREVIEW_PROFILE_ID = ''d5c-preview-v1''"
definition MAX_RELEVANCE_PROFILE_BYTES :: nat where "MAX_RELEVANCE_PROFILE_BYTES = 64 * 1024"
definition MAX_RANKING_RULE_ID_BYTES :: nat where "MAX_RANKING_RULE_ID_BYTES = 64"
definition MAX_RANKING_PROPERTY_NAME_BYTES :: nat where "MAX_RANKING_PROPERTY_NAME_BYTES = 256"
definition MAX_RANKING_JSON_POINTER_BYTES :: nat where "MAX_RANKING_JSON_POINTER_BYTES = 1024"
definition MAX_RANKING_VALUE_BYTES :: nat where "MAX_RANKING_VALUE_BYTES = 4096"
definition MAX_RANKING_FOLDER_PREFIX_BYTES :: nat where "MAX_RANKING_FOLDER_PREFIX_BYTES = 4096"
definition MAX_RANKING_PATH_DEPTH :: nat where "MAX_RANKING_PATH_DEPTH = 64"
definition MAX_PROPERTY_RANKING_RULES :: nat where "MAX_PROPERTY_RANKING_RULES = 8"
definition MAX_FOLDER_RANKING_RULES_PER_FAMILY :: nat where "MAX_FOLDER_RANKING_RULES_PER_FAMILY = 16"
definition MAX_TOTAL_RANKING_RULES :: nat where "MAX_TOTAL_RANKING_RULES = 32"
definition MAX_ABSOLUTE_METADATA_POINTS :: int where "MAX_ABSOLUTE_METADATA_POINTS = 32"
definition MAX_RERANK_CANDIDATES :: nat where "MAX_RERANK_CANDIDATES = MAX_TOTAL_CANDIDATES"
definition MAX_RERANK_SOURCE_OBSERVATIONS :: nat where "MAX_RERANK_SOURCE_OBSERVATIONS = MAX_RERANK_CANDIDATES"
definition MAX_PROPERTY_VALUES_PER_SOURCE_OBSERVATION :: nat where
  "MAX_PROPERTY_VALUES_PER_SOURCE_OBSERVATION = 256"
definition MAX_RANKING_WORK_UNITS :: nat where "MAX_RANKING_WORK_UNITS = 65536"
definition LEXICAL_V2_RANK_SCHEMA_VERSION :: nat where "LEXICAL_V2_RANK_SCHEMA_VERSION = 2"
definition MAX_LEXICAL_V2_PROOFS_PER_CANDIDATE :: nat where "MAX_LEXICAL_V2_PROOFS_PER_CANDIDATE = 32"
definition MAX_LEXICAL_V2_LANES :: nat where "MAX_LEXICAL_V2_LANES = 42"
definition LEXICAL_V2_EMPHASIS_POINTS :: int where "LEXICAL_V2_EMPHASIS_POINTS = 10"
definition MAX_AUTHORIZATION_SCOPE_BYTES :: nat where "MAX_AUTHORIZATION_SCOPE_BYTES = 1024"
definition MAX_SOURCE_KEY_BYTES :: nat where "MAX_SOURCE_KEY_BYTES = 256"
definition MAX_CHUNK_ID_BYTES :: nat where "MAX_CHUNK_ID_BYTES = 256"

lemmas ranking_constants = RELEVANCE_PROFILE_SCHEMA_VERSION_def RERANK_INPUT_SCHEMA_VERSION_def
  MAX_RELEVANCE_PROFILE_BYTES_def MAX_RANKING_RULE_ID_BYTES_def MAX_RANKING_PROPERTY_NAME_BYTES_def
  MAX_RANKING_JSON_POINTER_BYTES_def MAX_RANKING_VALUE_BYTES_def MAX_RANKING_FOLDER_PREFIX_BYTES_def
  MAX_RANKING_PATH_DEPTH_def MAX_PROPERTY_RANKING_RULES_def MAX_FOLDER_RANKING_RULES_PER_FAMILY_def
  MAX_TOTAL_RANKING_RULES_def MAX_ABSOLUTE_METADATA_POINTS_def MAX_RERANK_CANDIDATES_def
  MAX_RERANK_SOURCE_OBSERVATIONS_def MAX_PROPERTY_VALUES_PER_SOURCE_OBSERVATION_def
  MAX_RANKING_WORK_UNITS_def MAX_TOTAL_CANDIDATES_def

section \<open>Profiles\<close>

datatype RecencyClock = SourceMtime

datatype RecencyHorizon = Week | Month | Quarter | Year

fun horizon_seconds :: "RecencyHorizon \<Rightarrow> nat" where
  "horizon_seconds Week = 7 * 24 * 60 * 60"
| "horizon_seconds Month = 30 * 24 * 60 * 60"
| "horizon_seconds Quarter = 90 * 24 * 60 * 60"
| "horizon_seconds Year = 365 * 24 * 60 * 60"

datatype RuleEffect = Boost | Demote

fun effect_apply :: "RuleEffect \<Rightarrow> int \<Rightarrow> int" where
  "effect_apply Boost points = points"
| "effect_apply Demote points = - points"

datatype RuleStrength = Low | Standard | High

fun strength_points :: "RuleStrength \<Rightarrow> int" where
  "strength_points Low = 1"
| "strength_points Standard = 2"
| "strength_points High = 4"

record RecencyRule =
  rr_id :: rstring
  rr_clock :: RecencyClock
  rr_horizon :: RecencyHorizon
  rr_strength :: RuleStrength

datatype PathDepthPredicate = AtMost nat | AtLeast nat

record PathDepthRule =
  pd_id :: rstring
  pd_predicate :: PathDepthPredicate
  pd_effect :: RuleEffect
  pd_strength :: RuleStrength

record FolderRule =
  fr_id :: rstring
  fr_prefix :: rstring
  fr_strength :: RuleStrength

record HierarchyRules =
  hr_depth :: "PathDepthRule option"
  hr_authority_folders :: "FolderRule list"
  hr_archive_folders :: "FolderRule list"

datatype RankingScalar =
  RS_Null | RS_Boolean bool | RS_I64 rstring | RS_U64 rstring | RS_F64 rstring | RS_String rstring
  | RS_Date rstring

datatype PropertyPredicate =
  PP_Presence
  | PP_Exact "rstring option" RankingScalar
  | PP_I64Range "rstring option" "rstring option" "rstring option"
  | PP_U64Range "rstring option" "rstring option" "rstring option"
  | PP_F64Range "rstring option" "rstring option" "rstring option"
  | PP_DateRange "rstring option" "rstring option" "rstring option"

fun predicate_pointer :: "PropertyPredicate \<Rightarrow> rstring option" where
  "predicate_pointer PP_Presence = None"
| "predicate_pointer (PP_Exact pointer _) = pointer"
| "predicate_pointer (PP_I64Range pointer _ _) = pointer"
| "predicate_pointer (PP_U64Range pointer _ _) = pointer"
| "predicate_pointer (PP_F64Range pointer _ _) = pointer"
| "predicate_pointer (PP_DateRange pointer _ _) = pointer"

record PropertyRule =
  prl_id :: rstring
  prl_property :: rstring
  prl_predicate :: PropertyPredicate
  prl_effect :: RuleEffect
  prl_strength :: RuleStrength

record D5cRelevanceProfile =
  dp_schema_version :: nat
  dp_profile_id :: string
  dp_retrieval_profile_id :: string
  dp_recency :: "RecencyRule option"
  dp_hierarchy :: HierarchyRules
  dp_property_rules :: "PropertyRule list"

definition preview_profile :: D5cRelevanceProfile where
  "preview_profile =
     \<lparr>dp_schema_version = RELEVANCE_PROFILE_SCHEMA_VERSION, dp_profile_id = D5C_PREVIEW_PROFILE_ID,
      dp_retrieval_profile_id = LEXICAL_RELEVANCE_PROFILE_ID, dp_recency = None,
      dp_hierarchy = \<lparr>hr_depth = None, hr_authority_folders = [], hr_archive_folders = []\<rparr>,
      dp_property_rules = []\<rparr>"

datatype RelevanceProfile = LexicalV1 | D5cPreviewV1 D5cRelevanceProfile

fun relevance_profile_id :: "RelevanceProfile \<Rightarrow> string" where
  "relevance_profile_id LexicalV1 = LEXICAL_RELEVANCE_PROFILE_ID"
| "relevance_profile_id (D5cPreviewV1 profile) = dp_profile_id profile"

section \<open>Identities, tiers, errors\<close>

record QualifiedSourceId =
  authorization_scope :: rstring
  source_key :: rstring

text \<open>The derived order of a source identity compares its fields in declaration order.\<close>

definition source_pair :: "QualifiedSourceId \<Rightarrow> rstring \<times> rstring" where
  "source_pair s = (authorization_scope s, source_key s)"

lemma source_pair_inj [simp]: "source_pair a = source_pair b \<longleftrightarrow> a = b"
  by (auto simp: source_pair_def)

datatype LexicalEvidenceTier =
  Tier_Explicit | Tier_ExactMetadata | Tier_ExactPhrase | Tier_PrefixMetadata | Tier_AllTerms
  | Tier_Prefix | Tier_PartialCoverage

fun tier_rank :: "LexicalEvidenceTier \<Rightarrow> nat" where
  "tier_rank Tier_Explicit = 0"
| "tier_rank Tier_ExactMetadata = 1"
| "tier_rank Tier_ExactPhrase = 2"
| "tier_rank Tier_PrefixMetadata = 3"
| "tier_rank Tier_AllTerms = 4"
| "tier_rank Tier_Prefix = 5"
| "tier_rank Tier_PartialCoverage = 6"

lemma tier_rank_inj: "tier_rank a = tier_rank b \<Longrightarrow> a = b"
  by (cases a; cases b) simp_all

instantiation LexicalEvidenceTier :: linorder
begin

definition less_eq_LexicalEvidenceTier :: "LexicalEvidenceTier \<Rightarrow> LexicalEvidenceTier \<Rightarrow> bool" where
  "less_eq_LexicalEvidenceTier a b \<longleftrightarrow> tier_rank a \<le> tier_rank b"

definition less_LexicalEvidenceTier :: "LexicalEvidenceTier \<Rightarrow> LexicalEvidenceTier \<Rightarrow> bool" where
  "less_LexicalEvidenceTier a b \<longleftrightarrow> tier_rank a < tier_rank b"

instance
  by standard (auto simp: less_eq_LexicalEvidenceTier_def less_LexicalEvidenceTier_def intro: tier_rank_inj)

end

lemmas tier_order = less_eq_LexicalEvidenceTier_def less_LexicalEvidenceTier_def

fun tier_from :: "QueryEvidenceStageKind \<Rightarrow> LexicalEvidenceTier" where
  "tier_from ExactMetadata = Tier_ExactMetadata"
| "tier_from ExactPhrase = Tier_ExactPhrase"
| "tier_from PrefixMetadata = Tier_PrefixMetadata"
| "tier_from AllTerms = Tier_AllTerms"
| "tier_from Prefix = Tier_Prefix"
| "tier_from PartialCoverage = Tier_PartialCoverage"

record RankingError =
  rk_code :: string
  rk_message :: string

definition invalid_profile :: "string \<Rightarrow> RankingError" where
  "invalid_profile message = \<lparr>rk_code = ''invalid_relevance_profile'', rk_message = message\<rparr>"

definition invalid_input :: "string \<Rightarrow> RankingError" where
  "invalid_input message = \<lparr>rk_code = ''invalid_rerank_input'', rk_message = message\<rparr>"

definition work_limit_error :: RankingError where
  "work_limit_error = \<lparr>rk_code = ''ranking_work_limit_exceeded'',
     rk_message = ''ranking work exceeded its deterministic limit''\<rparr>"

definition validate_source_id :: "QualifiedSourceId \<Rightarrow> RankingError + unit" where
  "validate_source_id source =
     (if authorization_scope source = [] \<or> str_len (authorization_scope source) > MAX_AUTHORIZATION_SCOPE_BYTES
         \<or> source_key source = [] \<or> str_len (source_key source) > MAX_SOURCE_KEY_BYTES
      then Err (invalid_input ''qualified source identity is invalid'') else Ok ())"

section \<open>Numbers\<close>

fun decimal :: "nat \<Rightarrow> rstring" where
  "decimal n = (if n < 10 then [48 + n] else decimal (n div 10) @ [48 + n mod 10])"

declare decimal.simps [simp del]

definition int_to_string :: "int \<Rightarrow> rstring" where
  "int_to_string i = (if i < 0 then 45 # decimal (nat (- i)) else decimal (nat i))"

definition digits_value :: "rstring \<Rightarrow> nat" where
  "digits_value s = fold (\<lambda>c value. value * 10 + (c - 48)) s 0"

definition parse_digits :: "rstring \<Rightarrow> nat option" where
  "parse_digits s = (if s \<noteq> [] \<and> (\<forall>c \<in> set s. is_ascii_digit c) then Some (digits_value s) else None)"

text \<open>\<open>str::parse\<close> for \<open>i64\<close> and \<open>u64\<close>: an optional sign, digits, and the range of the type.\<close>

definition parse_i64 :: "rstring \<Rightarrow> int option" where
  "parse_i64 s =
     (let parsed = (case s of
          [] \<Rightarrow> None
        | c # cs \<Rightarrow>
            if c = 45 then map_option (\<lambda>n. - int n) (parse_digits cs)
            else if c = 43 then map_option int (parse_digits cs)
            else map_option int (parse_digits s))
      in (case parsed of None \<Rightarrow> None
          | Some i \<Rightarrow> if - (2 ^ 63) \<le> i \<and> i < 2 ^ 63 then Some i else None))"

definition parse_u64 :: "rstring \<Rightarrow> nat option" where
  "parse_u64 s =
     (let parsed = (case s of
          [] \<Rightarrow> None
        | c # cs \<Rightarrow> if c = 43 then parse_digits cs else parse_digits s)
      in (case parsed of None \<Rightarrow> None | Some n \<Rightarrow> if n < 2 ^ 64 then Some n else None))"

definition parse_canonical_i64 :: "rstring \<Rightarrow> int option" where
  "parse_canonical_i64 value =
     (case parse_i64 value of None \<Rightarrow> None
      | Some parsed \<Rightarrow> if int_to_string parsed = value then Some parsed else None)"

definition parse_canonical_u64 :: "rstring \<Rightarrow> nat option" where
  "parse_canonical_u64 value =
     (case parse_u64 value of None \<Rightarrow> None
      | Some parsed \<Rightarrow> if decimal parsed = value then Some parsed else None)"

definition hex_digit :: "nat \<Rightarrow> nat" where
  "hex_digit d = (if d < 10 then 48 + d else 87 + d)"

definition hex_value :: "nat \<Rightarrow> nat" where
  "hex_value c = (if c \<le> 57 then c - 48 else c - 87)"

fun hex_fixed :: "nat \<Rightarrow> nat \<Rightarrow> rstring" where
  "hex_fixed 0 n = []"
| "hex_fixed (Suc k) n = hex_fixed k (n div 16) @ [hex_digit (n mod 16)]"

definition from_hex :: "rstring \<Rightarrow> nat" where
  "from_hex s = fold (\<lambda>c value. value * 16 + hex_value c) s 0"

definition is_lower_hex :: "nat \<Rightarrow> bool" where
  "is_lower_hex c \<longleftrightarrow> is_ascii_digit c \<or> (97 \<le> c \<and> c \<le> 102)"

definition parse_canonical_f64 :: "rstring \<Rightarrow> f64 option" where
  "parse_canonical_f64 value =
     (if str_len value \<noteq> 16 \<or> \<not> (\<forall>c \<in> set value. is_lower_hex c) then None
      else (let parsed = word_of_nat (from_hex value) in if f64_is_finite parsed then Some parsed else None))"

definition scalar_i64 :: "int \<Rightarrow> RankingScalar" where
  "scalar_i64 value = RS_I64 (int_to_string value)"

definition scalar_u64 :: "nat \<Rightarrow> RankingScalar" where
  "scalar_u64 value = RS_U64 (decimal value)"

definition scalar_f64 :: "f64 \<Rightarrow> RankingScalar" where
  "scalar_f64 value = RS_F64 (hex_fixed 16 (unat value))"

section \<open>Paths\<close>

definition path_components :: "rstring \<Rightarrow> rstring list" where
  "path_components path = split_on (\<lambda>c. c = 47) path"

definition is_normalized_relative_path :: "rstring \<Rightarrow> bool" where
  "is_normalized_relative_path path \<longleftrightarrow>
     path \<noteq> [] \<and> hd path \<noteq> 47 \<and> last path \<noteq> 47 \<and> 92 \<notin> set path \<and> 0 \<notin> set path
     \<and> (\<forall>component \<in> set (path_components path).
          component \<noteq> [] \<and> component \<noteq> str ''.'' \<and> component \<noteq> str ''..'')"

definition path_depth :: "rstring \<Rightarrow> nat" where
  "path_depth path = length (path_components path)"

definition path_is_within_folder :: "rstring \<Rightarrow> rstring \<Rightarrow> bool" where
  "path_is_within_folder path folder =
     (case strip_prefix folder path of None \<Rightarrow> False | Some suffix \<Rightarrow> starts_with (str ''/'') suffix)"

definition folder_prefixes_overlap :: "rstring \<Rightarrow> rstring \<Rightarrow> bool" where
  "folder_prefixes_overlap left right \<longleftrightarrow>
     left = right \<or> path_is_within_folder left right \<or> path_is_within_folder right left"

section \<open>Calendar dates\<close>

definition decimal_component :: "nat list \<Rightarrow> nat" where
  "decimal_component bytes = fold (\<lambda>byte value. value * 10 + (byte - 48)) bytes 0"

definition is_leap :: "nat \<Rightarrow> bool" where
  "is_leap year \<longleftrightarrow> 4 dvd year \<and> (\<not> 100 dvd year \<or> 400 dvd year)"

definition days_of_year :: "nat \<Rightarrow> nat list" where
  "days_of_year year = [31, if is_leap year then 29 else 28, 31, 30, 31, 30, 31, 31, 30, 31, 30, 31]"

text \<open>
  A string of ten bytes whose positions are digits and hyphens is ASCII, so its bytes are its
  scalar values; any other string fails the test on its bytes as it does on its scalar values.
\<close>

definition is_iso_calendar_date :: "rstring \<Rightarrow> bool" where
  "is_iso_calendar_date value =
     (if length value \<noteq> 10 \<or> str_len value \<noteq> 10 \<or> value ! 4 \<noteq> 45 \<or> value ! 7 \<noteq> 45
         \<or> \<not> (\<forall>(index, byte) \<in> set (enumerate 0 value). index \<in> {4, 7} \<or> is_ascii_digit byte)
      then False
      else
        (let year = decimal_component (take 4 value);
             month = decimal_component (take 2 (drop 5 value));
             day = decimal_component (take 2 (drop 8 value))
         in if \<not> (1 \<le> month \<and> month \<le> 12) \<or> day = 0 then False
            else day \<le> days_of_year year ! (month - 1)))"

section \<open>JSON pointers\<close>

fun pointer_escapes_ok :: "rstring \<Rightarrow> bool" where
  "pointer_escapes_ok [] = True"
| "pointer_escapes_ok (c # cs) =
     (if c = 126 then (case cs of [] \<Rightarrow> False | d # ds \<Rightarrow> (d = 48 \<or> d = 49) \<and> pointer_escapes_ok ds)
      else pointer_escapes_ok cs)"

definition validate_json_pointer :: "rstring \<Rightarrow> RankingError + unit" where
  "validate_json_pointer pointer =
     (if str_len pointer > MAX_RANKING_JSON_POINTER_BYTES
         \<or> (pointer \<noteq> [] \<and> \<not> starts_with (str ''/'') pointer)
         \<or> count_list pointer 47 > MAX_RANKING_PATH_DEPTH
      then Err (invalid_profile ''property JSON Pointer is invalid'')
      else if \<not> pointer_escapes_ok pointer
      then Err (invalid_profile ''property JSON Pointer escape is invalid'')
      else Ok ())"

definition escape_component :: "rstring \<Rightarrow> rstring" where
  "escape_component component =
     concat (map (\<lambda>c. if c = 47 then [126, 49] else [c])
       (concat (map (\<lambda>c. if c = 126 then [126, 48] else [c]) component)))"

section \<open>Scalars\<close>

definition validate_scalar :: "RankingScalar \<Rightarrow> bool \<Rightarrow> RankingError + unit" where
  "validate_scalar value configured =
     (let valid = (case value of
          RS_Null \<Rightarrow> True
        | RS_Boolean _ \<Rightarrow> True
        | RS_I64 v \<Rightarrow> parse_canonical_i64 v \<noteq> None
        | RS_U64 v \<Rightarrow> parse_canonical_u64 v \<noteq> None
        | RS_F64 v \<Rightarrow> parse_canonical_f64 v \<noteq> None
        | RS_String v \<Rightarrow> str_len v \<le> MAX_RANKING_VALUE_BYTES \<and> \<not> is_iso_calendar_date v
        | RS_Date v \<Rightarrow> is_iso_calendar_date v)
      in if valid then Ok ()
         else if configured then Err (invalid_profile ''configured property scalar is invalid'')
         else Err (invalid_input ''observed property scalar is invalid''))"

end
