(* ===== verification/Lexical_Rank.thy ===== *)
theory Lexical_Rank
  imports Ranking_Model
begin

text \<open>
  \<open>rank_lexical_v2\<close> of \<open>daemon/crates/kwiry-core/src/ranking.rs\<close>: every candidate is
  represented by its best proof and candidates are ordered by it.  Both comparison closures are
  shown to be total preorders (interpretations of the locale \<open>comparator\<close>), which gives the
  optimality of the selected proof, the order of the result, and its independence from the order
  in which the engine delivered candidates and proofs.
\<close>

section \<open>Types\<close>

datatype LexicalV2ProofField =
  PF_Filename | PF_Title | PF_Alias | PF_Heading | PF_Tag | PF_Body | PF_CrossField

fun proof_field_rank :: "LexicalV2ProofField \<Rightarrow> nat" where
  "proof_field_rank PF_Filename = 0"
| "proof_field_rank PF_Title = 1"
| "proof_field_rank PF_Alias = 2"
| "proof_field_rank PF_Heading = 3"
| "proof_field_rank PF_Tag = 4"
| "proof_field_rank PF_Body = 5"
| "proof_field_rank PF_CrossField = 6"

lemma proof_field_rank_inj [simp]: "proof_field_rank a = proof_field_rank b \<longleftrightarrow> a = b"
  by (cases a; cases b) simp_all

fun proof_field_points :: "LexicalV2ProofField \<Rightarrow> int" where
  "proof_field_points PF_Filename = 10"
| "proof_field_points PF_Title = 10"
| "proof_field_points PF_Alias = 10"
| "proof_field_points PF_Heading = 6"
| "proof_field_points PF_Tag = 3"
| "proof_field_points PF_Body = 0"
| "proof_field_points PF_CrossField = 0"

fun proof_public_field :: "LexicalV2ProofField \<Rightarrow> QueryPublicField option" where
  "proof_public_field PF_Filename = Some P_Filename"
| "proof_public_field PF_Title = Some P_Title"
| "proof_public_field PF_Alias = Some P_Alias"
| "proof_public_field PF_Heading = Some P_Heading"
| "proof_public_field PF_Tag = Some P_Tag"
| "proof_public_field PF_Body = Some P_Body"
| "proof_public_field PF_CrossField = None"

datatype LexicalV2ProofKind =
  PK_Exact | PK_Phrase | PK_AllTerms | PK_PrefixAssisted | PK_CrossFieldAllTerms | PK_PartialCoverage

fun proof_kind_rank :: "LexicalV2ProofKind \<Rightarrow> nat" where
  "proof_kind_rank PK_Exact = 0"
| "proof_kind_rank PK_Phrase = 1"
| "proof_kind_rank PK_AllTerms = 2"
| "proof_kind_rank PK_PrefixAssisted = 3"
| "proof_kind_rank PK_CrossFieldAllTerms = 4"
| "proof_kind_rank PK_PartialCoverage = 5"

lemma proof_kind_rank_inj [simp]: "proof_kind_rank a = proof_kind_rank b \<longleftrightarrow> a = b"
  by (cases a; cases b) simp_all

definition is_partial :: "LexicalV2ProofKind \<Rightarrow> bool" where
  "is_partial k \<longleftrightarrow> k = PK_PartialCoverage"

fun proof_kind_points :: "LexicalV2ProofKind \<Rightarrow> int" where
  "proof_kind_points PK_Exact = 60"
| "proof_kind_points PK_Phrase = 50"
| "proof_kind_points PK_AllTerms = 45"
| "proof_kind_points PK_PrefixAssisted = 45"
| "proof_kind_points PK_CrossFieldAllTerms = 25"
| "proof_kind_points PK_PartialCoverage = 15"

datatype LexicalMatchQuality = StandardOnly | Mixed | PartialOnly | Quality_None

definition lexical_match_quality :: "LexicalV2ProofKind list \<Rightarrow> LexicalMatchQuality" where
  "lexical_match_quality selected_kinds =
     (let (standard, partial) = fold (\<lambda>k (standard, partial).
          if k = PK_PartialCoverage then (standard, True) else (True, partial))
          selected_kinds (False, False)
      in case (standard, partial) of
           (True, True) \<Rightarrow> Mixed
         | (True, False) \<Rightarrow> StandardOnly
         | (False, True) \<Rightarrow> PartialOnly
         | (False, False) \<Rightarrow> Quality_None)"

record LexicalV2Proof =
  lp_field :: LexicalV2ProofField
  lp_kind :: LexicalV2ProofKind
  lp_lane_ordinal :: nat
  lp_engine_score :: f32
  lp_engine_ordinal :: nat

record LexicalV2Candidate =
  lc_source :: QualifiedSourceId
  lc_chunk_id :: rstring
  lc_path :: rstring
  lc_proofs :: "LexicalV2Proof list"

record LexicalV2RankInput =
  li_schema_version :: nat
  li_profile_id :: string
  li_lane_count :: nat
  li_emphasis :: "QueryPublicField option"
  li_candidates :: "LexicalV2Candidate list"

record LexicalV2RankedCandidate =
  lr_candidate :: LexicalV2Candidate
  lr_selected_proof :: LexicalV2Proof
  lr_evidence_points :: int

section \<open>Operations\<close>

definition lexical_v2_evidence_points :: "LexicalV2Proof \<Rightarrow> QueryPublicField option \<Rightarrow> int" where
  "lexical_v2_evidence_points pf em =
     (let emphasized = (case em of
          None \<Rightarrow> False
        | Some field \<Rightarrow>
            if field = P_Name then lp_field pf \<in> {PF_Filename, PF_Title, PF_Alias}
            else proof_public_field (lp_field pf) = Some field)
      in proof_kind_points (lp_kind pf) + proof_field_points (lp_field pf)
         + (if emphasized then 1 else 0) * LEXICAL_V2_EMPHASIS_POINTS)"

definition compare_lexical_v2_proofs ::
  "QueryPublicField option \<Rightarrow> LexicalV2Proof \<Rightarrow> LexicalV2Proof \<Rightarrow> ordering" where
  "compare_lexical_v2_proofs em left right =
     then_with (cmp_ord (is_partial (lp_kind left)) (is_partial (lp_kind right)))
    (then_with (cmp_ord (lexical_v2_evidence_points right em) (lexical_v2_evidence_points left em))
    (then_with (cmp_ord (proof_kind_rank (lp_kind left)) (proof_kind_rank (lp_kind right)))
    (then_with (cmp_ord (proof_field_rank (lp_field left)) (proof_field_rank (lp_field right)))
    (then_with (if lp_kind left = lp_kind right \<and> lp_field left = lp_field right
                then total_cmp (lp_engine_score right) (lp_engine_score left) else Equal)
    (then_with (cmp_ord (lp_engine_ordinal left) (lp_engine_ordinal right))
      (cmp_ord (lp_lane_ordinal left) (lp_lane_ordinal right)))))))"

fun validate_proofs ::
  "nat \<Rightarrow> (LexicalV2ProofField \<times> LexicalV2ProofKind \<times> nat) set \<Rightarrow> LexicalV2Proof list \<Rightarrow> RankingError + unit" where
  "validate_proofs lane_count proofs [] = Ok ()"
| "validate_proofs lane_count proofs (pf # pfs) =
     (let key = (lp_field pf, lp_kind pf, lp_lane_ordinal pf)
      in if lp_lane_ordinal pf \<ge> lane_count \<or> \<not> f32_is_finite (lp_engine_score pf) \<or> key \<in> proofs
         then Err (invalid_input ''lexical-v2 proof is invalid or duplicated'')
         else validate_proofs lane_count (insert key proofs) pfs)"

fun validate_candidates ::
  "nat \<Rightarrow> (QualifiedSourceId \<times> rstring \<times> rstring) set \<Rightarrow> LexicalV2Candidate list \<Rightarrow> RankingError + unit" where
  "validate_candidates lane_count identities [] = Ok ()"
| "validate_candidates lane_count identities (candidate # candidates) =
     and_then (validate_source_id (lc_source candidate)) (\<lambda>_.
       if lc_chunk_id candidate = [] \<or> str_len (lc_chunk_id candidate) > MAX_CHUNK_ID_BYTES
          \<or> lc_path candidate = [] \<or> str_len (lc_path candidate) > MAX_QUERY_BYTES
          \<or> lc_proofs candidate = [] \<or> length (lc_proofs candidate) > MAX_LEXICAL_V2_PROOFS_PER_CANDIDATE
       then Err (invalid_input ''lexical-v2 candidate shape is invalid'')
       else if (lc_source candidate, lc_chunk_id candidate, lc_path candidate) \<in> identities
       then Err (invalid_input ''lexical-v2 candidate identity is duplicated'')
       else and_then (validate_proofs lane_count {} (lc_proofs candidate)) (\<lambda>_.
         validate_candidates lane_count
           (insert (lc_source candidate, lc_chunk_id candidate, lc_path candidate) identities) candidates))"

definition validate_lexical_v2_input :: "LexicalV2RankInput \<Rightarrow> RankingError + unit" where
  "validate_lexical_v2_input input =
     (if li_schema_version input \<noteq> LEXICAL_V2_RANK_SCHEMA_VERSION
         \<or> li_profile_id input \<noteq> LEXICAL_V2_PROFILE_ID
      then Err (invalid_input ''lexical-v2 rank identity or schema is unsupported'')
      else if li_lane_count input = 0 \<or> li_lane_count input > MAX_LEXICAL_V2_LANES
      then Err (invalid_input ''lexical-v2 lane count exceeds its bound'')
      else if length (li_candidates input) > MAX_RERANK_CANDIDATES
      then Err (invalid_input ''lexical-v2 candidate count exceeds its bound'')
      else validate_candidates (li_lane_count input) {} (li_candidates input))"

definition select_proof ::
  "QueryPublicField option \<Rightarrow> LexicalV2Candidate \<Rightarrow> RankingError + LexicalV2RankedCandidate" where
  "select_proof em candidate =
     (case sort_by (compare_lexical_v2_proofs em) (lc_proofs candidate) of
        [] \<Rightarrow> Err (invalid_input ''lexical-v2 candidate has no proof'')
      | selected # _ \<Rightarrow>
          Ok \<lparr>lr_candidate = candidate, lr_selected_proof = selected,
              lr_evidence_points = lexical_v2_evidence_points selected em\<rparr>)"

fun select_proofs ::
  "QueryPublicField option \<Rightarrow> LexicalV2Candidate list \<Rightarrow> RankingError + LexicalV2RankedCandidate list" where
  "select_proofs em [] = Ok []"
| "select_proofs em (candidate # candidates) =
     and_then (select_proof em candidate) (\<lambda>r.
       and_then (select_proofs em candidates) (\<lambda>rs. Ok (r # rs)))"

definition compare_ranked_v2 :: "LexicalV2RankedCandidate \<Rightarrow> LexicalV2RankedCandidate \<Rightarrow> ordering" where
  "compare_ranked_v2 left right =
     (let l = lr_selected_proof left; r = lr_selected_proof right
      in then_with (cmp_ord (is_partial (lp_kind l)) (is_partial (lp_kind r)))
        (then_with (cmp_ord (lr_evidence_points right) (lr_evidence_points left))
        (then_with (cmp_ord (proof_kind_rank (lp_kind l)) (proof_kind_rank (lp_kind r)))
        (then_with (cmp_ord (proof_field_rank (lp_field l)) (proof_field_rank (lp_field r)))
        (then_with (if lp_kind l = lp_kind r \<and> lp_field l = lp_field r
                    then total_cmp (lp_engine_score r) (lp_engine_score l) else Equal)
        (then_with (cmp_ord (lp_engine_ordinal l) (lp_engine_ordinal r))
        (then_with (cmp_ord (source_pair (lc_source (lr_candidate left))) (source_pair (lc_source (lr_candidate right))))
        (then_with (cmp_ord (lc_chunk_id (lr_candidate left)) (lc_chunk_id (lr_candidate right)))
          (cmp_ord (lc_path (lr_candidate left)) (lc_path (lr_candidate right)))))))))))"

definition rank_lexical_v2 :: "LexicalV2RankInput \<Rightarrow> RankingError + LexicalV2RankedCandidate list" where
  "rank_lexical_v2 input =
     and_then (validate_lexical_v2_input input) (\<lambda>_.
     and_then (select_proofs (li_emphasis input) (li_candidates input)) (\<lambda>ranked.
       Ok (sort_by compare_ranked_v2 ranked)))"

section \<open>The comparisons are total preorders\<close>

text \<open>
  The score is compared only between proofs of the same kind and field.  Since kind and field are
  compared just before, the guard never hides a difference: the chain equals the one that always
  compares scores.
\<close>

lemma guarded_score:
  "then_with (cmp_ord (proof_kind_rank (lp_kind l)) (proof_kind_rank (lp_kind r)))
    (then_with (cmp_ord (proof_field_rank (lp_field l)) (proof_field_rank (lp_field r)))
    (then_with (if lp_kind l = lp_kind r \<and> lp_field l = lp_field r
       then total_cmp (lp_engine_score r) (lp_engine_score l) else Equal) rest))
   = then_with (cmp_ord (proof_kind_rank (lp_kind l)) (proof_kind_rank (lp_kind r)))
    (then_with (cmp_ord (proof_field_rank (lp_field l)) (proof_field_rank (lp_field r)))
    (then_with (total_cmp (lp_engine_score r) (lp_engine_score l)) rest))"
  by (auto simp: then_with_def)

lemma comparator_proofs: "comparator (compare_lexical_v2_proofs em)"
  unfolding compare_lexical_v2_proofs_def guarded_score unfolding total_cmp_def by (intro cmp_intro)

interpretation proofs: comparator "compare_lexical_v2_proofs em" for em
  by (rule comparator_proofs)

lemma comparator_ranked: "comparator compare_ranked_v2"
  unfolding compare_ranked_v2_def Let_def guarded_score unfolding total_cmp_def by (intro cmp_intro)

interpretation ranked_v2: comparator compare_ranked_v2
  by (rule comparator_ranked)

lemma compare_proofs_Equal:
  "compare_lexical_v2_proofs em a b = Equal \<longleftrightarrow> a = b"
  by (auto simp: compare_lexical_v2_proofs_def guarded_score LexicalV2Proof.equality)

section \<open>Validation and selection\<close>

definition identity_of :: "LexicalV2Candidate \<Rightarrow> QualifiedSourceId \<times> rstring \<times> rstring" where
  "identity_of candidate = (lc_source candidate, lc_chunk_id candidate, lc_path candidate)"

definition candidate_ok :: "nat \<Rightarrow> LexicalV2Candidate \<Rightarrow> bool" where
  "candidate_ok lane_count candidate \<longleftrightarrow> validate_source_id (lc_source candidate) = Ok ()
     \<and> \<not> (lc_chunk_id candidate = [] \<or> str_len (lc_chunk_id candidate) > MAX_CHUNK_ID_BYTES
          \<or> lc_path candidate = [] \<or> str_len (lc_path candidate) > MAX_QUERY_BYTES
          \<or> lc_proofs candidate = [] \<or> length (lc_proofs candidate) > MAX_LEXICAL_V2_PROOFS_PER_CANDIDATE)
     \<and> validate_proofs lane_count {} (lc_proofs candidate) = Ok ()"

lemma validate_candidates_iff:
  "validate_candidates lane_count identities candidates = Ok () \<longleftrightarrow>
     (\<forall>candidate \<in> set candidates. candidate_ok lane_count candidate)
     \<and> distinct (map identity_of candidates) \<and> identity_of ` set candidates \<inter> identities = {}"
proof (induction lane_count identities candidates rule: validate_candidates.induct)
  case (2 lane_count identities candidate candidates)
  let ?id = "identity_of candidate"
  have "validate_candidates lane_count identities (candidate # candidates) = Ok () \<longleftrightarrow>
      candidate_ok lane_count candidate \<and> ?id \<notin> identities
      \<and> validate_candidates lane_count (insert ?id identities) candidates = Ok ()"
    unfolding validate_candidates.simps and_then_unit is_ok_if_Err candidate_ok_def identity_of_def by blast
  moreover have "validate_candidates lane_count (insert ?id identities) candidates = Ok () \<longleftrightarrow>
      (\<forall>candidate \<in> set candidates. candidate_ok lane_count candidate)
      \<and> distinct (map identity_of candidates) \<and> identity_of ` set candidates \<inter> insert ?id identities = {}"
    if "candidate_ok lane_count candidate" "?id \<notin> identities"
    using "2.IH" that unfolding candidate_ok_def identity_of_def by blast
  ultimately show ?case by auto
qed simp

definition selected :: "QueryPublicField option \<Rightarrow> LexicalV2Candidate \<Rightarrow> LexicalV2RankedCandidate" where
  "selected em candidate =
     (let best = hd (sort_by (compare_lexical_v2_proofs em) (lc_proofs candidate))
      in \<lparr>lr_candidate = candidate, lr_selected_proof = best,
          lr_evidence_points = lexical_v2_evidence_points best em\<rparr>)"

lemma selected_fields [simp]:
  "lr_candidate (selected em c) = c"
  "lr_evidence_points (selected em c) = lexical_v2_evidence_points (lr_selected_proof (selected em c)) em"
  by (simp_all add: selected_def Let_def)

lemma select_proofs_ok:
  "\<forall>c \<in> set candidates. lc_proofs c \<noteq> [] \<Longrightarrow>
   select_proofs em candidates = Ok (map (selected em) candidates)"
proof (induction candidates)
  case (Cons c cs)
  then have "sort_by (compare_lexical_v2_proofs em) (lc_proofs c) \<noteq> []" by simp
  then have "select_proof em c = Ok (selected em c)"
    by (auto simp: select_proof_def selected_def Let_def neq_Nil_conv split: list.split)
  with Cons show ?case by simp
qed simp

lemma selected_best:
  assumes "lc_proofs c \<noteq> []"
  shows "lr_selected_proof (selected em c) \<in> set (lc_proofs c)"
    and "pf \<in> set (lc_proofs c) \<Longrightarrow> compare_lexical_v2_proofs em (lr_selected_proof (selected em c)) pf \<noteq> Greater"
proof -
  have "sort_by (compare_lexical_v2_proofs em) (lc_proofs c) \<noteq> []" using assms by simp
  then have "hd (sort_by (compare_lexical_v2_proofs em) (lc_proofs c)) \<in> set (lc_proofs c)"
    by (metis hd_in_set set_sort_by)
  then show "lr_selected_proof (selected em c) \<in> set (lc_proofs c)" by (simp add: selected_def Let_def)
  show "pf \<in> set (lc_proofs c) \<Longrightarrow> compare_lexical_v2_proofs em (lr_selected_proof (selected em c)) pf \<noteq> Greater"
    using proofs.hd_sort_by_least [OF assms] by (simp add: selected_def Let_def)
qed

lemma input_ok_proofs:
  assumes "validate_lexical_v2_input input = Ok ()"
  shows "\<forall>c \<in> set (li_candidates input). lc_proofs c \<noteq> []"
    and "distinct (map identity_of (li_candidates input))"
  using assms by (auto simp: validate_lexical_v2_input_def is_ok_if_Err validate_candidates_iff candidate_ok_def)

lemma rank_lexical_v2_eq:
  assumes "validate_lexical_v2_input input = Ok ()"
  shows "rank_lexical_v2 input = Ok (sort_by compare_ranked_v2 (map (selected (li_emphasis input)) (li_candidates input)))"
  using select_proofs_ok [OF input_ok_proofs(1) [OF assms]] assms by (simp add: rank_lexical_v2_def)

lemma compare_ranked_not_Greater:
  assumes "compare_ranked_v2 a b \<noteq> Greater"
  shows "is_partial (lp_kind (lr_selected_proof a)) \<longrightarrow> is_partial (lp_kind (lr_selected_proof b))"
    and "is_partial (lp_kind (lr_selected_proof a)) = is_partial (lp_kind (lr_selected_proof b)) \<longrightarrow>
      lr_evidence_points b \<le> lr_evidence_points a"
  using assms unfolding compare_ranked_v2_def Let_def then_with_not_Greater
  by (auto simp: not_less)

lemma compare_proofs_not_Greater:
  assumes "compare_lexical_v2_proofs em a b \<noteq> Greater"
  shows "is_partial (lp_kind a) \<longrightarrow> is_partial (lp_kind b)"
    and "is_partial (lp_kind a) = is_partial (lp_kind b) \<longrightarrow>
      lexical_v2_evidence_points b em \<le> lexical_v2_evidence_points a em"
  using assms unfolding compare_lexical_v2_proofs_def then_with_not_Greater by (auto simp: not_less)

lemma compare_ranked_Equal:
  "compare_ranked_v2 a b = Equal \<Longrightarrow> identity_of (lr_candidate a) = identity_of (lr_candidate b)"
  by (simp add: compare_ranked_v2_def Let_def identity_of_def)

section \<open>Properties\<close>

text \<open>
  C11. Ranking is total on validated input and loses nothing: the result is a permutation of the
  candidates, each carrying one of its own proofs that no other of its proofs beats, with the points
  of that proof.
\<close>

theorem rank_lexical_v2_selects_best:
  assumes "validate_lexical_v2_input input = Ok ()"
  shows "\<exists>ranked. rank_lexical_v2 input = Ok ranked
    \<and> mset (map lr_candidate ranked) = mset (li_candidates input)
    \<and> (\<forall>r \<in> set ranked. lr_selected_proof r \<in> set (lc_proofs (lr_candidate r))
         \<and> lr_evidence_points r = lexical_v2_evidence_points (lr_selected_proof r) (li_emphasis input)
         \<and> (\<forall>pf \<in> set (lc_proofs (lr_candidate r)).
              compare_lexical_v2_proofs (li_emphasis input) (lr_selected_proof r) pf \<noteq> Greater))"
proof -
  let ?em = "li_emphasis input" and ?cs = "li_candidates input"
  let ?ranked = "sort_by compare_ranked_v2 (map (selected ?em) ?cs)"
  have "mset (map lr_candidate ?ranked) = image_mset lr_candidate (mset (map (selected ?em) ?cs))"
    by (simp only: mset_map mset_sort_by)
  also have "\<dots> = mset ?cs" by (simp add: multiset.map_comp comp_def)
  finally have perm: "mset (map lr_candidate ?ranked) = mset ?cs" .
  have "lr_selected_proof r \<in> set (lc_proofs (lr_candidate r))
      \<and> lr_evidence_points r = lexical_v2_evidence_points (lr_selected_proof r) ?em
      \<and> (\<forall>pf \<in> set (lc_proofs (lr_candidate r)). compare_lexical_v2_proofs ?em (lr_selected_proof r) pf \<noteq> Greater)"
    if r: "r \<in> set ?ranked" for r
  proof -
    obtain c where c: "c \<in> set ?cs" "r = selected ?em c" using r by auto
    then have "lc_proofs c \<noteq> []" using input_ok_proofs(1) [OF assms] by blast
    from selected_best [where em = ?em, OF this] c show ?thesis by simp
  qed
  with perm rank_lexical_v2_eq [OF assms] show ?thesis by blast
qed

definition sample_proof :: "LexicalV2ProofKind \<Rightarrow> nat \<Rightarrow> LexicalV2Proof" where
  "sample_proof k lane = \<lparr>lp_field = PF_Body, lp_kind = k, lp_lane_ordinal = lane, lp_engine_score = 0,
     lp_engine_ordinal = 0\<rparr>"

definition sample_candidate :: "rstring \<Rightarrow> LexicalV2Proof list \<Rightarrow> LexicalV2Candidate" where
  "sample_candidate key pfs = \<lparr>lc_source = \<lparr>authorization_scope = str ''vault'', source_key = key\<rparr>,
     lc_chunk_id = str ''c'', lc_path = key, lc_proofs = pfs\<rparr>"

definition sample_input :: LexicalV2RankInput where
  "sample_input = \<lparr>li_schema_version = 2, li_profile_id = ''lexical-v2'', li_lane_count = 2, li_emphasis = None,
     li_candidates = [sample_candidate (str ''a'') [sample_proof PK_PartialCoverage 0],
       sample_candidate (str ''b'') [sample_proof PK_PartialCoverage 0, sample_proof PK_Phrase 1]]\<rparr>"

lemma sample_input_ok: "validate_lexical_v2_input sample_input = Ok ()"
  by code_simp

theorem rank_lexical_v2_selects_best_witness:
  "\<exists>ranked. rank_lexical_v2 sample_input = Ok ranked
    \<and> mset (map lr_candidate ranked) = mset (li_candidates sample_input)"
  using rank_lexical_v2_selects_best [OF sample_input_ok] by blast

text \<open>
  C10. Partial coverage never outranks standard evidence, whatever the emphasis and the engine
  scores: in the ranked list no partial-coverage representative precedes a standard one, a
  candidate with any standard proof is represented by a standard proof, and within each of the two
  classes evidence points never increase.
\<close>

theorem rank_lexical_v2_partial_last:
  assumes "validate_lexical_v2_input input = Ok ()"
  shows "\<exists>ranked. rank_lexical_v2 input = Ok ranked
    \<and> sorted_wrt (\<lambda>a b. (is_partial (lp_kind (lr_selected_proof a)) \<longrightarrow> is_partial (lp_kind (lr_selected_proof b)))
         \<and> (is_partial (lp_kind (lr_selected_proof a)) = is_partial (lp_kind (lr_selected_proof b)) \<longrightarrow>
              lr_evidence_points b \<le> lr_evidence_points a)) ranked
    \<and> (\<forall>r \<in> set ranked. (\<exists>pf \<in> set (lc_proofs (lr_candidate r)). \<not> is_partial (lp_kind pf)) \<longrightarrow>
         \<not> is_partial (lp_kind (lr_selected_proof r)))"
proof -
  let ?em = "li_emphasis input" and ?cs = "li_candidates input"
  let ?ranked = "sort_by compare_ranked_v2 (map (selected ?em) ?cs)"
  have "\<not> is_partial (lp_kind (lr_selected_proof r))"
    if r: "r \<in> set ?ranked" and pf: "pf \<in> set (lc_proofs (lr_candidate r))" "\<not> is_partial (lp_kind pf)" for r pf
  proof -
    obtain c where c: "c \<in> set ?cs" "r = selected ?em c" using r by auto
    then have "lc_proofs c \<noteq> []" using input_ok_proofs(1) [OF assms] by blast
    then have "compare_lexical_v2_proofs ?em (lr_selected_proof r) pf \<noteq> Greater"
      using selected_best(2) pf(1) c(2) by simp
    then show ?thesis using compare_proofs_not_Greater(1) pf(2) by blast
  qed
  moreover have "sorted_wrt (\<lambda>a b. compare_ranked_v2 a b \<noteq> Greater) ?ranked"
    by (rule ranked_v2.sorted_sort_by)
  then have "sorted_wrt (\<lambda>a b. (is_partial (lp_kind (lr_selected_proof a)) \<longrightarrow> is_partial (lp_kind (lr_selected_proof b)))
      \<and> (is_partial (lp_kind (lr_selected_proof a)) = is_partial (lp_kind (lr_selected_proof b)) \<longrightarrow>
           lr_evidence_points b \<le> lr_evidence_points a)) ?ranked"
    by (rule sorted_wrt_mono_rel [rotated]) (use compare_ranked_not_Greater in blast)
  ultimately show ?thesis using rank_lexical_v2_eq [OF assms] by blast
qed

theorem rank_lexical_v2_partial_last_witness:
  "\<exists>ranked. rank_lexical_v2 sample_input = Ok ranked
    \<and> (\<forall>r \<in> set ranked. (\<exists>pf \<in> set (lc_proofs (lr_candidate r)). \<not> is_partial (lp_kind pf)) \<longrightarrow>
         \<not> is_partial (lp_kind (lr_selected_proof r)))"
  using rank_lexical_v2_partial_last [OF sample_input_ok] by blast

text \<open>
  C12. The ranking is a function of the candidate set: delivering the same candidates in another
  order gives the same result, since ties are broken down to the candidate identity, which
  validation makes unique.
\<close>

theorem rank_lexical_v2_order_independent:
  assumes "validate_lexical_v2_input input = Ok ()" "mset candidates = mset (li_candidates input)"
  shows "rank_lexical_v2 (input\<lparr>li_candidates := candidates\<rparr>) = rank_lexical_v2 input"
proof -
  let ?in = "input\<lparr>li_candidates := candidates\<rparr>"
  have sets: "set candidates = set (li_candidates input)" using assms(2) by (metis set_mset_mset)
  have "mset (map identity_of candidates) = mset (map identity_of (li_candidates input))"
    using assms(2) by simp
  then have "distinct (map identity_of candidates) = distinct (map identity_of (li_candidates input))"
    by (rule mset_eq_imp_distinct_iff)
  then have ok: "validate_lexical_v2_input ?in = Ok ()"
    using assms(1) sets mset_eq_length [OF assms(2)]
    by (simp add: validate_lexical_v2_input_def is_ok_if_Err validate_candidates_iff)
  have dist: "distinct (map identity_of (li_candidates input))" by (rule input_ok_proofs(2) [OF assms(1)])
  have inj: "c = d" if "c \<in> set (li_candidates input)" "d \<in> set (li_candidates input)" "identity_of c = identity_of d" for c d
    using dist that by (simp add: distinct_map inj_on_def)
  have "sort_by compare_ranked_v2 (map (selected (li_emphasis input)) (li_candidates input))
      = sort_by compare_ranked_v2 (map (selected (li_emphasis input)) candidates)"
  proof (rule ranked_v2.sort_by_perm_invariant)
    show "mset (map (selected (li_emphasis input)) (li_candidates input)) = mset (map (selected (li_emphasis input)) candidates)"
      using assms(2) by simp
    fix a b
    assume "a \<in> set (map (selected (li_emphasis input)) (li_candidates input))"
      "b \<in> set (map (selected (li_emphasis input)) (li_candidates input))" "compare_ranked_v2 a b = Equal"
    then show "a = b" using inj compare_ranked_Equal by fastforce
  qed
  then show ?thesis using rank_lexical_v2_eq [OF ok] rank_lexical_v2_eq [OF assms(1)] by simp
qed

theorem rank_lexical_v2_order_independent_witness:
  "rank_lexical_v2 (sample_input\<lparr>li_candidates := rev (li_candidates sample_input)\<rparr>) = rank_lexical_v2 sample_input"
  by (rule rank_lexical_v2_order_independent [OF sample_input_ok]) simp

text \<open>
  C25. The match quality reported for a list of selected proofs says exactly which classes of
  evidence occur in it.
\<close>

theorem lexical_match_quality_classes:
  "lexical_match_quality kinds =
     (if \<exists>k \<in> set kinds. \<not> is_partial k
      then if \<exists>k \<in> set kinds. is_partial k then Mixed else StandardOnly
      else if kinds \<noteq> [] then PartialOnly else Quality_None)"
proof -
  have "fold (\<lambda>k (standard, partial). if k = PK_PartialCoverage then (standard, True) else (True, partial))
      kinds (s, p) = (s \<or> (\<exists>k \<in> set kinds. \<not> is_partial k), p \<or> (\<exists>k \<in> set kinds. is_partial k))" for s p
    by (induction kinds arbitrary: s p) (auto simp: is_partial_def)
  then show ?thesis by (cases kinds) (auto simp: lexical_match_quality_def Let_def)
qed

end
