(* ===== verification/Ranking_Scalars.thy ===== *)
theory Ranking_Scalars
  imports Ranking_Model
begin

text \<open>
  Facts about the pure helpers of \<open>ranking.rs\<close>: canonical numbers parse back to themselves
  and nothing else does, ISO dates sort as strings the way they sort in the calendar, escaped
  JSON-pointer components are valid and injective, and folder containment is containment of
  component lists.
\<close>

section \<open>Decimal numbers\<close>

lemma decimal_props:
  "decimal n \<noteq> [] \<and> (\<forall>c \<in> set (decimal n). is_ascii_digit c) \<and> digits_value (decimal n) = n"
proof (induction n rule: decimal.induct)
  case (1 n)
  show ?case
  proof (cases "n < 10")
    case True
    then show ?thesis by (subst (1 2 3) decimal.simps) (auto simp: digits_value_def is_ascii_digit_def)
  next
    case False
    with 1 have ih: "decimal (n div 10) \<noteq> []" "\<forall>c \<in> set (decimal (n div 10)). is_ascii_digit c"
      "digits_value (decimal (n div 10)) = n div 10" by blast+
    have d: "decimal n = decimal (n div 10) @ [48 + n mod 10]" using False by (subst decimal.simps) simp
    have "digits_value (decimal n) = n div 10 * 10 + n mod 10"
      using ih(3) by (simp add: d digits_value_def)
    then show ?thesis using ih(2) by (auto simp: d is_ascii_digit_def)
  qed
qed

lemma parse_digits_decimal: "parse_digits (decimal n) = Some n"
  using decimal_props [of n] by (simp add: parse_digits_def)

lemma hd_decimal_digit: "\<exists>c cs. decimal n = c # cs \<and> is_ascii_digit c"
  using decimal_props [of n] by (cases "decimal n") auto

lemma parse_u64_decimal: "n < 2 ^ 64 \<Longrightarrow> parse_u64 (decimal n) = Some n"
proof -
  assume "n < 2 ^ 64"
  obtain c cs where c: "decimal n = c # cs" "is_ascii_digit c" using hd_decimal_digit by blast
  then have "c \<noteq> 43" by (auto simp: is_ascii_digit_def)
  then show ?thesis
    using parse_digits_decimal [of n] c(1) \<open>n < 2 ^ 64\<close> by (simp add: parse_u64_def)
qed

lemma parse_i64_to_string: "- (2 ^ 63) \<le> i \<Longrightarrow> i < 2 ^ 63 \<Longrightarrow> parse_i64 (int_to_string i) = Some i"
proof -
  assume range: "- (2 ^ 63) \<le> i" "i < 2 ^ 63"
  show ?thesis
  proof (cases "i < 0")
    case True
    then show ?thesis using range parse_digits_decimal by (simp add: int_to_string_def parse_i64_def)
  next
    case False
    obtain c cs where c: "decimal (nat i) = c # cs" "is_ascii_digit c" using hd_decimal_digit by blast
    then have "c \<noteq> 43" "c \<noteq> 45" by (auto simp: is_ascii_digit_def)
    then show ?thesis
      using False range parse_digits_decimal [of "nat i"] c(1) by (simp add: int_to_string_def parse_i64_def)
  qed
qed

lemma parse_i64_range: "parse_i64 s = Some i \<Longrightarrow> - (2 ^ 63) \<le> i \<and> i < 2 ^ 63"
  by (auto simp: parse_i64_def Let_def split: option.splits if_splits)

lemma parse_canonical_i64_iff:
  "parse_canonical_i64 s = Some i \<longleftrightarrow> - (2 ^ 63) \<le> i \<and> i < 2 ^ 63 \<and> s = int_to_string i"
proof
  assume "parse_canonical_i64 s = Some i"
  then show "- (2 ^ 63) \<le> i \<and> i < 2 ^ 63 \<and> s = int_to_string i"
    using parse_i64_range by (auto simp: parse_canonical_i64_def split: option.splits if_splits)
next
  assume "- (2 ^ 63) \<le> i \<and> i < 2 ^ 63 \<and> s = int_to_string i"
  then show "parse_canonical_i64 s = Some i"
    using parse_i64_to_string by (simp add: parse_canonical_i64_def)
qed

lemma parse_canonical_u64_iff: "parse_canonical_u64 s = Some n \<longleftrightarrow> n < 2 ^ 64 \<and> s = decimal n"
proof
  assume "parse_canonical_u64 s = Some n"
  then show "n < 2 ^ 64 \<and> s = decimal n"
    by (auto simp: parse_canonical_u64_def parse_u64_def Let_def split: option.splits if_splits)
next
  assume "n < 2 ^ 64 \<and> s = decimal n"
  then show "parse_canonical_u64 s = Some n" using parse_u64_decimal by (simp add: parse_canonical_u64_def)
qed

section \<open>Hexadecimal bit patterns\<close>

lemma hex_digit_props: "d < 16 \<Longrightarrow> is_lower_hex (hex_digit d) \<and> hex_value (hex_digit d) = d \<and> hex_digit d < 128"
  by (auto simp: hex_digit_def hex_value_def is_lower_hex_def is_ascii_digit_def)

lemma hex_value_digit: "is_lower_hex c \<Longrightarrow> hex_value c < 16 \<and> hex_digit (hex_value c) = c"
  by (auto simp: hex_digit_def hex_value_def is_lower_hex_def is_ascii_digit_def)

lemma hex_fixed_props:
  "length (hex_fixed k n) = k \<and> (\<forall>c \<in> set (hex_fixed k n). is_lower_hex c \<and> c < 128)
   \<and> from_hex (hex_fixed k n) = n mod 16 ^ k"
proof (induction k arbitrary: n)
  case 0
  then show ?case by (simp add: from_hex_def)
next
  case (Suc k)
  have "from_hex (hex_fixed (Suc k) n) = (n div 16) mod 16 ^ k * 16 + n mod 16"
    using Suc [of "n div 16"] hex_digit_props [of "n mod 16"] by (simp add: from_hex_def)
  also have "\<dots> = n mod 16 ^ Suc k" by (simp add: mod_mult2_eq)
  finally show ?case using Suc [of "n div 16"] hex_digit_props [of "n mod 16"] by simp
qed

lemma hex_fixed_from_hex:
  "\<forall>c \<in> set s. is_lower_hex c \<Longrightarrow> hex_fixed (length s) (from_hex s) = s \<and> from_hex s < 16 ^ length s"
proof (induction s rule: rev_induct)
  case Nil
  then show ?case by (simp add: from_hex_def)
next
  case (snoc c s)
  have v: "hex_value c < 16" "hex_digit (hex_value c) = c" using snoc.prems hex_value_digit by auto
  have f: "from_hex (s @ [c]) = from_hex s * 16 + hex_value c" by (simp add: from_hex_def)
  have "hex_fixed (length s) (from_hex s) = s" "from_hex s < 16 ^ length s" using snoc by simp_all
  then show ?case using v by (simp add: f)
qed

lemma parse_canonical_f64_iff:
  "parse_canonical_f64 s = Some x \<longleftrightarrow> f64_is_finite x \<and> s = hex_fixed 16 (unat x)"
proof
  assume p: "parse_canonical_f64 s = Some x"
  then have hex: "\<forall>c \<in> set s. is_lower_hex c" and len: "str_len s = 16"
    and fin: "f64_is_finite x" and x: "x = word_of_nat (from_hex s)"
    by (auto simp: parse_canonical_f64_def Let_def split: if_splits)
  have "\<forall>c \<in> set s. c < 128" using hex by (auto simp: is_lower_hex_def is_ascii_digit_def)
  then have "length s = 16" using len str_len_ascii [of s] by simp
  with hex_fixed_from_hex [OF hex] have "hex_fixed 16 (from_hex s) = s" "from_hex s < 16 ^ 16" by simp_all
  moreover have "unat x = from_hex s"
    using \<open>from_hex s < 16 ^ 16\<close> x by (simp add: unat_of_nat)
  ultimately show "f64_is_finite x \<and> s = hex_fixed 16 (unat x)" using fin by simp
next
  assume s: "f64_is_finite x \<and> s = hex_fixed 16 (unat x)"
  have props: "length s = 16" "\<forall>c \<in> set s. is_lower_hex c \<and> c < 128" "from_hex s = unat x mod 16 ^ 16"
    using s hex_fixed_props [of 16 "unat x"] by simp_all
  have "unat x < 2 ^ LENGTH(64)" by (rule unsigned_less)
  then have "from_hex s = unat x" using props(3) by simp
  moreover have "str_len s = 16" using props(1,2) str_len_ascii [of s] by simp
  ultimately show "parse_canonical_f64 s = Some x"
    using s props(2) by (simp add: parse_canonical_f64_def)
qed

section \<open>Calendar dates\<close>

lemma decimal_component_Cons:
  "decimal_component (x # xs) = (x - 48) * 10 ^ length xs + decimal_component xs"
proof -
  have "fold (\<lambda>byte value. value * 10 + (byte - 48)) xs a = a * 10 ^ length xs + decimal_component xs" for a
  proof (induction xs arbitrary: a)
    case (Cons y ys)
    have "fold (\<lambda>byte value. value * 10 + (byte - 48)) (y # ys) a
        = (a * 10 + (y - 48)) * 10 ^ length ys + decimal_component ys"
      using Cons [of "a * 10 + (y - 48)"] by simp
    moreover have "decimal_component (y # ys) = (y - 48) * 10 ^ length ys + decimal_component ys"
      using Cons [of "y - 48"] by (simp add: decimal_component_def)
    ultimately show ?case by (simp add: add_mult_distrib)
  qed (simp add: decimal_component_def)
  from this [of "x - 48"] show ?thesis by (simp add: decimal_component_def)
qed

lemma decimal_component_bound:
  "\<forall>c \<in> set xs. is_ascii_digit c \<Longrightarrow> decimal_component xs < 10 ^ length xs"
proof (induction xs)
  case (Cons x xs)
  then have "x - 48 \<le> 9" "decimal_component xs < 10 ^ length xs" by (auto simp: is_ascii_digit_def)
  then have "(x - 48) * 10 ^ length xs \<le> 9 * 10 ^ length xs" by (intro mult_le_mono1)
  with \<open>decimal_component xs < 10 ^ length xs\<close>
  have "(x - 48) * 10 ^ length xs + decimal_component xs < 9 * 10 ^ length xs + 10 ^ length xs"
    by (rule add_le_less_mono [rotated])
  then show ?case by (simp add: decimal_component_Cons)
qed (simp add: decimal_component_def)

lemma digit_strings_order:
  assumes "length xs = length ys" "\<forall>c \<in> set xs. is_ascii_digit c" "\<forall>c \<in> set ys. is_ascii_digit c"
  shows "xs < ys \<longleftrightarrow> decimal_component xs < decimal_component ys"
    and "xs = ys \<longleftrightarrow> decimal_component xs = decimal_component ys"
proof -
  have "(xs < ys \<longleftrightarrow> decimal_component xs < decimal_component ys)
      \<and> (xs = ys \<longleftrightarrow> decimal_component xs = decimal_component ys)"
    using assms
  proof (induction xs ys rule: list_induct2)
    case (Cons x xs y ys)
    let ?b = "10 ^ length xs :: nat"
    have bound: "decimal_component xs < ?b" "decimal_component ys < ?b"
      using Cons.prems Cons.hyps decimal_component_bound [of xs] decimal_component_bound [of ys] by simp_all
    have digits: "48 \<le> x" "48 \<le> y" using Cons.prems by (auto simp: is_ascii_digit_def)
    have lead: "m * ?b + v < n * ?b + w" if "m < n" "v < ?b" for m n v w :: nat
    proof -
      have "m * ?b + v < Suc m * ?b" using that(2) by simp
      also have "\<dots> \<le> n * ?b" using that(1) by (intro mult_le_mono1) simp
      finally show ?thesis by simp
    qed
    consider "x < y" | "x = y" | "y < x" by linarith
    then show ?case
    proof cases
      case 1
      then have "x - 48 < y - 48" using digits by simp
      with 1 lead [OF _ bound(1)] Cons.hyps show ?thesis by (fastforce simp: decimal_component_Cons)
    next
      case 2
      then show ?thesis using Cons by (simp add: decimal_component_Cons)
    next
      case 3
      then have "y - 48 < x - 48" using digits by simp
      from lead [OF this bound(2), of "decimal_component xs"] 3 Cons.hyps show ?thesis
        by (auto simp: decimal_component_Cons)
    qed
  qed simp
  then show "xs < ys \<longleftrightarrow> decimal_component xs < decimal_component ys"
    "xs = ys \<longleftrightarrow> decimal_component xs = decimal_component ys" by simp_all
qed

lemma append_le_iff:
  "length a = length b \<Longrightarrow> a @ s \<le> b @ t \<longleftrightarrow> a < b \<or> a = b \<and> s \<le> t"
  for a b :: "'a :: linorder list"
  by (induction a b rule: list_induct2) auto

definition date_parts :: "rstring \<Rightarrow> nat \<times> nat \<times> nat" where
  "date_parts v = (decimal_component (take 4 v), decimal_component (take 2 (drop 5 v)), decimal_component (take 2 (drop 8 v)))"

lemma iso_date_shape:
  assumes "is_iso_calendar_date v"
  shows "v = take 4 v @ 45 # take 2 (drop 5 v) @ 45 # take 2 (drop 8 v)" "length v = 10"
    and "\<forall>c \<in> set (take 4 v) \<union> set (take 2 (drop 5 v)) \<union> set (take 2 (drop 8 v)). is_ascii_digit c"
proof -
  have len: "length v = 10" and seps: "v ! 4 = 45" "v ! 7 = 45"
    and dig: "\<forall>(index, byte) \<in> set (enumerate 0 v). index \<in> {4, 7} \<or> is_ascii_digit byte"
    using assms by (auto simp: is_iso_calendar_date_def split: if_splits)
  show "length v = 10" by (rule len)
  obtain a b c d e f g h i j where v: "v = [a, b, c, d, e, f, g, h, i, j]"
    using len by (auto simp: numeral_eq_Suc length_Suc_conv)
  show "v = take 4 v @ 45 # take 2 (drop 5 v) @ 45 # take 2 (drop 8 v)"
    using seps by (simp add: v)
  have "is_ascii_digit (v ! n)" if "n < 10" "n \<notin> {4, 7}" for n
    using dig that len by (auto simp: in_set_enumerate_eq)
  from this [of 0] this [of 1] this [of 2] this [of 3] this [of 5] this [of 6] this [of 8] this [of 9]
  show "\<forall>c \<in> set (take 4 v) \<union> set (take 2 (drop 5 v)) \<union> set (take 2 (drop 8 v)). is_ascii_digit c"
    by (simp add: v)
qed

lemma Cons_le_same: "(c # s \<le> c # t) = (s \<le> t)" for s t :: "'a :: linorder list"
  by simp

section \<open>Paths\<close>

lemma path_is_within_folder_iff: "path_is_within_folder path folder \<longleftrightarrow> (\<exists>rest. path = folder @ 47 # rest)"
proof
  assume "path_is_within_folder path folder"
  then obtain suffix where s: "strip_prefix folder path = Some suffix" "starts_with (str ''/'') suffix"
    by (auto simp: path_is_within_folder_def split: option.splits)
  then have "path = folder @ suffix" by (metis append_take_drop_id option.distinct(1) option.inject strip_prefix_def)
  moreover obtain r where "suffix = 47 # r" using s(2) by (cases suffix) (auto simp: starts_with_def)
  ultimately show "\<exists>rest. path = folder @ 47 # rest" by blast
next
  assume "\<exists>rest. path = folder @ 47 # rest"
  then show "path_is_within_folder path folder"
    by (auto simp: path_is_within_folder_def strip_prefix_def starts_with_def)
qed

lemma split_on_append_sep: "p c \<Longrightarrow> split_on p (xs @ c # ys) = split_on p xs @ split_on p ys"
  by (induction xs) (auto split: list.split)

lemma path_components_append: "path_components (xs @ 47 # ys) = path_components xs @ path_components ys"
  by (simp add: path_components_def split_on_append_sep)

lemma within_folder_comparable:
  assumes "path_is_within_folder path a" "path_is_within_folder path b"
  shows "folder_prefixes_overlap a b"
proof -
  obtain r s where "path = a @ 47 # r" "path = b @ 47 # s"
    using assms unfolding path_is_within_folder_iff by blast
  then have "a @ 47 # r = b @ 47 # s" by simp
  then obtain us where "a = b @ us \<and> us @ 47 # r = 47 # s \<or> a @ us = b \<and> 47 # r = us @ 47 # s"
    unfolding append_eq_append_conv2 by blast
  then show ?thesis
    unfolding folder_prefixes_overlap_def path_is_within_folder_iff by (cases us) auto
qed

section \<open>JSON pointers\<close>

definition escape_char :: "nat \<Rightarrow> rstring" where
  "escape_char c = (if c = 126 then [126, 48] else if c = 47 then [126, 49] else [c])"

lemma escape_component_simps [simp]:
  "escape_component [] = []" "escape_component (c # cs) = escape_char c @ escape_component cs"
  by (simp_all add: escape_component_def escape_char_def)

lemma escape_component_no_slash: "47 \<notin> set (escape_component cs)"
  by (induction cs) (auto simp: escape_char_def)

lemma escape_component_ok: "pointer_escapes_ok (escape_component cs @ rest) = pointer_escapes_ok rest"
  by (induction cs) (auto simp: escape_char_def)

lemma escape_component_inj: "escape_component a = escape_component b \<longleftrightarrow> a = b"
proof
  show "escape_component a = escape_component b \<Longrightarrow> a = b"
  proof (induction a arbitrary: b)
    case Nil
    then show ?case by (cases b) (auto simp: escape_char_def split: if_splits)
  next
    case (Cons c cs)
    then show ?case by (cases b) (auto simp: escape_char_def split: if_splits)
  qed
qed simp

section \<open>Properties\<close>

text \<open>
  C19. Canonical numbers: the strings the parsers accept are exactly the ones the printers produce,
  for every 64-bit signed and unsigned integer and every finite double given by its bits, so two
  scalars are equal as strings exactly when they are equal as numbers.
\<close>

theorem canonical_numbers_roundtrip:
  "(parse_canonical_i64 s = Some i \<longleftrightarrow> - (2 ^ 63) \<le> i \<and> i < 2 ^ 63 \<and> RS_I64 s = scalar_i64 i)
   \<and> (parse_canonical_u64 s = Some n \<longleftrightarrow> n < 2 ^ 64 \<and> RS_U64 s = scalar_u64 n)
   \<and> (parse_canonical_f64 s = Some x \<longleftrightarrow> f64_is_finite x \<and> RS_F64 s = scalar_f64 x)"
  unfolding parse_canonical_i64_iff parse_canonical_u64_iff parse_canonical_f64_iff
  by (auto simp: scalar_i64_def scalar_u64_def scalar_f64_def)

text \<open>
  C20. Date ranges compare strings, and that is the calendar order: for accepted dates the
  lexicographic order of the strings is the order of year, month and day, and month and day are in
  range for the year.
\<close>

theorem iso_dates_chronological:
  assumes "is_iso_calendar_date v" "is_iso_calendar_date w"
  shows "(v \<le> w \<longleftrightarrow> date_parts v \<le> date_parts w)
    \<and> (case date_parts v of (y, m, d) \<Rightarrow>
         1 \<le> m \<and> m \<le> 12 \<and> 1 \<le> d \<and> d \<le> days_of_year y ! (m - 1))"
proof
  note sv = iso_date_shape [OF assms(1)] and sw = iso_date_shape [OF assms(2)]
  let ?y = "\<lambda>v. take 4 v" and ?m = "\<lambda>v. take 2 (drop 5 v)" and ?d = "\<lambda>v. take 2 (drop 8 v)"
  have len: "length (?y v) = length (?y w)" "length (?m v) = length (?m w)" "length (?d v) = length (?d w)"
    using sv(2) sw(2) by simp_all
  have "v \<le> w \<longleftrightarrow> ?y v < ?y w \<or> ?y v = ?y w \<and> (?m v < ?m w \<or> ?m v = ?m w \<and> ?d v \<le> ?d w)"
    by (subst sv(1), subst sw(1)) (simp only: append_le_iff [OF len(1)] append_le_iff [OF len(2)] Cons_le_same)
  also have "\<dots> \<longleftrightarrow> date_parts v \<le> date_parts w"
    using digit_strings_order [OF len(1)] digit_strings_order [OF len(2)] digit_strings_order [OF len(3)] sv(3) sw(3)
    unfolding le_less [of "?d v"] by (simp add: date_parts_def less_eq_prod_simp le_less) blast
  finally show "v \<le> w \<longleftrightarrow> date_parts v \<le> date_parts w" .
  show "case date_parts v of (y, m, d) \<Rightarrow> 1 \<le> m \<and> m \<le> 12 \<and> 1 \<le> d \<and> d \<le> days_of_year y ! (m - 1)"
    using assms(1) by (auto simp: is_iso_calendar_date_def date_parts_def Let_def split: if_splits)
qed

theorem iso_dates_chronological_witness:
  "(str ''2024-02-29'' \<le> str ''2025-01-01'') = (date_parts (str ''2024-02-29'') \<le> date_parts (str ''2025-01-01''))"
proof -
  have "is_iso_calendar_date (str ''2024-02-29'')" "is_iso_calendar_date (str ''2025-01-01'')" by code_simp+
  from iso_dates_chronological [OF this] show ?thesis by blast
qed

lemma concat_path_components: "concat (map ((#) 47) (path_components s)) = 47 # s"
  unfolding path_components_def by (induction s) (auto split: list.splits)

lemma path_components_proper_prefix:
  assumes "path_components path = path_components folder @ rest" "rest \<noteq> []"
  shows "path_is_within_folder path folder"
proof -
  obtain r rs where "rest = r # rs" using assms(2) by (cases rest) auto
  then have "concat (map ((#) 47) (path_components path))
    = concat (map ((#) 47) (path_components folder)) @ 47 # r @ concat (map ((#) 47) rs)"
    unfolding assms(1) by simp
  then have "path = folder @ 47 # r @ concat (map ((#) 47) rs)"
    unfolding concat_path_components by simp
  then show ?thesis by (auto simp: path_is_within_folder_iff)
qed

text \<open>
  C24. Folder containment respects path components: a path lies within a folder exactly when the
  folder's components are a proper prefix of the path's (so \<open>notes/work-old\<close> is not within
  \<open>notes/work\<close>), a path is strictly deeper than the folders it lies within, and two folders that both
  contain a path overlap.
\<close>

theorem path_within_folder_components:
  "(path_is_within_folder path folder \<longleftrightarrow>
     (\<exists>rest. rest \<noteq> [] \<and> path_components path = path_components folder @ rest))
   \<and> (path_is_within_folder path folder \<longrightarrow> path_depth folder < path_depth path
        \<and> (path_is_within_folder path other \<longrightarrow> folder_prefixes_overlap folder other))"
proof -
  have split: "\<exists>rest. rest \<noteq> [] \<and> path_components path = path_components folder @ rest"
    if within: "path_is_within_folder path folder"
  proof -
    obtain rest where "path = folder @ 47 # rest" using iffD1 [OF path_is_within_folder_iff within] by (elim exE)
    then have "path_components path = path_components folder @ path_components rest"
      by (simp only: path_components_append)
    moreover have "path_components rest \<noteq> []" by (simp add: path_components_def)
    ultimately show ?thesis by blast
  qed
  moreover have "path_depth folder < path_depth path" if "path_is_within_folder path folder"
    using split [OF that] by (auto simp: path_depth_def)
  ultimately show ?thesis using path_components_proper_prefix within_folder_comparable by blast
qed

theorem path_within_folder_components_witness:
  "path_depth (str ''notes/work'') < path_depth (str ''notes/work/a.md'')
   \<and> folder_prefixes_overlap (str ''notes/work'') (str ''notes'')"
proof -
  have "path_is_within_folder (str ''notes/work/a.md'') (str ''notes/work'')"
    and "path_is_within_folder (str ''notes/work/a.md'') (str ''notes'')" by code_simp+
  then show ?thesis
    using path_within_folder_components [of "str ''notes/work/a.md''" "str ''notes/work''" "str ''notes''"] by blast
qed

end
