(* ===== verification/Rerank.thy ===== *)
theory Rerank
  imports Ranking_Model
begin

text \<open>
  The metadata reranker of \<open>daemon/crates/kwiry-core/src/ranking.rs\<close>: profile and input
  validation, the projection of a property bag to bounded observations, scoring of a source, and
  \<open>rerank_candidates\<close>.  Serialized JSON is not modelled: the record \<open>json_env\<close> holds the
  lengths and texts \<open>serde_json\<close> would produce.  \<open>usize\<close> counters are naturals; the only
  checked addition is charged against a limit far below the word size.
\<close>

section \<open>Types\<close>

record json_env =
  profile_json_len :: "D5cRelevanceProfile \<Rightarrow> nat option"
  predicate_json :: "rstring \<Rightarrow> PropertyPredicate \<Rightarrow> rstring option"

text \<open>\<open>model.rs\<close>: a property value; a \<open>BTreeMap\<close> is its list of entries in key order.\<close>

datatype PropertyValue =
  PV_Null | PV_Bool bool | PV_I64 int | PV_U64 nat | PV_F64 f64 | PV_String rstring
  | PV_Sequence "PropertyValue list" | PV_Map "(rstring \<times> PropertyValue) list"

type_synonym PropertyBag = "(rstring \<times> PropertyValue) list"

definition bag_get :: "PropertyBag \<Rightarrow> rstring \<Rightarrow> PropertyValue option" where
  "bag_get bag name = map_of bag name"

record RerankCandidate =
  rc_source :: QualifiedSourceId
  rc_chunk_id :: rstring
  rc_path :: rstring
  rc_evidence_tier :: LexicalEvidenceTier
  rc_lexical_score :: f32

record PropertyScalarObservation =
  po_property :: rstring
  po_pointer :: rstring
  po_value :: RankingScalar

record SourceSignalObservation =
  ss_source :: QualifiedSourceId
  ss_mtime :: "nat option"
  ss_matched_property_rule_ids :: "rstring list"
  ss_present_properties :: "rstring list"
  ss_property_values :: "PropertyScalarObservation list"

record RerankInput =
  ri_schema_version :: nat
  ri_query_time :: nat
  ri_candidates :: "RerankCandidate list"
  ri_source_signals :: "SourceSignalObservation list"

record RerankEvidenceEntry =
  ree_tier :: LexicalEvidenceTier
  ree_ordinal :: nat
  ree_points :: int

record RerankEvidence =
  re_schema_version :: nat
  re_candidate_count :: nat
  re_source_count :: nat
  re_entries :: "RerankEvidenceEntry list"

record RerankResult =
  rres_profile_id :: string
  rres_candidates :: "RerankCandidate list"
  rres_evidence :: RerankEvidence

record SourceScore =
  sc_points :: int
  sc_matched_rule_ordinals :: "nat list"

record InternalRankingEvidence =
  ire_lexical_tier :: LexicalEvidenceTier
  ire_metadata_points :: int
  ire_matched_rule_ordinals :: "nat list"

record RankedCandidate =
  rkc_original_ordinal :: nat
  rkc_candidate :: RerankCandidate
  rkc_evidence :: InternalRankingEvidence

section \<open>Profile validation\<close>

definition validate_rule_id :: "rstring \<Rightarrow> rstring set \<Rightarrow> RankingError + rstring set" where
  "validate_rule_id rid ids =
     (if rid = [] \<or> str_len rid > MAX_RANKING_RULE_ID_BYTES
      then Err (invalid_profile ''ranking rule ID is invalid'')
      else if rid \<in> ids then Err (invalid_profile ''ranking rule ID is duplicated'')
      else Ok (insert rid ids))"

fun folder_rules_loop :: "FolderRule list \<Rightarrow> rstring set \<Rightarrow> rstring set \<Rightarrow> RankingError + rstring set" where
  "folder_rules_loop [] prefixes ids = Ok ids"
| "folder_rules_loop (rule # rules) prefixes ids =
     and_then (validate_rule_id (fr_id rule) ids) (\<lambda>ids'.
       if str_len (fr_prefix rule) > MAX_RANKING_FOLDER_PREFIX_BYTES
          \<or> \<not> is_normalized_relative_path (fr_prefix rule)
          \<or> path_depth (fr_prefix rule) > MAX_RANKING_PATH_DEPTH
       then Err (invalid_profile ''folder rule prefix is invalid'')
       else if fr_prefix rule \<in> prefixes
       then Err (invalid_profile ''folder rule prefix is duplicated'')
       else folder_rules_loop rules (insert (fr_prefix rule) prefixes) ids')"

definition validate_folder_rules :: "FolderRule list \<Rightarrow> rstring set \<Rightarrow> RankingError + rstring set" where
  "validate_folder_rules rules ids =
     (if \<not> windows2_all (\<lambda>a b. \<not> (fr_prefix a, fr_id a) \<ge> (fr_prefix b, fr_id b)) rules
      then Err (invalid_profile ''folder rules must use canonical prefix and ID order'')
      else folder_rules_loop rules {} ids)"

definition validate_range ::
  "('a \<Rightarrow> 'a \<Rightarrow> bool) \<Rightarrow> (rstring \<Rightarrow> 'a option) \<Rightarrow> rstring option \<Rightarrow> rstring option \<Rightarrow> RankingError + unit" where
  "validate_range lt parse lo hi =
     (if lo = None \<and> hi = None then Err (invalid_profile ''property range must have a bound'')
      else if (case lo of None \<Rightarrow> False | Some v \<Rightarrow> parse v = None)
      then Err (invalid_profile ''numeric range is invalid'')
      else if (case hi of None \<Rightarrow> False | Some v \<Rightarrow> parse v = None)
      then Err (invalid_profile ''numeric range is invalid'')
      else (case (Option.bind lo parse, Option.bind hi parse) of
          (Some a, Some b) \<Rightarrow> if lt b a then Err (invalid_profile ''numeric range is reversed'') else Ok ()
        | _ \<Rightarrow> Ok ()))"

definition validate_date_range :: "rstring option \<Rightarrow> rstring option \<Rightarrow> RankingError + unit" where
  "validate_date_range lo hi =
     (if lo = None \<and> hi = None then Err (invalid_profile ''property range must have a bound'')
      else if (case lo of None \<Rightarrow> False | Some v \<Rightarrow> \<not> is_iso_calendar_date v)
         \<or> (case hi of None \<Rightarrow> False | Some v \<Rightarrow> \<not> is_iso_calendar_date v)
         \<or> (case (lo, hi) of (Some a, Some b) \<Rightarrow> a > b | _ \<Rightarrow> False)
      then Err (invalid_profile ''date range is invalid'') else Ok ())"

definition validate_property_predicate :: "PropertyPredicate \<Rightarrow> RankingError + unit" where
  "validate_property_predicate predicate =
     and_then (case predicate_pointer predicate of None \<Rightarrow> Ok () | Some pointer \<Rightarrow> validate_json_pointer pointer) (\<lambda>_.
       case predicate of
         PP_Presence \<Rightarrow> Ok ()
       | PP_Exact _ value \<Rightarrow> validate_scalar value True
       | PP_I64Range _ lo hi \<Rightarrow> validate_range (<) parse_canonical_i64 lo hi
       | PP_U64Range _ lo hi \<Rightarrow> validate_range (<) parse_canonical_u64 lo hi
       | PP_F64Range _ lo hi \<Rightarrow> validate_range f64_less parse_canonical_f64 lo hi
       | PP_DateRange _ lo hi \<Rightarrow> validate_date_range lo hi)"

fun property_rules_loop ::
  "json_env \<Rightarrow> PropertyRule list \<Rightarrow> rstring set \<Rightarrow> rstring set \<Rightarrow> RankingError + unit" where
  "property_rules_loop json [] predicates ids = Ok ()"
| "property_rules_loop json (rule # rules) predicates ids =
     and_then (validate_rule_id (prl_id rule) ids) (\<lambda>ids'.
       if prl_property rule = [] \<or> str_len (prl_property rule) > MAX_RANKING_PROPERTY_NAME_BYTES
       then Err (invalid_profile ''property rule name is invalid'')
       else and_then (validate_property_predicate (prl_predicate rule)) (\<lambda>_.
         case predicate_json json (prl_property rule) (prl_predicate rule) of
           None \<Rightarrow> Err (invalid_profile ''property predicate is not canonical'')
         | Some predicate \<Rightarrow>
             if predicate \<in> predicates then Err (invalid_profile ''property predicate is duplicated'')
             else property_rules_loop json rules (insert predicate predicates) ids'))"

definition profile_rule_count :: "D5cRelevanceProfile \<Rightarrow> nat" where
  "profile_rule_count profile =
     (if dp_recency profile \<noteq> None then 1 else 0)
     + (if hr_depth (dp_hierarchy profile) \<noteq> None then 1 else 0)
     + length (hr_authority_folders (dp_hierarchy profile))
     + length (hr_archive_folders (dp_hierarchy profile))
     + length (dp_property_rules profile)"

definition max_points :: "FolderRule list \<Rightarrow> int" where
  "max_points rules = (case rules of [] \<Rightarrow> 0
     | r # rs \<Rightarrow> fold (\<lambda>rule best. max best (strength_points (fr_strength rule))) rs (strength_points (fr_strength r)))"

definition theoretical_points :: "D5cRelevanceProfile \<Rightarrow> int" where
  "theoretical_points profile =
     (case dp_recency profile of None \<Rightarrow> 0 | Some rule \<Rightarrow> strength_points (rr_strength rule))
     + (case hr_depth (dp_hierarchy profile) of None \<Rightarrow> 0 | Some rule \<Rightarrow> strength_points (pd_strength rule))
     + max_points (hr_authority_folders (dp_hierarchy profile))
     + max_points (hr_archive_folders (dp_hierarchy profile))
     + sum_list (map (\<lambda>rule. strength_points (prl_strength rule)) (dp_property_rules profile))"

definition predicate_segments :: "PathDepthPredicate \<Rightarrow> nat" where
  "predicate_segments predicate = (case predicate of AtMost segments \<Rightarrow> segments | AtLeast segments \<Rightarrow> segments)"

definition validate_recency_and_depth :: "D5cRelevanceProfile \<Rightarrow> RankingError + rstring set" where
  "validate_recency_and_depth profile =
     and_then (case dp_recency profile of None \<Rightarrow> Ok {} | Some rule \<Rightarrow> validate_rule_id (rr_id rule) {}) (\<lambda>ids.
       case hr_depth (dp_hierarchy profile) of
         None \<Rightarrow> Ok ids
       | Some rule \<Rightarrow>
           and_then (validate_rule_id (pd_id rule) ids) (\<lambda>ids'.
             if predicate_segments (pd_predicate rule) > MAX_RANKING_PATH_DEPTH
             then Err (invalid_profile ''path-depth rule exceeds its limit'') else Ok ids'))"

definition validate_limits :: "json_env \<Rightarrow> D5cRelevanceProfile \<Rightarrow> RankingError + unit" where
  "validate_limits json profile =
     (if dp_schema_version profile \<noteq> RELEVANCE_PROFILE_SCHEMA_VERSION
         \<or> dp_profile_id profile \<noteq> D5C_PREVIEW_PROFILE_ID
         \<or> dp_retrieval_profile_id profile \<noteq> LEXICAL_RELEVANCE_PROFILE_ID
      then Err (invalid_profile ''profile identity or schema is unsupported'')
      else (case profile_json_len json profile of
          None \<Rightarrow> Err (invalid_profile ''profile cannot be serialized canonically'')
        | Some serialized_len \<Rightarrow>
            if serialized_len > MAX_RELEVANCE_PROFILE_BYTES
            then Err (invalid_profile ''profile exceeds its serialized size limit'')
            else if length (dp_property_rules profile) > MAX_PROPERTY_RANKING_RULES
               \<or> length (hr_authority_folders (dp_hierarchy profile)) > MAX_FOLDER_RANKING_RULES_PER_FAMILY
               \<or> length (hr_archive_folders (dp_hierarchy profile)) > MAX_FOLDER_RANKING_RULES_PER_FAMILY
            then Err (invalid_profile ''profile exceeds a rule-family limit'')
            else if profile_rule_count profile > MAX_TOTAL_RANKING_RULES
            then Err (invalid_profile ''profile exceeds the total rule limit'')
            else Ok ()))"

definition validate_profile :: "json_env \<Rightarrow> D5cRelevanceProfile \<Rightarrow> RankingError + unit" where
  "validate_profile json profile =
     (let authority = hr_authority_folders (dp_hierarchy profile);
          archive = hr_archive_folders (dp_hierarchy profile)
      in and_then (validate_limits json profile) (\<lambda>_.
         and_then (validate_recency_and_depth profile) (\<lambda>ids.
         and_then (validate_folder_rules authority ids) (\<lambda>ids.
         and_then (validate_folder_rules archive ids) (\<lambda>ids.
         if \<exists>a \<in> set authority. \<exists>b \<in> set archive. folder_prefixes_overlap (fr_prefix a) (fr_prefix b)
         then Err (invalid_profile ''authority and archive folder rules overlap'')
         else if \<not> windows2_all (\<lambda>a b. \<not> prl_id a \<ge> prl_id b) (dp_property_rules profile)
         then Err (invalid_profile ''property rules must use canonical ID order'')
         else and_then (property_rules_loop json (dp_property_rules profile) {} ids) (\<lambda>_.
         if theoretical_points profile > MAX_ABSOLUTE_METADATA_POINTS
         then Err (invalid_profile ''profile metadata contribution exceeds its absolute cap'')
         else Ok ()))))))"

section \<open>Input validation\<close>

fun candidates_loop ::
  "(QualifiedSourceId \<times> rstring \<times> rstring) set \<Rightarrow> (QualifiedSourceId \<rightharpoonup> rstring) \<Rightarrow> RerankCandidate list \<Rightarrow>
   RankingError + unit" where
  "candidates_loop candidate_ids source_paths [] = Ok ()"
| "candidates_loop candidate_ids source_paths (candidate # candidates) =
     and_then (validate_source_id (rc_source candidate)) (\<lambda>_.
       if rc_chunk_id candidate = [] \<or> str_len (rc_chunk_id candidate) > MAX_CHUNK_ID_BYTES
          \<or> \<not> f32_is_finite (rc_lexical_score candidate)
          \<or> str_len (rc_path candidate) > MAX_RANKING_FOLDER_PREFIX_BYTES
          \<or> \<not> is_normalized_relative_path (rc_path candidate)
          \<or> path_depth (rc_path candidate) > MAX_RANKING_PATH_DEPTH
       then Err (invalid_input ''rerank candidate is invalid'')
       else
         (let identity = (rc_source candidate, rc_chunk_id candidate, rc_path candidate)
          in if identity \<in> candidate_ids then Err (invalid_input ''rerank candidate is duplicated'')
             else if (case source_paths (rc_source candidate) of None \<Rightarrow> False
                      | Some previous \<Rightarrow> previous \<noteq> rc_path candidate)
             then Err (invalid_input ''candidate source maps to inconsistent paths'')
             else candidates_loop (insert identity candidate_ids)
                    (source_paths(rc_source candidate \<mapsto> rc_path candidate)) candidates))"

definition validate_observed_pointer :: "rstring \<Rightarrow> RankingError + unit" where
  "validate_observed_pointer pointer =
     (case validate_json_pointer pointer of
        Inl _ \<Rightarrow> Err (invalid_input ''observed property pointer is invalid'') | Inr u \<Rightarrow> Ok u)"

definition signal_not_canonical :: "SourceSignalObservation \<Rightarrow> bool" where
  "signal_not_canonical signal \<longleftrightarrow>
     length (ss_matched_property_rule_ids signal) > MAX_PROPERTY_RANKING_RULES
     \<or> length (ss_present_properties signal) > MAX_PROPERTY_VALUES_PER_SOURCE_OBSERVATION
     \<or> length (ss_property_values signal) > MAX_PROPERTY_VALUES_PER_SOURCE_OBSERVATION
     \<or> \<not> windows2_all (\<lambda>a b. \<not> a \<ge> b) (ss_matched_property_rule_ids signal)
     \<or> (\<exists>rid \<in> set (ss_matched_property_rule_ids signal). rid = [] \<or> str_len rid > MAX_RANKING_RULE_ID_BYTES)
     \<or> \<not> windows2_all (\<lambda>a b. \<not> a \<ge> b) (ss_present_properties signal)
     \<or> \<not> windows2_all (\<lambda>a b. \<not> (po_property a, po_pointer a) \<ge> (po_property b, po_pointer b)) (ss_property_values signal)"

fun observations_loop :: "rstring list \<Rightarrow> PropertyScalarObservation list \<Rightarrow> RankingError + unit" where
  "observations_loop present [] = Ok ()"
| "observations_loop present (observation # observations) =
     (if po_property observation = [] \<or> str_len (po_property observation) > MAX_RANKING_PROPERTY_NAME_BYTES
         \<or> po_property observation \<notin> set present
      then Err (invalid_input ''observed property scalar is inconsistent'')
      else and_then (validate_observed_pointer (po_pointer observation)) (\<lambda>_.
           and_then (validate_scalar (po_value observation) False) (\<lambda>_.
             observations_loop present observations)))"

definition validate_signal :: "SourceSignalObservation \<Rightarrow> RankingError + unit" where
  "validate_signal signal =
     and_then (validate_source_id (ss_source signal)) (\<lambda>_.
       if signal_not_canonical signal
       then Err (invalid_input ''source property observations are not canonical or bounded'')
       else if \<exists>property \<in> set (ss_present_properties signal).
            property = [] \<or> str_len property > MAX_RANKING_PROPERTY_NAME_BYTES
       then Err (invalid_input ''observed property name is invalid'')
       else observations_loop (ss_present_properties signal) (ss_property_values signal))"

fun signals_loop :: "SourceSignalObservation list \<Rightarrow> RankingError + unit" where
  "signals_loop [] = Ok ()"
| "signals_loop (signal # signals) = and_then (validate_signal signal) (\<lambda>_. signals_loop signals)"

definition validate_rerank_input :: "RerankInput \<Rightarrow> RankingError + unit" where
  "validate_rerank_input input =
     (if ri_schema_version input \<noteq> RERANK_INPUT_SCHEMA_VERSION
      then Err (invalid_input ''rerank input schema is unsupported'')
      else if length (ri_candidates input) > MAX_RERANK_CANDIDATES
         \<or> length (ri_source_signals input) > MAX_RERANK_SOURCE_OBSERVATIONS
      then Err (invalid_input ''rerank input exceeds a cardinality limit'')
      else if \<not> windows2_all (\<lambda>a b. \<not> rc_evidence_tier a > rc_evidence_tier b) (ri_candidates input)
      then Err (invalid_input ''candidate order does not preserve lexical evidence tiers'')
      else and_then (candidates_loop {} Map.empty (ri_candidates input)) (\<lambda>_.
        if \<not> windows2_all (\<lambda>a b. \<not> source_pair (ss_source a) \<ge> source_pair (ss_source b)) (ri_source_signals input)
        then Err (invalid_input ''source observations must use canonical source order'')
        else signals_loop (ri_source_signals input)))"

definition validate_precomputed_property_matches ::
  "D5cRelevanceProfile \<Rightarrow> RerankInput \<Rightarrow> RankingError + unit" where
  "validate_precomputed_property_matches profile input =
     (let configured = set (map prl_id (dp_property_rules profile))
      in if \<exists>signal \<in> set (ri_source_signals input).
            \<exists>rid \<in> set (ss_matched_property_rule_ids signal). rid \<notin> configured
         then Err (invalid_input ''source observation references an unknown property rule'') else Ok ())"

section \<open>Scoring a source\<close>

definition charge_work :: "nat \<Rightarrow> nat \<Rightarrow> RankingError + nat" where
  "charge_work work_units amount =
     (if work_units + amount \<le> MAX_RANKING_WORK_UNITS then Ok (work_units + amount) else Err work_limit_error)"

text \<open>\<open>slice::binary_search\<close>, by bisection; the answer on a sorted slice is membership.\<close>

function bisect :: "'a :: linorder list \<Rightarrow> 'a \<Rightarrow> nat \<Rightarrow> nat \<Rightarrow> bool" where
  "bisect xs x lo hi =
     (if lo < hi then
        (let mid = lo + (hi - lo) div 2
         in if xs ! mid = x then True
            else if xs ! mid < x then bisect xs x (mid + 1) hi else bisect xs x lo mid)
      else False)"
  by pat_completeness auto
termination
  by (relation "measure (\<lambda>(xs, x, lo, hi). hi - lo)") auto

declare bisect.simps [simp del]

definition binary_search_is_ok :: "'a :: linorder list \<Rightarrow> 'a \<Rightarrow> bool" where
  "binary_search_is_ok xs x = bisect xs x 0 (length xs)"

definition within_range :: "('a \<Rightarrow> 'a \<Rightarrow> bool) \<Rightarrow> 'a \<Rightarrow> 'a option \<Rightarrow> 'a option \<Rightarrow> bool" where
  "within_range le value lo hi \<longleftrightarrow>
     (case lo of None \<Rightarrow> True | Some a \<Rightarrow> le a value) \<and> (case hi of None \<Rightarrow> True | Some b \<Rightarrow> le value b)"

definition scalar_within ::
  "('a \<Rightarrow> 'a \<Rightarrow> bool) \<Rightarrow> (rstring \<Rightarrow> 'a option) \<Rightarrow> rstring \<Rightarrow> rstring option \<Rightarrow> rstring option \<Rightarrow> bool" where
  "scalar_within le parse value lo hi =
     (case parse value of None \<Rightarrow> False
      | Some v \<Rightarrow> within_range le v (Option.bind lo parse) (Option.bind hi parse))"

definition scalar_matches :: "PropertyPredicate \<Rightarrow> RankingScalar \<Rightarrow> bool" where
  "scalar_matches predicate value =
     (case predicate of
        PP_Presence \<Rightarrow> True
      | PP_Exact _ expected \<Rightarrow> expected = value
      | PP_I64Range _ lo hi \<Rightarrow>
          (case value of RS_I64 v \<Rightarrow> scalar_within (\<le>) parse_canonical_i64 v lo hi | _ \<Rightarrow> False)
      | PP_U64Range _ lo hi \<Rightarrow>
          (case value of RS_U64 v \<Rightarrow> scalar_within (\<le>) parse_canonical_u64 v lo hi | _ \<Rightarrow> False)
      | PP_F64Range _ lo hi \<Rightarrow>
          (case value of RS_F64 v \<Rightarrow> scalar_within f64_le parse_canonical_f64 v lo hi | _ \<Rightarrow> False)
      | PP_DateRange _ lo hi \<Rightarrow>
          (case value of RS_Date v \<Rightarrow>
             (case lo of None \<Rightarrow> True | Some a \<Rightarrow> v \<ge> a) \<and> (case hi of None \<Rightarrow> True | Some b \<Rightarrow> v \<le> b)
           | _ \<Rightarrow> False))"

fun observation_scan ::
  "PropertyPredicate \<Rightarrow> PropertyScalarObservation list \<Rightarrow> nat \<Rightarrow> RankingError + bool \<times> nat" where
  "observation_scan predicate [] work_units = Ok (False, work_units)"
| "observation_scan predicate (observation # observations) work_units =
     and_then (charge_work work_units 1) (\<lambda>work.
       if (case predicate_pointer predicate of None \<Rightarrow> False | Some pointer \<Rightarrow> pointer \<noteq> po_pointer observation)
       then observation_scan predicate observations work
       else if scalar_matches predicate (po_value observation) then Ok (True, work)
       else observation_scan predicate observations work)"

definition property_rule_matches ::
  "PropertyRule \<Rightarrow> SourceSignalObservation option \<Rightarrow> nat \<Rightarrow> RankingError + bool \<times> nat" where
  "property_rule_matches rule signal work_units =
     and_then (charge_work work_units 1) (\<lambda>work.
       case signal of
         None \<Rightarrow> Ok (False, work)
       | Some signal \<Rightarrow>
           if binary_search_is_ok (ss_matched_property_rule_ids signal) (prl_id rule) then Ok (True, work)
           else if prl_predicate rule = PP_Presence
           then Ok (binary_search_is_ok (ss_present_properties signal) (prl_property rule), work)
           else if \<not> binary_search_is_ok (ss_present_properties signal) (prl_property rule) then Ok (False, work)
           else observation_scan (prl_predicate rule)
             (filter (\<lambda>observation. po_property observation = prl_property rule) (ss_property_values signal)) work)"

text \<open>\<open>Iterator::max_by\<close> keeps the last of several maximal elements.\<close>

definition max_by :: "('a \<Rightarrow> 'a \<Rightarrow> ordering) \<Rightarrow> 'a list \<Rightarrow> 'a option" where
  "max_by cmp xs = (case xs of [] \<Rightarrow> None
     | y # ys \<Rightarrow> Some (fold (\<lambda>x best. if cmp best x = Greater then best else x) ys y))"

definition folder_match_cmp :: "nat \<times> FolderRule \<Rightarrow> nat \<times> FolderRule \<Rightarrow> ordering" where
  "folder_match_cmp left right =
     then_with (cmp_ord (path_depth (fr_prefix (snd left))) (path_depth (fr_prefix (snd right))))
    (then_with (cmp_ord (fr_id (snd right)) (fr_id (snd left)))
      (cmp_ord (fst right) (fst left)))"

definition best_folder_match :: "FolderRule list \<Rightarrow> rstring \<Rightarrow> (nat \<times> FolderRule) option" where
  "best_folder_match rules path =
     max_by folder_match_cmp
       (filter (\<lambda>(_, rule). path_is_within_folder path (fr_prefix rule)) (enumerate 0 rules))"

definition add_match :: "SourceScore \<Rightarrow> nat \<Rightarrow> int \<Rightarrow> SourceScore" where
  "add_match score ordinal points =
     score\<lparr>sc_points := sc_points score + points,
       sc_matched_rule_ordinals := sc_matched_rule_ordinals score @ [ordinal]\<rparr>"

definition recency_matches :: "nat \<Rightarrow> SourceSignalObservation option \<Rightarrow> RecencyRule \<Rightarrow> bool" where
  "recency_matches query_time signal rule =
     (case Option.bind signal ss_mtime of
        None \<Rightarrow> False
      | Some mtime \<Rightarrow> mtime > 0 \<and> mtime \<le> query_time \<and> query_time - mtime \<le> horizon_seconds (rr_horizon rule))"

definition depth_matches :: "rstring \<Rightarrow> PathDepthRule \<Rightarrow> bool" where
  "depth_matches path rule =
     (let folder_depth = path_depth path - 1
      in case pd_predicate rule of
           AtMost segments \<Rightarrow> folder_depth \<le> segments | AtLeast segments \<Rightarrow> folder_depth \<ge> segments)"

type_synonym score_state = "SourceScore \<times> nat \<times> nat"

definition score_recency ::
  "D5cRelevanceProfile \<Rightarrow> nat \<Rightarrow> SourceSignalObservation option \<Rightarrow> score_state \<Rightarrow> RankingError + score_state" where
  "score_recency profile query_time signal st =
     (case st of (score, ordinal, work) \<Rightarrow>
        (case dp_recency profile of
           None \<Rightarrow> Ok (score, ordinal, work)
         | Some rule \<Rightarrow> and_then (charge_work work 1) (\<lambda>work.
             Ok (if recency_matches query_time signal rule
                 then add_match score ordinal (strength_points (rr_strength rule)) else score,
                 ordinal + 1, work))))"

definition score_depth ::
  "D5cRelevanceProfile \<Rightarrow> rstring \<Rightarrow> score_state \<Rightarrow> RankingError + score_state" where
  "score_depth profile path st =
     (case st of (score, ordinal, work) \<Rightarrow>
        (case hr_depth (dp_hierarchy profile) of
           None \<Rightarrow> Ok (score, ordinal, work)
         | Some rule \<Rightarrow> and_then (charge_work work 1) (\<lambda>work.
             Ok (if depth_matches path rule
                 then add_match score ordinal (effect_apply (pd_effect rule) (strength_points (pd_strength rule)))
                 else score, ordinal + 1, work))))"

definition score_folders ::
  "FolderRule list \<Rightarrow> (int \<Rightarrow> int) \<Rightarrow> rstring \<Rightarrow> score_state \<Rightarrow> RankingError + score_state" where
  "score_folders rules sign path st =
     (case st of (score, ordinal, work) \<Rightarrow>
        and_then (charge_work work (length rules)) (\<lambda>work.
          Ok (case best_folder_match rules path of
                Some (index, rule) \<Rightarrow>
                  add_match score (ordinal + as_u8 index) (sign (strength_points (fr_strength rule)))
              | None \<Rightarrow> score, ordinal + as_u8 (length rules), work)))"

fun score_properties ::
  "PropertyRule list \<Rightarrow> SourceSignalObservation option \<Rightarrow> score_state \<Rightarrow> RankingError + score_state" where
  "score_properties [] signal st = Ok st"
| "score_properties (rule # rules) signal (score, ordinal, work) =
     and_then (property_rule_matches rule signal work) (\<lambda>(matches, work).
       score_properties rules signal
         (if matches then add_match score ordinal (effect_apply (prl_effect rule) (strength_points (prl_strength rule)))
          else score, ordinal + 1, work))"

text \<open>The source's ordinal is a \<open>u8\<close>; a validated profile has few enough rules that it never wraps.\<close>

definition score_source ::
  "D5cRelevanceProfile \<Rightarrow> nat \<Rightarrow> rstring \<Rightarrow> SourceSignalObservation option \<Rightarrow> nat \<Rightarrow> RankingError + SourceScore \<times> nat" where
  "score_source profile query_time path signal work_units =
     and_then (score_recency profile query_time signal (\<lparr>sc_points = 0, sc_matched_rule_ordinals = []\<rparr>, 0, work_units)) (\<lambda>st.
     and_then (score_depth profile path st) (\<lambda>st.
     and_then (score_folders (hr_authority_folders (dp_hierarchy profile)) (\<lambda>p. p) path st) (\<lambda>st.
     and_then (score_folders (hr_archive_folders (dp_hierarchy profile)) (\<lambda>p. - p) path st) (\<lambda>st.
     and_then (score_properties (dp_property_rules profile) signal st) (\<lambda>(score, _, work).
       Ok (score, work))))))"

section \<open>Projecting a property bag\<close>

definition scalar_of_value :: "PropertyValue \<Rightarrow> RankingScalar option" where
  "scalar_of_value value =
     (case value of
        PV_Null \<Rightarrow> Some RS_Null
      | PV_Bool b \<Rightarrow> Some (RS_Boolean b)
      | PV_I64 i \<Rightarrow> Some (scalar_i64 i)
      | PV_U64 n \<Rightarrow> Some (scalar_u64 n)
      | PV_F64 x \<Rightarrow> if f64_is_finite x then Some (scalar_f64 x) else None
      | PV_String s \<Rightarrow>
          if str_len s \<le> MAX_RANKING_VALUE_BYTES
          then Some (if is_iso_calendar_date s then RS_Date s else RS_String s) else None
      | PV_Sequence _ \<Rightarrow> None
      | PV_Map _ \<Rightarrow> None)"

definition collect_scalar ::
  "rstring \<Rightarrow> rstring \<Rightarrow> PropertyValue \<Rightarrow> PropertyScalarObservation list \<Rightarrow>
   RankingError + PropertyScalarObservation list" where
  "collect_scalar property pointer value output =
     (if str_len pointer > MAX_RANKING_JSON_POINTER_BYTES
         \<or> length output = MAX_PROPERTY_VALUES_PER_SOURCE_OBSERVATION
      then Err work_limit_error
      else (case scalar_of_value value of
          None \<Rightarrow> Ok output
        | Some scalar \<Rightarrow> Ok (output @ [\<lparr>po_property = property, po_pointer = pointer, po_value = scalar\<rparr>])))"

fun collect_property_values ::
  "rstring \<Rightarrow> rstring \<Rightarrow> PropertyValue \<Rightarrow> nat \<Rightarrow> PropertyScalarObservation list \<Rightarrow>
   RankingError + PropertyScalarObservation list"
  and collect_sequence ::
  "rstring \<Rightarrow> rstring \<Rightarrow> nat \<Rightarrow> PropertyValue list \<Rightarrow> nat \<Rightarrow> PropertyScalarObservation list \<Rightarrow>
   RankingError + PropertyScalarObservation list"
  and collect_map ::
  "rstring \<Rightarrow> rstring \<Rightarrow> (rstring \<times> PropertyValue) list \<Rightarrow> nat \<Rightarrow> PropertyScalarObservation list \<Rightarrow>
   RankingError + PropertyScalarObservation list" where
  "collect_property_values property pointer value depth output =
     (if depth > MAX_RANKING_PATH_DEPTH then Ok output
      else (case value of
          PV_Sequence vs \<Rightarrow> collect_sequence property pointer 0 vs depth output
        | PV_Map entries \<Rightarrow> collect_map property pointer entries depth output
        | _ \<Rightarrow> collect_scalar property pointer value output))"
| "collect_sequence property pointer index [] depth output = Ok output"
| "collect_sequence property pointer index (v # vs) depth output =
     and_then (collect_property_values property (pointer @ 47 # decimal index) v (depth + 1) output)
       (\<lambda>output. collect_sequence property pointer (index + 1) vs depth output)"
| "collect_map property pointer [] depth output = Ok output"
| "collect_map property pointer ((component, v) # entries) depth output =
     and_then (collect_property_values property (pointer @ 47 # escape_component component) v (depth + 1) output)
       (\<lambda>output. collect_map property pointer entries depth output)"

declare collect_property_values.simps [simp del]

definition observation_key :: "PropertyScalarObservation \<Rightarrow> rstring \<times> rstring" where
  "observation_key observation = (po_property observation, po_pointer observation)"

fun bag_loop ::
  "PropertyBag \<Rightarrow> rstring list \<Rightarrow> rstring list \<Rightarrow> PropertyScalarObservation list \<Rightarrow>
   RankingError + rstring list \<times> PropertyScalarObservation list" where
  "bag_loop bag [] present values = Ok (present, values)"
| "bag_loop bag (property # properties) present values =
     (case bag_get bag property of
        None \<Rightarrow> bag_loop bag properties present values
      | Some value \<Rightarrow>
          and_then (collect_property_values property [] value 0 values) (\<lambda>values.
            bag_loop bag properties (present @ [property]) values))"

definition from_property_bag ::
  "json_env \<Rightarrow> QualifiedSourceId \<Rightarrow> nat option \<Rightarrow> PropertyBag \<Rightarrow> D5cRelevanceProfile \<Rightarrow>
   RankingError + SourceSignalObservation" where
  "from_property_bag json source mtime bag profile =
     and_then (validate_profile json profile) (\<lambda>_.
     and_then (bag_loop bag (sorted_list_of_set (set (map prl_property (dp_property_rules profile)))) [] [])
       (\<lambda>(present, values).
         Ok \<lparr>ss_source = source, ss_mtime = mtime, ss_matched_property_rule_ids = [],
             ss_present_properties = present,
             ss_property_values = sort_by (\<lambda>l r. cmp_ord (observation_key l) (observation_key r)) values\<rparr>))"

section \<open>Reranking\<close>

definition compare_ranked_candidates :: "RankedCandidate \<Rightarrow> RankedCandidate \<Rightarrow> ordering" where
  "compare_ranked_candidates left right =
     then_with (cmp_ord (ire_lexical_tier (rkc_evidence left)) (ire_lexical_tier (rkc_evidence right)))
    (then_with (cmp_ord (ire_metadata_points (rkc_evidence right)) (ire_metadata_points (rkc_evidence left)))
    (then_with (cmp_ord (rkc_original_ordinal left) (rkc_original_ordinal right))
    (then_with (cmp_ord (rc_chunk_id (rkc_candidate left)) (rc_chunk_id (rkc_candidate right)))
      (cmp_ord (rc_path (rkc_candidate left)) (rc_path (rkc_candidate right))))))"

text \<open>
  The \<open>BTreeMap\<close> from source to the path of its first candidate, as the list of its entries in
  key order.
\<close>

definition first_path :: "RerankCandidate list \<Rightarrow> rstring \<times> rstring \<Rightarrow> rstring" where
  "first_path candidates key =
     (case find (\<lambda>candidate. source_pair (rc_source candidate) = key) candidates of
        None \<Rightarrow> [] | Some candidate \<Rightarrow> rc_path candidate)"

definition source_paths_of :: "RerankCandidate list \<Rightarrow> ((rstring \<times> rstring) \<times> rstring) list" where
  "source_paths_of candidates =
     map (\<lambda>key. (key, first_path candidates key))
       (sorted_list_of_set (set (map (\<lambda>candidate. source_pair (rc_source candidate)) candidates)))"

definition signal_for :: "SourceSignalObservation list \<Rightarrow> rstring \<times> rstring \<Rightarrow> SourceSignalObservation option" where
  "signal_for signals key = find (\<lambda>signal. source_pair (ss_source signal) = key) (rev signals)"

fun score_sources ::
  "D5cRelevanceProfile \<Rightarrow> RerankInput \<Rightarrow> ((rstring \<times> rstring) \<times> rstring) list \<Rightarrow> nat \<Rightarrow>
   RankingError + ((rstring \<times> rstring) \<times> SourceScore) list \<times> nat" where
  "score_sources profile input [] work = Ok ([], work)"
| "score_sources profile input ((key, path) # sources) work =
     and_then (score_source profile (ri_query_time input) path (signal_for (ri_source_signals input) key) work)
       (\<lambda>(score, work).
         and_then (score_sources profile input sources work) (\<lambda>(scores, work). Ok ((key, score) # scores, work)))"

definition ranked_candidate ::
  "((rstring \<times> rstring) \<times> SourceScore) list \<Rightarrow> nat \<times> RerankCandidate \<Rightarrow> RankedCandidate option" where
  "ranked_candidate scores entry =
     (case entry of (ordinal, candidate) \<Rightarrow>
        map_option (\<lambda>score. \<lparr>rkc_original_ordinal = ordinal, rkc_candidate = candidate,
            rkc_evidence = \<lparr>ire_lexical_tier = rc_evidence_tier candidate,
              ire_metadata_points = sc_points score,
              ire_matched_rule_ordinals = sc_matched_rule_ordinals score\<rparr>\<rparr>)
          (map_of scores (source_pair (rc_source candidate))))"

definition lexical_result :: "RerankInput \<Rightarrow> RerankResult" where
  "lexical_result input =
     \<lparr>rres_profile_id = LEXICAL_RELEVANCE_PROFILE_ID, rres_candidates = ri_candidates input,
      rres_evidence = \<lparr>re_schema_version = 1, re_candidate_count = length (ri_candidates input),
        re_source_count = card (set (map rc_source (ri_candidates input))),
        re_entries = map (\<lambda>(ordinal, candidate). \<lparr>ree_tier = rc_evidence_tier candidate, ree_ordinal = ordinal, ree_points = 0\<rparr>)
          (enumerate 0 (ri_candidates input))\<rparr>\<rparr>"

definition ranked_result ::
  "D5cRelevanceProfile \<Rightarrow> nat \<Rightarrow> RankedCandidate list \<Rightarrow> RerankResult" where
  "ranked_result profile source_count ranked =
     \<lparr>rres_profile_id = dp_profile_id profile, rres_candidates = map rkc_candidate ranked,
      rres_evidence = \<lparr>re_schema_version = 1, re_candidate_count = length ranked,
        re_source_count = source_count,
        re_entries = map (\<lambda>r. \<lparr>ree_tier = ire_lexical_tier (rkc_evidence r), ree_ordinal = rkc_original_ordinal r,
          ree_points = ire_metadata_points (rkc_evidence r)\<rparr>) ranked\<rparr>\<rparr>"

text \<open>
  The outer \<open>None\<close> stands for the panic of \<open>expect("every candidate source was scored")\<close>.
\<close>

definition rerank_candidates_with_initial_work ::
  "json_env \<Rightarrow> RelevanceProfile \<Rightarrow> RerankInput \<Rightarrow> nat \<Rightarrow> (RankingError + RerankResult) option" where
  "rerank_candidates_with_initial_work json relevance input initial_work_units =
     (if initial_work_units > MAX_RANKING_WORK_UNITS then Some (Err work_limit_error)
      else (case validate_rerank_input input of
          Inl e \<Rightarrow> Some (Err e)
        | Inr _ \<Rightarrow>
            (case relevance of
               LexicalV1 \<Rightarrow> Some (Ok (lexical_result input))
             | D5cPreviewV1 profile \<Rightarrow>
                 (case and_then (validate_profile json profile) (\<lambda>_.
                       and_then (validate_precomputed_property_matches profile input) (\<lambda>_.
                         score_sources profile input (source_paths_of (ri_candidates input)) initial_work_units)) of
                    Inl e \<Rightarrow> Some (Err e)
                  | Inr (scores, _) \<Rightarrow>
                      map_option (\<lambda>ranked. Ok (ranked_result profile (length scores) (sort_by compare_ranked_candidates ranked)))
                        (those (map (ranked_candidate scores) (enumerate 0 (ri_candidates input))))))))"

definition rerank_candidates ::
  "json_env \<Rightarrow> RelevanceProfile \<Rightarrow> RerankInput \<Rightarrow> (RankingError + RerankResult) option" where
  "rerank_candidates json relevance input = rerank_candidates_with_initial_work json relevance input 0"

end
