(* ===== verification/Rerank_Score.thy ===== *)
theory Rerank_Score
  imports Rerank Ranking_Scalars
begin

text \<open>
  What \<open>score_source\<close> and \<open>rerank_candidates\<close> guarantee
  (\<open>daemon/crates/kwiry-core/src/ranking.rs\<close>): metadata points are bounded by the validated
  profile, rule ordinals are distinct and in range, folder rules match at most once per family and
  never in both families, and reranking permutes candidates within their evidence tier.
\<close>

section \<open>Binary search and max_by\<close>

lemma bisect_iff:
  assumes "sorted_wrt (<) xs" "hi \<le> length xs"
  shows "bisect xs x lo hi \<longleftrightarrow> (\<exists>i. lo \<le> i \<and> i < hi \<and> xs ! i = x)"
  using assms
proof (induction xs x lo hi rule: bisect.induct)
  case (1 xs x lo hi)
  show ?case
  proof (cases "lo < hi")
    case False
    then show ?thesis by (subst bisect.simps) auto
  next
    case True
    let ?mid = "lo + (hi - lo) div 2"
    have mid: "lo \<le> ?mid" "?mid < hi" using True by auto
    have mono: "xs ! i < xs ! j" if "i < j" "j < hi" for i j
      using "1.prems" that by (simp add: sorted_wrt_nth_less)
    consider "xs ! ?mid = x" | "xs ! ?mid < x" | "x < xs ! ?mid" by fastforce
    then show ?thesis
    proof cases
      case 1
      then have "bisect xs x lo hi" using True by (subst bisect.simps) (simp add: Let_def)
      then show ?thesis using 1 mid by blast
    next
      case 2
      have "bisect xs x lo hi = bisect xs x (?mid + 1) hi"
        using True 2 by (subst bisect.simps) (auto simp: Let_def)
      also have "\<dots> \<longleftrightarrow> (\<exists>i. ?mid + 1 \<le> i \<and> i < hi \<and> xs ! i = x)"
        using "1.IH"(1) [OF True refl] 2 "1.prems" by simp
      also have "\<dots> \<longleftrightarrow> (\<exists>i. lo \<le> i \<and> i < hi \<and> xs ! i = x)"
      proof -
        have gt: "?mid < i" if "i < hi" "xs ! i = x" for i
          using that 2 mid mono [of i ?mid] by (cases i ?mid rule: linorder_cases) auto
        have "?mid + 1 \<le> i \<and> i < hi \<and> xs ! i = x \<longleftrightarrow> lo \<le> i \<and> i < hi \<and> xs ! i = x" for i
          using gt [of i] mid(1) by linarith
        then show ?thesis by simp
      qed
      finally show ?thesis .
    next
      case 3
      have "bisect xs x lo hi = bisect xs x lo ?mid"
        using True 3 by (subst bisect.simps) (auto simp: Let_def)
      also have "\<dots> \<longleftrightarrow> (\<exists>i. lo \<le> i \<and> i < ?mid \<and> xs ! i = x)"
        using "1.IH"(2) [OF True refl] 3 "1.prems" mid by simp
      also have "\<dots> \<longleftrightarrow> (\<exists>i. lo \<le> i \<and> i < hi \<and> xs ! i = x)"
      proof -
        have lt: "i < ?mid" if "i < hi" "xs ! i = x" for i
          using that 3 mono [of ?mid i] by (cases i ?mid rule: linorder_cases) auto
        have "lo \<le> i \<and> i < ?mid \<and> xs ! i = x \<longleftrightarrow> lo \<le> i \<and> i < hi \<and> xs ! i = x" for i
          using lt [of i] mid(2) by linarith
        then show ?thesis by simp
      qed
      finally show ?thesis .
    qed
  qed
qed

lemma binary_search_is_ok_iff: "sorted_wrt (<) xs \<Longrightarrow> binary_search_is_ok xs x \<longleftrightarrow> x \<in> set xs"
  using bisect_iff [of xs "length xs" x 0] by (auto simp: binary_search_is_ok_def in_set_conv_nth)

context comparator
begin

lemma fold_max_by:
  assumes "m = fold (\<lambda>x best. if cmp best x = Greater then best else x) ys y"
  shows "m \<in> set (y # ys) \<and> (\<forall>x \<in> set (y # ys). cmp x m \<noteq> Greater)"
  using assms
proof (induction ys arbitrary: y)
  case Nil
  then show ?case using cmp_self by simp
next
  case (Cons x xs)
  let ?b = "if cmp y x = Greater then y else x"
  have ih: "m \<in> set (?b # xs)" "\<forall>z \<in> set (?b # xs). cmp z m \<noteq> Greater" using Cons by simp_all
  have "cmp y ?b \<noteq> Greater" "cmp x ?b \<noteq> Greater"
    using cmp_self [of y] cmp_self [of x] cmp_flip(1) [of x y] by auto
  then have "cmp y m \<noteq> Greater" "cmp x m \<noteq> Greater"
    using ih(2) cmp_trans by (metis list.set_intros(1))+
  then show ?case using ih by (auto split: if_splits)
qed

lemma max_by_greatest:
  assumes "max_by cmp xs = Some m"
  shows "m \<in> set xs" "x \<in> set xs \<Longrightarrow> cmp x m \<noteq> Greater"
  using assms fold_max_by [of m] by (auto simp: max_by_def split: list.splits)

end

lemma max_by_None: "max_by cmp xs = None \<longleftrightarrow> xs = []"
  by (simp add: max_by_def split: list.split)

lemma comparator_folder_match: "comparator folder_match_cmp"
  unfolding folder_match_cmp_def by (intro cmp_intro)

interpretation folder_match: comparator folder_match_cmp
  by (rule comparator_folder_match)

interpretation rerank_order: comparator compare_ranked_candidates
  unfolding compare_ranked_candidates_def by (intro cmp_intro)

interpretation observation_order: comparator "\<lambda>l r. cmp_ord (observation_key l) (observation_key r)"
  by (rule comparator_key)

lemma best_folder_match_Some:
  assumes "best_folder_match rules path = Some (index, rule)"
  shows "index < length rules" "rules ! index = rule" "path_is_within_folder path (fr_prefix rule)"
    and "\<And>other. other \<in> set rules \<Longrightarrow> path_is_within_folder path (fr_prefix other) \<Longrightarrow>
      path_depth (fr_prefix other) \<le> path_depth (fr_prefix rule)"
proof -
  let ?xs = "filter (\<lambda>(_, rule). path_is_within_folder path (fr_prefix rule)) (enumerate 0 rules)"
  have m: "max_by folder_match_cmp ?xs = Some (index, rule)" using assms by (simp add: best_folder_match_def)
  have mem: "(index, rule) \<in> set ?xs" by (rule folder_match.max_by_greatest(1) [OF m])
  then show "index < length rules" "rules ! index = rule" "path_is_within_folder path (fr_prefix rule)"
    by (auto simp: in_set_enumerate_eq)
  fix other assume o: "other \<in> set rules" "path_is_within_folder path (fr_prefix other)"
  then obtain i where "i < length rules" "rules ! i = other" by (auto simp: in_set_conv_nth)
  then have "(i, other) \<in> set ?xs" using o(2) by (auto simp: in_set_enumerate_eq)
  then have "folder_match_cmp (i, other) (index, rule) \<noteq> Greater" by (rule folder_match.max_by_greatest(2) [OF m])
  then show "path_depth (fr_prefix other) \<le> path_depth (fr_prefix rule)"
    unfolding folder_match_cmp_def then_with_not_Greater by auto
qed

lemma best_folder_match_None:
  "best_folder_match rules path = None \<longleftrightarrow> (\<forall>rule \<in> set rules. \<not> path_is_within_folder path (fr_prefix rule))"
proof -
  have "best_folder_match rules path = None \<longleftrightarrow>
      (\<forall>entry \<in> set (enumerate 0 rules). \<not> path_is_within_folder path (fr_prefix (snd entry)))"
    by (auto simp: best_folder_match_def max_by_None filter_empty_conv)
  also have "\<dots> \<longleftrightarrow> (\<forall>rule \<in> snd ` set (enumerate 0 rules). \<not> path_is_within_folder path (fr_prefix rule))"
    by blast
  also have "snd ` set (enumerate 0 rules) = set rules" by (metis map_snd_enumerate set_map)
  finally show ?thesis .
qed

section \<open>Stages of the score\<close>

text \<open>
  What a stage may do to the score: change the points by at most \<open>bound\<close>, advance the rule
  ordinal by exactly \<open>rules\<close>, record new ordinals in increasing order within that window, and
  charge work up to the limit.
\<close>

fun stage_within :: "int \<Rightarrow> nat \<Rightarrow> score_state \<Rightarrow> score_state \<Rightarrow> bool" where
  "stage_within bound rules (score, ordinal, work) (score', ordinal', work') \<longleftrightarrow>
     \<bar>sc_points score' - sc_points score\<bar> \<le> bound \<and> ordinal' = ordinal + rules \<and> work \<le> work'
     \<and> (work \<le> MAX_RANKING_WORK_UNITS \<longrightarrow> work' \<le> MAX_RANKING_WORK_UNITS)
     \<and> (\<exists>fresh. sc_matched_rule_ordinals score' = sc_matched_rule_ordinals score @ fresh
          \<and> sorted_wrt (<) fresh \<and> (\<forall>k \<in> set fresh. ordinal \<le> k \<and> k < ordinal + rules))"

lemma stage_within_refl: "0 \<le> bound \<Longrightarrow> stage_within bound 0 st st"
  by (cases st) simp

lemma stage_within_trans:
  assumes "stage_within b1 k1 s t" "stage_within b2 k2 t u"
  shows "stage_within (b1 + b2) (k1 + k2) s u"
proof -
  obtain sc0 o0 w0 sc1 o1 w1 sc2 o2 w2 where eqs: "s = (sc0, o0, w0)" "t = (sc1, o1, w1)" "u = (sc2, o2, w2)"
    by (metis prod_cases3)
  obtain f1 f2 where f: "sc_matched_rule_ordinals sc1 = sc_matched_rule_ordinals sc0 @ f1" "sorted_wrt (<) f1"
    "\<forall>k \<in> set f1. o0 \<le> k \<and> k < o0 + k1" "sc_matched_rule_ordinals sc2 = sc_matched_rule_ordinals sc1 @ f2"
    "sorted_wrt (<) f2" "\<forall>k \<in> set f2. o1 \<le> k \<and> k < o1 + k2"
    using assms unfolding eqs by auto
  have ord: "o1 = o0 + k1" "o2 = o1 + k2" using assms unfolding eqs by simp_all
  have "sorted_wrt (<) (f1 @ f2)" using f ord by (force simp: sorted_wrt_append)
  moreover have "\<forall>k \<in> set (f1 @ f2). o0 \<le> k \<and> k < o0 + (k1 + k2)" using f(3,6) ord by fastforce
  ultimately have "\<exists>fresh. sc_matched_rule_ordinals sc2 = sc_matched_rule_ordinals sc0 @ fresh
      \<and> sorted_wrt (<) fresh \<and> (\<forall>k \<in> set fresh. o0 \<le> k \<and> k < o0 + (k1 + k2))"
    using f(1,4) by (intro exI [of _ "f1 @ f2"]) simp
  moreover have "\<bar>sc_points sc2 - sc_points sc0\<bar> \<le> b1 + b2"
  proof -
    have "\<bar>sc_points sc1 - sc_points sc0\<bar> \<le> b1" "\<bar>sc_points sc2 - sc_points sc1\<bar> \<le> b2"
      using assms unfolding eqs by simp_all
    then show ?thesis by linarith
  qed
  ultimately show ?thesis using assms ord unfolding eqs by auto
qed

lemma charge_work_Ok:
  "charge_work work amount = Ok work' \<longleftrightarrow> work' = work + amount \<and> work' \<le> MAX_RANKING_WORK_UNITS"
  by (auto simp: charge_work_def)

lemma strength_points_bounds: "1 \<le> strength_points s" "strength_points s \<le> 4"
  by (cases s; simp)+

lemma abs_effect [simp]: "\<bar>effect_apply e p\<bar> = \<bar>p\<bar>"
  by (cases e) simp_all

lemma add_match_fields [simp]:
  "sc_points (add_match score ordinal p) = sc_points score + p"
  "sc_matched_rule_ordinals (add_match score ordinal p) = sc_matched_rule_ordinals score @ [ordinal]"
  by (simp_all add: add_match_def)

lemma score_recency_within:
  assumes "score_recency profile query_time signal st = Ok st'"
  shows "stage_within (case dp_recency profile of None \<Rightarrow> 0 | Some rule \<Rightarrow> strength_points (rr_strength rule))
    (if dp_recency profile \<noteq> None then 1 else 0) st st'"
proof (cases "dp_recency profile")
  case None
  then show ?thesis using assms by (cases st) (auto simp: score_recency_def)
next
  case (Some rule)
  have "0 \<le> strength_points (rr_strength rule)" using strength_points_bounds(1) [of "rr_strength rule"] by linarith
  then show ?thesis
    using assms Some by (cases st) (auto simp: score_recency_def and_then_eq_Ok charge_work_Ok)
qed

lemma score_depth_within:
  assumes "score_depth profile path st = Ok st'"
  shows "stage_within (case hr_depth (dp_hierarchy profile) of None \<Rightarrow> 0 | Some rule \<Rightarrow> strength_points (pd_strength rule))
    (if hr_depth (dp_hierarchy profile) \<noteq> None then 1 else 0) st st'"
proof (cases "hr_depth (dp_hierarchy profile)")
  case None
  then show ?thesis using assms by (cases st) (auto simp: score_depth_def)
next
  case (Some rule)
  have "0 \<le> strength_points (pd_strength rule)" using strength_points_bounds(1) [of "pd_strength rule"] by linarith
  then show ?thesis
    using assms Some by (cases st) (auto simp: score_depth_def and_then_eq_Ok charge_work_Ok)
qed

lemma max_points_bound: "rule \<in> set rules \<Longrightarrow> strength_points (fr_strength rule) \<le> max_points rules"
proof -
  have "best \<le> fold (\<lambda>rule best. max best (strength_points (fr_strength rule))) rs best
      \<and> (\<forall>rule \<in> set rs. strength_points (fr_strength rule)
           \<le> fold (\<lambda>rule best. max best (strength_points (fr_strength rule))) rs best)" for best rs
    by (induction rs arbitrary: best) (auto intro: order_trans [OF max.cobounded1] order_trans [OF max.cobounded2])
  then show "rule \<in> set rules \<Longrightarrow> strength_points (fr_strength rule) \<le> max_points rules"
    by (cases rules) (auto simp: max_points_def)
qed

lemma max_points_nonneg: "0 \<le> max_points rules"
proof (cases rules)
  case (Cons r rs)
  then have "strength_points (fr_strength r) \<le> max_points rules" by (intro max_points_bound) simp
  then show ?thesis using strength_points_bounds(1) [of "fr_strength r"] by linarith
qed (simp add: max_points_def)

lemma score_folders_within:
  assumes "score_folders rules sign path st = Ok st'" "length rules < 256" "\<And>p. \<bar>sign p\<bar> = \<bar>p\<bar>"
  shows "stage_within (max_points rules) (length rules) st st'"
proof -
  obtain score ordinal work where st: "st = (score, ordinal, work)" by (metis prod_cases3)
  show ?thesis
  proof (cases "best_folder_match rules path")
    case None
    then show ?thesis
      using assms(1,2) max_points_nonneg by (auto simp: st score_folders_def and_then_eq_Ok charge_work_Ok)
  next
    case (Some best)
    obtain index rule where best: "best = (index, rule)" by fastforce
    have b: "index < length rules" "rule \<in> set rules"
      using best_folder_match_Some(1,2) Some best nth_mem by metis+
    have "\<bar>sign (strength_points (fr_strength rule))\<bar> \<le> max_points rules"
      using assms(3) max_points_bound [OF b(2)] strength_points_bounds(1) [of "fr_strength rule"] by simp
    moreover have "as_u8 index = index" using b(1) assms(2) by simp
    ultimately show ?thesis
      using assms(1,2) Some best b(1)
      by (auto simp: st score_folders_def and_then_eq_Ok charge_work_Ok)
  qed
qed

lemma observation_scan_work:
  "observation_scan predicate observations work = Ok (m, work') \<Longrightarrow>
   work \<le> work' \<and> (work \<le> MAX_RANKING_WORK_UNITS \<longrightarrow> work' \<le> MAX_RANKING_WORK_UNITS)"
proof (induction predicate observations work rule: observation_scan.induct)
  case (2 predicate observation observations work)
  then show ?case
    by (fastforce simp: and_then_eq_Ok charge_work_Ok split: if_splits)
qed simp

lemma property_rule_matches_work:
  "property_rule_matches rule signal work = Ok (m, work') \<Longrightarrow>
   work \<le> work' \<and> (work \<le> MAX_RANKING_WORK_UNITS \<longrightarrow> work' \<le> MAX_RANKING_WORK_UNITS)"
  unfolding property_rule_matches_def
  by (auto simp: and_then_eq_Ok charge_work_Ok split: option.splits if_splits dest!: observation_scan_work)

lemma score_properties_within:
  "score_properties rules signal st = Ok st' \<Longrightarrow>
   stage_within (sum_list (map (\<lambda>rule. strength_points (prl_strength rule)) rules)) (length rules) st st'"
proof (induction rules signal st rule: score_properties.induct)
  case (1 signal st)
  then show ?case by (simp add: stage_within_refl)
next
  case (2 rule rules signal score ordinal work)
  obtain m work1 where m: "property_rule_matches rule signal work = Ok (m, work1)"
    using 2(2) by (auto simp: and_then_eq_Ok)
  let ?score = "if m then add_match score ordinal (effect_apply (prl_effect rule) (strength_points (prl_strength rule))) else score"
  have "score_properties rules signal (?score, ordinal + 1, work1) = Ok st'" using 2(2) m by simp
  then have rest: "stage_within (sum_list (map (\<lambda>rule. strength_points (prl_strength rule)) rules)) (length rules)
      (?score, ordinal + 1, work1) st'" by (rule 2(1))
  have "0 \<le> strength_points (prl_strength rule)" using strength_points_bounds(1) [of "prl_strength rule"] by linarith
  then have "stage_within (strength_points (prl_strength rule)) 1 (score, ordinal, work) (?score, ordinal + 1, work1)"
    using property_rule_matches_work [OF m] by simp
  from stage_within_trans [OF this rest] show ?case by simp
qed

lemma score_source_within:
  assumes "score_source profile query_time path signal work = Ok (score, work')"
    and "length (hr_authority_folders (dp_hierarchy profile)) < 256"
    and "length (hr_archive_folders (dp_hierarchy profile)) < 256"
  shows "stage_within (theoretical_points profile) (profile_rule_count profile)
    (\<lparr>sc_points = 0, sc_matched_rule_ordinals = []\<rparr>, 0, work) (score, profile_rule_count profile, work')"
proof -
  let ?s0 = "(\<lparr>sc_points = 0, sc_matched_rule_ordinals = []\<rparr>, 0, work)"
  obtain s1 s2 s3 s4 n where s: "score_recency profile query_time signal ?s0 = Ok s1" "score_depth profile path s1 = Ok s2"
    "score_folders (hr_authority_folders (dp_hierarchy profile)) (\<lambda>p. p) path s2 = Ok s3"
    "score_folders (hr_archive_folders (dp_hierarchy profile)) (\<lambda>p. - p) path s3 = Ok s4"
    "score_properties (dp_property_rules profile) signal s4 = Ok (score, n, work')"
    using assms(1) by (auto simp: score_source_def and_then_eq_Ok)
  have "stage_within (theoretical_points profile) (profile_rule_count profile) ?s0 (score, n, work')"
    using stage_within_trans [OF stage_within_trans [OF stage_within_trans [OF stage_within_trans
        [OF score_recency_within [OF s(1)] score_depth_within [OF s(2)]]
        score_folders_within [OF s(3) assms(2)]] score_folders_within [OF s(4) assms(3)]]
        score_properties_within [OF s(5)]]
    by (simp add: theoretical_points_def profile_rule_count_def)
  moreover from this have "n = profile_rule_count profile" by simp
  ultimately show ?thesis by simp
qed

end
