(* ===== verification/Rerank_Props.thy ===== *)
theory Rerank_Props
  imports Rerank_Score
begin

text \<open>
  Properties of the metadata reranker (\<open>daemon/crates/kwiry-core/src/ranking.rs\<close>): what a
  validated profile guarantees, the meaning of a property rule, and the result of reranking.
\<close>

section \<open>Validated profiles and signals\<close>

lemma validated_profile:
  assumes "validate_profile json profile = Ok ()"
  shows "length (hr_authority_folders (dp_hierarchy profile)) \<le> 16"
    "length (hr_archive_folders (dp_hierarchy profile)) \<le> 16" "length (dp_property_rules profile) \<le> 8"
    "profile_rule_count profile \<le> 32" "theoretical_points profile \<le> 32"
    "a \<in> set (hr_authority_folders (dp_hierarchy profile)) \<Longrightarrow> b \<in> set (hr_archive_folders (dp_hierarchy profile)) \<Longrightarrow>
       \<not> folder_prefixes_overlap (fr_prefix a) (fr_prefix b)"
proof -
  have lim: "validate_limits json profile = Ok ()" and pts: "theoretical_points profile \<le> MAX_ABSOLUTE_METADATA_POINTS"
    and ov: "\<not> (\<exists>a \<in> set (hr_authority_folders (dp_hierarchy profile)).
        \<exists>b \<in> set (hr_archive_folders (dp_hierarchy profile)). folder_prefixes_overlap (fr_prefix a) (fr_prefix b))"
    using assms unfolding validate_profile_def Let_def and_then_eq_Ok is_ok_if_Err
    by (elim exE conjE; simp add: not_less)+
  show "length (hr_authority_folders (dp_hierarchy profile)) \<le> 16"
    "length (hr_archive_folders (dp_hierarchy profile)) \<le> 16" "length (dp_property_rules profile) \<le> 8"
    "profile_rule_count profile \<le> 32"
    using lim by (auto simp: validate_limits_def is_ok_if_Err ranking_constants split: option.splits)
  show "theoretical_points profile \<le> 32" using pts by (simp add: MAX_ABSOLUTE_METADATA_POINTS_def)
  show "a \<in> set (hr_authority_folders (dp_hierarchy profile)) \<Longrightarrow> b \<in> set (hr_archive_folders (dp_hierarchy profile)) \<Longrightarrow>
      \<not> folder_prefixes_overlap (fr_prefix a) (fr_prefix b)" using ov by blast
qed


section \<open>Meaning of a property rule\<close>




definition sample_json :: json_env where
  "sample_json = \<lparr>profile_json_len = (\<lambda>_. Some 0), predicate_json = (\<lambda>property predicate. Some property)\<rparr>"

definition sample_rule :: PropertyRule where
  "sample_rule = \<lparr>prl_id = str ''r1'', prl_property = str ''status'',
     prl_predicate = PP_Exact None (RS_String (str ''done'')), prl_effect = Boost, prl_strength = High\<rparr>"

definition sample_source :: QualifiedSourceId where
  "sample_source = \<lparr>authorization_scope = str ''vault'', source_key = str ''a''\<rparr>"

definition sample_signal :: SourceSignalObservation where
  "sample_signal = \<lparr>ss_source = sample_source, ss_mtime = None, ss_matched_property_rule_ids = [],
     ss_present_properties = [str ''status''],
     ss_property_values = [\<lparr>po_property = str ''status'', po_pointer = [], po_value = RS_String (str ''done'')\<rparr>]\<rparr>"


section \<open>Bounded metadata scores\<close>

lemma score_source_bounds:
  assumes "validate_profile json profile = Ok ()"
    and "score_source profile query_time path signal work = Ok (score, work')"
  shows "\<bar>sc_points score\<bar> \<le> 32" "sorted_wrt (<) (sc_matched_rule_ordinals score)"
    "k \<in> set (sc_matched_rule_ordinals score) \<Longrightarrow> k < profile_rule_count profile"
    "work \<le> MAX_RANKING_WORK_UNITS \<Longrightarrow> work' \<le> MAX_RANKING_WORK_UNITS"
proof -
  have "length (hr_authority_folders (dp_hierarchy profile)) < 256" "length (hr_archive_folders (dp_hierarchy profile)) < 256"
    using validated_profile(1,2) [OF assms(1)] by linarith+
  from score_source_within [OF assms(2) this] validated_profile(5) [OF assms(1)]
  show "\<bar>sc_points score\<bar> \<le> 32" "sorted_wrt (<) (sc_matched_rule_ordinals score)"
    "k \<in> set (sc_matched_rule_ordinals score) \<Longrightarrow> k < profile_rule_count profile"
    "work \<le> MAX_RANKING_WORK_UNITS \<Longrightarrow> work' \<le> MAX_RANKING_WORK_UNITS" by auto
qed

text \<open>
  C13. The cap that profile validation computes is real: for a validated profile the metadata score
  of any source stays within 32 points either way, the matched rule ordinals are strictly
  increasing and below the profile's at most 32 rules (so the 8-bit ordinals never wrap), and work
  stays within its limit.
\<close>

theorem score_source_bounded:
  assumes "validate_profile json profile = Ok ()"
    and "score_source profile query_time path signal work = Ok (score, work')" "work \<le> MAX_RANKING_WORK_UNITS"
  shows "\<bar>sc_points score\<bar> \<le> MAX_ABSOLUTE_METADATA_POINTS
    \<and> sorted_wrt (<) (sc_matched_rule_ordinals score)
    \<and> (\<forall>k \<in> set (sc_matched_rule_ordinals score). k < profile_rule_count profile)
    \<and> profile_rule_count profile \<le> MAX_TOTAL_RANKING_RULES \<and> work' \<le> MAX_RANKING_WORK_UNITS"
  using score_source_bounds [OF assms(1,2)] validated_profile(4) [OF assms(1)] assms(3)
  by (auto simp: ranking_constants)

definition sample_profile :: D5cRelevanceProfile where
  "sample_profile = preview_profile\<lparr>dp_property_rules := [sample_rule],
     dp_hierarchy := \<lparr>hr_depth = None,
       hr_authority_folders = [\<lparr>fr_id = str ''f1'', fr_prefix = str ''notes'', fr_strength = Standard\<rparr>],
       hr_archive_folders = [\<lparr>fr_id = str ''f2'', fr_prefix = str ''old'', fr_strength = Low\<rparr>]\<rparr>\<rparr>"

lemma sample_profile_valid: "validate_profile sample_json sample_profile = Ok ()"
  by code_simp

theorem score_source_bounded_witness:
  "score_source sample_profile 0 (str ''notes/a.md'') (Some sample_signal) 0
     = Ok (\<lparr>sc_points = 6, sc_matched_rule_ordinals = [0, 2]\<rparr>, 4)
   \<and> \<bar>6 :: int\<bar> \<le> MAX_ABSOLUTE_METADATA_POINTS"
proof -
  have s: "score_source sample_profile 0 (str ''notes/a.md'') (Some sample_signal) 0
     = Ok (\<lparr>sc_points = 6, sc_matched_rule_ordinals = [0, 2]\<rparr>, 4)" by code_simp
  from score_source_bounded [OF sample_profile_valid s] s show ?thesis by simp
qed

text \<open>
  C18. Folder rules are exclusive and most specific: for a validated profile a path matches an
  authority folder or an archive folder but never both; in each of the two families the rule chosen
  is one of its rules, contains the path and is at least as deep as every other rule containing it,
  and the family gives no match exactly when none of its folders contains the path.
\<close>

theorem folder_rules_exclusive_deepest:
  assumes "validate_profile json profile = Ok ()"
  defines "authority \<equiv> hr_authority_folders (dp_hierarchy profile)"
    and "archive \<equiv> hr_archive_folders (dp_hierarchy profile)"
  shows "(best_folder_match authority path = None \<or> best_folder_match archive path = None)
    \<and> (\<forall>rules \<in> {authority, archive}.
         (\<forall>index rule. best_folder_match rules path = Some (index, rule) \<longrightarrow>
            index < length rules \<and> rules ! index = rule \<and> path_is_within_folder path (fr_prefix rule)
            \<and> (\<forall>other \<in> set rules. path_is_within_folder path (fr_prefix other) \<longrightarrow>
                 path_depth (fr_prefix other) \<le> path_depth (fr_prefix rule)))
         \<and> (best_folder_match rules path = None \<longleftrightarrow>
              (\<forall>rule \<in> set rules. \<not> path_is_within_folder path (fr_prefix rule))))"
proof (intro conjI ballI allI impI)
  show "best_folder_match authority path = None \<or> best_folder_match archive path = None"
  proof (rule ccontr)
    assume "\<not> ?thesis"
    then obtain a b where "a \<in> set authority" "path_is_within_folder path (fr_prefix a)"
      "b \<in> set archive" "path_is_within_folder path (fr_prefix b)"
      unfolding best_folder_match_None by blast
    then show False
      using within_folder_comparable [of path "fr_prefix a" "fr_prefix b"] validated_profile(6) [OF assms(1), of a b]
      by (simp add: authority_def archive_def)
  qed
next
  fix rules index rule assume m: "best_folder_match rules path = Some (index, rule)"
  show "index < length rules" "rules ! index = rule" "path_is_within_folder path (fr_prefix rule)"
    using best_folder_match_Some(1-3) [OF m] by simp_all
  fix other assume "other \<in> set rules" "path_is_within_folder path (fr_prefix other)"
  then show "path_depth (fr_prefix other) \<le> path_depth (fr_prefix rule)" using best_folder_match_Some(4) [OF m] by blast
next
  fix rules
  show "best_folder_match rules path = None \<longleftrightarrow>
      (\<forall>rule \<in> set rules. \<not> path_is_within_folder path (fr_prefix rule))" by (rule best_folder_match_None)
qed

theorem folder_rules_exclusive_deepest_witness:
  "best_folder_match (hr_archive_folders (dp_hierarchy sample_profile)) (str ''old/a.md'')
     = Some (0, hr_archive_folders (dp_hierarchy sample_profile) ! 0)
   \<and> best_folder_match (hr_authority_folders (dp_hierarchy sample_profile)) (str ''old/a.md'') = None"
proof
  show m: "best_folder_match (hr_archive_folders (dp_hierarchy sample_profile)) (str ''old/a.md'')
     = Some (0, hr_archive_folders (dp_hierarchy sample_profile) ! 0)" by code_simp
  show "best_folder_match (hr_authority_folders (dp_hierarchy sample_profile)) (str ''old/a.md'') = None"
    using folder_rules_exclusive_deepest [OF sample_profile_valid, of "str ''old/a.md''", THEN conjunct1] m by auto
qed

section \<open>Reranking\<close>

lemma those_map_Some: "(\<And>x. x \<in> set xs \<Longrightarrow> f x = Some (g x)) \<Longrightarrow> those (map f xs) = Some (map g xs)"
  by (induction xs) simp_all

lemma score_sources_facts:
  assumes "score_sources profile input sources work = Ok (scores, work')"
  shows "map fst scores = map fst sources"
    and "(key, score) \<in> set scores \<Longrightarrow> \<exists>path signal w w'. score_source profile (ri_query_time input) path signal w = Ok (score, w')"
proof -
  have "map fst scores = map fst sources \<and> (\<forall>(key, score) \<in> set scores.
      \<exists>path signal w w'. score_source profile (ri_query_time input) path signal w = Ok (score, w'))"
    using assms
  proof (induction profile input sources work arbitrary: scores rule: score_sources.induct)
    case (2 profile input key path sources work)
    obtain sc w1 where s: "score_source profile (ri_query_time input) path (signal_for (ri_source_signals input) key) work = Ok (sc, w1)"
      using "2.prems" by (auto simp: and_then_eq_Ok)
    then obtain rest where r: "score_sources profile input sources w1 = Ok (rest, work')" "scores = (key, sc) # rest"
      using "2.prems" by (auto simp: and_then_eq_Ok)
    from "2.IH" [OF r(1)] s r(2) show ?case by auto
  qed simp
  then show "map fst scores = map fst sources"
    "(key, score) \<in> set scores \<Longrightarrow> \<exists>path signal w w'. score_source profile (ri_query_time input) path signal w = Ok (score, w')"
    by blast+
qed

lemma source_paths_keys:
  "set (map fst (source_paths_of candidates)) = (\<lambda>candidate. source_pair (rc_source candidate)) ` set candidates"
  by (simp add: source_paths_of_def image_image)

definition scored_candidate ::
  "((rstring \<times> rstring) \<times> SourceScore) list \<Rightarrow> nat \<times> RerankCandidate \<Rightarrow> RankedCandidate" where
  "scored_candidate scores entry = the (ranked_candidate scores entry)"

lemma ranked_candidate_scored:
  assumes "score_sources profile input (source_paths_of (ri_candidates input)) work = Ok (scores, work')"
    and "candidate \<in> set (ri_candidates input)"
  obtains score where "(source_pair (rc_source candidate), score) \<in> set scores"
    "ranked_candidate scores (n, candidate) = Some (scored_candidate scores (n, candidate))"
    "scored_candidate scores (n, candidate) = \<lparr>rkc_original_ordinal = n, rkc_candidate = candidate,
       rkc_evidence = \<lparr>ire_lexical_tier = rc_evidence_tier candidate, ire_metadata_points = sc_points score,
         ire_matched_rule_ordinals = sc_matched_rule_ordinals score\<rparr>\<rparr>"
proof -
  have "fst ` set scores = (\<lambda>candidate. source_pair (rc_source candidate)) ` set (ri_candidates input)"
    using score_sources_facts(1) [OF assms(1)] source_paths_keys [of "ri_candidates input"] by (metis set_map)
  then have "source_pair (rc_source candidate) \<in> fst ` set scores" using assms(2) by blast
  then obtain score where sc: "map_of scores (source_pair (rc_source candidate)) = Some score"
    by (metis map_of_eq_None_iff not_Some_eq)
  then have "(source_pair (rc_source candidate), score) \<in> set scores" by (rule map_of_SomeD)
  with sc that show ?thesis by (simp add: scored_candidate_def ranked_candidate_def)
qed

lemma rerank_ranked:
  assumes "score_sources profile input (source_paths_of (ri_candidates input)) work = Ok (scores, work')"
  shows "those (map (ranked_candidate scores) (enumerate 0 (ri_candidates input)))
    = Some (map (scored_candidate scores) (enumerate 0 (ri_candidates input)))"
proof (rule those_map_Some)
  fix entry assume "entry \<in> set (enumerate 0 (ri_candidates input))"
  then have "snd entry \<in> set (map snd (enumerate 0 (ri_candidates input)))" unfolding set_map by (rule imageI)
  then have "snd entry \<in> set (ri_candidates input)" unfolding map_snd_enumerate .
  then obtain n candidate where e: "entry = (n, candidate)" "candidate \<in> set (ri_candidates input)"
    by (cases entry) simp
  show "ranked_candidate scores entry = Some (scored_candidate scores entry)"
    unfolding e(1) using ranked_candidate_scored [OF assms e(2)] by metis
qed

text \<open>Everything a successful rerank by a profile returns.\<close>

lemma rerank_profile_Ok:
  assumes "rerank_candidates_with_initial_work json (D5cPreviewV1 profile) input work = Some (Ok r)"
  obtains scores work' where "validate_rerank_input input = Ok ()" "validate_profile json profile = Ok ()"
    "score_sources profile input (source_paths_of (ri_candidates input)) work = Ok (scores, work')"
    "r = ranked_result profile (length scores)
       (sort_by compare_ranked_candidates (map (scored_candidate scores) (enumerate 0 (ri_candidates input))))"
proof -
  have v: "validate_rerank_input input = Ok ()"
    using assms by (auto simp: rerank_candidates_with_initial_work_def split: if_splits sum.splits)
  obtain scores work' where s: "validate_profile json profile = Ok ()"
    "score_sources profile input (source_paths_of (ri_candidates input)) work = Ok (scores, work')"
    using assms v
    by (auto simp: rerank_candidates_with_initial_work_def and_then_eq_Ok split: if_splits sum.splits)
  have "validate_precomputed_property_matches profile input = Ok ()"
    using assms v s
    by (auto simp: rerank_candidates_with_initial_work_def and_then_eq_Ok split: if_splits sum.splits)
  then have "r = ranked_result profile (length scores)
       (sort_by compare_ranked_candidates (map (scored_candidate scores) (enumerate 0 (ri_candidates input))))"
    using assms v s rerank_ranked [OF s(2)]
    by (simp add: rerank_candidates_with_initial_work_def split: if_splits)
  with that v s show ?thesis by blast
qed

definition entry_precedes :: "RerankEvidenceEntry \<Rightarrow> RerankEvidenceEntry \<Rightarrow> bool" where
  "entry_precedes a b \<longleftrightarrow> ree_tier a < ree_tier b \<or> ree_tier a = ree_tier b
     \<and> (ree_points b < ree_points a \<or> ree_points a = ree_points b \<and> ree_ordinal a < ree_ordinal b)"

text \<open>
  A rerank outcome for a list of candidates: evidence entries in strict evidence order, each naming
  by its ordinal the candidate it stands for, all ordinals used once, points within the cap.
\<close>

definition rerank_sound :: "RerankCandidate list \<Rightarrow> RerankResult \<Rightarrow> bool" where
  "rerank_sound candidates r \<longleftrightarrow>
     (let entries = re_entries (rres_evidence r) in
      rres_candidates r = map (\<lambda>entry. candidates ! ree_ordinal entry) entries
      \<and> mset (map ree_ordinal entries) = mset [0..<length candidates]
      \<and> sorted_wrt entry_precedes entries
      \<and> (\<forall>entry \<in> set entries. \<bar>ree_points entry\<bar> \<le> 32
           \<and> ree_tier entry = rc_evidence_tier (candidates ! ree_ordinal entry)))"

lemma rerank_sound_consequences:
  assumes "rerank_sound candidates r" "sorted (map rc_evidence_tier candidates)"
  shows "mset (rres_candidates r) = mset candidates"
    and "map rc_evidence_tier (rres_candidates r) = map rc_evidence_tier candidates"
proof -
  let ?es = "re_entries (rres_evidence r)"
  have c: "rres_candidates r = map (\<lambda>entry. candidates ! ree_ordinal entry) ?es"
    and m: "mset (map ree_ordinal ?es) = mset [0..<length candidates]" and s: "sorted_wrt entry_precedes ?es"
    and t: "\<forall>entry \<in> set ?es. ree_tier entry = rc_evidence_tier (candidates ! ree_ordinal entry)"
    using assms(1) by (auto simp: rerank_sound_def Let_def)
  have "mset (rres_candidates r) = image_mset ((!) candidates) (mset (map ree_ordinal ?es))"
    by (simp add: c multiset.map_comp comp_def)
  also have "\<dots> = mset (map ((!) candidates) [0..<length candidates])" unfolding m by (simp only: mset_map)
  also have "\<dots> = mset candidates" by (simp only: map_nth)
  finally show perm: "mset (rres_candidates r) = mset candidates" .
  have "map rc_evidence_tier (rres_candidates r) = map ree_tier ?es" using t by (simp add: c)
  moreover have "sorted (map ree_tier ?es)"
    using s unfolding sorted_map by (rule sorted_wrt_mono_rel [rotated]) (auto simp: entry_precedes_def)
  moreover have "mset (map rc_evidence_tier (rres_candidates r)) = mset (map rc_evidence_tier candidates)"
    using perm by simp
  ultimately show "map rc_evidence_tier (rres_candidates r) = map rc_evidence_tier candidates"
    using assms(2) by (metis properties_for_sort)
qed

lemma validated_tiers: "validate_rerank_input input = Ok () \<Longrightarrow> sorted (map rc_evidence_tier (ri_candidates input))"
  unfolding validate_rerank_input_def is_ok_if_Err not_not windows2_all_le by blast

lemma lexical_result_sound:
  assumes "validate_rerank_input input = Ok ()"
  shows "rerank_sound (ri_candidates input) (lexical_result input)"
proof -
  let ?cs = "ri_candidates input"
  let ?es = "map (\<lambda>(ordinal, candidate). \<lparr>ree_tier = rc_evidence_tier candidate, ree_ordinal = ordinal, ree_points = 0 :: int\<rparr>) (enumerate 0 ?cs)"
  have nth: "?es ! i = \<lparr>ree_tier = rc_evidence_tier (?cs ! i), ree_ordinal = i, ree_points = 0\<rparr>" if "i < length ?cs" for i
    using that by (simp add: nth_enumerate_eq)
  have len: "length ?es = length ?cs" by simp
  have "sorted_wrt entry_precedes ?es"
    unfolding sorted_wrt_iff_nth_less
  proof (intro allI impI)
    fix i j assume ij: "i < j" "j < length ?es"
    then have "rc_evidence_tier (?cs ! i) \<le> rc_evidence_tier (?cs ! j)"
      using validated_tiers [OF assms] by (simp add: sorted_iff_nth_mono)
    then show "entry_precedes (?es ! i) (?es ! j)" using ij nth len by (auto simp: entry_precedes_def)
  qed
  moreover have "map ree_ordinal ?es = [0..<length ?cs]" by (rule nth_equalityI) (simp_all add: nth_enumerate_eq)
  then have "mset (map ree_ordinal ?es) = mset [0..<length ?cs]" by (rule arg_cong)
  moreover have "?cs = map (\<lambda>entry. ?cs ! ree_ordinal entry) ?es" by (rule nth_equalityI) (simp_all add: nth_enumerate_eq)
  moreover have "\<forall>entry \<in> set ?es. \<bar>ree_points entry\<bar> \<le> 32 \<and> ree_tier entry = rc_evidence_tier (?cs ! ree_ordinal entry)"
    by (auto simp: in_set_enumerate_eq)
  ultimately show ?thesis
    unfolding rerank_sound_def Let_def lexical_result_def RerankResult.select_convs RerankEvidence.select_convs
    by (intro conjI)
qed

definition entry_of :: "RankedCandidate \<Rightarrow> RerankEvidenceEntry" where
  "entry_of r = \<lparr>ree_tier = ire_lexical_tier (rkc_evidence r), ree_ordinal = rkc_original_ordinal r,
      ree_points = ire_metadata_points (rkc_evidence r)\<rparr>"

lemma compare_ranked_precedes:
  "compare_ranked_candidates a b \<noteq> Greater \<Longrightarrow> rkc_original_ordinal a \<noteq> rkc_original_ordinal b \<Longrightarrow>
   entry_precedes (entry_of a) (entry_of b)"
  unfolding compare_ranked_candidates_def then_with_not_Greater entry_precedes_def entry_of_def
  by auto

lemma profile_result_sound:
  assumes valid: "validate_profile json profile = Ok ()"
    and s: "score_sources profile input (source_paths_of (ri_candidates input)) work = Ok (scores, work')"
  shows "rerank_sound (ri_candidates input) (ranked_result profile (length scores)
       (sort_by compare_ranked_candidates (map (scored_candidate scores) (enumerate 0 (ri_candidates input)))))"
proof -
  let ?cs = "ri_candidates input"
  let ?ranked = "map (scored_candidate scores) (enumerate 0 ?cs)"
  let ?sorted = "sort_by compare_ranked_candidates ?ranked"
  let ?entry = "\<lambda>r. \<lparr>ree_tier = ire_lexical_tier (rkc_evidence r), ree_ordinal = rkc_original_ordinal r,
      ree_points = ire_metadata_points (rkc_evidence r)\<rparr>"
  have facts: "rkc_original_ordinal (?ranked ! i) = i \<and> rkc_candidate (?ranked ! i) = ?cs ! i
      \<and> ire_lexical_tier (rkc_evidence (?ranked ! i)) = rc_evidence_tier (?cs ! i)
      \<and> \<bar>ire_metadata_points (rkc_evidence (?ranked ! i))\<bar> \<le> 32" if i: "i < length ?cs" for i
  proof -
    obtain score where sc: "(source_pair (rc_source (?cs ! i)), score) \<in> set scores"
      "scored_candidate scores (i, ?cs ! i) = \<lparr>rkc_original_ordinal = i, rkc_candidate = ?cs ! i,
       rkc_evidence = \<lparr>ire_lexical_tier = rc_evidence_tier (?cs ! i), ire_metadata_points = sc_points score,
         ire_matched_rule_ordinals = sc_matched_rule_ordinals score\<rparr>\<rparr>"
      using ranked_candidate_scored [OF s nth_mem [OF i]] by metis
    obtain path signal w w' where "score_source profile (ri_query_time input) path signal w = Ok (score, w')"
      using score_sources_facts(2) [OF s sc(1)] by blast
    from score_source_bounds(1) [OF valid this] show ?thesis using i sc(2) by (simp add: nth_enumerate_eq)
  qed
  have mem: "\<exists>i < length ?cs. r = ?ranked ! i" if "r \<in> set ?sorted" for r
    using that by (metis in_set_conv_nth length_enumerate length_map set_sort_by)
  have each: "rkc_candidate r = ?cs ! rkc_original_ordinal r
      \<and> ire_lexical_tier (rkc_evidence r) = rc_evidence_tier (?cs ! rkc_original_ordinal r)
      \<and> \<bar>ire_metadata_points (rkc_evidence r)\<bar> \<le> 32" if "r \<in> set ?sorted" for r
    using mem [OF that] facts by auto
  have ords: "map rkc_original_ordinal ?ranked = [0..<length ?cs]"
    using facts by (intro nth_equalityI) simp_all
  have "mset (map rkc_original_ordinal ?sorted) = image_mset rkc_original_ordinal (mset ?ranked)"
    by (simp only: mset_map mset_sort_by)
  also have "\<dots> = mset [0..<length ?cs]" by (simp only: ords mset_map [symmetric])
  finally have perm: "mset (map rkc_original_ordinal ?sorted) = mset [0..<length ?cs]" .
  then have "distinct (map rkc_original_ordinal ?sorted)" by (metis distinct_upt mset_eq_imp_distinct_iff)
  then have dist: "sorted_wrt (\<lambda>a b. rkc_original_ordinal a \<noteq> rkc_original_ordinal b) ?sorted"
    by (simp add: distinct_conv_nth sorted_wrt_iff_nth_less)
  have "sorted_wrt (\<lambda>a b. compare_ranked_candidates a b \<noteq> Greater) ?sorted" by (rule rerank_order.sorted_sort_by)
  then have "sorted_wrt (\<lambda>a b. entry_precedes (?entry a) (?entry b)) ?sorted"
    using dist compare_ranked_precedes unfolding sorted_wrt_iff_nth_less entry_of_def by blast
  then have "sorted_wrt entry_precedes (map ?entry ?sorted)" by (simp add: sorted_wrt_map)
  moreover have "map rkc_candidate ?sorted = map (\<lambda>entry. ?cs ! ree_ordinal entry) (map ?entry ?sorted)"
    using each by simp
  moreover have "mset (map ree_ordinal (map ?entry ?sorted)) = mset [0..<length ?cs]"
    using perm by (simp add: multiset.map_comp comp_def)
  moreover have "\<forall>entry \<in> set (map ?entry ?sorted). \<bar>ree_points entry\<bar> \<le> 32
      \<and> ree_tier entry = rc_evidence_tier (?cs ! ree_ordinal entry)" using each by auto
  ultimately show ?thesis
    unfolding rerank_sound_def Let_def ranked_result_def RerankResult.select_convs RerankEvidence.select_convs
    by (intro conjI)
qed

text \<open>
  C9. Metadata never crosses evidence tiers: whatever the profile and the observations, a
  successful rerank returns a permutation of the candidates whose sequence of evidence tiers is the
  input's; the evidence entries name each candidate by its original ordinal, are strictly ordered by
  tier, then points (higher first), then original position, and carry at most 32 points either way.
\<close>

theorem rerank_preserves_tiers:
  assumes "rerank_candidates_with_initial_work json relevance input work = Some (Ok r)"
  shows "mset (rres_candidates r) = mset (ri_candidates input)
    \<and> map rc_evidence_tier (rres_candidates r) = map rc_evidence_tier (ri_candidates input)
    \<and> rres_candidates r = map (\<lambda>entry. ri_candidates input ! ree_ordinal entry) (re_entries (rres_evidence r))
    \<and> sorted_wrt entry_precedes (re_entries (rres_evidence r))
    \<and> (\<forall>entry \<in> set (re_entries (rres_evidence r)). \<bar>ree_points entry\<bar> \<le> MAX_ABSOLUTE_METADATA_POINTS)"
proof -
  have v: "validate_rerank_input input = Ok ()"
    using assms by (auto simp: rerank_candidates_with_initial_work_def split: if_splits sum.splits)
  have sound: "rerank_sound (ri_candidates input) r"
  proof (cases relevance)
    case LexicalV1
    then have "r = lexical_result input"
      using assms v by (simp add: rerank_candidates_with_initial_work_def split: if_splits)
    then show ?thesis using lexical_result_sound [OF v] by simp
  next
    case (D5cPreviewV1 profile)
    with assms obtain scores work' where "validate_profile json profile = Ok ()"
      "score_sources profile input (source_paths_of (ri_candidates input)) work = Ok (scores, work')"
      "r = ranked_result profile (length scores)
         (sort_by compare_ranked_candidates (map (scored_candidate scores) (enumerate 0 (ri_candidates input))))"
      using rerank_profile_Ok by metis
    then show ?thesis using profile_result_sound by metis
  qed
  show ?thesis
    using rerank_sound_consequences [OF sound validated_tiers [OF v]] sound
    unfolding rerank_sound_def Let_def MAX_ABSOLUTE_METADATA_POINTS_def by blast
qed

definition sample_rerank :: RerankInput where
  "sample_rerank = \<lparr>ri_schema_version = 1, ri_query_time = 100,
     ri_candidates = [\<lparr>rc_source = sample_source\<lparr>source_key := str ''b''\<rparr>, rc_chunk_id = str ''c'', rc_path = str ''old/b.md'',
         rc_evidence_tier = Tier_AllTerms, rc_lexical_score = 0\<rparr>,
       \<lparr>rc_source = sample_source, rc_chunk_id = str ''c'', rc_path = str ''notes/a.md'',
         rc_evidence_tier = Tier_AllTerms, rc_lexical_score = 0\<rparr>],
     ri_source_signals = [sample_signal]\<rparr>"

theorem rerank_preserves_tiers_witness:
  "\<exists>r. rerank_candidates_with_initial_work sample_json (D5cPreviewV1 sample_profile) sample_rerank 0 = Some (Ok r)
     \<and> map rc_evidence_tier (rres_candidates r) = [Tier_AllTerms, Tier_AllTerms]"
proof -
  have "(case rerank_candidates_with_initial_work sample_json (D5cPreviewV1 sample_profile) sample_rerank 0 of
      Some (Inr r) \<Rightarrow> True | _ \<Rightarrow> False)" by code_simp
  then obtain r where r: "rerank_candidates_with_initial_work sample_json (D5cPreviewV1 sample_profile) sample_rerank 0 = Some (Ok r)"
    by (auto split: option.splits sum.splits)
  have "map rc_evidence_tier (ri_candidates sample_rerank) = [Tier_AllTerms, Tier_AllTerms]" by code_simp
  then show ?thesis using rerank_preserves_tiers [OF r] r by metis
qed

text \<open>
  C23. Reranking is total: it never panics (every candidate source has a score), and under the
  lexical profile it returns the candidates of a valid input in their original order and refuses
  any other input with the validator's error.
\<close>

theorem rerank_total:
  "rerank_candidates_with_initial_work json relevance input work \<noteq> None
   \<and> rerank_candidates json LexicalV1 input
     = (case validate_rerank_input input of Inl e \<Rightarrow> Some (Err e) | Inr _ \<Rightarrow> Some (Ok (lexical_result input)))
   \<and> rres_candidates (lexical_result input) = ri_candidates input"
proof (intro conjI)
  show "rerank_candidates_with_initial_work json relevance input work \<noteq> None"
  proof (cases relevance)
    case LexicalV1
    then show ?thesis by (auto simp: rerank_candidates_with_initial_work_def split: sum.splits)
  next
    case (D5cPreviewV1 profile)
    show ?thesis
      unfolding rerank_candidates_with_initial_work_def D5cPreviewV1
      using rerank_ranked [of profile input work]
      by (auto simp: and_then_eq_Ok split: sum.splits)
  qed
  show "rerank_candidates json LexicalV1 input
     = (case validate_rerank_input input of Inl e \<Rightarrow> Some (Err e) | Inr _ \<Rightarrow> Some (Ok (lexical_result input)))"
    by (simp add: rerank_candidates_def rerank_candidates_with_initial_work_def split: sum.split)
  show "rres_candidates (lexical_result input) = ri_candidates input" by (simp add: lexical_result_def)
qed

end
