(* ===== verification/Rerank_Bag.thy ===== *)
theory Rerank_Bag
  imports Rerank_Props
begin

text \<open>
  \<open>SourceSignalObservation::from_property_bag\<close>
  (\<open>daemon/crates/kwiry-core/src/ranking.rs\<close>): the observation it projects from a property bag
  is one the rerank validator accepts.  The core is that JSON pointers built on the way down the
  value tree are well-formed and pairwise different.
\<close>

section \<open>Pointers into a value tree\<close>

definition pointer_at :: "nat \<Rightarrow> rstring \<Rightarrow> bool" where
  "pointer_at depth pointer \<longleftrightarrow> (pointer = [] \<or> hd pointer = 47) \<and> count_list pointer 47 = depth
     \<and> (\<forall>rest. pointer_escapes_ok (pointer @ rest) = pointer_escapes_ok rest)"

lemma pointer_at_root: "pointer_at 0 []"
  by (simp add: pointer_at_def)

definition component_text :: "rstring \<Rightarrow> bool" where
  "component_text c \<longleftrightarrow> 47 \<notin> set c \<and> (\<forall>rest. pointer_escapes_ok (c @ rest) = pointer_escapes_ok rest)"

lemma component_text_escape: "component_text (escape_component c)"
  by (simp add: component_text_def escape_component_no_slash escape_component_ok)

lemma escapes_ok_no_tilde: "126 \<notin> set c \<Longrightarrow> pointer_escapes_ok (c @ rest) = pointer_escapes_ok rest"
  by (induction c) auto

lemma component_text_decimal: "component_text (decimal n)"
proof -
  have "\<forall>c \<in> set (decimal n). is_ascii_digit c" using decimal_props by blast
  then have "47 \<notin> set (decimal n)" "126 \<notin> set (decimal n)" by (auto simp: is_ascii_digit_def)
  then show ?thesis using escapes_ok_no_tilde by (simp add: component_text_def)
qed

lemma decimal_inj: "decimal a = decimal b \<longleftrightarrow> a = b"
  using decimal_props by metis

lemma pointer_at_child:
  assumes "pointer_at depth pointer" "component_text c"
  shows "pointer_at (depth + 1) (pointer @ 47 # c)"
proof -
  have "count_list c 47 = 0" using assms(2) by (simp add: component_text_def count_list_0_iff)
  then show ?thesis
    using assms by (cases pointer) (auto simp: pointer_at_def component_text_def)
qed

lemma pointer_at_valid:
  assumes "pointer_at depth pointer" "depth \<le> 64" "str_len pointer \<le> MAX_RANKING_JSON_POINTER_BYTES"
  shows "validate_json_pointer pointer = Ok ()"
proof -
  have "pointer_escapes_ok (pointer @ [])" using assms(1) unfolding pointer_at_def by (metis pointer_escapes_ok.simps(1))
  then show ?thesis
    using assms by (cases pointer) (auto simp: validate_json_pointer_def pointer_at_def starts_with_def ranking_constants)
qed

definition under :: "rstring \<Rightarrow> rstring \<Rightarrow> bool" where
  "under pointer q \<longleftrightarrow> q = pointer \<or> (\<exists>rest. q = pointer @ 47 # rest)"

lemma under_child: "under (pointer @ 47 # c) q \<Longrightarrow> under pointer q"
  by (auto simp: under_def)

lemma under_component:
  assumes "under (pointer @ 47 # a) q" "under (pointer @ 47 # b) q" "47 \<notin> set a" "47 \<notin> set b"
  shows "a = b"
proof -
  have key: "takeWhile (\<lambda>c. c \<noteq> 47) (drop (length pointer + 1) q) = a" if "under (pointer @ 47 # a) q" "47 \<notin> set a" for a
  proof -
    have all: "\<forall>c \<in> set a. c \<noteq> 47" using that(2) by auto
    then have "takeWhile (\<lambda>c. c \<noteq> 47) (a @ 47 # rest) = a" for rest by (simp add: takeWhile_append2)
    moreover have "takeWhile (\<lambda>c. c \<noteq> 47) a = a" using all by (simp add: takeWhile_eq_all_conv)
    ultimately show ?thesis using that(1) by (auto simp: under_def)
  qed
  from key [OF assms(1,3)] key [OF assms(2,4)] show ?thesis by simp
qed

section \<open>Collected observations\<close>

fun value_ok :: "PropertyValue \<Rightarrow> bool" where
  "value_ok (PV_I64 i) \<longleftrightarrow> - (2 ^ 63) \<le> i \<and> i < 2 ^ 63"
| "value_ok (PV_U64 n) \<longleftrightarrow> n < 2 ^ 64"
| "value_ok (PV_Sequence vs) \<longleftrightarrow> (\<forall>v \<in> set vs. value_ok v)"
| "value_ok (PV_Map entries) \<longleftrightarrow> distinct (map fst entries) \<and> (\<forall>entry \<in> set entries. value_ok (snd entry))"
| "value_ok _ \<longleftrightarrow> True"

definition collected ::
  "rstring \<Rightarrow> (rstring \<Rightarrow> bool) \<Rightarrow> PropertyScalarObservation list \<Rightarrow> PropertyScalarObservation list \<Rightarrow> bool" where
  "collected property U out out' \<longleftrightarrow> (\<exists>fresh. out' = out @ fresh \<and> distinct (map po_pointer fresh)
     \<and> (\<forall>n \<in> set fresh. po_property n = property \<and> U (po_pointer n)
          \<and> validate_json_pointer (po_pointer n) = Ok () \<and> validate_scalar (po_value n) False = Ok ())
     \<and> (length out \<le> 256 \<longrightarrow> length out' \<le> 256))"

lemma collected_refl: "collected property U out out"
  by (simp add: collected_def)

lemma collected_mono: "collected property U out out' \<Longrightarrow> (\<And>q. U q \<Longrightarrow> V q) \<Longrightarrow> collected property V out out'"
  unfolding collected_def by blast

lemma collected_trans:
  assumes "collected property U a b" "collected property V b c" "\<And>q. U q \<Longrightarrow> V q \<Longrightarrow> False"
  shows "collected property (\<lambda>q. U q \<or> V q) a c"
proof -
  obtain f g where f: "b = a @ f" "distinct (map po_pointer f)" "\<forall>n \<in> set f. po_property n = property \<and> U (po_pointer n)
      \<and> validate_json_pointer (po_pointer n) = Ok () \<and> validate_scalar (po_value n) False = Ok ()"
    and g: "c = b @ g" "distinct (map po_pointer g)" "\<forall>n \<in> set g. po_property n = property \<and> V (po_pointer n)
      \<and> validate_json_pointer (po_pointer n) = Ok () \<and> validate_scalar (po_value n) False = Ok ()"
    using assms(1,2) unfolding collected_def by blast
  have "distinct (map po_pointer (f @ g))" using f(2,3) g(2,3) assms(3) by fastforce
  moreover have "length a \<le> 256 \<longrightarrow> length c \<le> 256" using assms(1,2) unfolding collected_def by blast
  ultimately show ?thesis
    unfolding collected_def using f(1,3) g(1,3) by (intro exI [of _ "f @ g"]) auto
qed

lemma scalar_of_value_valid:
  assumes "value_ok v" "scalar_of_value v = Some scalar"
  shows "validate_scalar scalar False = Ok ()"
proof -
  have "parse_canonical_i64 (int_to_string i) \<noteq> None" if "- (2 ^ 63) \<le> i" "i < 2 ^ 63" for i
    using that parse_canonical_i64_iff [of "int_to_string i" i] by simp
  moreover have "parse_canonical_u64 (decimal n) \<noteq> None" if "n < 2 ^ 64" for n
    using that parse_canonical_u64_iff [of "decimal n" n] by simp
  moreover have "parse_canonical_f64 (hex_fixed 16 (unat x)) \<noteq> None" if "f64_is_finite x" for x
    using that parse_canonical_f64_iff [of "hex_fixed 16 (unat x)" x] by simp
  ultimately show ?thesis
    using assms
    by (cases v)
      (auto simp: scalar_of_value_def validate_scalar_def Let_def scalar_i64_def scalar_u64_def scalar_f64_def
        split: if_splits)
qed

lemma collect_scalar_collected:
  assumes "collect_scalar property pointer v out = Ok out'" "value_ok v" "pointer_at depth pointer" "depth \<le> 64"
  shows "collected property (under pointer) out out'"
proof (cases "scalar_of_value v")
  case None
  then show ?thesis using assms(1) collected_refl by (auto simp: collect_scalar_def split: if_splits)
next
  case (Some scalar)
  have o: "out' = out @ [\<lparr>po_property = property, po_pointer = pointer, po_value = scalar\<rparr>]"
    "str_len pointer \<le> MAX_RANKING_JSON_POINTER_BYTES" "length out \<noteq> 256"
    using assms(1) Some by (auto simp: collect_scalar_def ranking_constants split: if_splits)
  show ?thesis
    unfolding collected_def o(1)
    using pointer_at_valid [OF assms(3,4) o(2)] scalar_of_value_valid [OF assms(2) Some] o(3)
    by (intro exI [of _ "[\<lparr>po_property = property, po_pointer = pointer, po_value = scalar\<rparr>]"]) (auto simp: under_def)
qed

lemma collect_collected:
  "(\<forall>out'. collect_property_values property pointer v depth out = Ok out' \<longrightarrow> value_ok v \<longrightarrow>
      pointer_at depth pointer \<longrightarrow> collected property (under pointer) out out')"
  "(\<forall>out'. collect_sequence property pointer index vs depth out = Ok out' \<longrightarrow> (\<forall>v \<in> set vs. value_ok v) \<longrightarrow>
      pointer_at depth pointer \<longrightarrow>
      collected property (\<lambda>q. \<exists>j \<ge> index. under (pointer @ 47 # decimal j) q) out out')"
  "(\<forall>out'. collect_map property pointer entries depth out = Ok out' \<longrightarrow> distinct (map fst entries) \<longrightarrow>
      (\<forall>entry \<in> set entries. value_ok (snd entry)) \<longrightarrow> pointer_at depth pointer \<longrightarrow>
      collected property (\<lambda>q. \<exists>c \<in> fst ` set entries. under (pointer @ 47 # escape_component c) q) out out')"
proof (induction property pointer v depth out and property pointer index vs depth out
    and property pointer entries depth out
    rule: collect_property_values_collect_sequence_collect_map.induct)
  case (1 property pointer v depth out)
  show ?case
  proof (intro allI impI)
    fix out' assume c: "collect_property_values property pointer v depth out = Ok out'" and v: "value_ok v"
      and p: "pointer_at depth pointer"
    show "collected property (under pointer) out out'"
    proof (cases "depth > MAX_RANKING_PATH_DEPTH")
      case True
      then show ?thesis using c collected_refl by (simp add: collect_property_values.simps)
    next
      case False
      have under: "under (pointer @ 47 # t) q \<Longrightarrow> under pointer q" for t q by (rule under_child)
      show ?thesis
      proof (cases v)
        case (PV_Sequence vs)
        then have "collect_sequence property pointer 0 vs depth out = Ok out'"
          using c False by (simp add: collect_property_values.simps)
        with 1(1) [OF False PV_Sequence] v p PV_Sequence
        have "collected property (\<lambda>q. \<exists>j \<ge> 0. under (pointer @ 47 # decimal j) q) out out'" by simp
        then show ?thesis by (rule collected_mono) (use under in blast)
      next
        case (PV_Map entries)
        then have "collect_map property pointer entries depth out = Ok out'"
          using c False by (simp add: collect_property_values.simps)
        with 1(2) [OF False PV_Map] v p PV_Map
        have "collected property (\<lambda>q. \<exists>c \<in> fst ` set entries. under (pointer @ 47 # escape_component c) q) out out'"
          by simp
        then show ?thesis by (rule collected_mono) (use under in blast)
      qed (use c False v p in \<open>auto simp: collect_property_values.simps ranking_constants
          intro: collect_scalar_collected\<close>)
    qed
  qed
next
  case (2 property pointer index depth out)
  then show ?case using collected_refl by simp
next
  case (3 property pointer index v vs depth out)
  show ?case
  proof (intro allI impI)
    fix out' assume c: "collect_sequence property pointer index (v # vs) depth out = Ok out'"
      and v: "\<forall>v \<in> set (v # vs). value_ok v" and p: "pointer_at depth pointer"
    obtain mid where m: "collect_property_values property (pointer @ 47 # decimal index) v (depth + 1) out = Ok mid"
      "collect_sequence property pointer (index + 1) vs depth mid = Ok out'"
      using c by (auto simp: and_then_eq_Ok)
    have "collected property (under (pointer @ 47 # decimal index)) out mid"
      using 3(1) m(1) v pointer_at_child [OF p component_text_decimal] by simp
    moreover have "collected property (\<lambda>q. \<exists>j \<ge> index + 1. under (pointer @ 47 # decimal j) q) mid out'"
      using 3(2) m v p by simp
    moreover have "False" if "under (pointer @ 47 # decimal index) q"
      "\<exists>j \<ge> index + 1. under (pointer @ 47 # decimal j) q" for q
      using that under_component component_text_decimal decimal_inj unfolding component_text_def
      by (metis Suc_eq_plus1 not_less_eq_eq order_refl)
    ultimately have "collected property (\<lambda>q. under (pointer @ 47 # decimal index) q
        \<or> (\<exists>j \<ge> index + 1. under (pointer @ 47 # decimal j) q)) out out'" by (rule collected_trans)
    then show "collected property (\<lambda>q. \<exists>j \<ge> index. under (pointer @ 47 # decimal j) q) out out'"
      by (rule collected_mono) (metis le_add1 order_refl order_trans)
  qed
next
  case (4 property pointer depth out)
  then show ?case using collected_refl by simp
next
  case (5 property pointer component v entries depth out)
  show ?case
  proof (intro allI impI)
    fix out' assume c: "collect_map property pointer ((component, v) # entries) depth out = Ok out'"
      and d: "distinct (map fst ((component, v) # entries))"
      and v: "\<forall>entry \<in> set ((component, v) # entries). value_ok (snd entry)" and p: "pointer_at depth pointer"
    obtain mid where m: "collect_property_values property (pointer @ 47 # escape_component component) v (depth + 1) out = Ok mid"
      "collect_map property pointer entries depth mid = Ok out'"
      using c by (auto simp: and_then_eq_Ok)
    have "collected property (under (pointer @ 47 # escape_component component)) out mid"
      using 5(1) m(1) v pointer_at_child [OF p component_text_escape] by simp
    moreover have "collected property (\<lambda>q. \<exists>c \<in> fst ` set entries. under (pointer @ 47 # escape_component c) q) mid out'"
      using 5(2) m v p d by simp
    moreover have "False" if "under (pointer @ 47 # escape_component component) q"
      "\<exists>c \<in> fst ` set entries. under (pointer @ 47 # escape_component c) q" for q
      using that d under_component escape_component_no_slash escape_component_inj
      by (metis distinct.simps(2) fst_conv list.simps(9) set_map)
    ultimately have "collected property (\<lambda>q. under (pointer @ 47 # escape_component component) q
        \<or> (\<exists>c \<in> fst ` set entries. under (pointer @ 47 # escape_component c) q)) out out'" by (rule collected_trans)
    then show "collected property (\<lambda>q. \<exists>c \<in> fst ` set ((component, v) # entries).
        under (pointer @ 47 # escape_component c) q) out out'"
      by (rule collected_mono) auto
  qed
qed

section \<open>The whole bag\<close>

definition observation_ok :: "rstring list \<Rightarrow> PropertyScalarObservation \<Rightarrow> bool" where
  "observation_ok present n \<longleftrightarrow> po_property n \<in> set present
     \<and> validate_json_pointer (po_pointer n) = Ok () \<and> validate_scalar (po_value n) False = Ok ()"

definition bag_state_ok :: "rstring list \<Rightarrow> rstring list \<Rightarrow> PropertyScalarObservation list \<Rightarrow> bool" where
  "bag_state_ok properties present values \<longleftrightarrow> sorted_wrt (<) (present @ properties)
     \<and> (\<forall>n \<in> set values. observation_ok present n) \<and> distinct (map observation_key values) \<and> length values \<le> 256"

lemma bag_state_step:
  assumes "bag_state_ok (property # properties) present values" "collected property U values values'"
  shows "bag_state_ok properties (present @ [property]) values'"
proof -
  obtain fresh where f: "values' = values @ fresh" "distinct (map po_pointer fresh)" "length values' \<le> 256"
    "\<forall>n \<in> set fresh. po_property n = property \<and> validate_json_pointer (po_pointer n) = Ok ()
       \<and> validate_scalar (po_value n) False = Ok ()"
    using assms unfolding collected_def bag_state_ok_def by blast
  have notin: "property \<notin> set present" using assms(1) by (auto simp: bag_state_ok_def sorted_wrt_append)
  have "inj_on observation_key (set fresh)" "distinct fresh"
    using f(2,4) by (auto simp: distinct_map inj_on_def observation_key_def)
  then have "distinct (map observation_key fresh)" by (simp add: distinct_map)
  moreover have "observation_key ` set values \<inter> observation_key ` set fresh = {}"
    using assms(1) f(4) notin by (fastforce simp: bag_state_ok_def observation_ok_def observation_key_def)
  ultimately have "distinct (map observation_key values')" using assms(1) f(1) by (auto simp: bag_state_ok_def)
  moreover have "\<forall>n \<in> set values'. observation_ok (present @ [property]) n"
    using assms(1) f(1,4) by (auto simp: bag_state_ok_def observation_ok_def)
  ultimately show ?thesis using assms(1) f(3) by (simp add: bag_state_ok_def)
qed

lemma bag_loop_ok:
  assumes "bag_loop bag properties present values = Ok (present', values')"
    and "\<forall>entry \<in> set bag. value_ok (snd entry)" "bag_state_ok properties present values"
  shows "bag_state_ok [] present' values' \<and> set present' \<subseteq> set present \<union> set properties"
  using assms
proof (induction bag properties present "values" rule: bag_loop.induct)
  case (1 bag present "values")
  then show ?case by simp
next
  case (2 bag property properties present "values")
  show ?case
  proof (cases "bag_get bag property")
    case None
    have "bag_state_ok properties present values" using "2.prems"(3) by (auto simp: bag_state_ok_def sorted_wrt_append)
    then show ?thesis using "2.IH"(1) [OF None] "2.prems" None by auto
  next
    case (Some v)
    then have "value_ok v" using "2.prems"(2) unfolding bag_get_def by (metis map_of_SomeD snd_conv)
    obtain mid where m: "collect_property_values property [] v 0 values = Ok mid"
      "bag_loop bag properties (present @ [property]) mid = Ok (present', values')"
      using "2.prems"(1) Some by (auto simp: and_then_eq_Ok)
    have "collected property (under []) values mid"
      using collect_collected(1) m(1) \<open>value_ok v\<close> pointer_at_root by blast
    then have "bag_state_ok properties (present @ [property]) mid" by (rule bag_state_step [OF "2.prems"(3)])
    from "2.IH"(2) [OF Some m(2) "2.prems"(2) this] show ?thesis by auto
  qed
qed

lemma property_rules_loop_names:
  "property_rules_loop json rules predicates ids = Ok u \<Longrightarrow>
   \<forall>rule \<in> set rules. prl_property rule \<noteq> [] \<and> str_len (prl_property rule) \<le> 256"
proof (induction json rules predicates ids rule: property_rules_loop.induct)
  case (2 json rule rules predicates ids)
  then show ?case
    by (auto simp: and_then_eq_Ok is_ok_if_Err ranking_constants split: option.splits)
qed simp

lemma validated_profile_names:
  assumes "validate_profile json profile = Ok ()" "rule \<in> set (dp_property_rules profile)"
  shows "prl_property rule \<noteq> []" "str_len (prl_property rule) \<le> 256"
proof -
  obtain ids u where "property_rules_loop json (dp_property_rules profile) {} ids = Ok u"
    using assms(1) unfolding validate_profile_def Let_def and_then_eq_Ok is_ok_if_Err by blast
  from property_rules_loop_names [OF this] assms(2) show "prl_property rule \<noteq> []" "str_len (prl_property rule) \<le> 256"
    by blast+
qed

lemma observations_loop_ok:
  "\<forall>n \<in> set values. observation_ok present n \<Longrightarrow> \<forall>p \<in> set present. p \<noteq> [] \<and> str_len p \<le> 256 \<Longrightarrow>
   observations_loop present values = Ok ()"
proof (induction "values")
  case (Cons n ns)
  then have "observation_ok present n" "po_property n \<noteq> [] \<and> str_len (po_property n) \<le> 256"
    by (auto simp: observation_ok_def)
  with Cons show ?case
    by (auto simp: observation_ok_def validate_observed_pointer_def ranking_constants)
qed simp

lemma strictly_sorted_observations:
  assumes "distinct (map observation_key values)"
  shows "windows2_all (\<lambda>a b. \<not> (po_property a, po_pointer a) \<ge> (po_property b, po_pointer b))
    (sort_by (\<lambda>l r. cmp_ord (observation_key l) (observation_key r)) values)"
proof -
  let ?s = "sort_by (\<lambda>l r. cmp_ord (observation_key l) (observation_key r)) values"
  have "sorted_wrt (\<lambda>a b. cmp_ord (observation_key a) (observation_key b) \<noteq> Greater) ?s"
    by (rule observation_order.sorted_sort_by)
  then have le: "sorted_wrt (\<lambda>a b. observation_key a \<le> observation_key b) ?s"
    by (rule sorted_wrt_mono_rel [rotated]) (simp add: not_less)
  have "mset (map observation_key ?s) = mset (map observation_key values)" by simp
  then have "distinct (map observation_key ?s)" using assms by (metis mset_eq_imp_distinct_iff)
  moreover have "sorted (map observation_key ?s)" using le by (simp only: sorted_map)
  ultimately have "sorted_wrt (<) (map observation_key ?s)" by (simp only: strict_sorted_iff simp_thms)
  then have "sorted_wrt (\<lambda>a b. \<not> observation_key b \<le> observation_key a) ?s" by (simp only: sorted_wrt_map not_le)
  moreover have "transp (\<lambda>a b. \<not> observation_key b \<le> observation_key a)"
    by (rule transpI) (meson le_cases order_trans)
  ultimately show ?thesis by (simp add: windows2_all_sorted_wrt observation_key_def)
qed

text \<open>
  C17. Projection and validation agree: the observation that \<open>from_property_bag\<close> builds for a
  valid source identity, from any property bag with in-range numbers and any validated profile, is
  accepted by the rerank input validator; its property values are canonical, pairwise addressed by
  different pointers, and at most 256.
\<close>

theorem from_property_bag_accepted:
  assumes "from_property_bag json source mtime bag profile = Ok signal"
    and "validate_source_id source = Ok ()" "\<forall>entry \<in> set bag. value_ok (snd entry)"
  shows "validate_signal signal = Ok ()"
proof -
  let ?props = "sorted_list_of_set (set (map prl_property (dp_property_rules profile)))"
  obtain present vs where valid: "validate_profile json profile = Ok ()"
    and loop: "bag_loop bag ?props [] [] = Ok (present, vs)"
    and signal: "signal = \<lparr>ss_source = source, ss_mtime = mtime, ss_matched_property_rule_ids = [],
      ss_present_properties = present,
      ss_property_values = sort_by (\<lambda>l r. cmp_ord (observation_key l) (observation_key r)) vs\<rparr>"
    using assms(1) by (auto simp: from_property_bag_def and_then_eq_Ok)
  have "bag_state_ok ?props [] []" by (simp add: bag_state_ok_def)
  from bag_loop_ok [OF loop assms(3) this]
  have state: "bag_state_ok [] present vs" and sub: "set present \<subseteq> prl_property ` set (dp_property_rules profile)"
    by simp_all
  have names: "\<forall>p \<in> set present. p \<noteq> [] \<and> str_len p \<le> 256"
  proof
    fix p assume "p \<in> set present"
    then obtain rule where "rule \<in> set (dp_property_rules profile)" "p = prl_property rule" using sub by (elim subsetD [THEN imageE]) simp_all
    then show "p \<noteq> [] \<and> str_len p \<le> 256" using validated_profile_names [OF valid] by simp
  qed
  have sorted: "sorted_wrt (<) present" using state by (simp add: bag_state_ok_def)
  have "length present = card (set present)" using sorted by (simp add: strict_sorted_iff distinct_card)
  also have "\<dots> \<le> card (prl_property ` set (dp_property_rules profile))" using sub by (intro card_mono) simp_all
  also have "\<dots> \<le> length (dp_property_rules profile)" by (metis card_length length_map set_map)
  finally have len: "length present \<le> 8" using validated_profile(3) [OF valid] by linarith
  have canon: "\<not> signal_not_canonical signal"
    using state len sorted strictly_sorted_observations [of vs]
    by (simp add: signal signal_not_canonical_def windows2_all_less bag_state_ok_def ranking_constants)
  have obs: "observations_loop present (ss_property_values signal) = Ok ()"
    using state names by (intro observations_loop_ok) (auto simp: signal bag_state_ok_def)
  have source: "ss_source signal = source" and present: "ss_present_properties signal = present"
    by (simp_all add: signal)
  have bad: "\<not> (\<exists>p \<in> set (ss_present_properties signal). p = [] \<or> str_len p > MAX_RANKING_PROPERTY_NAME_BYTES)"
    unfolding present using names by (auto simp: ranking_constants)
  have "validate_signal signal = and_then (validate_source_id (ss_source signal))
    (\<lambda>_. observations_loop (ss_present_properties signal) (ss_property_values signal))"
    unfolding validate_signal_def if_not_P [OF canon] if_not_P [OF bad] by (rule refl)
  then show ?thesis unfolding source present assms(2) obs by (simp only: and_then_simps)
qed

theorem from_property_bag_accepted_witness:
  "\<exists>signal. from_property_bag sample_json sample_source None
      [(str ''status'', PV_Sequence [PV_String (str ''done''), PV_I64 (- 3)])] sample_profile = Ok signal
    \<and> validate_signal signal = Ok ()"
proof -
  let ?bag = "[(str ''status'', PV_Sequence [PV_String (str ''done''), PV_I64 (- 3)])]"
  have "is_ok (from_property_bag sample_json sample_source None ?bag sample_profile)" by code_simp
  then obtain signal where s: "from_property_bag sample_json sample_source None ?bag sample_profile = Ok signal"
    by (auto simp: is_ok_def split: sum.splits)
  have "validate_source_id sample_source = Ok ()" by code_simp
  moreover have "\<forall>entry \<in> set ?bag. value_ok (snd entry)" by code_simp
  ultimately show ?thesis using from_property_bag_accepted [OF s] s by blast
qed

end
