(* ===== verification/Spec2Isabelle.thy ===== *)
theory Spec2Isabelle
  imports Query_Finalize Typo Lexical_Rank Ranking_Scalars Rerank_Bag
begin

text \<open>
  Verification library of kwiry, a local search daemon for note vaults.

  \<^bold>\<open>The program.\<close> A query travels through four parts of the crate \<open>daemon/crates/kwiry-core\<close>. The
  \<^emph>\<open>query planner\<close> (\<open>src/query.rs\<close>, on the text functions of \<open>src/lexical.rs\<close>) parses field controls,
  classifies the query, derives its term intents and returns a plan whose support probes a search
  engine answers; \<open>finalize_evidence\<close> turns the plan and the answers into a ladder of evidence stages.
  The \<^emph>\<open>typo assistant\<close> (\<open>src/typo.rs\<close>) plans a vocabulary probe for a single word and chooses a
  suggestion. The \<^emph>\<open>lexical ranker\<close> (\<open>rank_lexical_v2\<close> in \<open>src/ranking.rs\<close>) selects a proof for
  every retrieved candidate and orders the candidates. The \<^emph>\<open>metadata reranker\<close>
  (\<open>rerank_candidates\<close> in \<open>src/ranking.rs\<close>) reorders candidates within an evidence tier by the rules
  of a relevance profile: recency, path depth, folders and note properties.

  \<^bold>\<open>Conventions.\<close> A Rust \<open>String\<close> is the list of its Unicode scalar values (\<open>rstring\<close>, theory
  \<open>Rust_Text\<close>); byte lengths are written \<open>str_len\<close>, and byte-indexed code is modelled on ASCII texts
  only where the source guards for ASCII. \<open>Result\<close> is a sum with \<open>Err\<close>/\<open>Ok\<close>, and \<open>?\<close> is
  \<open>and_then\<close>. Where the source can panic (\<open>expect\<close>, an index) the model returns \<open>None\<close> outside
  the result; an index that a preceding check keeps in range is used directly, and the theory says which
  check does (the anchors promoted by \<open>finalize_evidence\<close>, the text between two matches in
  \<open>planned_query_terms\<close>). \<open>usize\<close> values that count elements of in-memory collections are natural numbers;
  narrowing casts are written out (\<open>as_u16\<close>, \<open>as_u8\<close>); the \<open>u8\<close> rule ordinal of \<open>score_source\<close> counts the
  rules of a profile, which validation limits to far fewer than 256; the work meters keep their limits and
  checked additions. \<open>f32\<close> and \<open>f64\<close> are their IEEE bit patterns as words (theory
  \<open>Float_Bits\<close>) with \<open>total_cmp\<close>, finiteness and the numeric order defined on the bits. \<open>sort_by\<close> is
  a stable insertion sort; its results are determined by the comparators, which the interpretations of
  the locale \<open>comparator\<close> show to be total preorders, as the standard library demands.

  \<^bold>\<open>Parameters.\<close> Code outside the repository is an argument: \<open>text_env\<close> (the Unicode tables of the
  standard library and of the crate unicode-normalization, and the matches of the
  technical-identifier regular expression: its pattern in \<open>lexical.rs\<close> is an argument of the crate regex, so
  \<open>find_identifiers\<close> stands for the engine applied to that pattern and no theorem depends on what it matches) and \<open>json_env\<close> (the size of a serialized profile,
  serde_json). The hypothesis \<open>ascii_tables\<close> states the documented behaviour of the tables on ASCII
  and \<open>ascii_env\<close> is a concrete instance that satisfies it.

  \<^bold>\<open>Theories.\<close>
  \<^item> \<open>Kwiry_Prelude\<close>: results, windows, orderings, stable sorting, the locale \<open>comparator\<close> and
    its lemmas (sortedness, permutation, uniqueness of the sorted list).
  \<^item> \<open>Rust_Text\<close>: strings, trimming, splitting, the text parameters. \<open>Lexical\<close>: \<open>src/lexical.rs\<close>.
  \<^item> \<open>Query_Model\<close>: types and constants of \<open>src/query.rs\<close>. \<open>Query_Plan\<close>: all its functions, in
    source order. \<open>Query_Prepare\<close>: properties of preparation (term intents, field controls, which queries are
    accepted). \<open>Query_Evidence\<close>: the stage ladder. \<open>Query_Finalize\<close>: finalization, the pipeline from a query to
    a ready plan.
  \<^item> \<open>Typo\<close>: \<open>src/typo.rs\<close> and its properties.
  \<^item> \<open>Float_Bits\<close>, \<open>Ranking_Model\<close>: numbers, types, paths, dates and pointers of
    \<open>src/ranking.rs\<close>; \<open>Ranking_Scalars\<close>: their properties. \<open>Lexical_Rank\<close>: \<open>rank_lexical_v2\<close> and
    its properties.
  \<^item> \<open>Rerank\<close>: profile and input validation, rule matching, scoring, property projection and
    \<open>rerank_candidates\<close>. \<open>Rerank_Score\<close>: binary search, \<open>max_by\<close> and the score bounds of every
    stage. \<open>Rerank_Props\<close>: the properties of matching, scoring and reranking. \<open>Rerank_Bag\<close>: the projection
    of note properties meets the validator.

  \<^bold>\<open>What is shown.\<close> For the planner: every plan \<open>prepare_lexical_query\<close> returns passes the program's own
  validator; which queries are accepted; every answered plan, unless a matched probe finds no anchor to
  promote, finalizes into a plan that validates again and carries the reported supports, and its ladder is bounded, ordered and never drops or expands an identifier anchor. For the
  typo assistant: the edit test decides exactly one edit and the suggestion is optimal. For ranking:
  the result is a permutation, independent of delivery order, partial coverage never outranks standard
  evidence. For reranking: evidence tiers are never crossed, scores respect the validated cap, the
  optimised rule matcher agrees with its meaning, folder rules are exclusive, and property projection and
  input validation agree. Two theorems record behaviour the code does not intend: a mixed
  token such as \<open>n=5\<close> makes preparation fail with an internal error, and promotion of a scoped
  identifier candidate reads the authored query with its controls and fails when they make it longer than six tokens.

  \<^bold>\<open>Loops.\<close> Every loop of the modelled code terminates and is a total recursive function; no fuel is used.
  Inputs are finite lists, the numeric limits are the source's constants.

  \<^bold>\<open>Not modelled.\<close> Derived serde encodings, the search engine and its index, the runtime with its
  threads and files, the document formats, the HTTP server, set-up and services, the WebAssembly
  client. The plan for extending the library, in order: configuration of sources (\<open>partition.rs\<close>,
  \<open>policy.rs\<close>, \<open>manifest.rs\<close>), generations and reconciliation as state machines
  (\<open>generation.rs\<close>, \<open>reconcile.rs\<close>), fusion of lexical and semantic results (\<open>semantic.rs\<close>), the
  stage walk of \<open>search.rs\<close> over an abstract engine, the capability checks of the daemon, and the HTML
  tokenizer.
\<close>

end
